(* ===== verification/Prelude.thy ===== *)
theory Prelude
  imports Main "HOL-Library.AList" "HOL-Library.Sublist" "HOL-Library.Char_ord"
begin

text \<open>
  What every theory of the development shares: the named collections of facts, the result
  type of code that may raise, and the generic lemmas on lists and association lists.

  A computation that may raise is a value of \<open>'e + 'a\<close> (\<open>Inl\<close> the exception). A method
  that also changes its object returns the pair of that result and the new object: an
  exception of the source does not roll the object back, so the new state is there in
  both cases.
\<close>

named_theorems py_simps \<open>equations of the modelled language primitives\<close>
named_theorems ui_defs \<open>definitions of the dashboard's components\<close>
named_theorems gate_defs \<open>definitions of the write gate's operations\<close>

type_synonym ('e, 'a) result = "'e + 'a"

definition bindE :: "'e + 'a \<Rightarrow> ('a \<Rightarrow> 'e + 'b) \<Rightarrow> 'e + 'b" where
  "bindE r f = (case r of Inl e \<Rightarrow> Inl e | Inr x \<Rightarrow> f x)"

lemma bindE_simps [simp]: "bindE (Inl e) f = Inl e" "bindE (Inr x) f = f x"
  by (simp_all add: bindE_def)

lemma bindE_Inr_iff: "bindE r f = Inr y \<longleftrightarrow> (\<exists>x. r = Inr x \<and> f x = Inr y)"
  by (cases r) auto

text \<open>The computations of a list in order, stopping at the first that raises.\<close>

fun mapE :: "('a \<Rightarrow> 'e + 'b) \<Rightarrow> 'a list \<Rightarrow> 'e + 'b list" where
  "mapE f [] = Inr []"
| "mapE f (x # xs) = bindE (f x) (\<lambda>y. bindE (mapE f xs) (\<lambda>ys. Inr (y # ys)))"

lemma mapE_length: "mapE f xs = Inr ys \<Longrightarrow> length ys = length xs"
  by (induction xs arbitrary: ys) (auto simp: bindE_Inr_iff)

lemma mapE_nth: "mapE f xs = Inr ys \<Longrightarrow> i < length xs \<Longrightarrow> f (xs ! i) = Inr (ys ! i)"
proof (induction xs arbitrary: ys i)
  case (Cons x xs)
  then show ?case by (cases i) (auto simp: bindE_Inr_iff)
qed simp

lemma mapE_Inr_map: "(\<And>x. x \<in> set xs \<Longrightarrow> f x = Inr (g x)) \<Longrightarrow> mapE f xs = Inr (map g xs)"
  by (induction xs) auto

lemma mapE_Inr_iff: "(\<exists>ys. mapE f xs = Inr ys) \<longleftrightarrow> (\<forall>x\<in>set xs. \<exists>y. f x = Inr y)"
proof (induction xs)
  case (Cons x xs)
  then show ?case by (auto simp: bindE_Inr_iff)
qed simp

definition is_ok :: "'e + 'a \<Rightarrow> bool" where
  "is_ok r = (case r of Inl _ \<Rightarrow> False | Inr _ \<Rightarrow> True)"

lemma is_ok_simps [simp]: "is_ok (Inr x)" "\<not> is_ok (Inl e)"
  by (simp_all add: is_ok_def)

lemma is_ok_iff: "is_ok r \<longleftrightarrow> (\<exists>x. r = Inr x)"
  by (cases r) auto

text \<open>
  Insertion-ordered dictionaries: Python's \<open>dict\<close> and JavaScript's objects keep the position
  of a key that is overwritten and append a new one, which is what \<open>AList.update\<close> does.
  \<open>dict_merge\<close> is the object spread \<open>{...a, ...b}\<close>.
\<close>

definition dict_merge :: "('k \<times> 'v) list \<Rightarrow> ('k \<times> 'v) list \<Rightarrow> ('k \<times> 'v) list" where
  "dict_merge a b = fold (\<lambda>(k, v) d. AList.update k v d) b a"

lemma dict_merge_Nil [simp]: "dict_merge a [] = a"
  by (simp add: dict_merge_def)

lemma dict_merge_Cons [simp]: "dict_merge a ((k, v) # b) = dict_merge (AList.update k v a) b"
  by (simp add: dict_merge_def)

lemma map_of_update_eq: "map_of (AList.update k v d) j = (if j = k then Some v else map_of d j)"
  by (simp add: update_conv')

lemma map_of_dict_merge:
  "distinct (map fst b) \<Longrightarrow>
   map_of (dict_merge a b) k = (case map_of b k of Some v \<Rightarrow> Some v | None \<Rightarrow> map_of a k)"
proof (induction b arbitrary: a)
  case (Cons kv b)
  obtain j v where kv: "kv = (j, v)" by force
  have "map_of b j = None" using Cons.prems kv by (simp add: map_of_eq_None_iff)
  then show ?case using Cons kv by (auto simp: map_of_update_eq split: option.splits)
qed simp

lemma filter_length_le_of_imp:
  "(\<And>x. x \<in> set xs \<Longrightarrow> P x \<Longrightarrow> Q x) \<Longrightarrow> length (filter P xs) \<le> length (filter Q xs)"
  by (induction xs) auto

lemma filter_filter_imp:
  "(\<And>x. P x \<Longrightarrow> Q x) \<Longrightarrow> filter P (filter Q xs) = filter P xs"
  by (induction xs) auto

subsection \<open>Decimal digits\<close>

definition digit_char :: "nat \<Rightarrow> char" where
  "digit_char d = char_of (48 + d)"

fun nat_digits :: "nat \<Rightarrow> string" where
  "nat_digits n = (if n < 10 then [digit_char n] else nat_digits (n div 10) @ [digit_char (n mod 10)])"

declare nat_digits.simps [simp del]

fun pad_digits :: "nat \<Rightarrow> nat \<Rightarrow> string" where
  "pad_digits 0 n = []"
| "pad_digits (Suc d) n = pad_digits d (n div 10) @ [digit_char (n mod 10)]"

definition digit_val :: "char \<Rightarrow> nat" where
  "digit_val c = of_char c - 48"

fun digits_val :: "string \<Rightarrow> nat \<Rightarrow> nat" where
  "digits_val [] acc = acc"
| "digits_val (c # cs) acc = digits_val cs (10 * acc + digit_val c)"

lemma digit_val_char: "d < 10 \<Longrightarrow> digit_val (digit_char d) = d"
  by (simp add: digit_val_def digit_char_def)

lemma digits_val_append: "digits_val (xs @ ys) acc = digits_val ys (digits_val xs acc)"
  by (induction xs arbitrary: acc) auto

lemma digits_val_nat_digits: "digits_val (nat_digits n) 0 = n"
proof (induction n rule: nat_digits.induct)
  case (1 n)
  show ?case
  proof (cases "n < 10")
    case True
    then show ?thesis by (simp add: nat_digits.simps [of n] digit_val_char)
  next
    case False
    then show ?thesis
      using 1 by (simp add: nat_digits.simps [of n] digits_val_append digit_val_char)
  qed
qed

lemma digits_val_pad: "digits_val (pad_digits d n) acc = acc * 10 ^ d + n mod 10 ^ d"
proof (induction d arbitrary: n)
  case (Suc d)
  have "n mod 10 ^ Suc d = 10 * (n div 10 mod 10 ^ d) + n mod 10"
    by (simp add: mod_mult2_eq)
  then show ?case using Suc by (simp add: digits_val_append digit_val_char algebra_simps)
qed simp

lemma length_pad_digits [simp]: "length (pad_digits d n) = d"
  by (induction d arbitrary: n) auto

lemma nat_digits_nonempty [simp]: "nat_digits n \<noteq> []"
  by (subst nat_digits.simps) simp

lemma map_of_delete_eq: "map_of (AList.delete k d) j = (if j = k then None else map_of d j)"
  by (simp add: delete_conv')

subsection \<open>Runs of a timed system\<close>

text \<open>Steps that all happen before a point in time.\<close>

inductive runs_before :: "('t::linorder \<Rightarrow> 's \<Rightarrow> 's \<Rightarrow> bool) \<Rightarrow> 't \<Rightarrow> 's \<Rightarrow> 's \<Rightarrow> bool" for step T where
  refl: "runs_before step T s s"
| step: "step t s s' \<Longrightarrow> t < T \<Longrightarrow> runs_before step T s' s'' \<Longrightarrow> runs_before step T s s''"

lemma runs_before_trans: "runs_before step T a b \<Longrightarrow> runs_before step T b c \<Longrightarrow> runs_before step T a c"
  by (induction rule: runs_before.induct) (auto intro: runs_before.step)

text \<open>
  A ledger of spent tokens with an expiry for each: no step forgets a token before its
  expiry, so a run that stays before the expiry does not either.
\<close>

locale token_ledger =
  fixes step :: "'t::linorder \<Rightarrow> 's \<Rightarrow> 's \<Rightarrow> bool" and expiry :: "'s \<Rightarrow> 'k \<Rightarrow> 't option"
  assumes step_keeps: "step t s s' \<Longrightarrow> expiry s k = Some e \<Longrightarrow> t < e \<Longrightarrow> expiry s' k = Some e"
begin

lemma run_keeps: "runs_before step T s s' \<Longrightarrow> expiry s k = Some e \<Longrightarrow> T \<le> e \<Longrightarrow> expiry s' k = Some e"
proof (induction rule: runs_before.induct)
  case (step t s s' s'')
  then have "expiry s' k = Some e" using step_keeps by fastforce
  then show ?case using step by simp
qed simp

end

text \<open>
  What the clients of a governed write rely on: a write that raises changes nothing in the
  database, and one that succeeds was authorised.
\<close>

locale governed_writer =
  fixes exec :: "'w \<Rightarrow> 'a \<Rightarrow> ('e + 'r) \<times> 'w" and db :: "'w \<Rightarrow> 'db" and authorised :: "'w \<Rightarrow> 'a \<Rightarrow> bool"
  assumes unauthorised_refused: "\<not> authorised w a \<Longrightarrow> \<exists>e w'. exec w a = (Inl e, w') \<and> db w' = db w"
begin

lemma changed_authorised: "db (snd (exec w a)) \<noteq> db w \<Longrightarrow> authorised w a"
  using unauthorised_refused by fastforce

lemma success_authorised: "exec w a = (Inr r, w') \<Longrightarrow> authorised w a"
  using unauthorised_refused by fastforce

lemma unauthorised_keeps: "\<not> authorised w a \<Longrightarrow> exec w a = (r, w') \<Longrightarrow> (\<exists>e. r = Inl e) \<and> db w' = db w"
  using unauthorised_refused by fastforce

text \<open>Writes in sequence, going on after an error: the database changes only by authorised ones.\<close>

fun exec_all :: "'w \<Rightarrow> 'a list \<Rightarrow> 'w" where
  "exec_all w [] = w"
| "exec_all w (a # as) = exec_all (snd (exec w a)) as"

lemma unauthorised_all_keep:
  "\<forall>w. \<forall>a\<in>set as. \<not> authorised w a \<Longrightarrow> db (exec_all w as) = db w"
  using changed_authorised by (induction as arbitrary: w) (simp, fastforce)

end

end
