(* ===== verification/Js_Value.thy ===== *)
theory Js_Value
  imports Prelude Complex_Main
begin

text \<open>
  The JavaScript values the dashboard handles, and the operators its pages apply to them:
  truthiness, \<open>||\<close>, \<open>===\<close>, property access with and without \<open>?.\<close>, \<open>Number.toFixed\<close> and
  \<open>Array.map\<close>. A number is a finite double, so a rational. An object is the list of its own
  properties in insertion order; \<open>JSON.parse\<close> gives each key once.
\<close>

datatype jsval =
    JUndef
  | JNull
  | JBool bool
  | JNum rat
  | JStr string
  | JArr "jsval list"
  | JObj "(string \<times> jsval) list"

datatype js_error = TypeError string | FetchRejected string | SyntaxError string

fun js_truthy :: "jsval \<Rightarrow> bool" where
  "js_truthy JUndef = False"
| "js_truthy JNull = False"
| "js_truthy (JBool b) = b"
| "js_truthy (JNum x) = (x \<noteq> 0)"
| "js_truthy (JStr s) = (s \<noteq> [])"
| "js_truthy (JArr _) = True"
| "js_truthy (JObj _) = True"

definition js_or :: "jsval \<Rightarrow> jsval \<Rightarrow> jsval" where
  "js_or a b = (if js_truthy a then a else b)"

text \<open>
  Property access \<open>v.k\<close>: reading from \<open>undefined\<close> or \<open>null\<close> throws; an absent property is
  \<open>undefined\<close>. Strings and arrays have a \<open>length\<close>; the model gives the other keys the pages
  read (\<open>audits\<close>, \<open>runs\<close>, \<open>trace_id\<close> and the like) only to objects.
\<close>

fun js_get :: "jsval \<Rightarrow> string \<Rightarrow> js_error + jsval" where
  "js_get JUndef k = Inl (TypeError k)"
| "js_get JNull k = Inl (TypeError k)"
| "js_get (JObj ps) k = Inr (case map_of ps k of Some v \<Rightarrow> v | None \<Rightarrow> JUndef)"
| "js_get (JArr xs) k = Inr (if k = ''length'' then JNum (of_nat (length xs)) else JUndef)"
| "js_get (JStr s) k = Inr (if k = ''length'' then JNum (of_nat (length s)) else JUndef)"
| "js_get (JBool _) k = Inr JUndef"
| "js_get (JNum _) k = Inr JUndef"

text \<open>Optional chaining \<open>v?.k\<close>.\<close>

definition js_opt_get :: "jsval \<Rightarrow> string \<Rightarrow> js_error + jsval" where
  "js_opt_get v k = (if v = JUndef \<or> v = JNull then Inr JUndef else js_get v k)"

lemma js_opt_get_simps [simp]:
  "js_opt_get JUndef k = Inr JUndef"
  "js_opt_get JNull k = Inr JUndef"
  "js_opt_get (JObj ps) k = Inr (case map_of ps k of Some v \<Rightarrow> v | None \<Rightarrow> JUndef)"
  by (simp_all add: js_opt_get_def)

lemma js_opt_get_ok: "\<exists>w. js_opt_get v k = Inr w"
  by (cases v) (simp_all add: js_opt_get_def)

text \<open>\<open>v.map(f)\<close>: only arrays have the method. \<open>f\<close> gets the element and its index.\<close>

fun js_map :: "jsval \<Rightarrow> (jsval \<Rightarrow> nat \<Rightarrow> js_error + 'b) \<Rightarrow> js_error + 'b list" where
  "js_map (JArr xs) f = mapE (\<lambda>(x, i). f x i) (zip xs [0..<length xs])"
| "js_map _ f = Inl (TypeError ''map'')"

text \<open>
  \<open>Number.prototype.toFixed\<close> below \<open>10 ^ 21\<close>: the sign, then the integer \<open>n\<close> for which
  \<open>n / 10 ^ d\<close> is nearest to the absolute value (the larger one on a tie), written with the
  point \<open>d\<close> digits from the right.
\<close>

definition fixed_units :: "nat \<Rightarrow> rat \<Rightarrow> nat" where
  "fixed_units d x = nat \<lfloor>\<bar>x\<bar> * 10 ^ d + 1 / 2\<rfloor>"

definition to_fixed :: "nat \<Rightarrow> rat \<Rightarrow> string" where
  "to_fixed d x =
     (let n = fixed_units d x
      in (if x < 0 then ''-'' else '''') @ nat_digits (n div 10 ^ d) @
         (if d = 0 then '''' else ''.'' @ pad_digits d (n mod 10 ^ d)))"

text \<open>\<open>v?.toFixed(d)\<close>: \<open>undefined\<close> and \<open>null\<close> short-circuit, only numbers have the method.\<close>

fun js_opt_toFixed :: "jsval \<Rightarrow> nat \<Rightarrow> js_error + jsval" where
  "js_opt_toFixed JUndef d = Inr JUndef"
| "js_opt_toFixed JNull d = Inr JUndef"
| "js_opt_toFixed (JNum x) d = Inr (JStr (to_fixed d x))"
| "js_opt_toFixed _ d = Inl (TypeError ''toFixed'')"

subsection \<open>What toFixed prints\<close>

lemma to_fixed_nonempty [simp]: "to_fixed d x \<noteq> []"
  by (simp add: to_fixed_def Let_def)

lemma fixed_units_near: "\<bar>of_nat (fixed_units d x) - \<bar>x\<bar> * 10 ^ d\<bar> \<le> (1 / 2 :: rat)"
proof -
  let ?y = "\<bar>x\<bar> * 10 ^ d + 1 / 2 :: rat"
  have "0 \<le> \<lfloor>?y\<rfloor>" by (simp add: zero_le_floor)
  then have "of_nat (fixed_units d x) = (of_int \<lfloor>?y\<rfloor> :: rat)" by (simp add: fixed_units_def)
  moreover have "of_int \<lfloor>?y\<rfloor> \<le> ?y" "?y < of_int \<lfloor>?y\<rfloor> + 1" by linarith+
  ultimately show ?thesis by linarith
qed

end
