(* ===== verification/Ui_Components.thy ===== *)
theory Ui_Components
  imports Js_Value
begin

text \<open>
  The dashboard's component library, \<^verbatim>\<open>agentos-ui/src/components/ui/*.tsx\<close> and
  \<^verbatim>\<open>agentos-ui/src/lib/utils.ts\<close>. A component is a function from its props and its
  children to the React element it returns; \<open>vnode\<close> is that element. React keeps the
  children in the props under the key \<^verbatim>\<open>children\<close>; the model passes them beside the
  other props, and a spread of the remaining props passes them on.

  The packages the components call (\<^verbatim>\<open>clsx\<close>, \<^verbatim>\<open>tailwind-merge\<close>,
  \<^verbatim>\<open>class-variance-authority\<close> and the hooks of \<^verbatim>\<open>@base-ui/react\<close>) are the fields of
  \<open>ui_lib\<close>, an argument of every definition that uses them. Elements of packages (the
  icons, \<^verbatim>\<open>Link\<close>, the primitives of \<^verbatim>\<open>@base-ui/react\<close>) stay elements with the name of
  their component as the tag.
\<close>

type_synonym props = "(string \<times> jsval) list"

datatype vnode =
    VVal jsval
  | VElem string props "vnode list"
  | VKeyed jsval vnode

record cva_config =
  variants :: "(string \<times> (string \<times> string) list) list"
  defaultVariants :: "(string \<times> string) list"

record ui_lib =
  clsx :: "jsval list \<Rightarrow> string"
  twMerge :: "string \<Rightarrow> string"
  cva :: "string \<Rightarrow> cva_config \<Rightarrow> props \<Rightarrow> string"
  mergeProps :: "props \<Rightarrow> props \<Rightarrow> props"
  useRender :: "string \<Rightarrow> props \<Rightarrow> jsval \<Rightarrow> props \<Rightarrow> vnode list \<Rightarrow> vnode"

type_synonym component = "props \<Rightarrow> vnode list \<Rightarrow> vnode"

text \<open>
  Destructuring the props: a missing key is \<open>undefined\<close>, a default replaces \<open>undefined\<close>, and
  the rest pattern holds the keys that were not named.
\<close>

definition get_prop :: "props \<Rightarrow> string \<Rightarrow> jsval" where
  "get_prop ps k = (case map_of ps k of Some v \<Rightarrow> v | None \<Rightarrow> JUndef)"

definition prop_default :: "props \<Rightarrow> string \<Rightarrow> jsval \<Rightarrow> jsval" where
  "prop_default ps k d = (if get_prop ps k = JUndef then d else get_prop ps k)"

definition omit :: "string list \<Rightarrow> props \<Rightarrow> props" where
  "omit ks ps = filter (\<lambda>(k, v). k \<notin> set ks) ps"

definition cn :: "ui_lib \<Rightarrow> jsval list \<Rightarrow> string" where
  "cn L inputs = twMerge L (clsx L inputs)"

subsection \<open>card.tsx\<close>

definition Card :: "ui_lib \<Rightarrow> component" where [ui_defs]:
  "Card L ps ch =
   VElem ''div'' (dict_merge
     [(''data-slot'', JStr ''card''),
      (''data-size'', prop_default ps ''size'' (JStr ''default'')),
      (''className'', JStr (cn L [JStr ''group/card flex flex-col gap-(--card-spacing) overflow-hidden rounded-xl bg-card py-(--card-spacing) text-sm text-card-foreground ring-1 ring-foreground/10 [--card-spacing:--spacing(4)] has-data-[slot=card-footer]:pb-0 has-[>img:first-child]:pt-0 data-[size=sm]:[--card-spacing:--spacing(3)] data-[size=sm]:has-data-[slot=card-footer]:pb-0 *:[img:first-child]:rounded-t-xl *:[img:last-child]:rounded-b-xl'',
        get_prop ps ''className'']))]
     (omit [''className'', ''size''] ps)) ch"

definition CardHeader :: "ui_lib \<Rightarrow> component" where [ui_defs]:
  "CardHeader L ps ch =
   VElem ''div'' (dict_merge
     [(''data-slot'', JStr ''card-header''),
      (''className'', JStr (cn L [JStr ''group/card-header @container/card-header grid auto-rows-min items-start gap-1 rounded-t-xl px-(--card-spacing) has-data-[slot=card-action]:grid-cols-[1fr_auto] has-data-[slot=card-description]:grid-rows-[auto_auto] [.border-b]:pb-(--card-spacing)'',
        get_prop ps ''className'']))]
     (omit [''className''] ps)) ch"

definition CardTitle :: "ui_lib \<Rightarrow> component" where [ui_defs]:
  "CardTitle L ps ch =
   VElem ''div'' (dict_merge
     [(''data-slot'', JStr ''card-title''),
      (''className'', JStr (cn L [JStr ''font-heading text-base leading-snug font-medium group-data-[size=sm]/card:text-sm'',
        get_prop ps ''className'']))]
     (omit [''className''] ps)) ch"

definition CardDescription :: "ui_lib \<Rightarrow> component" where [ui_defs]:
  "CardDescription L ps ch =
   VElem ''div'' (dict_merge
     [(''data-slot'', JStr ''card-description''),
      (''className'', JStr (cn L [JStr ''text-sm text-muted-foreground'',
        get_prop ps ''className'']))]
     (omit [''className''] ps)) ch"

definition CardAction :: "ui_lib \<Rightarrow> component" where [ui_defs]:
  "CardAction L ps ch =
   VElem ''div'' (dict_merge
     [(''data-slot'', JStr ''card-action''),
      (''className'', JStr (cn L [JStr ''col-start-2 row-span-2 row-start-1 self-start justify-self-end'',
        get_prop ps ''className'']))]
     (omit [''className''] ps)) ch"

definition CardContent :: "ui_lib \<Rightarrow> component" where [ui_defs]:
  "CardContent L ps ch =
   VElem ''div'' (dict_merge
     [(''data-slot'', JStr ''card-content''),
      (''className'', JStr (cn L [JStr ''px-(--card-spacing)'',
        get_prop ps ''className'']))]
     (omit [''className''] ps)) ch"

definition CardFooter :: "ui_lib \<Rightarrow> component" where [ui_defs]:
  "CardFooter L ps ch =
   VElem ''div'' (dict_merge
     [(''data-slot'', JStr ''card-footer''),
      (''className'', JStr (cn L [JStr ''flex items-center rounded-b-xl border-t bg-muted/50 p-(--card-spacing)'',
        get_prop ps ''className'']))]
     (omit [''className''] ps)) ch"

subsection \<open>table.tsx\<close>

definition Table :: "ui_lib \<Rightarrow> component" where [ui_defs]:
  "Table L ps ch =
   VElem ''div''
     [(''data-slot'', JStr ''table-container''),
      (''className'', JStr ''relative w-full overflow-x-auto'')]
     [VElem ''table'' (dict_merge
     [(''data-slot'', JStr ''table''),
      (''className'', JStr (cn L [JStr ''w-full caption-bottom text-sm'',
        get_prop ps ''className'']))]
     (omit [''className''] ps)) ch]"

definition TableHeader :: "ui_lib \<Rightarrow> component" where [ui_defs]:
  "TableHeader L ps ch =
   VElem ''thead'' (dict_merge
     [(''data-slot'', JStr ''table-header''),
      (''className'', JStr (cn L [JStr ''[&_tr]:border-b'',
        get_prop ps ''className'']))]
     (omit [''className''] ps)) ch"

definition TableBody :: "ui_lib \<Rightarrow> component" where [ui_defs]:
  "TableBody L ps ch =
   VElem ''tbody'' (dict_merge
     [(''data-slot'', JStr ''table-body''),
      (''className'', JStr (cn L [JStr ''[&_tr:last-child]:border-0'',
        get_prop ps ''className'']))]
     (omit [''className''] ps)) ch"

definition TableFooter :: "ui_lib \<Rightarrow> component" where [ui_defs]:
  "TableFooter L ps ch =
   VElem ''tfoot'' (dict_merge
     [(''data-slot'', JStr ''table-footer''),
      (''className'', JStr (cn L [JStr ''border-t bg-muted/50 font-medium [&>tr]:last:border-b-0'',
        get_prop ps ''className'']))]
     (omit [''className''] ps)) ch"

definition TableRow :: "ui_lib \<Rightarrow> component" where [ui_defs]:
  "TableRow L ps ch =
   VElem ''tr'' (dict_merge
     [(''data-slot'', JStr ''table-row''),
      (''className'', JStr (cn L [JStr ''border-b transition-colors hover:bg-muted/50 has-aria-expanded:bg-muted/50 data-[state=selected]:bg-muted'',
        get_prop ps ''className'']))]
     (omit [''className''] ps)) ch"

definition TableHead :: "ui_lib \<Rightarrow> component" where [ui_defs]:
  "TableHead L ps ch =
   VElem ''th'' (dict_merge
     [(''data-slot'', JStr ''table-head''),
      (''className'', JStr (cn L [JStr ''h-10 px-2 text-left align-middle font-medium whitespace-nowrap text-foreground [&:has([role=checkbox])]:pr-0'',
        get_prop ps ''className'']))]
     (omit [''className''] ps)) ch"

definition TableCell :: "ui_lib \<Rightarrow> component" where [ui_defs]:
  "TableCell L ps ch =
   VElem ''td'' (dict_merge
     [(''data-slot'', JStr ''table-cell''),
      (''className'', JStr (cn L [JStr ''p-2 align-middle whitespace-nowrap [&:has([role=checkbox])]:pr-0'',
        get_prop ps ''className'']))]
     (omit [''className''] ps)) ch"

definition TableCaption :: "ui_lib \<Rightarrow> component" where [ui_defs]:
  "TableCaption L ps ch =
   VElem ''caption'' (dict_merge
     [(''data-slot'', JStr ''table-caption''),
      (''className'', JStr (cn L [JStr ''mt-4 text-sm text-muted-foreground'',
        get_prop ps ''className'']))]
     (omit [''className''] ps)) ch"

subsection \<open>tabs.tsx\<close>

definition Tabs :: "ui_lib \<Rightarrow> component" where [ui_defs]:
  "Tabs L ps ch =
   VElem ''TabsPrimitive.Root'' (dict_merge
     [(''data-slot'', JStr ''tabs''),
      (''data-orientation'', prop_default ps ''orientation'' (JStr ''horizontal'')),
      (''className'', JStr (cn L [JStr ''group/tabs flex gap-2 data-horizontal:flex-col'',
        get_prop ps ''className'']))]
     (omit [''className'', ''orientation''] ps)) ch"

definition tabsListVariants_config :: cva_config where
  "tabsListVariants_config =
   \<lparr>variants =
     [(''variant'',
       [(''default'', ''bg-muted''),
        (''line'', ''gap-1 bg-transparent'')])],
    defaultVariants = [(''variant'', ''default'')]\<rparr>"

definition tabsListVariants :: "ui_lib \<Rightarrow> props \<Rightarrow> string" where
  "tabsListVariants L =
   cva L ''group/tabs-list inline-flex w-fit items-center justify-center rounded-lg p-[3px] text-muted-foreground group-data-horizontal/tabs:h-8 group-data-vertical/tabs:h-fit group-data-vertical/tabs:flex-col data-[variant=line]:rounded-none''
     tabsListVariants_config"

definition TabsList :: "ui_lib \<Rightarrow> component" where [ui_defs]:
  "TabsList L ps ch =
   (let variant = prop_default ps ''variant'' (JStr ''default'')
    in VElem ''TabsPrimitive.List'' (dict_merge
     [(''data-slot'', JStr ''tabs-list''),
      (''data-variant'', variant),
      (''className'', JStr (cn L [JStr (tabsListVariants L [(''variant'', variant)]), get_prop ps ''className'']))]
     (omit [''className'', ''variant''] ps)) ch)"

definition TabsTrigger :: "ui_lib \<Rightarrow> component" where [ui_defs]:
  "TabsTrigger L ps ch =
   VElem ''TabsPrimitive.Tab'' (dict_merge
     [(''data-slot'', JStr ''tabs-trigger''),
      (''className'', JStr (cn L [JStr ''relative inline-flex h-[calc(100%-1px)] flex-1 items-center justify-center gap-1.5 rounded-md border border-transparent px-1.5 py-0.5 text-sm font-medium whitespace-nowrap text-foreground/60 transition-all group-data-vertical/tabs:w-full group-data-vertical/tabs:justify-start hover:text-foreground focus-visible:border-ring focus-visible:ring-[3px] focus-visible:ring-ring/50 focus-visible:outline-1 focus-visible:outline-ring disabled:pointer-events-none disabled:opacity-50 has-data-[icon=inline-end]:pr-1 has-data-[icon=inline-start]:pl-1 aria-disabled:pointer-events-none aria-disabled:opacity-50 dark:text-muted-foreground dark:hover:text-foreground group-data-[variant=default]/tabs-list:data-active:shadow-sm group-data-[variant=line]/tabs-list:data-active:shadow-none [&_svg]:pointer-events-none [&_svg]:shrink-0 [&_svg:not([class*='size-'])]:size-4'',
        JStr ''group-data-[variant=line]/tabs-list:bg-transparent group-data-[variant=line]/tabs-list:data-active:bg-transparent dark:group-data-[variant=line]/tabs-list:data-active:border-transparent dark:group-data-[variant=line]/tabs-list:data-active:bg-transparent'',
        JStr ''data-active:bg-background data-active:text-foreground dark:data-active:border-input dark:data-active:bg-input/30 dark:data-active:text-foreground'',
        JStr ''after:absolute after:bg-foreground after:opacity-0 after:transition-opacity group-data-horizontal/tabs:after:inset-x-0 group-data-horizontal/tabs:after:bottom-[-5px] group-data-horizontal/tabs:after:h-0.5 group-data-vertical/tabs:after:inset-y-0 group-data-vertical/tabs:after:-right-1 group-data-vertical/tabs:after:w-0.5 group-data-[variant=line]/tabs-list:data-active:after:opacity-100'',
        get_prop ps ''className'']))]
     (omit [''className''] ps)) ch"

definition TabsContent :: "ui_lib \<Rightarrow> component" where [ui_defs]:
  "TabsContent L ps ch =
   VElem ''TabsPrimitive.Panel'' (dict_merge
     [(''data-slot'', JStr ''tabs-content''),
      (''className'', JStr (cn L [JStr ''flex-1 text-sm outline-none'',
        get_prop ps ''className'']))]
     (omit [''className''] ps)) ch"

subsection \<open>badge.tsx and button.tsx\<close>

definition badgeVariants_config :: cva_config where
  "badgeVariants_config =
   \<lparr>variants =
     [(''variant'',
       [(''default'', ''bg-primary text-primary-foreground [a]:hover:bg-primary/80''),
        (''secondary'', ''bg-secondary text-secondary-foreground [a]:hover:bg-secondary/80''),
        (''destructive'', ''bg-destructive/10 text-destructive focus-visible:ring-destructive/20 dark:bg-destructive/20 dark:focus-visible:ring-destructive/40 [a]:hover:bg-destructive/20''),
        (''outline'', ''border-border text-foreground [a]:hover:bg-muted [a]:hover:text-muted-foreground''),
        (''ghost'', ''hover:bg-muted hover:text-muted-foreground dark:hover:bg-muted/50''),
        (''link'', ''text-primary underline-offset-4 hover:underline'')])],
    defaultVariants = [(''variant'', ''default'')]\<rparr>"

definition badgeVariants :: "ui_lib \<Rightarrow> props \<Rightarrow> string" where
  "badgeVariants L =
   cva L ''group/badge inline-flex h-5 w-fit shrink-0 items-center justify-center gap-1 overflow-hidden rounded-4xl border border-transparent px-2 py-0.5 text-xs font-medium whitespace-nowrap transition-all focus-visible:border-ring focus-visible:ring-[3px] focus-visible:ring-ring/50 has-data-[icon=inline-end]:pr-1.5 has-data-[icon=inline-start]:pl-1.5 aria-invalid:border-destructive aria-invalid:ring-destructive/20 dark:aria-invalid:ring-destructive/40 [&>svg]:pointer-events-none [&>svg]:size-3!''
     badgeVariants_config"

definition Badge :: "ui_lib \<Rightarrow> component" where
  "Badge L ps ch =
   (let variant = prop_default ps ''variant'' (JStr ''default'')
    in useRender L ''span''
         (mergeProps L
            [(''className'', JStr (cn L [JStr (badgeVariants L [(''variant'', variant)]), get_prop ps ''className'']))]
            (omit [''className'', ''variant'', ''render''] ps))
         (get_prop ps ''render'')
         [(''slot'', JStr ''badge''), (''variant'', variant)] ch)"

definition buttonVariants_config :: cva_config where
  "buttonVariants_config =
   \<lparr>variants =
     [(''variant'',
       [(''default'', ''bg-primary text-primary-foreground hover:bg-primary/80''),
        (''outline'', ''border-border bg-background hover:bg-muted hover:text-foreground aria-expanded:bg-muted aria-expanded:text-foreground dark:border-input dark:bg-input/30 dark:hover:bg-input/50''),
        (''secondary'', ''bg-secondary text-secondary-foreground hover:bg-[color-mix(in_oklch,var(--secondary),var(--foreground)_5%)] aria-expanded:bg-secondary aria-expanded:text-secondary-foreground''),
        (''ghost'', ''hover:bg-muted hover:text-foreground aria-expanded:bg-muted aria-expanded:text-foreground dark:hover:bg-muted/50''),
        (''destructive'', ''bg-destructive/10 text-destructive hover:bg-destructive/20 focus-visible:border-destructive/40 focus-visible:ring-destructive/20 dark:bg-destructive/20 dark:hover:bg-destructive/30 dark:focus-visible:ring-destructive/40''),
        (''link'', ''text-primary underline-offset-4 hover:underline'')]),
      (''size'',
       [(''default'', ''h-8 gap-1.5 px-2.5 has-data-[icon=inline-end]:pr-2 has-data-[icon=inline-start]:pl-2''),
        (''xs'', ''h-6 gap-1 rounded-[min(var(--radius-md),10px)] px-2 text-xs in-data-[slot=button-group]:rounded-lg has-data-[icon=inline-end]:pr-1.5 has-data-[icon=inline-start]:pl-1.5 [&_svg:not([class*='size-'])]:size-3''),
        (''sm'', ''h-7 gap-1 rounded-[min(var(--radius-md),12px)] px-2.5 text-[0.8rem] in-data-[slot=button-group]:rounded-lg has-data-[icon=inline-end]:pr-1.5 has-data-[icon=inline-start]:pl-1.5 [&_svg:not([class*='size-'])]:size-3.5''),
        (''lg'', ''h-9 gap-1.5 px-2.5 has-data-[icon=inline-end]:pr-2 has-data-[icon=inline-start]:pl-2''),
        (''icon'', ''size-8''),
        (''icon-xs'', ''size-6 rounded-[min(var(--radius-md),10px)] in-data-[slot=button-group]:rounded-lg [&_svg:not([class*='size-'])]:size-3''),
        (''icon-sm'', ''size-7 rounded-[min(var(--radius-md),12px)] in-data-[slot=button-group]:rounded-lg''),
        (''icon-lg'', ''size-9'')])],
    defaultVariants = [(''variant'', ''default''), (''size'', ''default'')]\<rparr>"

definition buttonVariants :: "ui_lib \<Rightarrow> props \<Rightarrow> string" where
  "buttonVariants L =
   cva L ''group/button inline-flex shrink-0 items-center justify-center rounded-lg border border-transparent bg-clip-padding text-sm font-medium whitespace-nowrap transition-all outline-none select-none focus-visible:border-ring focus-visible:ring-3 focus-visible:ring-ring/50 active:not-aria-[haspopup]:translate-y-px disabled:pointer-events-none disabled:opacity-50 aria-invalid:border-destructive aria-invalid:ring-3 aria-invalid:ring-destructive/20 dark:aria-invalid:border-destructive/50 dark:aria-invalid:ring-destructive/40 [&_svg]:pointer-events-none [&_svg]:shrink-0 [&_svg:not([class*='size-'])]:size-4''
     buttonVariants_config"

definition Button :: "ui_lib \<Rightarrow> component" where [ui_defs]:
  "Button L ps ch =
   VElem ''ButtonPrimitive'' (dict_merge
     [(''data-slot'', JStr ''button''),
      (''className'', JStr (cn L [JStr (buttonVariants L
         [(''variant'', prop_default ps ''variant'' (JStr ''default'')),
          (''size'', prop_default ps ''size'' (JStr ''default'')),
          (''className'', get_prop ps ''className'')])]))]
     (omit [''className'', ''variant'', ''size''] ps)) ch"
subsection \<open>What every component does with its props\<close>

lemma prop_Nil [simp]: "get_prop [] k = JUndef"
  by (simp add: get_prop_def)

lemma prop_Cons [simp]: "get_prop ((j, v) # ps) k = (if k = j then v else get_prop ps k)"
  by (simp add: get_prop_def)

lemma prop_mem: "distinct (map fst ps) \<Longrightarrow> (k, v) \<in> set ps \<Longrightarrow> get_prop ps k = v"
  by (simp add: get_prop_def)

lemma prop_absent: "k \<notin> fst ` set ps \<Longrightarrow> get_prop ps k = JUndef"
  by (simp add: get_prop_def map_of_eq_None_iff [symmetric])

lemma map_of_omit: "map_of (omit ks ps) k = (if k \<in> set ks then None else map_of ps k)"
  by (induction ps) (auto simp: omit_def)

lemma prop_omit [simp]: "get_prop (omit ks ps) k = (if k \<in> set ks then JUndef else get_prop ps k)"
  by (simp add: get_prop_def map_of_omit)

lemma distinct_omit: "distinct (map fst ps) \<Longrightarrow> distinct (map fst (omit ks ps))"
  by (induction ps) (auto simp: omit_def)

text \<open>A caller's prop that the component does not destructure wins over the component's own.\<close>

lemma prop_spread:
  assumes "distinct (map fst ps)"
  shows "get_prop (dict_merge own (omit ks ps)) k =
     (if k \<notin> set ks \<and> k \<in> fst ` set ps then get_prop ps k else get_prop own k)"
proof (cases "map_of ps k")
  case None
  then have "k \<notin> fst ` set ps" by (simp add: map_of_eq_None_iff)
  then show ?thesis
    using assms None by (simp add: get_prop_def map_of_dict_merge distinct_omit map_of_omit)
next
  case (Some v)
  then have "k \<in> fst ` set ps" by (force dest: map_of_SomeD)
  then show ?thesis
    using assms Some by (simp add: get_prop_def map_of_dict_merge distinct_omit map_of_omit)
qed

fun root_prop :: "vnode \<Rightarrow> string \<Rightarrow> jsval" where
  "root_prop (VElem t ps ch) k = get_prop ps k"
| "root_prop (VKeyed _ v) k = root_prop v k"
| "root_prop (VVal _) k = JUndef"

fun root_children :: "vnode \<Rightarrow> vnode list" where
  "root_children (VElem t ps ch) = ch"
| "root_children (VKeyed _ v) = root_children v"
| "root_children (VVal _) = []"

text \<open>
  The elements the components return: the wrapper around the element, if there is one, by its
  slot; the element's tag and slot; the props the component takes itself. \<open>Badge\<close> is not among
  them, it leaves its element to \<open>useRender\<close>, which is a parameter.
\<close>

type_synonym component_spec = "component \<times> string option \<times> string \<times> string \<times> string list"

definition slotted_components :: "ui_lib \<Rightarrow> component_spec list" where
  "slotted_components L =
    [(Card L, None, ''div'', ''card'', [''className'', ''size'']),
     (CardHeader L, None, ''div'', ''card-header'', [''className'']),
     (CardTitle L, None, ''div'', ''card-title'', [''className'']),
     (CardDescription L, None, ''div'', ''card-description'', [''className'']),
     (CardAction L, None, ''div'', ''card-action'', [''className'']),
     (CardContent L, None, ''div'', ''card-content'', [''className'']),
     (CardFooter L, None, ''div'', ''card-footer'', [''className'']),
     (Table L, Some ''table-container'', ''table'', ''table'', [''className'']),
     (TableHeader L, None, ''thead'', ''table-header'', [''className'']),
     (TableBody L, None, ''tbody'', ''table-body'', [''className'']),
     (TableFooter L, None, ''tfoot'', ''table-footer'', [''className'']),
     (TableRow L, None, ''tr'', ''table-row'', [''className'']),
     (TableHead L, None, ''th'', ''table-head'', [''className'']),
     (TableCell L, None, ''td'', ''table-cell'', [''className'']),
     (TableCaption L, None, ''caption'', ''table-caption'', [''className'']),
     (Tabs L, None, ''TabsPrimitive.Root'', ''tabs'', [''className'', ''orientation'']),
     (TabsList L, None, ''TabsPrimitive.List'', ''tabs-list'', [''className'', ''variant'']),
     (TabsTrigger L, None, ''TabsPrimitive.Tab'', ''tabs-trigger'', [''className'']),
     (TabsContent L, None, ''TabsPrimitive.Panel'', ''tabs-content'', [''className'']),
     (Button L, None, ''ButtonPrimitive'', ''button'', [''className'', ''variant'', ''size''])]"

text \<open>The classes of the caller come last, or through the variants of the button.\<close>

definition class_ok :: "ui_lib \<Rightarrow> jsval \<Rightarrow> jsval \<Rightarrow> bool" where
  "class_ok L v caller \<longleftrightarrow> (\<exists>base. v = JStr (cn L (base @ [caller]))) \<or>
     (\<exists>vs. v = JStr (cn L [JStr (buttonVariants L vs)]) \<and> get_prop vs ''className'' = caller)"

definition slots_ok :: "ui_lib \<Rightarrow> component_spec \<Rightarrow> props \<Rightarrow> vnode list \<Rightarrow> bool" where
  "slots_ok L spec ps ch = (case spec of (c, wrapper, tag, slot, own) \<Rightarrow>
     \<exists>attrs. (case wrapper of
          None \<Rightarrow> c ps ch = VElem tag attrs ch
        | Some s \<Rightarrow> \<exists>outer. c ps ch = VElem ''div'' outer [VElem tag attrs ch] \<and> get_prop outer ''data-slot'' = JStr s) \<and>
       (''data-slot'' \<notin> fst ` set ps \<longrightarrow> get_prop attrs ''data-slot'' = JStr slot) \<and>
       class_ok L (get_prop attrs ''className'') (get_prop ps ''className'') \<and>
       (\<forall>k v. (k, v) \<in> set ps \<longrightarrow> k \<notin> set own \<longrightarrow> get_prop attrs k = v))"

lemma slots_okI:
  assumes "c ps ch = (case wrapper of None \<Rightarrow> el | Some s \<Rightarrow> VElem ''div'' [(''data-slot'', JStr s), (''className'', JStr cl)] [el])"
    and "el = VElem tag (dict_merge attrs (omit own ps)) ch" and "get_prop attrs ''data-slot'' = JStr slot"
    and "''className'' \<in> set own" and "class_ok L (get_prop attrs ''className'') (get_prop ps ''className'')"
    and "distinct (map fst ps)"
  shows "slots_ok L (c, wrapper, tag, slot, own) ps ch"
  unfolding slots_ok_def prod.case
  by (rule exI [of _ "dict_merge attrs (omit own ps)"])
     (use assms in \<open>auto simp: prop_spread prop_mem image_iff split: option.split\<close>)

lemma class_ok_last: "class_ok L (JStr (cn L [a, caller])) caller" "class_ok L (JStr (cn L [a, b, c, d, caller])) caller"
  unfolding class_ok_def by (metis append_Cons append_Nil)+

lemma class_button: "class_ok L (JStr (cn L [JStr (buttonVariants L [v, s, (''className'', caller)])])) caller"
  if "fst v \<noteq> ''className''" "fst s \<noteq> ''className''"
  unfolding class_ok_def using that
  by (intro disjI2 exI [of _ "[v, s, (''className'', caller)]"]) (simp add: get_prop_def)


end
