(* ===== verification/Ui_Pages.thy ===== *)
theory Ui_Pages
  imports Ui_Components
begin

text \<open>
  The dashboard's pages and layout, \<^verbatim>\<open>agentos-ui/src/app\<close>. A page keeps one React state
  value; its effect fetches a URL once and, when the promise chain succeeds, replaces the
  state; its render function turns the state into an element or throws. The state is an
  untyped \<open>jsval\<close>, because \<open>res.json()\<close> returns whatever the server sent: the TypeScript
  interfaces of the pages are the predicates \<open>is_Metrics\<close>, \<open>is_AuditRecord\<close> and
  \<open>is_RunRecord\<close>.
\<close>

subsection \<open>The fetch chain\<close>

text \<open>How the promise \<open>fetch(url).then(res => res.json())\<close> settles.\<close>

datatype response = NetworkError string | NotJson string | JsonBody jsval

fun fetch_json :: "response \<Rightarrow> js_error + jsval" where
  "fetch_json (NetworkError m) = Inl (FetchRejected m)"
| "fetch_json (NotJson m) = Inl (SyntaxError m)"
| "fetch_json (JsonBody v) = Inr v"

text \<open>
  An effect returns the new state of the page and what \<open>console.error\<close> was called with: a
  throw anywhere in the chain, the last \<open>then\<close> included, ends in the \<open>catch\<close>.
\<close>

definition settle :: "js_error + jsval \<Rightarrow> jsval \<Rightarrow> jsval \<times> js_error list" where
  "settle chain st = (case chain of Inl e \<Rightarrow> (st, [e]) | Inr v \<Rightarrow> (v, []))"

subsection \<open>page.tsx: the overview\<close>

fun is_JNum :: "jsval \<Rightarrow> bool" where
  "is_JNum (JNum _) = True" | "is_JNum _ = False"

fun is_JStr :: "jsval \<Rightarrow> bool" where
  "is_JStr (JStr _) = True" | "is_JStr _ = False"

definition is_Metrics :: "jsval \<Rightarrow> bool" where
  "is_Metrics v = (case v of
     JObj ps \<Rightarrow> is_JNum (get_prop ps ''total_spend_usd'') \<and> is_JNum (get_prop ps ''total_intercepts'') \<and>
       is_JNum (get_prop ps ''successful_workflows'')
   | _ \<Rightarrow> False)"

definition Dashboard_init :: jsval where "Dashboard_init = JNull"

definition Dashboard_url :: string where "Dashboard_url = ''/api/v1/metrics/overview''"

definition Dashboard_effect :: "response \<Rightarrow> jsval \<Rightarrow> jsval \<times> js_error list" where
  "Dashboard_effect res = settle (fetch_json res)"

definition Dashboard_spend :: "jsval \<Rightarrow> js_error + jsval" where
  "Dashboard_spend metrics =
     bindE (js_opt_get metrics ''total_spend_usd'') (\<lambda>v.
     bindE (js_opt_toFixed v 4) (\<lambda>s. Inr (js_or s (JStr ''0.0000''))))"

definition Dashboard_count :: "jsval \<Rightarrow> string \<Rightarrow> js_error + jsval" where
  "Dashboard_count metrics k = bindE (js_opt_get metrics k) (\<lambda>v. Inr (js_or v (JNum 0)))"

definition Dashboard :: "ui_lib \<Rightarrow> jsval \<Rightarrow> js_error + vnode" where
  "Dashboard L metrics =
   bindE (Dashboard_spend metrics) (\<lambda>spend.
   bindE (Dashboard_count metrics ''total_intercepts'') (\<lambda>intercepts.
   bindE (Dashboard_count metrics ''successful_workflows'') (\<lambda>runs.
   Inr (VElem ''div'' [(''className'', JStr ''space-y-6'')]
     [VElem ''h1'' [(''className'', JStr ''text-3xl font-bold tracking-tight text-white'')]
        [VVal (JStr ''Dashboard Overview'')],
      VElem ''div'' [(''className'', JStr ''grid grid-cols-1 md:grid-cols-2 lg:grid-cols-4 gap-6'')]
       [Card L [(''className'', JStr ''bg-zinc-950 border-zinc-800'')]
         [CardHeader L [(''className'', JStr ''flex flex-row items-center justify-between pb-2'')]
           [CardTitle L [(''className'', JStr ''text-sm font-medium text-zinc-400'')] [VVal (JStr ''Total Spend'')],
            VElem ''DollarSign'' [(''className'', JStr ''h-4 w-4 text-emerald-500'')] []],
          CardContent L []
           [VElem ''div'' [(''className'', JStr ''text-2xl font-bold text-white'')]
             [VVal (JStr ''$''), VVal spend]]],
        Card L [(''className'', JStr ''bg-zinc-950 border-zinc-800'')]
         [CardHeader L [(''className'', JStr ''flex flex-row items-center justify-between pb-2'')]
           [CardTitle L [(''className'', JStr ''text-sm font-medium text-zinc-400'')] [VVal (JStr ''Intercepts'')],
            VElem ''ShieldAlert'' [(''className'', JStr ''h-4 w-4 text-rose-500'')] []],
          CardContent L []
           [VElem ''div'' [(''className'', JStr ''text-2xl font-bold text-white'')] [VVal intercepts]]],
        Card L [(''className'', JStr ''bg-zinc-950 border-zinc-800'')]
         [CardHeader L [(''className'', JStr ''flex flex-row items-center justify-between pb-2'')]
           [CardTitle L [(''className'', JStr ''text-sm font-medium text-zinc-400'')] [VVal (JStr ''Successful Runs'')],
            VElem ''CheckCircle2'' [(''className'', JStr ''h-4 w-4 text-emerald-500'')] []],
          CardContent L []
           [VElem ''div'' [(''className'', JStr ''text-2xl font-bold text-white'')] [VVal runs]]],
        Card L [(''className'', JStr ''bg-zinc-950 border-zinc-800'')]
         [CardHeader L [(''className'', JStr ''flex flex-row items-center justify-between pb-2'')]
           [CardTitle L [(''className'', JStr ''text-sm font-medium text-zinc-400'')] [VVal (JStr ''System Status'')],
            VElem ''Activity'' [(''className'', JStr ''h-4 w-4 text-emerald-500'')] []],
          CardContent L []
           [VElem ''div'' [(''className'', JStr ''text-2xl font-bold text-emerald-500'')]
             [VVal (JStr ''Healthy'')]]]]]))))"

subsection \<open>The two table pages\<close>

text \<open>
  Both pages keep the list under one key of the response, \<open>data.audits || []\<close> and
  \<open>data.runs || []\<close>.
\<close>

definition list_of_response :: "string \<Rightarrow> response \<Rightarrow> js_error + jsval" where
  "list_of_response k res =
     bindE (fetch_json res) (\<lambda>data. bindE (js_get data k) (\<lambda>v. Inr (js_or v (JArr []))))"

text \<open>
  \<open>xs.length === 0 ? (one row) : xs.map(...)\<close>: the children of the table's body.
\<close>

definition table_rows :: "jsval \<Rightarrow> vnode \<Rightarrow> (jsval \<Rightarrow> nat \<Rightarrow> js_error + vnode) \<Rightarrow> js_error + vnode list" where
  "table_rows xs empty_row row =
     bindE (js_get xs ''length'') (\<lambda>n. if n = JNum 0 then Inr [empty_row] else js_map xs row)"

subsection \<open>audits/page.tsx\<close>

definition is_AuditRecord :: "jsval \<Rightarrow> bool" where
  "is_AuditRecord v = (case v of
     JObj ps \<Rightarrow> is_JStr (get_prop ps ''trace_id'') \<and> is_JStr (get_prop ps ''decision'') \<and>
       is_JStr (get_prop ps ''reviewer'') \<and>
       (is_JStr (get_prop ps ''reason'') \<or> get_prop ps ''reason'' = JUndef) \<and>
       is_JStr (get_prop ps ''timestamp'')
   | _ \<Rightarrow> False)"

definition Audits_init :: jsval where "Audits_init = JArr []"

definition Audits_url :: string where "Audits_url = ''/api/v1/governance/audits''"

definition Audits_effect :: "response \<Rightarrow> jsval \<Rightarrow> jsval \<times> js_error list" where
  "Audits_effect res = settle (list_of_response ''audits'' res)"

definition Audits_row :: "ui_lib \<Rightarrow> jsval \<Rightarrow> nat \<Rightarrow> js_error + vnode" where
  "Audits_row L a i =
   bindE (js_get a ''trace_id'') (\<lambda>trace_id.
   bindE (js_get a ''decision'') (\<lambda>decision.
   bindE (js_get a ''reviewer'') (\<lambda>reviewer.
   bindE (js_get a ''reason'') (\<lambda>reason.
   bindE (js_get a ''timestamp'') (\<lambda>timestamp.
   Inr (VKeyed (JNum (of_nat i))
     (TableRow L [(''className'', JStr ''hover:bg-zinc-900 border-zinc-800'')]
       [TableCell L [(''className'', JStr ''font-mono text-zinc-300'')] [VVal trace_id],
        TableCell L []
          [Badge L [(''variant'', JStr ''outline''),
                    (''className'', JStr (if decision = JStr ''REJECTED''
                       then ''border-rose-500 text-rose-500''
                       else ''border-emerald-500 text-emerald-500''))]
             [VVal decision]],
        TableCell L [(''className'', JStr ''text-zinc-300'')] [VVal reviewer],
        TableCell L [(''className'', JStr ''text-zinc-400 max-w-xs truncate''), (''title'', reason)]
          [VVal (js_or reason (JStr ''-''))],
        TableCell L [(''className'', JStr ''text-zinc-400'')] [VVal timestamp]])))))))"

definition Audits_header :: "ui_lib \<Rightarrow> vnode" where
  "Audits_header L =
     TableHeader L []
       [TableRow L [(''className'', JStr ''hover:bg-transparent border-zinc-800'')]
         [TableHead L [(''className'', JStr ''text-zinc-400'')] [VVal (JStr ''Trace ID'')],
          TableHead L [(''className'', JStr ''text-zinc-400'')] [VVal (JStr ''Decision'')],
          TableHead L [(''className'', JStr ''text-zinc-400'')] [VVal (JStr ''Reviewer'')],
          TableHead L [(''className'', JStr ''text-zinc-400'')] [VVal (JStr ''Reason'')],
          TableHead L [(''className'', JStr ''text-zinc-400'')] [VVal (JStr ''Timestamp'')]]]"

definition Audits_empty :: "ui_lib \<Rightarrow> vnode" where
  "Audits_empty L =
     TableRow L [(''className'', JStr ''hover:bg-transparent border-zinc-800'')]
       [TableCell L [(''colSpan'', JNum 5), (''className'', JStr ''text-center text-zinc-500'')]
          [VVal (JStr ''No audits found.'')]]"

definition Audits :: "ui_lib \<Rightarrow> jsval \<Rightarrow> js_error + vnode" where
  "Audits L audits =
   bindE (table_rows audits (Audits_empty L) (Audits_row L)) (\<lambda>rows.
   Inr (VElem ''div'' [(''className'', JStr ''space-y-6'')]
     [VElem ''h1'' [(''className'', JStr ''text-3xl font-bold tracking-tight text-white'')]
        [VVal (JStr ''Governance Audits'')],
      VElem ''div'' [(''className'', JStr ''rounded-md border border-zinc-800'')]
        [Table L [] [Audits_header L, TableBody L [] rows]]]))"

subsection \<open>runs/page.tsx\<close>

definition is_RunRecord :: "jsval \<Rightarrow> bool" where
  "is_RunRecord v = (case v of
     JObj ps \<Rightarrow> is_JStr (get_prop ps ''run_id'') \<and> is_JStr (get_prop ps ''sop_id'') \<and>
       is_JStr (get_prop ps ''state'') \<and> is_JStr (get_prop ps ''updated_at'')
   | _ \<Rightarrow> False)"

definition Workflows_init :: jsval where "Workflows_init = JArr []"

definition Workflows_url :: string where "Workflows_url = ''/api/v1/workflows/runs''"

definition Workflows_effect :: "response \<Rightarrow> jsval \<Rightarrow> jsval \<times> js_error list" where
  "Workflows_effect res = settle (list_of_response ''runs'' res)"

definition Workflows_row :: "ui_lib \<Rightarrow> jsval \<Rightarrow> nat \<Rightarrow> js_error + vnode" where
  "Workflows_row L r i =
   bindE (js_get r ''run_id'') (\<lambda>run_id.
   bindE (js_get r ''sop_id'') (\<lambda>sop_id.
   bindE (js_get r ''state'') (\<lambda>state.
   bindE (js_get r ''updated_at'') (\<lambda>updated_at.
   Inr (VKeyed (JNum (of_nat i))
     (TableRow L [(''className'', JStr ''hover:bg-zinc-900 border-zinc-800'')]
       [TableCell L [(''className'', JStr ''font-mono text-zinc-300'')] [VVal run_id],
        TableCell L [(''className'', JStr ''text-zinc-300'')] [VVal sop_id],
        TableCell L []
          [Badge L [(''variant'', JStr (if state = JStr ''COMPLETED'' then ''default'' else ''secondary'')),
                    (''className'', JStr (if state = JStr ''COMPLETED''
                       then ''bg-emerald-500/10 text-emerald-500'' else ''''))]
             [VVal state]],
        TableCell L [(''className'', JStr ''text-zinc-400'')] [VVal updated_at]]))))))"

definition Workflows_header :: "ui_lib \<Rightarrow> vnode" where
  "Workflows_header L =
     TableHeader L []
       [TableRow L [(''className'', JStr ''hover:bg-transparent border-zinc-800'')]
         [TableHead L [(''className'', JStr ''text-zinc-400'')] [VVal (JStr ''Run ID'')],
          TableHead L [(''className'', JStr ''text-zinc-400'')] [VVal (JStr ''SOP ID'')],
          TableHead L [(''className'', JStr ''text-zinc-400'')] [VVal (JStr ''State'')],
          TableHead L [(''className'', JStr ''text-zinc-400'')] [VVal (JStr ''Updated At'')]]]"

definition Workflows_empty :: "ui_lib \<Rightarrow> vnode" where
  "Workflows_empty L =
     TableRow L [(''className'', JStr ''hover:bg-transparent border-zinc-800'')]
       [TableCell L [(''colSpan'', JNum 4), (''className'', JStr ''text-center text-zinc-500'')]
          [VVal (JStr ''No runs found.'')]]"

definition Workflows :: "ui_lib \<Rightarrow> jsval \<Rightarrow> js_error + vnode" where
  "Workflows L runs =
   bindE (table_rows runs (Workflows_empty L) (Workflows_row L)) (\<lambda>rows.
   Inr (VElem ''div'' [(''className'', JStr ''space-y-6'')]
     [VElem ''h1'' [(''className'', JStr ''text-3xl font-bold tracking-tight text-white'')]
        [VVal (JStr ''Workflow Traces'')],
      VElem ''div'' [(''className'', JStr ''rounded-md border border-zinc-800'')]
        [Table L [] [Workflows_header L, TableBody L [] rows]]]))"

subsection \<open>layout.tsx\<close>

text \<open>The class names of the two fonts come from \<^verbatim>\<open>next/font/google\<close>.\<close>

record geist_fonts =
  geistSans_variable :: string
  geistMono_variable :: string

definition nav_link :: "string \<Rightarrow> string \<Rightarrow> string \<Rightarrow> vnode" where
  "nav_link href icon label =
     VElem ''Link'' [(''href'', JStr href),
       (''className'', JStr ''flex items-center gap-3 text-zinc-400 hover:text-emerald-400 transition-colors'')]
       [VElem icon [(''size'', JNum 18)] [], VVal (JStr label)]"

definition RootLayout :: "geist_fonts \<Rightarrow> vnode list \<Rightarrow> vnode" where
  "RootLayout F children =
   VElem ''html'' [(''lang'', JStr ''en''), (''className'', JStr ''dark'')]
    [VElem ''body''
      [(''className'', JStr (geistSans_variable F @ '' '' @ geistMono_variable F @
          '' h-full antialiased bg-black text-white flex''))]
      [VElem ''aside''
        [(''className'', JStr ''w-64 border-r border-zinc-800 p-6 flex flex-col gap-6 min-h-screen bg-zinc-950'')]
        [VElem ''div'' [(''className'', JStr ''font-bold text-xl mb-4 tracking-wider text-emerald-500'')]
           [VVal (JStr ''Agent OS'')],
         VElem ''nav'' [(''className'', JStr ''flex flex-col gap-4'')]
           [nav_link ''/'' ''Activity'' '' Overview'',
            nav_link ''/runs'' ''GitMerge'' '' Workflows'',
            nav_link ''/audits'' ''ShieldAlert'' '' Governance Audits'']],
       VElem ''main'' [(''className'', JStr ''flex-1 p-8 overflow-auto h-screen bg-black'')] children]]"

end
