(* ===== verification/Ui_Correct.thy ===== *)
theory Ui_Correct
  imports Ui_Pages
begin

text \<open>
  What the dashboard shows. \<open>texts\<close> lists the values an element displays, \<open>page_rows\<close> the
  rows of a table page, \<open>row_span\<close> how many columns a row covers. The lemmas say when a page
  renders at all, which values it shows for which state, and that its tables are
  rectangular.
\<close>

fun texts :: "vnode \<Rightarrow> jsval list" where
  "texts (VVal v) = [v]"
| "texts (VElem t ps ch) = concat (map texts ch)"
| "texts (VKeyed k v) = texts v"

definition cell_span :: "vnode \<Rightarrow> rat" where
  "cell_span v = (case root_prop v ''colSpan'' of JNum n \<Rightarrow> n | _ \<Rightarrow> 1)"

definition row_span :: "vnode \<Rightarrow> rat" where
  "row_span v = sum_list (map cell_span (root_children v))"

text \<open>The header row and the body rows of a page with a table.\<close>

definition page_table :: "vnode \<Rightarrow> vnode list \<times> vnode list" where
  "page_table v = (case v of
     VElem _ _ [_, VElem _ _ [VElem _ _ [VElem _ _ [hdr, body]]]] \<Rightarrow> (root_children hdr, root_children body)
   | _ \<Rightarrow> ([], []))"

text \<open>
  A library that renders a component as the element it describes and ignores class names:
  what the witnesses instantiate \<open>ui_lib\<close> with.
\<close>

definition plain_ui_lib :: ui_lib where
  "plain_ui_lib = \<lparr>clsx = (\<lambda>_. []), twMerge = (\<lambda>s. s), cva = (\<lambda>_ _ _. []),
     mergeProps = dict_merge, useRender = (\<lambda>t ps _ _ ch. VElem t ps ch)\<rparr>"

subsection \<open>The overview\<close>

lemma Dashboard_eq:
  "Dashboard_spend m = Inr s \<Longrightarrow> Dashboard_count m ''total_intercepts'' = Inr i \<Longrightarrow>
   Dashboard_count m ''successful_workflows'' = Inr w \<Longrightarrow>
   \<exists>v. Dashboard L m = Inr v \<and>
     texts v = [JStr ''Dashboard Overview'', JStr ''Total Spend'', JStr ''$'', s,
                JStr ''Intercepts'', i, JStr ''Successful Runs'', w,
                JStr ''System Status'', JStr ''Healthy'']"
  by (simp add: Dashboard_def ui_defs)

lemma Dashboard_count_ok: "\<exists>w. Dashboard_count m k = Inr w"
  using js_opt_get_ok [of m k] by (auto simp: Dashboard_count_def)

lemma Dashboard_ok_iff: "(\<exists>v. Dashboard L m = Inr v) \<longleftrightarrow> (\<exists>s. Dashboard_spend m = Inr s)"
proof
  assume "\<exists>v. Dashboard L m = Inr v"
  then show "\<exists>s. Dashboard_spend m = Inr s" by (auto simp: Dashboard_def bindE_Inr_iff)
next
  assume "\<exists>s. Dashboard_spend m = Inr s"
  then show "\<exists>v. Dashboard L m = Inr v"
    using Dashboard_eq [of m] Dashboard_count_ok [of m] by blast
qed

lemma Dashboard_spend_ok_iff:
  "(\<exists>s. Dashboard_spend m = Inr s) \<longleftrightarrow>
   (\<forall>ps. m = JObj ps \<longrightarrow> is_JNum (get_prop ps ''total_spend_usd'') \<or>
      get_prop ps ''total_spend_usd'' \<in> {JUndef, JNull})"
proof (cases m)
  case (JObj ps)
  show ?thesis
    by (cases "get_prop ps ''total_spend_usd''")
       (auto simp: JObj Dashboard_spend_def get_prop_def bindE_Inr_iff split: option.splits)
qed (simp_all add: Dashboard_spend_def js_opt_get_def)

lemma js_or_truthy: "js_truthy a \<Longrightarrow> js_or a b = a"
  by (simp add: js_or_def)

lemma is_JNum_iff: "is_JNum v \<longleftrightarrow> (\<exists>x. v = JNum x)"
  by (cases v) auto

lemma is_JStr_iff: "is_JStr v \<longleftrightarrow> (\<exists>x. v = JStr x)"
  by (cases v) auto

text \<open>
  C1. Once the metrics have arrived, the overview shows exactly the numbers of the
  response: the spend with four decimals, the intercepts and the successful runs.
\<close>

theorem Dashboard_shows_metrics:
  assumes "is_Metrics (JObj ps)"
  shows "\<exists>x i w v. get_prop ps ''total_spend_usd'' = JNum x \<and>
     get_prop ps ''total_intercepts'' = JNum i \<and> get_prop ps ''successful_workflows'' = JNum w \<and>
     Dashboard L (JObj ps) = Inr v \<and>
     texts v = [JStr ''Dashboard Overview'', JStr ''Total Spend'', JStr ''$'', JStr (to_fixed 4 x),
                JStr ''Intercepts'', JNum i, JStr ''Successful Runs'', JNum w,
                JStr ''System Status'', JStr ''Healthy'']"
proof -
  obtain x i w where p: "get_prop ps ''total_spend_usd'' = JNum x"
    "get_prop ps ''total_intercepts'' = JNum i" "get_prop ps ''successful_workflows'' = JNum w"
    using assms by (auto simp: is_Metrics_def is_JNum_iff)
  have "Dashboard_spend (JObj ps) = Inr (JStr (to_fixed 4 x))"
    using p(1) by (simp add: Dashboard_spend_def get_prop_def js_or_def)
  moreover have "Dashboard_count (JObj ps) ''total_intercepts'' = Inr (JNum i)"
    "Dashboard_count (JObj ps) ''successful_workflows'' = Inr (JNum w)"
    using p(2,3) by (simp_all add: Dashboard_count_def get_prop_def js_or_def)
  ultimately show ?thesis using p Dashboard_eq by blast
qed

theorem Dashboard_shows_metrics_witness:
  "\<exists>v. Dashboard plain_ui_lib
       (JObj [(''total_spend_usd'', JNum (21 / 2500)), (''total_intercepts'', JNum 2),
              (''successful_workflows'', JNum 3)]) = Inr v \<and>
     texts v = [JStr ''Dashboard Overview'', JStr ''Total Spend'', JStr ''$'', JStr ''0.0084'',
                JStr ''Intercepts'', JNum 2, JStr ''Successful Runs'', JNum 3,
                JStr ''System Status'', JStr ''Healthy'']"
proof -
  let ?ps = "[(''total_spend_usd'', JNum (21 / 2500)), (''total_intercepts'', JNum 2),
              (''successful_workflows'', JNum 3)]"
  have m: "is_Metrics (JObj ?ps)" by (simp add: is_Metrics_def)
  have "to_fixed 4 (21 / 2500) = ''0.0084''" by code_simp
  moreover obtain x i w v where v: "get_prop ?ps ''total_spend_usd'' = JNum x"
    "get_prop ?ps ''total_intercepts'' = JNum i" "get_prop ?ps ''successful_workflows'' = JNum w"
    "Dashboard plain_ui_lib (JObj ?ps) = Inr v"
    "texts v = [JStr ''Dashboard Overview'', JStr ''Total Spend'', JStr ''$'', JStr (to_fixed 4 x),
                JStr ''Intercepts'', JNum i, JStr ''Successful Runs'', JNum w,
                JStr ''System Status'', JStr ''Healthy'']"
    using Dashboard_shows_metrics [OF m, of plain_ui_lib] by blast
  moreover have "x = 21 / 2500" "i = 2" "w = 3" using v(1,2,3) by simp_all
  ultimately show ?thesis by auto
qed

text \<open>
  The overview throws for exactly one kind of state: an object whose
  \<open>total_spend_usd\<close> is there but not a number. Before the fetch has settled, and after one
  that failed, it shows zeros.
\<close>

theorem Dashboard_total:
  "((\<exists>v. Dashboard L m = Inr v) \<longleftrightarrow>
     (\<forall>ps. m = JObj ps \<longrightarrow> is_JNum (get_prop ps ''total_spend_usd'') \<or>
        get_prop ps ''total_spend_usd'' \<in> {JUndef, JNull})) \<and>
   (\<exists>v. Dashboard L Dashboard_init = Inr v \<and>
     texts v = [JStr ''Dashboard Overview'', JStr ''Total Spend'', JStr ''$'', JStr ''0.0000'',
                JStr ''Intercepts'', JNum 0, JStr ''Successful Runs'', JNum 0,
                JStr ''System Status'', JStr ''Healthy'']) \<and>
   fst (Dashboard_effect (NetworkError e) Dashboard_init) = Dashboard_init \<and>
   fst (Dashboard_effect (NotJson e) Dashboard_init) = Dashboard_init"
proof -
  have "Dashboard_spend Dashboard_init = Inr (JStr ''0.0000'')"
    "Dashboard_count Dashboard_init k = Inr (JNum 0)" for k
    by (simp_all add: Dashboard_spend_def Dashboard_count_def Dashboard_init_def js_or_def)
  then show ?thesis
    using Dashboard_eq [of Dashboard_init] Dashboard_ok_iff [of L m] Dashboard_spend_ok_iff [of m]
    by (simp add: Dashboard_effect_def settle_def)
qed

text \<open>
  The amount shown is the amount sent, rounded to four decimals: the digits before the
  point and the \<open>d\<close> digits after it are a number of units within half a unit of it.
\<close>

theorem to_fixed_rounds:
  "\<exists>ip fp. to_fixed d x = (if x < 0 then ''-'' else '''') @ ip @ (if d = 0 then '''' else ''.'' @ fp) \<and>
     ip \<noteq> [] \<and> length fp = d \<and>
     \<bar>of_nat (digits_val (ip @ fp) 0) - \<bar>x\<bar> * 10 ^ d\<bar> \<le> (1 / 2 :: rat)"
proof -
  let ?n = "fixed_units d x"
  let ?ip = "nat_digits (?n div 10 ^ d)" and ?fp = "pad_digits d (?n mod 10 ^ d)"
  have "digits_val (?ip @ ?fp) 0 = ?n div 10 ^ d * 10 ^ d + ?n mod 10 ^ d"
    by (simp add: digits_val_append digits_val_nat_digits digits_val_pad)
  also have "\<dots> = ?n" by (rule div_mult_mod_eq)
  finally have "digits_val (?ip @ ?fp) 0 = ?n" .
  then show ?thesis
    using fixed_units_near [of d x]
    by (intro exI [of _ ?ip] exI [of _ ?fp]) (simp add: to_fixed_def Let_def)
qed

subsection \<open>The table pages\<close>

text \<open>What a page can render: the state's \<open>length\<close> is zero, or it is an array of non-null elements.\<close>

definition listable :: "jsval \<Rightarrow> bool" where
  "listable v = (case v of
     JArr xs \<Rightarrow> (\<forall>x\<in>set xs. x \<noteq> JUndef \<and> x \<noteq> JNull)
   | JStr s \<Rightarrow> s = []
   | JObj ps \<Rightarrow> get_prop ps ''length'' = JNum 0
   | _ \<Rightarrow> False)"

lemma js_get_ok_iff: "(\<exists>w. js_get v k = Inr w) \<longleftrightarrow> v \<noteq> JUndef \<and> v \<noteq> JNull"
  by (cases v) auto

lemma table_rows_ok_iff:
  assumes "\<And>x i. (\<exists>w. row x i = Inr w) \<longleftrightarrow> x \<noteq> JUndef \<and> x \<noteq> JNull"
  shows "(\<exists>rows. table_rows v e row = Inr rows) \<longleftrightarrow> listable v"
proof (cases v)
  case (JArr xs)
  have "(\<exists>rows. js_map v row = Inr rows) \<longleftrightarrow> (\<forall>(x, i)\<in>set (zip xs [0..<length xs]). x \<noteq> JUndef \<and> x \<noteq> JNull)"
    using JArr assms by (simp add: mapE_Inr_iff case_prod_beta)
  also have "\<dots> \<longleftrightarrow> listable v"
    by (auto simp: JArr listable_def all_set_conv_all_nth set_zip simp del: Ball_def)
  finally show ?thesis by (auto simp: table_rows_def JArr listable_def)
next
  case (JObj ps)
  then show ?thesis by (auto simp: table_rows_def listable_def get_prop_def split: option.splits)
qed (auto simp: table_rows_def listable_def)

lemma table_rows_cases:
  assumes "table_rows v e row = Inr rows"
  obtains "rows = [e]"
  | xs where "v = JArr xs" "xs \<noteq> []" "length rows = length xs"
      "\<And>i. i < length xs \<Longrightarrow> row (xs ! i) i = Inr (rows ! i)"
proof (cases "rows = [e]")
  case False
  then have "js_map v row = Inr rows" "js_get v ''length'' \<noteq> Inr (JNum 0)"
    using assms by (auto simp: table_rows_def bindE_Inr_iff split: if_splits)
  then obtain xs where xs: "v = JArr xs" "mapE (\<lambda>(x, i). row x i) (zip xs [0..<length xs]) = Inr rows"
    "xs \<noteq> []"
    by (cases v) auto
  have "row (xs ! i) i = Inr (rows ! i)" if "i < length xs" for i
    using mapE_nth [OF xs(2), of i] that by simp
  then show ?thesis using that(2) xs mapE_length [OF xs(2)] by simp
qed (rule that(1))

lemma Audits_row_ok_iff: "(\<exists>w. Audits_row L x i = Inr w) \<longleftrightarrow> x \<noteq> JUndef \<and> x \<noteq> JNull"
  by (cases x) (simp_all add: Audits_row_def)

lemma Workflows_row_ok_iff: "(\<exists>w. Workflows_row L x i = Inr w) \<longleftrightarrow> x \<noteq> JUndef \<and> x \<noteq> JNull"
  by (cases x) (simp_all add: Workflows_row_def)

lemma Audits_Inr_iff:
  "Audits L st = Inr v \<longleftrightarrow> (\<exists>rows. table_rows st (Audits_empty L) (Audits_row L) = Inr rows \<and>
     v = VElem ''div'' [(''className'', JStr ''space-y-6'')]
     [VElem ''h1'' [(''className'', JStr ''text-3xl font-bold tracking-tight text-white'')]
        [VVal (JStr ''Governance Audits'')],
      VElem ''div'' [(''className'', JStr ''rounded-md border border-zinc-800'')]
        [Table L [] [Audits_header L, TableBody L [] rows]]])"
  by (auto simp: Audits_def bindE_Inr_iff)

lemma Workflows_Inr_iff:
  "Workflows L st = Inr v \<longleftrightarrow> (\<exists>rows. table_rows st (Workflows_empty L) (Workflows_row L) = Inr rows \<and>
     v = VElem ''div'' [(''className'', JStr ''space-y-6'')]
     [VElem ''h1'' [(''className'', JStr ''text-3xl font-bold tracking-tight text-white'')]
        [VVal (JStr ''Workflow Traces'')],
      VElem ''div'' [(''className'', JStr ''rounded-md border border-zinc-800'')]
        [Table L [] [Workflows_header L, TableBody L [] rows]]])"
  by (auto simp: Workflows_def bindE_Inr_iff)

lemma Audits_page_table:
  "Audits L st = Inr v \<Longrightarrow>
   \<exists>rows. table_rows st (Audits_empty L) (Audits_row L) = Inr rows \<and>
     page_table v = (root_children (Audits_header L), rows)"
  by (auto simp: Audits_Inr_iff page_table_def Table_def TableBody_def)

lemma Workflows_page_table:
  "Workflows L st = Inr v \<Longrightarrow>
   \<exists>rows. table_rows st (Workflows_empty L) (Workflows_row L) = Inr rows \<and>
     page_table v = (root_children (Workflows_header L), rows)"
  by (auto simp: Workflows_Inr_iff page_table_def Table_def TableBody_def)

lemma Audits_ok_iff: "(\<exists>v. Audits L st = Inr v) \<longleftrightarrow> listable st"
  using table_rows_ok_iff [where e = "Audits_empty L" and row = "Audits_row L"]
  by (simp add: Audits_row_ok_iff Audits_Inr_iff)

lemma Workflows_ok_iff: "(\<exists>v. Workflows L st = Inr v) \<longleftrightarrow> listable st"
  using table_rows_ok_iff [where e = "Workflows_empty L" and row = "Workflows_row L"]
  by (simp add: Workflows_row_ok_iff Workflows_Inr_iff)

lemma Audits_spans:
  "\<forall>h\<in>set (root_children (Audits_header L)). row_span h = 5"
  "row_span (Audits_empty L) = 5"
  "Audits_row L x i = Inr r \<Longrightarrow> row_span r = 5"
  by (auto simp: Audits_header_def Audits_empty_def Audits_row_def bindE_Inr_iff row_span_def
      cell_span_def ui_defs omit_def)

lemma Workflows_spans:
  "\<forall>h\<in>set (root_children (Workflows_header L)). row_span h = 4"
  "row_span (Workflows_empty L) = 4"
  "Workflows_row L x i = Inr r \<Longrightarrow> row_span r = 4"
  by (auto simp: Workflows_header_def Workflows_empty_def Workflows_row_def bindE_Inr_iff row_span_def
      cell_span_def ui_defs omit_def)

lemma rows_all:
  assumes "table_rows v e row = Inr rows" "P e" "\<And>x i r. row x i = Inr r \<Longrightarrow> P r"
  shows "\<forall>r\<in>set rows. P r"
  using assms(1)
proof (cases rule: table_rows_cases)
  case 1
  then show ?thesis using assms(2) by simp
next
  case (2 xs)
  then show ?thesis using assms(3) by (metis in_set_conv_nth)
qed

text \<open>
  Every row of both tables covers all the columns of the header, the placeholder row
  and the header itself included, whatever state the page renders.
\<close>

theorem tables_rectangular:
  "(\<forall>v. Audits L st = Inr v \<longrightarrow> (\<forall>r\<in>set (fst (page_table v) @ snd (page_table v)). row_span r = 5)) \<and>
   (\<forall>v. Workflows L st = Inr v \<longrightarrow> (\<forall>r\<in>set (fst (page_table v) @ snd (page_table v)). row_span r = 4))"
proof (intro conjI allI impI)
  fix v assume "Audits L st = Inr v"
  then obtain rows where "table_rows st (Audits_empty L) (Audits_row L) = Inr rows"
    "page_table v = (root_children (Audits_header L), rows)"
    using Audits_page_table by blast
  then show "\<forall>r\<in>set (fst (page_table v) @ snd (page_table v)). row_span r = 5"
    using rows_all [where P = "\<lambda>r. row_span r = 5"] Audits_spans by auto
next
  fix v assume "Workflows L st = Inr v"
  then obtain rows where "table_rows st (Workflows_empty L) (Workflows_row L) = Inr rows"
    "page_table v = (root_children (Workflows_header L), rows)"
    using Workflows_page_table by blast
  then show "\<forall>r\<in>set (fst (page_table v) @ snd (page_table v)). row_span r = 4"
    using rows_all [where P = "\<lambda>r. row_span r = 4"] Workflows_spans by auto
qed

theorem tables_rectangular_witness:
  "\<exists>v. Audits plain_ui_lib (JArr [JObj [(''trace_id'', JStr ''t1''), (''decision'', JStr ''REJECTED'')]]) = Inr v \<and>
     (\<forall>r\<in>set (fst (page_table v) @ snd (page_table v)). row_span r = 5) \<and>
     length (snd (page_table v)) = 1"
proof -
  let ?st = "JArr [JObj [(''trace_id'', JStr ''t1''), (''decision'', JStr ''REJECTED'')]]"
  obtain v where v: "Audits plain_ui_lib ?st = Inr v" "length (snd (page_table v)) = 1"
    by (simp add: Audits_def table_rows_def Audits_row_def page_table_def Table_def TableBody_def)
  then show ?thesis using tables_rectangular [of plain_ui_lib ?st] by blast
qed

text \<open>
  A table page renders exactly the states that are lists of non-null elements, or whose
  \<open>length\<close> is zero; every other state makes it throw.
\<close>

theorem tables_render_iff:
  "((\<exists>v. Audits L st = Inr v) \<longleftrightarrow> listable st) \<and> ((\<exists>v. Workflows L st = Inr v) \<longleftrightarrow> listable st)"
  using Audits_ok_iff Workflows_ok_iff by blast

definition audit_row_shows :: "ui_lib \<Rightarrow> jsval \<Rightarrow> nat \<Rightarrow> vnode \<Rightarrow> bool" where
  "audit_row_shows L a i r \<longleftrightarrow> (case a of
     JObj ps \<Rightarrow> (let cells = root_children r in
     r = VKeyed (JNum (of_nat i))
           (TableRow L [(''className'', JStr ''hover:bg-zinc-900 border-zinc-800'')] cells) \<and>
     length cells = 5 \<and>
     texts (cells ! 0) = [get_prop ps ''trace_id''] \<and>
     root_children (cells ! 1) = [Badge L [(''variant'', JStr ''outline''),
        (''className'', JStr (if get_prop ps ''decision'' = JStr ''REJECTED''
           then ''border-rose-500 text-rose-500'' else ''border-emerald-500 text-emerald-500''))]
        [VVal (get_prop ps ''decision'')]] \<and>
     texts (cells ! 2) = [get_prop ps ''reviewer''] \<and>
     texts (cells ! 3) = [if js_truthy (get_prop ps ''reason'') then get_prop ps ''reason'' else JStr ''-''] \<and>
     texts (cells ! 4) = [get_prop ps ''timestamp''])
   | _ \<Rightarrow> False)"

lemma TableCell_parts [simp]:
  "texts (TableCell L ps ch) = concat (map texts ch)" "root_children (TableCell L ps ch) = ch"
  "root_children (TableRow L ps ch) = ch"
  by (simp_all add: TableCell_def TableRow_def)

lemma Audits_row_shows:
  "Audits_row L (JObj ps) i = Inr r \<Longrightarrow> audit_row_shows L (JObj ps) i r"
  by (auto simp: Audits_row_def audit_row_shows_def bindE_Inr_iff get_prop_def js_or_def Let_def)

lemma Audits_effect_list:
  "fst (Audits_effect (JsonBody (JObj [(''audits'', JArr xs)])) Audits_init) = JArr xs"
  by (simp add: Audits_effect_def settle_def list_of_response_def js_or_def)

text \<open>Both table pages on a list of objects: one row per object, made by the page's row function.\<close>

lemma table_rows_objects:
  assumes "\<forall>x\<in>set xs. \<exists>ps. x = JObj ps" and "xs \<noteq> []" and "table_rows (JArr xs) e row = Inr rows"
    and "\<And>ps i r. row (JObj ps) i = Inr r \<Longrightarrow> P (JObj ps) i r"
  shows "length rows = length xs \<and> (\<forall>i<length xs. P (xs ! i) i (rows ! i))"
proof -
  have "js_map (JArr xs) row = Inr rows" using assms(2,3) by (simp add: table_rows_def)
  then have len: "length rows = length xs" and row: "\<And>i. i < length xs \<Longrightarrow> row (xs ! i) i = Inr (rows ! i)"
    using mapE_length mapE_nth by fastforce+
  have "P (xs ! i) i (rows ! i)" if "i < length xs" for i
    using row [OF that] assms(1,4) that by (metis nth_mem)
  with len show ?thesis by blast
qed

lemma objects_listable: "\<forall>x\<in>set xs. \<exists>ps. x = JObj ps \<Longrightarrow> listable (JArr xs)"
  by (auto simp: listable_def)

lemma Audits_objects:
  assumes "\<forall>x\<in>set xs. \<exists>ps. x = JObj ps" and "xs \<noteq> []"
  shows "\<exists>v. Audits L (JArr xs) = Inr v \<and> length (snd (page_table v)) = length xs \<and>
     (\<forall>i<length xs. audit_row_shows L (xs ! i) i (snd (page_table v) ! i))"
proof -
  obtain v where v: "Audits L (JArr xs) = Inr v" using Audits_ok_iff objects_listable [OF assms(1)] by blast
  then obtain rows where rows: "table_rows (JArr xs) (Audits_empty L) (Audits_row L) = Inr rows" "snd (page_table v) = rows"
    using Audits_page_table by fastforce
  show ?thesis
    using v rows(2) table_rows_objects [where P = "audit_row_shows L", OF assms rows(1) Audits_row_shows] by blast
qed

lemma Audits_no_records: "\<exists>v. Audits L (JArr []) = Inr v \<and> snd (page_table v) = [Audits_empty L]"
  by (simp add: Audits_def table_rows_def page_table_def Table_def TableBody_def)

text \<open>
  The audit page shows the records of the response, one row each, in order: the
  identifier, the decision in a badge that is red exactly for a rejection, the reviewer,
  the reason (a dash for a missing or empty one) and the time.
\<close>

theorem Audits_shows_records:
  assumes "\<forall>x\<in>set xs. \<exists>ps. x = JObj ps" and "xs \<noteq> []"
  shows "\<exists>v. Audits L (fst (Audits_effect (JsonBody (JObj [(''audits'', JArr xs)])) Audits_init)) = Inr v \<and>
     length (snd (page_table v)) = length xs \<and>
     (\<forall>i<length xs. audit_row_shows L (xs ! i) i (snd (page_table v) ! i))"
  unfolding Audits_effect_list using assms by (rule Audits_objects)

definition run_row_shows :: "ui_lib \<Rightarrow> jsval \<Rightarrow> nat \<Rightarrow> vnode \<Rightarrow> bool" where
  "run_row_shows L a i r \<longleftrightarrow> (case a of
     JObj ps \<Rightarrow> (let cells = root_children r; finished = (get_prop ps ''state'' = JStr ''COMPLETED'') in
     r = VKeyed (JNum (of_nat i))
           (TableRow L [(''className'', JStr ''hover:bg-zinc-900 border-zinc-800'')] cells) \<and>
     length cells = 4 \<and>
     texts (cells ! 0) = [get_prop ps ''run_id''] \<and>
     texts (cells ! 1) = [get_prop ps ''sop_id''] \<and>
     root_children (cells ! 2) = [Badge L
       [(''variant'', JStr (if finished then ''default'' else ''secondary'')),
        (''className'', JStr (if finished then ''bg-emerald-500/10 text-emerald-500'' else ''''))]
       [VVal (get_prop ps ''state'')]] \<and>
     texts (cells ! 3) = [get_prop ps ''updated_at''])
   | _ \<Rightarrow> False)"

lemma Workflows_row_shows:
  "Workflows_row L (JObj ps) i = Inr r \<Longrightarrow> run_row_shows L (JObj ps) i r"
  by (auto simp: Workflows_row_def run_row_shows_def bindE_Inr_iff get_prop_def Let_def)

lemma Workflows_effect_list:
  "fst (Workflows_effect (JsonBody (JObj ((''runs'', JArr xs) # ps))) Workflows_init) = JArr xs"
  by (simp add: Workflows_effect_def settle_def list_of_response_def js_or_def)

lemma Workflows_objects:
  assumes "\<forall>x\<in>set xs. \<exists>ps. x = JObj ps" and "xs \<noteq> []"
  shows "\<exists>v. Workflows L (JArr xs) = Inr v \<and> length (snd (page_table v)) = length xs \<and>
     (\<forall>i<length xs. run_row_shows L (xs ! i) i (snd (page_table v) ! i))"
proof -
  obtain v where v: "Workflows L (JArr xs) = Inr v" using Workflows_ok_iff objects_listable [OF assms(1)] by blast
  then obtain rows where rows: "table_rows (JArr xs) (Workflows_empty L) (Workflows_row L) = Inr rows" "snd (page_table v) = rows"
    using Workflows_page_table by fastforce
  show ?thesis
    using v rows(2) table_rows_objects [where P = "run_row_shows L", OF assms rows(1) Workflows_row_shows] by blast
qed

lemma Workflows_no_records: "\<exists>v. Workflows L (JArr []) = Inr v \<and> snd (page_table v) = [Workflows_empty L]"
  by (simp add: Workflows_def table_rows_def page_table_def Table_def TableBody_def)

theorem Dashboard_total_witness:
  "(\<nexists>v. Dashboard plain_ui_lib (JObj [(''total_spend_usd'', JStr ''0.01'')]) = Inr v) \<and>
   (\<exists>v. Dashboard plain_ui_lib (JObj [(''total_intercepts'', JNum 2)]) = Inr v)"
  using Dashboard_total [of plain_ui_lib "JObj [(''total_spend_usd'', JStr ''0.01'')]" "[]"]
    Dashboard_total [of plain_ui_lib "JObj [(''total_intercepts'', JNum 2)]" "[]"]
  by (simp add: get_prop_def)

theorem Audits_shows_records_witness:
  "\<exists>v. Audits plain_ui_lib (fst (Audits_effect (JsonBody (JObj [(''audits'',
       JArr [JObj [(''trace_id'', JStr ''t1''), (''decision'', JStr ''REJECTED''), (''reason'', JNull)]])])) Audits_init)) = Inr v \<and>
     length (snd (page_table v)) = 1 \<and>
     texts (root_children (snd (page_table v) ! 0) ! 3) = [JStr ''-'']"
proof -
  let ?ps = "[(''trace_id'', JStr ''t1''), (''decision'', JStr ''REJECTED''), (''reason'', JNull)]"
  have "\<forall>x\<in>set [JObj ?ps]. \<exists>ps. x = JObj ps" "[JObj ?ps] \<noteq> []" by simp_all
  from Audits_shows_records [OF this, of plain_ui_lib] obtain v where
    v: "Audits plain_ui_lib (fst (Audits_effect (JsonBody (JObj [(''audits'', JArr [JObj ?ps])])) Audits_init)) = Inr v"
      "length (snd (page_table v)) = 1" "audit_row_shows plain_ui_lib (JObj ?ps) 0 (snd (page_table v) ! 0)"
    by auto
  have "texts (root_children (snd (page_table v) ! 0) ! 3) = [JStr ''-'']"
    using v(3) by (auto simp: audit_row_shows_def Let_def get_prop_def)
  then show ?thesis using v(1,2) by blast
qed


end
