(* ===== verification/Py_Float.thy ===== *)
theory Py_Float
  imports Prelude Complex_Main
begin

text \<open>
  Python's \<open>float\<close>: IEEE 754 doubles. A finite double is a rational, so the type is \<open>rat\<close>,
  and every arithmetic operation is the exact one followed by \<open>fl\<close>, which rounds to the
  nearest double, ties to even (53 significant bits, subnormals included; results below
  \<open>2 ^ 1024\<close>, where the doubles end).
\<close>

type_synonym pyfloat = rat

fun bit_len :: "int \<Rightarrow> int" where
  "bit_len n = (if n \<le> 0 then 0 else 1 + bit_len (n div 2))"

declare bit_len.simps [simp del]

definition ilog2 :: "rat \<Rightarrow> int" where
  "ilog2 q = (case quotient_of q of (a, b) \<Rightarrow>
     let k = bit_len a - bit_len b in if 2 powi k \<le> q then k else k - 1)"

definition round_even :: "rat \<Rightarrow> int" where
  "round_even x = (let f = \<lfloor>x\<rfloor>; d = x - of_int f in
     if d < 1 / 2 then f else if 1 / 2 < d then f + 1 else if even f then f else f + 1)"

definition ulp_exp :: "rat \<Rightarrow> int" where
  "ulp_exp q = max (ilog2 q - 52) (-1074)"

definition fl_pos :: "rat \<Rightarrow> pyfloat" where
  "fl_pos q = of_int (round_even (q / 2 powi ulp_exp q)) * 2 powi ulp_exp q"

definition fl :: "rat \<Rightarrow> pyfloat" where
  "fl q = (if q = 0 then 0 else if 0 < q then fl_pos q else - fl_pos (- q))"

definition fadd :: "pyfloat \<Rightarrow> pyfloat \<Rightarrow> pyfloat" where "fadd a b = fl (a + b)"
definition fsub :: "pyfloat \<Rightarrow> pyfloat \<Rightarrow> pyfloat" where "fsub a b = fl (a - b)"
definition fmul :: "pyfloat \<Rightarrow> pyfloat \<Rightarrow> pyfloat" where "fmul a b = fl (a * b)"
definition fdiv :: "pyfloat \<Rightarrow> pyfloat \<Rightarrow> pyfloat" where "fdiv a b = fl (a / b)"

subsection \<open>The binary logarithm\<close>

lemma powi2_Suc: "(2::rat) powi (1 + k) = 2 * 2 powi k"
  by (simp add: power_int_add)

lemma bit_len_bounds:
  "0 < n \<Longrightarrow> 2 powi (bit_len n - 1) \<le> (of_int n :: rat) \<and> (of_int n :: rat) < 2 powi bit_len n"
proof (induction n rule: bit_len.induct)
  case (1 n)
  show ?case
  proof (cases "n = 1")
    case True
    then show ?thesis by (simp add: bit_len.simps [of 1] bit_len.simps [of 0])
  next
    case False
    then have m: "0 < n div 2" using 1 by simp
    have bl: "bit_len n = 1 + bit_len (n div 2)" using 1 by (simp add: bit_len.simps [of n])
    have IH: "2 powi (bit_len (n div 2) - 1) \<le> (of_int (n div 2) :: rat)"
      "of_int (n div 2) < (2 powi bit_len (n div 2) :: rat)"
      using 1 m by auto
    have len: "0 < bit_len (n div 2)"
    proof (rule ccontr)
      assume "\<not> 0 < bit_len (n div 2)"
      then have "(2::rat) powi bit_len (n div 2) \<le> 2 powi 0" by (intro power_int_increasing) auto
      then show False using IH(2) m by simp
    qed
    then obtain j where j: "bit_len (n div 2) = int j" by (metis less_imp_le nonneg_int_cases)
    have "of_int (n div 2) < (of_int (2 ^ j) :: rat)" using IH(2) j by simp
    then have "n div 2 < 2 ^ j" by (simp only: of_int_less_iff)
    then have "n < 2 ^ Suc j" by simp
    then have "(of_int n :: rat) < of_int (2 ^ Suc j)" by (simp only: of_int_less_iff)
    then have up: "of_int n < (2 powi bit_len n :: rat)" by (simp add: bl j powi2_Suc)
    have "(2::rat) powi bit_len (n div 2) = 2 * 2 powi (bit_len (n div 2) - 1)"
      using powi2_Suc [of "bit_len (n div 2) - 1"] by simp
    also have "\<dots> \<le> 2 * of_int (n div 2)" using IH(1) by simp
    also have "\<dots> \<le> of_int n" by linarith
    finally show ?thesis using up by (simp add: bl)
  qed
qed

lemma ilog2_bounds:
  assumes "0 < q"
  shows "2 powi ilog2 q \<le> q" "q < 2 powi (ilog2 q + 1)"
proof -
  obtain a b where ab: "quotient_of q = (a, b)" by force
  have b: "0 < b" using quotient_of_denom_pos [OF ab] .
  have q: "q = of_int a / of_int b" using quotient_of_div [OF ab] .
  have a: "0 < a" using assms q b by (simp add: zero_less_divide_iff)
  note A = bit_len_bounds [OF a] and B = bit_len_bounds [OF b]
  define k where "k = bit_len a - bit_len b"
  have il: "ilog2 q = (if 2 powi k \<le> q then k else k - 1)"
    by (simp add: ilog2_def ab k_def)
  have aq: "of_int a = q * of_int b" using q b by simp
  have up: "q < 2 powi (k + 1)"
  proof -
    have "q * 2 powi (bit_len b - 1) \<le> of_int a" unfolding aq using B assms by simp
    then have "q * 2 powi (bit_len b - 1) < 2 powi bit_len a" using A by linarith
    then have "q < 2 powi bit_len a / 2 powi (bit_len b - 1)" by (simp add: field_simps)
    also have "\<dots> = 2 powi (k + 1)" by (simp add: power_int_diff power_int_add k_def)
    finally show ?thesis .
  qed
  have lo: "2 powi (k - 1) < q"
  proof -
    have "of_int a < q * 2 powi bit_len b" unfolding aq using B assms by simp
    then have "2 powi (bit_len a - 1) < q * 2 powi bit_len b" using A by linarith
    then have "2 powi (bit_len a - 1) / 2 powi bit_len b < q" by (simp add: field_simps)
    moreover have "(2::rat) powi (bit_len a - 1) / 2 powi bit_len b = 2 powi (k - 1)"
      by (simp add: power_int_diff k_def)
    ultimately show ?thesis by simp
  qed
  show "2 powi ilog2 q \<le> q" "q < 2 powi (ilog2 q + 1)" using il up lo by auto
qed

lemma powi2_less_iff: "((2::rat) powi a < 2 powi b) = (a < b)"
  by (smt (verit) power_int_increasing power_int_strict_increasing one_less_numeral_iff semiring_norm(76) one_le_numeral linorder_not_less)

lemma powi2_le_iff: "((2::rat) powi a \<le> 2 powi b) = (a \<le> b)"
  using powi2_less_iff [of b a] by (simp add: linorder_not_less [symmetric])

lemma ilog2_unique: "2 powi k \<le> q \<Longrightarrow> q < 2 powi (k + 1) \<Longrightarrow> ilog2 q = k"
proof -
  assume k: "2 powi k \<le> q" "q < 2 powi (k + 1)"
  have "(0::rat) < 2 powi k" by simp
  then have q: "0 < q" using k(1) by linarith
  have "(2::rat) powi ilog2 q < 2 powi (k + 1)" "(2::rat) powi k < 2 powi (ilog2 q + 1)"
    using ilog2_bounds [OF q] k by linarith+
  then have "ilog2 q < k + 1" "k < ilog2 q + 1"
    by (simp_all only: powi2_less_iff)
  then show ?thesis by linarith
qed

lemma ilog2_mono: "0 < x \<Longrightarrow> x \<le> y \<Longrightarrow> ilog2 x \<le> ilog2 y"
proof -
  assume xy: "0 < x" "x \<le> y"
  then have "(2::rat) powi ilog2 x < 2 powi (ilog2 y + 1)"
    using ilog2_bounds(1) [of x] ilog2_bounds(2) [of y] by linarith
  then have "ilog2 x < ilog2 y + 1" by (simp only: powi2_less_iff)
  then show ?thesis by linarith
qed

subsection \<open>Rounding\<close>

lemma round_even_of_int [simp]: "round_even (of_int n) = n"
  by (simp add: round_even_def)

lemma round_even_near: "\<bar>of_int (round_even x) - x\<bar> \<le> 1 / 2"
proof -
  have "of_int \<lfloor>x\<rfloor> \<le> x" "x < of_int \<lfloor>x\<rfloor> + 1" by linarith+
  then show ?thesis unfolding round_even_def Let_def by (auto simp: abs_le_iff)
qed

lemma round_even_mono: "x \<le> y \<Longrightarrow> round_even x \<le> round_even y"
proof (cases "\<lfloor>x\<rfloor> = \<lfloor>y\<rfloor>")
  case True
  assume "x \<le> y"
  then show ?thesis using True unfolding round_even_def Let_def by (auto split: if_splits)
next
  case False
  assume "x \<le> y"
  then have "\<lfloor>x\<rfloor> < \<lfloor>y\<rfloor>" using False floor_mono le_neq_trans by blast
  then show ?thesis unfolding round_even_def Let_def by (auto split: if_splits)
qed

lemma round_even_ge: "of_int n \<le> x \<Longrightarrow> n \<le> round_even x"
  using round_even_mono [of "of_int n" x] by simp

lemma round_even_le: "x \<le> of_int n \<Longrightarrow> round_even x \<le> n"
  using round_even_mono [of x "of_int n"] by simp

lemma ulp_pos [simp]: "(0::rat) < 2 powi ulp_exp q"
  by simp

lemma fl_pos_nonneg: "0 < q \<Longrightarrow> 0 \<le> fl_pos q"
  using round_even_ge [of 0 "q / 2 powi ulp_exp q"] by (simp add: fl_pos_def)

lemma fl_pos_le_next: "0 < q \<Longrightarrow> fl_pos q \<le> 2 powi (ulp_exp q + 53)"
proof -
  assume q: "0 < q"
  have "q < 2 powi (ilog2 q + 1)" by (rule ilog2_bounds(2) [OF q])
  also have "(2::rat) powi (ilog2 q + 1) \<le> 2 powi (ulp_exp q + 53)"
    by (rule power_int_increasing) (auto simp: ulp_exp_def)
  finally have "q / 2 powi ulp_exp q \<le> of_int (2 ^ 53)"
    by (simp add: power_int_add field_simps)
  then have "round_even (q / 2 powi ulp_exp q) \<le> 2 ^ 53" by (rule round_even_le)
  then have "of_int (round_even (q / 2 powi ulp_exp q)) \<le> (of_int (2 ^ 53) :: rat)"
    by (simp only: of_int_le_iff)
  then show ?thesis by (simp add: fl_pos_def power_int_add field_simps)
qed

lemma fl_pos_ge_binade: "0 < q \<Longrightarrow> -1074 \<le> ilog2 q - 52 \<Longrightarrow> 2 powi ilog2 q \<le> fl_pos q"
proof -
  assume q: "0 < q" and e: "-1074 \<le> ilog2 q - 52"
  then have ue: "ulp_exp q = ilog2 q - 52" by (simp add: ulp_exp_def)
  have "of_int (2 ^ 52) \<le> q / 2 powi ulp_exp q"
    using ilog2_bounds(1) [OF q] by (simp add: ue power_int_diff field_simps)
  then have "2 ^ 52 \<le> round_even (q / 2 powi ulp_exp q)" by (rule round_even_ge)
  then have "(of_int (2 ^ 52) :: rat) \<le> of_int (round_even (q / 2 powi ulp_exp q))"
    by (simp only: of_int_le_iff)
  then have "of_int (2 ^ 52) * 2 powi ulp_exp q \<le> fl_pos q"
    unfolding fl_pos_def by (rule mult_right_mono) simp
  then show ?thesis by (simp add: ue power_int_diff field_simps)
qed

lemma fl_pos_mono: "0 < x \<Longrightarrow> x \<le> y \<Longrightarrow> fl_pos x \<le> fl_pos y"
proof -
  assume x: "0 < x" and xy: "x \<le> y"
  have e: "ulp_exp x \<le> ulp_exp y" using ilog2_mono [OF x xy] by (auto simp: ulp_exp_def)
  show ?thesis
  proof (cases "ulp_exp x = ulp_exp y")
    case True
    have "round_even (x / 2 powi ulp_exp y) \<le> round_even (y / 2 powi ulp_exp y)"
      by (rule round_even_mono) (simp add: divide_right_mono xy)
    then show ?thesis unfolding fl_pos_def True by (intro mult_right_mono) simp_all
  next
    case False
    then have lt: "ulp_exp x + 1 \<le> ulp_exp y" using e by linarith
    then have ey: "-1074 \<le> ilog2 y - 52" "ulp_exp y = ilog2 y - 52" by (auto simp: ulp_exp_def)
    have "fl_pos x \<le> 2 powi (ulp_exp x + 53)" by (rule fl_pos_le_next [OF x])
    also have "(2::rat) powi (ulp_exp x + 53) \<le> 2 powi ilog2 y"
      using lt ey by (intro power_int_increasing) auto
    also have "\<dots> \<le> fl_pos y" using x xy ey(1) by (intro fl_pos_ge_binade) auto
    finally show ?thesis .
  qed
qed

lemma fl_0 [simp]: "fl 0 = 0"
  by (simp add: fl_def)

lemma fl_minus: "fl (- q) = - fl q"
  by (simp add: fl_def)

lemma fl_nonneg: "0 \<le> q \<Longrightarrow> 0 \<le> fl q"
  using fl_pos_nonneg by (simp add: fl_def)

lemma fl_mono: "x \<le> y \<Longrightarrow> fl x \<le> fl y"
proof -
  assume xy: "x \<le> y"
  consider "0 < x" | "x \<le> 0" "0 \<le> y" | "y < 0" by linarith
  then show ?thesis
  proof cases
    case 1
    then show ?thesis using fl_pos_mono [OF 1 xy] xy by (simp add: fl_def)
  next
    case 2
    then have "0 \<le> fl y" "0 \<le> fl (- x)" by (auto intro: fl_nonneg)
    then show ?thesis by (simp add: fl_minus)
  next
    case 3
    then show ?thesis using fl_pos_mono [of "- y" "- x"] xy by (simp add: fl_def)
  qed
qed

lemma fl_pos_dyadic:
  assumes n: "0 < n" "n \<le> 2 ^ 53" and e: "-1074 \<le> e"
  shows "fl_pos (of_int n * 2 powi e) = of_int n * 2 powi e"
proof -
  let ?q = "of_int n * 2 powi e :: rat"
  have q: "0 < ?q" using n(1) by simp
  have n': "(of_int n :: rat) \<le> 2 ^ 53" using n(2) by (metis of_int_le_iff of_int_numeral of_int_power)
  have "(2::rat) powi ilog2 ?q \<le> ?q" using ilog2_bounds(1) [OF q] .
  also have "?q \<le> 2 ^ 53 * 2 powi e" using n' by (intro mult_right_mono) simp_all
  also have "\<dots> = 2 powi (e + 53)" by (simp add: power_int_add)
  finally have il: "ilog2 ?q \<le> e + 53" by (simp only: powi2_le_iff)
  have exact: "fl_pos ?q = ?q" if "?q / 2 powi ulp_exp ?q = of_int k" for k
  proof -
    have "fl_pos ?q = of_int k * 2 powi ulp_exp ?q" by (simp only: fl_pos_def that round_even_of_int)
    also have "\<dots> = ?q" unfolding that [symmetric] by simp
    finally show ?thesis .
  qed
  show ?thesis
  proof (cases "ilog2 ?q = e + 53")
    case True
    then have "2 ^ 53 * 2 powi e \<le> ?q" using ilog2_bounds(1) [OF q] by (simp add: power_int_add)
    then have "(2 :: rat) ^ 53 \<le> of_int n" by (simp add: mult_le_cancel_right)
    then have "of_int n = (2 :: rat) ^ 53" using n' by (rule antisym [rotated])
    moreover have "ulp_exp ?q = e + 1" using e by (simp add: ulp_exp_def True)
    ultimately have "?q / 2 powi ulp_exp ?q = of_int (2 ^ 52)" by (simp add: power_int_add)
    then show ?thesis by (rule exact)
  next
    case False
    then have "ulp_exp ?q \<le> e" using il e by (simp add: ulp_exp_def)
    then obtain m where m: "e = ulp_exp ?q + int m" by (metis zle_iff_zadd)
    have "(2::rat) powi e / 2 powi ulp_exp ?q = 2 ^ m"
      by (subst m) (simp add: power_int_add)
    then have "of_int n * (2 powi e / 2 powi ulp_exp ?q) = (of_int (n * 2 ^ m) :: rat)" by simp
    then have "?q / 2 powi ulp_exp ?q = of_int (n * 2 ^ m)" by (simp only: times_divide_eq_right)
    then show ?thesis by (rule exact)
  qed
qed

lemma fl_pos_of_int: "0 < n \<Longrightarrow> n \<le> 2 ^ 53 \<Longrightarrow> fl_pos (of_int n) = of_int n"
  using fl_pos_dyadic [of n 0] by simp

text \<open>A rounded number is a double: rounding it again changes nothing.\<close>

lemma fl_pos_idem: "0 < q \<Longrightarrow> fl (fl_pos q) = fl_pos q"
proof -
  assume q: "0 < q"
  let ?m = "round_even (q / 2 powi ulp_exp q)"
  have "of_int ?m * 2 powi ulp_exp q \<le> (2 ^ 53 * 2 powi ulp_exp q :: rat)"
    using fl_pos_le_next [OF q] by (simp add: fl_pos_def power_int_add)
  then have "(of_int ?m :: rat) \<le> of_int (2 ^ 53)" by (simp add: mult_le_cancel_right)
  then have le: "?m \<le> 2 ^ 53" by (simp only: of_int_le_iff)
  have "0 \<le> ?m" using q by (intro round_even_ge) simp
  then consider "?m = 0" | "0 < ?m" by linarith
  then show ?thesis
  proof cases
    case 1
    then show ?thesis by (simp add: fl_pos_def)
  next
    case 2
    then have "fl_pos (of_int ?m * 2 powi ulp_exp q) = of_int ?m * 2 powi ulp_exp q"
      using le by (intro fl_pos_dyadic) (simp_all add: ulp_exp_def)
    moreover have "0 < (of_int ?m * 2 powi ulp_exp q :: rat)" using 2 by simp
    ultimately show ?thesis by (simp add: fl_def fl_pos_def [of q])
  qed
qed

lemma fl_idem [simp]: "fl (fl q) = fl q"
  using fl_pos_idem [of q] fl_pos_idem [of "- q"] by (auto simp: fl_def [of q] fl_minus)

text \<open>Integers up to \<open>2 ^ 53\<close> are doubles.\<close>

lemma fl_of_int: "\<bar>n\<bar> \<le> 2 ^ 53 \<Longrightarrow> fl (of_int n) = of_int n"
  using fl_pos_of_int [of n] fl_pos_of_int [of "- n"] by (cases "n = 0") (auto simp: fl_def)

lemma fl_numeral: "(numeral n :: int) \<le> 2 ^ 53 \<Longrightarrow> fl (numeral n) = numeral n"
  using fl_of_int [of "numeral n"] by simp

subsection \<open>What clients use of rounding\<close>

text \<open>
  A rounding that is monotone, keeps zero and the numbers it has rounded: sums of rounded non-negative terms are
  non-negative and grow, and adding a term below a bound stays below the rounded bound.
\<close>

locale rounding =
  fixes rnd :: "rat \<Rightarrow> rat"
  assumes rnd_mono: "x \<le> y \<Longrightarrow> rnd x \<le> rnd y"
    and rnd_0: "rnd 0 = 0"
    and rnd_idem: "rnd (rnd x) = rnd x"
begin

lemma rnd_nonneg: "0 \<le> x \<Longrightarrow> 0 \<le> rnd x"
  using rnd_mono rnd_0 by metis

lemma add_grows: "0 \<le> b \<Longrightarrow> rnd a \<le> rnd (rnd a + b)"
  using rnd_mono [of "rnd a" "rnd a + b"] by (simp add: rnd_idem)

lemma add_bounded: "a \<le> c \<Longrightarrow> rnd (a + b) \<le> rnd (c + b)"
  by (rule rnd_mono) simp

text \<open>The running sum of non-negative terms: never negative, never decreasing.\<close>

definition run_sum :: "rat list \<Rightarrow> rat" where
  "run_sum xs = foldl (\<lambda>s x. rnd (s + x)) 0 xs"

lemma run_sum_rounded: "rnd (run_sum xs) = run_sum xs"
  by (induction xs rule: rev_induct) (simp_all add: run_sum_def rnd_0 rnd_idem)

lemma run_sum_grows: "0 \<le> x \<Longrightarrow> run_sum xs \<le> run_sum (xs @ [x])"
  using add_grows [of x "run_sum xs"] run_sum_rounded [of xs] by (simp add: run_sum_def)

lemma run_sum_nonneg: "\<forall>x\<in>set xs. 0 \<le> x \<Longrightarrow> 0 \<le> run_sum xs"
proof (induction xs rule: rev_induct)
  case (snoc x xs)
  then show ?case using run_sum_grows [of x xs] by simp
qed (simp add: run_sum_def)

end

interpretation flr: rounding fl
  by unfold_locales (auto intro: fl_mono)

lemma fl_near: "0 < q \<Longrightarrow> q < 2 powi k \<Longrightarrow> -1021 \<le> k \<Longrightarrow> \<bar>fl q - q\<bar> \<le> 2 powi (k - 54)"
proof -
  assume q: "0 < q" "q < 2 powi k" "-1021 \<le> k"
  let ?u = "2 powi ulp_exp q :: rat"
  have "2 powi ilog2 q \<le> q" using ilog2_bounds [OF q(1)] by simp
  then have "ilog2 q < k" using q(2) powi2_less_iff by (meson le_less_trans)
  then have "ulp_exp q \<le> k - 53" using q(3) by (simp add: ulp_exp_def)
  then have u: "?u \<le> 2 powi (k - 53)" using powi2_le_iff by blast
  have "fl q - q = (of_int (round_even (q / ?u)) - q / ?u) * ?u"
    using q(1) by (simp add: fl_def fl_pos_def left_diff_distrib)
  then have "\<bar>fl q - q\<bar> = \<bar>of_int (round_even (q / ?u)) - q / ?u\<bar> * ?u"
    by (simp add: abs_mult)
  also have "\<dots> \<le> 1 / 2 * ?u" using round_even_near [of "q / ?u"] by (intro mult_right_mono) simp_all
  also have "\<dots> \<le> 1 / 2 * 2 powi (k - 53)" using u by simp
  also have "\<dots> = 2 powi (k - 54)" using powi2_Suc [of "k - 54"] by simp
  finally show ?thesis .
qed

subsection \<open>Sliding windows\<close>

text \<open>
  What the circuit breaker and the write quota share: a list of time stamps pruned at each
  operation to those after a cut-off that moves with the clock.
\<close>

locale sliding_window =
  fixes cutoff :: "rat \<Rightarrow> rat"
  assumes cutoff_mono: "s \<le> t \<Longrightarrow> cutoff s \<le> cutoff t"
begin

definition live :: "rat \<Rightarrow> rat list \<Rightarrow> rat list" where
  "live t xs = filter (\<lambda>x. cutoff t < x) xs"

lemma live_live: "s \<le> t \<Longrightarrow> live t (live s xs) = live t xs"
  unfolding live_def by (rule filter_filter_imp) (use cutoff_mono in fastforce)

lemma live_append [simp]: "live t (xs @ ys) = live t xs @ live t ys"
  by (simp add: live_def)

lemma live_anti: "s \<le> t \<Longrightarrow> length (live t xs) \<le> length (live s xs)"
  unfolding live_def by (rule filter_length_le_of_imp) (use cutoff_mono in fastforce)

lemma live_le_t: "length (filter (\<lambda>x. cutoff t < x \<and> x \<le> t) xs) \<le> length (live t xs)"
  unfolding live_def by (rule filter_length_le_of_imp) simp

end

end
