(* ===== verification/Py_String.thy ===== *)
theory Py_String
  imports Prelude Py_Float
begin

text \<open>
  The methods of Python's \<open>str\<close> the program calls. A string is the list of the bytes of its
  UTF-8 encoding, so concatenation, comparison, substring search and splitting at ASCII
  separators are the ones of the code points, and \<open>encode("utf-8")\<close> is the identity. Two
  things are those of ASCII: letters outside ASCII have no case, and \<open>strip\<close> and \<open>split\<close> know the
  ASCII white space only (\<open>int\<close> reads every digit and white space of Unicode, and the gate's
  labels are upper-cased as Unicode has it). A slice counts bytes.
\<close>

text \<open>Text outside ASCII is written by its bytes.\<close>

definition u8 :: "nat list \<Rightarrow> string" where
  "u8 ns = map char_of ns"

definition nl :: string where "nl = [CHR 0x0A]"

text \<open>The code points of UTF-8 text.\<close>

fun utf8_decode :: "nat list \<Rightarrow> nat list" where
  "utf8_decode (a # b # c # d # r) =
     (if a < 0x80 then a # utf8_decode (b # c # d # r)
      else if a < 0xE0 then ((a - 0xC0) * 64 + (b - 0x80)) # utf8_decode (c # d # r)
      else if a < 0xF0 then ((a - 0xE0) * 4096 + (b - 0x80) * 64 + (c - 0x80)) # utf8_decode (d # r)
      else ((a - 0xF0) * 262144 + (b - 0x80) * 4096 + (c - 0x80) * 64 + (d - 0x80)) # utf8_decode r)"
| "utf8_decode (a # b # c # r) =
     (if a < 0x80 then a # utf8_decode (b # c # r)
      else if a < 0xE0 then ((a - 0xC0) * 64 + (b - 0x80)) # utf8_decode (c # r)
      else [(a - 0xE0) * 4096 + (b - 0x80) * 64 + (c - 0x80)])"
| "utf8_decode (a # b # r) = (if a < 0x80 then a # utf8_decode (b # r) else [(a - 0xC0) * 64 + (b - 0x80)])"
| "utf8_decode r = r"

definition ascii_lower :: "char \<Rightarrow> char" where
  "ascii_lower c = (let n = of_char c :: nat in if 65 \<le> n \<and> n \<le> 90 then char_of (n + 32) else c)"

definition ascii_upper :: "char \<Rightarrow> char" where
  "ascii_upper c = (let n = of_char c :: nat in if 97 \<le> n \<and> n \<le> 122 then char_of (n - 32) else c)"

definition py_lower :: "string \<Rightarrow> string" where "py_lower = map ascii_lower"

definition py_upper :: "string \<Rightarrow> string" where "py_upper = map ascii_upper"

definition is_space :: "char \<Rightarrow> bool" where
  "is_space c = (let n = of_char c :: nat in (9 \<le> n \<and> n \<le> 13) \<or> (28 \<le> n \<and> n \<le> 32))"

definition is_digit :: "char \<Rightarrow> bool" where
  "is_digit c = (let n = of_char c :: nat in 48 \<le> n \<and> n \<le> 57)"

definition is_lower_char :: "char \<Rightarrow> bool" where
  "is_lower_char c = (let n = of_char c :: nat in 97 \<le> n \<and> n \<le> 122)"

definition is_upper_char :: "char \<Rightarrow> bool" where
  "is_upper_char c = (let n = of_char c :: nat in 65 \<le> n \<and> n \<le> 90)"

definition py_islower :: "string \<Rightarrow> bool" where
  "py_islower s \<longleftrightarrow> list_ex is_lower_char s \<and> \<not> list_ex is_upper_char s"

definition rstrip_when :: "(char \<Rightarrow> bool) \<Rightarrow> string \<Rightarrow> string" where
  "rstrip_when P s = rev (dropWhile P (rev s))"

definition py_strip :: "string \<Rightarrow> string" where
  "py_strip s = rstrip_when is_space (dropWhile is_space s)"

text \<open>\<open>len(s)\<close>: the characters, so the bytes that do not continue one.\<close>

definition py_len :: "string \<Rightarrow> nat" where
  "py_len s = length (filter (\<lambda>c. (of_char c :: nat) div 64 \<noteq> 2) s)"

text \<open>\<open>sub in s\<close>.\<close>

fun py_in :: "string \<Rightarrow> string \<Rightarrow> bool" where
  "py_in sub [] = (sub = [])"
| "py_in sub (c # cs) = (prefix sub (c # cs) \<or> py_in sub cs)"

text \<open>\<open>s.split(sep)\<close> for a separator of one character, and \<open>s.split(sep, 1)\<close>.\<close>

fun split_when :: "(char \<Rightarrow> bool) \<Rightarrow> string \<Rightarrow> string list" where
  "split_when P [] = [[]]"
| "split_when P (c # cs) =
     (if P c then [] # split_when P cs
      else (c # hd (split_when P cs)) # tl (split_when P cs))"

definition py_split :: "char \<Rightarrow> string \<Rightarrow> string list" where
  "py_split sep = split_when (\<lambda>c. c = sep)"

definition py_split1 :: "char \<Rightarrow> string \<Rightarrow> string list" where
  "py_split1 sep s = (if sep \<in> set s then [takeWhile (\<lambda>c. c \<noteq> sep) s, tl (dropWhile (\<lambda>c. c \<noteq> sep) s)] else [s])"

text \<open>\<open>s.split()\<close>: the maximal runs of characters that are not white space.\<close>

definition py_words :: "string \<Rightarrow> string list" where
  "py_words s = filter (\<lambda>w. w \<noteq> []) (split_when is_space s)"

fun py_join :: "string \<Rightarrow> string list \<Rightarrow> string" where
  "py_join sep [] = []"
| "py_join sep [s] = s"
| "py_join sep (s # t # ss) = s @ sep @ py_join sep (t # ss)"

text \<open>\<open>s.replace(c, r)\<close> for one character \<open>c\<close>.\<close>

definition py_replace :: "char \<Rightarrow> string \<Rightarrow> string \<Rightarrow> string" where
  "py_replace c r s = concat (map (\<lambda>x. if x = c then r else [x]) s)"

definition py_str_int :: "int \<Rightarrow> string" where
  "py_str_int n = (if n < 0 then ''-'' @ nat_digits (nat (- n)) else nat_digits (nat n))"

text \<open>
  \<open>int(s)\<close>: white space around, a sign, and digits with single underscores between them; at
  most 4300 digits (the interpreter's default limit). A text outside ASCII is first read as
  ASCII: every decimal digit of Unicode (by the zeros of their blocks, as of Python 3.11) as the
  digit it stands for, every white space as a blank.
\<close>

definition unicode_zeros :: "nat list" where
  "unicode_zeros =
     [0x660, 0x6F0, 0x7C0, 0x966, 0x9E6, 0xA66, 0xAE6, 0xB66, 0xBE6, 0xC66,
      0xCE6, 0xD66, 0xDE6, 0xE50, 0xED0, 0xF20, 0x1040, 0x1090, 0x17E0, 0x1810,
      0x1946, 0x19D0, 0x1A80, 0x1A90, 0x1B50, 0x1BB0, 0x1C40, 0x1C50, 0xA620, 0xA8D0,
      0xA900, 0xA9D0, 0xA9F0, 0xAA50, 0xABF0, 0xFF10, 0x104A0, 0x10D30, 0x11066, 0x110F0,
      0x11136, 0x111D0, 0x112F0, 0x11450, 0x114D0, 0x11650, 0x116C0, 0x11730, 0x118E0, 0x11950,
      0x11C50, 0x11D50, 0x11DA0, 0x16A60, 0x16AC0, 0x16B50, 0x1D7CE, 0x1D7D8, 0x1D7E2, 0x1D7EC,
      0x1D7F6, 0x1E140, 0x1E2F0, 0x1E950, 0x1FBF0]"

definition unicode_space :: "nat \<Rightarrow> bool" where
  "unicode_space n \<longleftrightarrow> n \<in> set [0x85, 0xA0, 0x1680, 0x2028, 0x2029, 0x202F, 0x205F, 0x3000] \<or> (0x2000 \<le> n \<and> n \<le> 0x200A)"

definition int_char :: "nat \<Rightarrow> char" where
  "int_char n =
     (if n < 127 then char_of n
      else if unicode_space n then CHR '' ''
      else case find (\<lambda>z. z \<le> n \<and> n \<le> z + 9) unicode_zeros of Some z \<Rightarrow> digit_char (n - z) | None \<Rightarrow> CHR ''?'')"

definition int_text :: "string \<Rightarrow> string" where
  "int_text s = (if list_all (\<lambda>c. of_char c < (128 :: nat)) s then s else map int_char (utf8_decode (map of_char s)))"

definition int_space :: "char \<Rightarrow> bool" where
  "int_space c = (let n = of_char c :: nat in (9 \<le> n \<and> n \<le> 13) \<or> n = 32)"

fun int_digits :: "string \<Rightarrow> bool \<Rightarrow> nat \<Rightarrow> nat option" where
  "int_digits [] prev acc = (if prev then Some acc else None)"
| "int_digits (c # cs) prev acc =
     (if is_digit c then int_digits cs True (10 * acc + digit_val c)
      else if c = CHR ''_'' \<and> prev then int_digits cs False acc
      else None)"

definition py_int :: "string \<Rightarrow> int option" where
  "py_int s =
     (let t = rstrip_when int_space (dropWhile int_space (int_text s));
          neg = (t \<noteq> [] \<and> hd t = CHR ''-'');
          body = (if t \<noteq> [] \<and> (hd t = CHR ''-'' \<or> hd t = CHR ''+'') then tl t else t)
      in if length (filter is_digit body) > 4300 then None
         else map_option (\<lambda>n. if neg then - int n else int n) (int_digits body False 0))"

text \<open>\<open>f"{x:.df}"\<close>: the exact value rounded to \<open>d\<close> decimals, ties to even.\<close>

definition py_fixed :: "nat \<Rightarrow> pyfloat \<Rightarrow> string" where
  "py_fixed d x =
     (let n = nat (round_even (\<bar>x\<bar> * 10 ^ d))
      in (if x < 0 then ''-'' else []) @ nat_digits (n div 10 ^ d) @
         (if d = 0 then [] else ''.'' @ pad_digits d (n mod 10 ^ d)))"

subsection \<open>Laws\<close>

lemma py_in_iff_sublist: "py_in sub s \<longleftrightarrow> sublist sub s"
proof (induction s)
  case (Cons c cs)
  then show ?case by (simp add: sublist_Cons_right)
qed simp

lemma py_in_append: "py_in sub (xs @ sub @ ys)"
  by (simp add: py_in_iff_sublist)

lemma py_in_trans: "py_in a b \<Longrightarrow> py_in b c \<Longrightarrow> py_in a c"
  by (simp add: py_in_iff_sublist)

lemma py_lower_append [simp]: "py_lower (xs @ ys) = py_lower xs @ py_lower ys"
  by (simp add: py_lower_def)

lemma py_lower_Nil [simp]: "py_lower [] = []"
  by (simp add: py_lower_def)

lemma length_py_lower [simp]: "length (py_lower s) = length s"
  by (simp add: py_lower_def)

lemma ascii_lower_idem [simp]: "ascii_lower (ascii_lower c) = ascii_lower c"
  by (simp add: ascii_lower_def Let_def)

lemma py_lower_idem [simp]: "py_lower (py_lower s) = py_lower s"
  by (simp add: py_lower_def)

lemma split_when_nonempty [simp]: "split_when P s \<noteq> []"
  by (induction s) auto

text \<open>An equation for evaluation, which splits the rest of the string once.\<close>

lemma split_when_code [code]:
  "split_when P [] = [[]]"
  "split_when P (c # cs) =
     (case split_when P cs of w # ws \<Rightarrow> if P c then [] # w # ws else (c # w) # ws | [] \<Rightarrow> [])"
  by (simp_all split: list.split)

lemma py_split_nonempty [simp]: "py_split c s \<noteq> []"
  by (simp add: py_split_def)

lemma split_when_no_sep: "\<forall>c\<in>set s. \<not> P c \<Longrightarrow> split_when P s = [s]"
  by (induction s) auto

lemma split_when_append:
  "\<forall>c\<in>set s. \<not> P c \<Longrightarrow> P c \<Longrightarrow> split_when P (s @ c # t) = s # split_when P t"
  by (induction s) auto

lemma split_when_pieces: "w \<in> set (split_when P s) \<Longrightarrow> \<forall>c\<in>set w. c \<in> set s \<and> \<not> P c"
proof (induction s arbitrary: w)
  case (Cons c cs)
  obtain u us where u: "split_when P cs = u # us" by (cases "split_when P cs") auto
  have IH: "\<forall>w\<in>insert u (set us). \<forall>c\<in>set w. c \<in> set cs \<and> \<not> P c"
    using Cons.IH u by auto
  show ?case
  proof (cases "P c")
    case True
    then have "w = [] \<or> w \<in> insert u (set us)" using Cons.prems u by auto
    then show ?thesis using IH by auto
  next
    case False
    then have "w = c # u \<or> w \<in> set us" using Cons.prems u by auto
    then show ?thesis using IH False by auto
  qed
qed simp

lemma is_digit_digit_char: "d < 10 \<Longrightarrow> is_digit (digit_char d)"
  by (simp add: is_digit_def digit_char_def)

lemma nat_digits_digits: "c \<in> set (nat_digits n) \<Longrightarrow> is_digit c"
proof (induction n rule: nat_digits.induct)
  case (1 n)
  then show ?case by (subst (asm) nat_digits.simps) (auto simp: is_digit_digit_char split: if_splits)
qed

lemma int_digits_of_digits:
  "\<forall>c\<in>set s. is_digit c \<Longrightarrow> s \<noteq> [] \<or> prev \<Longrightarrow> int_digits s prev acc = Some (digits_val s acc)"
  by (induction s arbitrary: prev acc) auto

lemma digit_not_space: "is_digit c \<Longrightarrow> \<not> is_space c"
  by (auto simp: is_digit_def is_space_def Let_def)

lemma digit_not_sign: "is_digit c \<Longrightarrow> c \<noteq> CHR ''-'' \<and> c \<noteq> CHR ''+'' \<and> c \<noteq> CHR '':''"
  by (auto simp: is_digit_def)

lemma py_strip_id: "\<forall>c\<in>set s. \<not> is_space c \<Longrightarrow> py_strip s = s"
proof -
  assume s: "\<forall>c\<in>set s. \<not> is_space c"
  then have "dropWhile is_space t = t" if "set t \<subseteq> set s" for t
    using that by (cases t) auto
  then show ?thesis by (simp add: py_strip_def rstrip_when_def)
qed

text \<open>Reading a natural number back that was printed.\<close>

lemma py_int_str:
  assumes "length (nat_digits n) \<le> 4300"
  shows "py_int (py_str_int (int n)) = Some (int n)"
proof -
  let ?s = "nat_digits n"
  have dig: "\<forall>c\<in>set ?s. is_digit c" using nat_digits_digits by blast
  have strip: "rstrip_when int_space (dropWhile int_space (int_text ?s)) = ?s"
  proof -
    have drop: "dropWhile int_space t = t" if "\<forall>c\<in>set t. \<not> int_space c" for t
      using that by (cases t) auto
    have "\<forall>c\<in>set ?s. \<not> int_space c" "int_text ?s = ?s"
      using dig by (auto simp: int_text_def list_all_iff is_digit_def int_space_def Let_def)
    then have "dropWhile int_space ?s = ?s" "dropWhile int_space (rev ?s) = rev ?s" "int_text ?s = ?s"
      using drop [of ?s] drop [of "rev ?s"] by simp_all
    then show ?thesis by (simp add: rstrip_when_def)
  qed
  obtain c cs where s: "?s = c # cs" by (cases ?s) auto
  then have "c \<noteq> CHR ''-''" "c \<noteq> CHR ''+''" using dig digit_not_sign [of c] by auto
  moreover have "filter is_digit ?s = ?s" using dig by simp
  moreover have "int_digits ?s False 0 = Some n"
    using dig int_digits_of_digits [of ?s False 0] by (simp add: digits_val_nat_digits)
  ultimately show ?thesis
    using assms s strip by (simp add: py_int_def py_str_int_def Let_def)
qed

lemma py_join_Cons: "ss \<noteq> [] \<Longrightarrow> py_join sep (s # ss) = s @ sep @ py_join sep ss"
  by (cases ss) auto

text \<open>Splitting what was joined gives the pieces back when no piece holds the separator.\<close>

lemma py_split_join:
  "ss \<noteq> [] \<Longrightarrow> \<forall>s\<in>set ss. c \<notin> set s \<Longrightarrow> py_split c (py_join [c] ss) = ss"
proof (induction ss)
  case (Cons s ss)
  show ?case
  proof (cases "ss = []")
    case True
    have "\<forall>x\<in>set s. x \<noteq> c" using Cons.prems by auto
    then show ?thesis using True split_when_no_sep [of s "\<lambda>x. x = c"] by (simp add: py_split_def)
  next
    case False
    have "\<forall>x\<in>set s. x \<noteq> c" using Cons.prems by auto
    then show ?thesis
      using Cons False split_when_append [of s "\<lambda>x. x = c" c]
      by (simp add: py_split_def py_join_Cons)
  qed
qed simp

end
