(* ===== verification/Exceptions.thy ===== *)
theory Exceptions
  imports Py_String
begin

text \<open>
  The values Python dictionaries of the program carry, and the exceptions of
  \<^verbatim>\<open>src/agentos/kernel/exceptions.py\<close>. An exception is a value; the subclass relation,
  the class name and \<open>str(exc)\<close> are functions of it. \<open>OtherException\<close> stands for the
  exceptions of Python's library and of \<^verbatim>\<open>sop_engine.py\<close> that are not in the hierarchy, by
  class name and text.
\<close>

datatype pyval =
    PNone
  | PBool bool
  | PInt int
  | PFloat pyfloat
  | PStr string
  | PList "pyval list"
  | PDict "(string \<times> pyval) list"

text \<open>The truth value of a Python object.\<close>

fun py_truth :: "pyval \<Rightarrow> bool" where
  "py_truth PNone = False"
| "py_truth (PBool b) = b"
| "py_truth (PInt n) = (n \<noteq> 0)"
| "py_truth (PFloat x) = (x \<noteq> 0)"
| "py_truth (PStr s) = (s \<noteq> [])"
| "py_truth (PList xs) = (xs \<noteq> [])"
| "py_truth (PDict d) = (d \<noteq> [])"

text \<open>\<open>d.get(k)\<close> and \<open>d.get(k, default)\<close>.\<close>

definition py_get :: "(string \<times> pyval) list \<Rightarrow> string \<Rightarrow> pyval \<Rightarrow> pyval" where
  "py_get d k v = (case map_of d k of Some x \<Rightarrow> x | None \<Rightarrow> v)"

definition py_opt_str :: "string option \<Rightarrow> pyval" where
  "py_opt_str s = (case s of None \<Rightarrow> PNone | Some t \<Rightarrow> PStr t)"

datatype exn =
    AgentOSException string
  | KernelException string
  | ConfigError string
  | AdapterError string
  | GovernanceError string
  | SHACLValidationError string pyval
  | WriteGateError string
  | PolicyViolationError string
  | Neo4jConnectionError string
  | SandboxError string "string option"
  | SecurityInterceptError string "string option" string
  | BillingFuseTrippedError string pyfloat pyfloat
  | CircuitBreakerOpenError string "string option"
  | OtherException string string

text \<open>
  The constructors of the source with their default arguments; an empty validation report
  is replaced by \<open>{}\<close>.
\<close>

definition new_SHACLValidationError :: "string \<Rightarrow> pyval \<Rightarrow> exn" where
  "new_SHACLValidationError message report =
     SHACLValidationError message (if py_truth report then report else PDict [])"

fun is_AgentOSException :: "exn \<Rightarrow> bool" where
  "is_AgentOSException (OtherException _ _) = False"
| "is_AgentOSException _ = True"

fun is_GovernanceError :: "exn \<Rightarrow> bool" where
  "is_GovernanceError (GovernanceError _) = True"
| "is_GovernanceError (SHACLValidationError _ _) = True"
| "is_GovernanceError (WriteGateError _) = True"
| "is_GovernanceError _ = False"

fun is_WriteGateError :: "exn \<Rightarrow> bool" where
  "is_WriteGateError (WriteGateError _) = True"
| "is_WriteGateError _ = False"

fun is_PolicyViolationError :: "exn \<Rightarrow> bool" where
  "is_PolicyViolationError (PolicyViolationError _) = True"
| "is_PolicyViolationError _ = False"

fun class_name :: "exn \<Rightarrow> string" where
  "class_name (AgentOSException _) = ''AgentOSException''"
| "class_name (KernelException _) = ''KernelException''"
| "class_name (ConfigError _) = ''ConfigError''"
| "class_name (AdapterError _) = ''AdapterError''"
| "class_name (GovernanceError _) = ''GovernanceError''"
| "class_name (SHACLValidationError _ _) = ''SHACLValidationError''"
| "class_name (WriteGateError _) = ''WriteGateError''"
| "class_name (PolicyViolationError _) = ''PolicyViolationError''"
| "class_name (Neo4jConnectionError _) = ''Neo4jConnectionError''"
| "class_name (SandboxError _ _) = ''SandboxError''"
| "class_name (SecurityInterceptError _ _ _) = ''SecurityInterceptError''"
| "class_name (BillingFuseTrippedError _ _ _) = ''BillingFuseTrippedError''"
| "class_name (CircuitBreakerOpenError _ _) = ''CircuitBreakerOpenError''"
| "class_name (OtherException c _) = c"

text \<open>\<open>str(exc)\<close>: the message the constructor passed to \<open>Exception\<close>.\<close>

fun exn_str :: "exn \<Rightarrow> string" where
  "exn_str (AgentOSException m) = m"
| "exn_str (KernelException m) = m"
| "exn_str (ConfigError m) = m"
| "exn_str (AdapterError m) = m"
| "exn_str (GovernanceError m) = m"
| "exn_str (SHACLValidationError m _) = m"
| "exn_str (WriteGateError m) = m"
| "exn_str (PolicyViolationError m) = m"
| "exn_str (Neo4jConnectionError m) = m"
| "exn_str (SandboxError m _) = m"
| "exn_str (SecurityInterceptError m _ _) = m"
| "exn_str (BillingFuseTrippedError m _ _) = m"
| "exn_str (CircuitBreakerOpenError m _) = m"
| "exn_str (OtherException _ m) = m"

text \<open>\<open>getattr(exc, "trigger", None)\<close> and \<open>getattr(exc, "severity", "unknown")\<close>.\<close>

fun exn_trigger :: "exn \<Rightarrow> string option" where
  "exn_trigger (SecurityInterceptError _ t _) = t"
| "exn_trigger _ = None"

fun exn_severity :: "exn \<Rightarrow> string" where
  "exn_severity (SecurityInterceptError _ _ s) = s"
| "exn_severity _ = ''unknown''"

text \<open>The name of a value's type, and the \<open>AttributeError\<close> for a method it does not have.\<close>

fun py_type_name :: "pyval \<Rightarrow> string" where
  "py_type_name PNone = ''NoneType''"
| "py_type_name (PBool _) = ''bool''"
| "py_type_name (PInt _) = ''int''"
| "py_type_name (PFloat _) = ''float''"
| "py_type_name (PStr _) = ''str''"
| "py_type_name (PList _) = ''list''"
| "py_type_name (PDict _) = ''dict''"

definition no_attribute :: "pyval \<Rightarrow> string \<Rightarrow> exn" where
  "no_attribute v a = OtherException ''AttributeError''
     ([CHR 0x27] @ py_type_name v @ [CHR 0x27] @ '' object has no attribute '' @ [CHR 0x27] @ a @ [CHR 0x27])"

lemma is_WriteGateError_Governance: "is_WriteGateError e \<Longrightarrow> is_GovernanceError e"
  by (cases e) auto

lemma is_GovernanceError_AgentOS: "is_GovernanceError e \<Longrightarrow> is_AgentOSException e"
  by (cases e) auto

lemma is_PolicyViolationError_iff: "is_PolicyViolationError e \<longleftrightarrow> (\<exists>m. e = PolicyViolationError m)"
  by (cases e) auto

lemma is_WriteGateError_iff: "is_WriteGateError e \<longleftrightarrow> (\<exists>m. e = WriteGateError m)"
  by (cases e) auto

end
