(* ===== verification/Security_Dimensions.thy ===== *)
theory Security_Dimensions
  imports Exceptions
begin

text \<open>
  The two security spans of \<^verbatim>\<open>src/agentos/observability/security_dimensions.py\<close>. The tracer
  is OpenTelemetry's: a function that accepts a finished span or raises. The helpers catch
  every exception, so what they return is the list of spans the tracer kept.
\<close>

record span =
  span_name :: string
  span_attributes :: "(string \<times> pyval) list"
  span_status :: "string \<times> string"

type_synonym tracer = "span \<Rightarrow> exn + unit"

definition emitted :: "tracer \<Rightarrow> span \<Rightarrow> span list" where
  "emitted tracer s = (case tracer s of Inl _ \<Rightarrow> [] | Inr _ \<Rightarrow> [s])"

definition emit_security_intercept_span :: "tracer \<Rightarrow> exn \<Rightarrow> string \<Rightarrow> span list" where
  "emit_security_intercept_span tracer error input_type =
     emitted tracer \<lparr>span_name = ''security.intercept'',
       span_attributes =
         [(''security.intercept.event.type'', PStr ''intercept''),
          (''security.intercept.event.input_type'', PStr input_type)] @
         (case exn_trigger error of
            Some t \<Rightarrow> (if t \<noteq> [] then [(''security.intercept.event.trigger'', PStr (take 256 t))] else [])
          | None \<Rightarrow> []) @
         [(''security.intercept.event.severity'', PStr (exn_severity error))],
       span_status = (''ERROR'', take 512 (exn_str error))\<rparr>"

text \<open>
  The attribute of one field of the first violation: set when the field is there and not
  empty. The violations are the dictionaries \<open>SHACLValidator\<close> builds, whose fields are
  strings or \<open>None\<close>.
\<close>

definition result_attribute :: "(string \<times> pyval) list \<Rightarrow> string \<Rightarrow> string \<Rightarrow> nat option \<Rightarrow> (string \<times> pyval) list" where
  "result_attribute first fld key limit =
     (case py_get first fld PNone of
        PStr s \<Rightarrow> (if s \<noteq> [] then [(key, PStr (case limit of Some n \<Rightarrow> take n s | None \<Rightarrow> s))] else [])
      | _ \<Rightarrow> [])"

definition emit_shacl_validation_error_span :: "tracer \<Rightarrow> string \<Rightarrow> (string \<times> pyval) list list \<Rightarrow> span list" where
  "emit_shacl_validation_error_span tracer domain results =
     emitted tracer \<lparr>span_name = ''shacl.validation_error'',
       span_attributes =
         [(''shacl.validation_error.event.domain'', PStr domain),
          (''shacl.validation_error.event.violation_count'', PInt (int (length results)))] @
         (case results of
            [] \<Rightarrow> []
          | first # _ \<Rightarrow>
              result_attribute first ''focusNode'' ''shacl.validation_error.event.focus_node'' (Some 256) @
              result_attribute first ''resultPath'' ''shacl.validation_error.event.result_path'' (Some 256) @
              result_attribute first ''resultMessage'' ''shacl.validation_error.event.message'' (Some 512) @
              result_attribute first ''severity'' ''shacl.validation_error.event.result_severity'' None),
       span_status = (''ERROR'', ''SHACL validation failed for domain '' @ [CHR 0x27] @ domain @ [CHR 0x27] @
         '': '' @ py_str_int (int (length results)) @ '' violation(s)'')\<rparr>"

lemma emitted_le1 [simp]: "length (emitted tr s) \<le> Suc 0"
  by (simp add: emitted_def split: sum.split)

lemma emit_spans_le1 [simp]:
  "length (emit_security_intercept_span tr e it) \<le> Suc 0"
  "length (emit_shacl_validation_error_span tr d rs) \<le> Suc 0"
  by (simp_all add: emit_security_intercept_span_def emit_shacl_validation_error_span_def)

end
