(* ===== verification/Regex.thy ===== *)
theory Regex
  imports Py_String
begin

text \<open>
  The part of Python's \<open>re\<close> the firewall uses: backtracking matching and \<open>finditer\<close>. The
  repetitions of the program's patterns are greedy and over a character class. \<open>rmatch\<close>
  gives what is left of the text after each match at its start, in the order the
  backtracking engine tries them; \<open>lang\<close> is the set of texts a pattern describes, and the
  lemmas show that the engine finds a match exactly where the text has one.
\<close>

datatype rx =
    REps
  | RChr "char \<Rightarrow> bool"
  | RSeq rx rx
  | RAlt rx rx
  | RStar "char \<Rightarrow> bool"

definition ROpt :: "rx \<Rightarrow> rx" where "ROpt r = RAlt r REps"

definition RPlus :: "(char \<Rightarrow> bool) \<Rightarrow> rx" where "RPlus P = RSeq (RChr P) (RStar P)"

text \<open>A literal text, with \<open>(?i)\<close> or without, and a sequence of patterns.\<close>

fun rseq :: "rx list \<Rightarrow> rx" where
  "rseq [] = REps"
| "rseq (r # rs) = RSeq r (rseq rs)"

fun ralt :: "rx list \<Rightarrow> rx" where
  "ralt [] = RChr (\<lambda>_. False)"
| "ralt [r] = r"
| "ralt (r # s # rs) = RAlt r (ralt (s # rs))"

definition rlit :: "string \<Rightarrow> rx" where
  "rlit s = rseq (map (\<lambda>c. RChr (\<lambda>x. x = c)) s)"

definition rlit_i :: "string \<Rightarrow> rx" where
  "rlit_i s = rseq (map (\<lambda>c. RChr (\<lambda>x. ascii_lower x = ascii_lower c)) s)"

fun star_rests :: "(char \<Rightarrow> bool) \<Rightarrow> string \<Rightarrow> string list" where
  "star_rests P [] = [[]]"
| "star_rests P (c # cs) = (if P c then star_rests P cs @ [c # cs] else [c # cs])"

fun rmatch :: "rx \<Rightarrow> string \<Rightarrow> string list" where
  "rmatch REps s = [s]"
| "rmatch (RChr P) s = (case s of [] \<Rightarrow> [] | c # cs \<Rightarrow> if P c then [cs] else [])"
| "rmatch (RSeq a b) s = concat (map (rmatch b) (rmatch a s))"
| "rmatch (RAlt a b) s = rmatch a s @ rmatch b s"
| "rmatch (RStar P) s = star_rests P s"

subsection \<open>The engine against the language\<close>

fun lang :: "rx \<Rightarrow> string set" where
  "lang REps = {[]}"
| "lang (RChr P) = {w. \<exists>c. w = [c] \<and> P c}"
| "lang (RSeq a b) = {w. \<exists>u v. w = u @ v \<and> u \<in> lang a \<and> v \<in> lang b}"
| "lang (RAlt a b) = lang a \<union> lang b"
| "lang (RStar P) = {w. \<forall>c\<in>set w. P c}"

lemma star_rests_iff: "r \<in> set (star_rests P s) \<longleftrightarrow> (\<exists>w. s = w @ r \<and> (\<forall>c\<in>set w. P c))"
proof (induction s)
  case (Cons c cs)
  show ?case
  proof
    assume "r \<in> set (star_rests P (c # cs))"
    then consider "r = c # cs" | "P c" "r \<in> set (star_rests P cs)" by (auto split: if_splits)
    then show "\<exists>w. c # cs = w @ r \<and> (\<forall>c\<in>set w. P c)"
    proof cases
      case 2
      then obtain w where "cs = w @ r" "\<forall>c\<in>set w. P c" using Cons.IH by blast
      then show ?thesis using 2(1) by (intro exI [of _ "c # w"]) simp
    qed simp
  next
    assume "\<exists>w. c # cs = w @ r \<and> (\<forall>c\<in>set w. P c)"
    then obtain w where w: "c # cs = w @ r" "\<forall>c\<in>set w. P c" by blast
    show "r \<in> set (star_rests P (c # cs))"
    proof (cases w)
      case Nil
      then show ?thesis using w by auto
    next
      case (Cons d v)
      then have "r \<in> set (star_rests P cs)" using w Cons.IH by auto
      then show ?thesis using w Cons by simp
    qed
  qed
qed auto

theorem rmatch_iff: "r \<in> set (rmatch x s) \<longleftrightarrow> (\<exists>w. s = w @ r \<and> w \<in> lang x)"
proof (induction x arbitrary: s r)
  case (RChr P)
  then show ?case by (cases s) auto
next
  case (RSeq a b)
  have "r \<in> set (rmatch (RSeq a b) s) \<longleftrightarrow> (\<exists>t. t \<in> set (rmatch a s) \<and> r \<in> set (rmatch b t))"
    by auto
  also have "\<dots> \<longleftrightarrow> (\<exists>u v. s = u @ v @ r \<and> u \<in> lang a \<and> v \<in> lang b)"
    using RSeq by auto
  also have "\<dots> \<longleftrightarrow> (\<exists>w. s = w @ r \<and> w \<in> lang (RSeq a b))"
    by simp (metis append.assoc)
  finally show ?case .
next
  case (RStar P)
  show ?case using star_rests_iff [of r P s] by simp
qed auto

lemma rmatch_suffix: "r \<in> set (rmatch x s) \<Longrightarrow> suffix r s"
  by (auto simp: rmatch_iff suffix_def)

lemma rmatch_nonempty_iff: "rmatch x s \<noteq> [] \<longleftrightarrow> (\<exists>w r. s = w @ r \<and> w \<in> lang x)"
proof -
  have "rmatch x s \<noteq> [] \<longleftrightarrow> (\<exists>r. r \<in> set (rmatch x s))" by (metis ex_in_conv set_empty)
  then show ?thesis unfolding rmatch_iff by blast
qed

subsection \<open>finditer\<close>

text \<open>
  The scanner: at each position the first alternative counts; after an empty match the next
  one must not be empty at the same position.
\<close>

function finditer :: "rx \<Rightarrow> bool \<Rightarrow> string \<Rightarrow> string list" where
  "finditer x adv s =
     (case find (\<lambda>r. adv \<longrightarrow> r \<noteq> s) (rmatch x s) of
        Some r \<Rightarrow> take (length s - length r) s # finditer x (r = s) r
      | None \<Rightarrow> (case s of [] \<Rightarrow> [] | c # cs \<Rightarrow> finditer x False cs))"
  by pat_completeness auto
termination
proof (relation "measure (\<lambda>(x, adv, s). 2 * length s + (if adv then 0 else 1))", goal_cases)
  case (3 x adv s r)
  then have "r \<in> set (rmatch x s)" and "adv \<longrightarrow> r \<noteq> s" by (auto simp: find_Some_iff)
  then have "suffix r s" "adv \<longrightarrow> r \<noteq> s" using rmatch_suffix by auto
  then obtain zs where "s = zs @ r" "adv \<longrightarrow> zs \<noteq> []" by (auto simp: suffix_def)
  then show ?case by (cases zs) auto
qed auto

declare finditer.simps [simp del]

definition matches_in :: "rx \<Rightarrow> string \<Rightarrow> string list" where
  "matches_in x s = finditer x False s"

lemma finditer_complete: "finditer x False s = [] \<Longrightarrow> suffix t s \<Longrightarrow> rmatch x t = []"
proof (induction "length s" arbitrary: s)
  case 0
  then have t: "t = []" "s = []" by auto
  then show ?case using 0(2)
    by (subst (asm) finditer.simps) (auto simp: find_None_iff split: option.splits intro: ccontr)
next
  case (Suc n)
  then obtain c cs where s: "s = c # cs" by (cases s) auto
  have none: "rmatch x s = []" and rest: "finditer x False cs = []"
    using Suc.prems(1) s
    by (subst (asm) finditer.simps, force simp: find_None_iff split: option.splits intro: ccontr)+
  show ?case
  proof (cases "t = s")
    case False
    then have "suffix t cs" using Suc.prems(2) s by (auto simp: suffix_Cons)
    then show ?thesis using Suc.hyps(1) [of cs] Suc.hyps(2) s rest by simp
  qed (use none in simp)
qed

lemma finditer_sound: "w \<in> set (finditer x adv s) \<Longrightarrow> w \<in> lang x \<and> sublist w s"
proof (induction x adv s rule: finditer.induct)
  case (1 x adv s)
  show ?case
  proof (cases "find (\<lambda>r. adv \<longrightarrow> r \<noteq> s) (rmatch x s)")
    case (Some r)
    then have "r \<in> set (rmatch x s)" by (auto simp: find_Some_iff)
    then obtain u where u: "s = u @ r" "u \<in> lang x" by (auto simp: rmatch_iff)
    have "w = u \<or> w \<in> set (finditer x (r = s) r)"
      using "1.prems" Some u by (subst (asm) finditer.simps) auto
    then show ?thesis
    proof
      assume "w \<in> set (finditer x (r = s) r)"
      then have "w \<in> lang x \<and> sublist w r" using "1.IH"(2) [OF Some] by blast
      then show ?thesis using u(1) by (simp add: sublist_appendI sublist_append)
    qed (use u in simp)
  next
    case None
    then obtain c cs where s: "s = c # cs" "w \<in> set (finditer x False cs)"
      using "1.prems" by (subst (asm) finditer.simps) (cases s, auto)
    then have "w \<in> lang x \<and> sublist w cs" using "1.IH"(1) [OF None] by blast
    then show ?thesis using s(1) by (simp add: sublist_Cons_right)
  qed
qed

text \<open>The scanner finds something exactly when some part of the text is in the language.\<close>

theorem matches_in_iff: "matches_in x s \<noteq> [] \<longleftrightarrow> (\<exists>w\<in>lang x. py_in w s)"
proof
  assume "matches_in x s \<noteq> []"
  then obtain w where "w \<in> set (finditer x False s)" by (metis matches_in_def list.set_sel(1))
  then show "\<exists>w\<in>lang x. py_in w s" using finditer_sound py_in_iff_sublist by blast
next
  assume "\<exists>w\<in>lang x. py_in w s"
  then obtain u w v where "s = u @ w @ v" "w \<in> lang x"
    by (auto simp: py_in_iff_sublist sublist_def)
  then have "suffix (w @ v) s" "rmatch x (w @ v) \<noteq> []"
    by (auto simp: suffix_def rmatch_nonempty_iff)
  then show "matches_in x s \<noteq> []" using finditer_complete unfolding matches_in_def by blast
qed

lemma matches_in_sound: "w \<in> set (matches_in x s) \<Longrightarrow> w \<in> lang x \<and> py_in w s"
  using finditer_sound by (simp add: matches_in_def py_in_iff_sublist)

subsection \<open>Languages of the building blocks\<close>

lemma lang_rseq_Cons: "w \<in> lang (rseq (r # rs)) \<longleftrightarrow> (\<exists>u v. w = u @ v \<and> u \<in> lang r \<and> v \<in> lang (rseq rs))"
  by simp

lemma lang_chr_seq: "w \<in> lang (RSeq (RChr P) r) \<longleftrightarrow> (\<exists>d v. w = d # v \<and> P d \<and> v \<in> lang r)"
proof
  assume "\<exists>d v. w = d # v \<and> P d \<and> v \<in> lang r"
  then obtain d v where "w = [d] @ v" "P d" "v \<in> lang r" by auto
  then show "w \<in> lang (RSeq (RChr P) r)"
    unfolding lang.simps mem_Collect_eq by blast
qed auto

lemma lang_rlit_i: "w \<in> lang (rlit_i s) \<longleftrightarrow> py_lower w = py_lower s"
proof (induction s arbitrary: w)
  case (Cons c s)
  have "w \<in> lang (rlit_i (c # s)) \<longleftrightarrow>
    (\<exists>d v. w = d # v \<and> ascii_lower d = ascii_lower c \<and> v \<in> lang (rlit_i s))"
    by (simp add: rlit_i_def lang_chr_seq del: lang.simps)
  then show ?case using Cons by (cases w) (auto simp: py_lower_def)
qed (auto simp: rlit_i_def py_lower_def)

lemma lang_rlit: "w \<in> lang (rlit s) \<longleftrightarrow> w = s"
proof (induction s arbitrary: w)
  case (Cons c s)
  have "w \<in> lang (rlit (c # s)) \<longleftrightarrow> (\<exists>v. w = c # v \<and> v \<in> lang (rlit s))"
    by (simp add: rlit_def lang_chr_seq del: lang.simps)
  then show ?case using Cons by auto
qed (auto simp: rlit_def)

lemma lang_ROpt [simp]: "lang (ROpt r) = lang r \<union> {[]}"
  by (simp add: ROpt_def)

end
