(* ===== verification/Py_Json.thy ===== *)
theory Py_Json
  imports Exceptions
begin

text \<open>
  The two printers of Python values the program uses: \<open>json.dumps\<close> (with and without
  \<open>ensure_ascii\<close>, keys in their order) and \<open>str\<close>/\<open>repr\<close>. Strings are UTF-8 bytes, so
  \<open>ensure_ascii\<close> decodes them first. \<open>repr\<close> takes every character outside ASCII as
  printable. A float prints the shortest decimal that reads back as the same double.
\<close>

subsection \<open>Floats\<close>

text \<open>The decimal exponent of a positive number, searching up to the fuel below one.\<close>

fun neg_exp10 :: "nat \<Rightarrow> rat \<Rightarrow> int" where
  "neg_exp10 0 q = 0"
| "neg_exp10 (Suc n) q = (if 1 \<le> q then 0 else neg_exp10 n (10 * q) - 1)"

definition exp10 :: "rat \<Rightarrow> int" where
  "exp10 q = (if 1 \<le> q then int (length (nat_digits (nat \<lfloor>q\<rfloor>))) - 1 else neg_exp10 400 q)"

text \<open>The candidates with \<open>n\<close> digits are the two decimals around \<open>q\<close>.\<close>

definition short_digits :: "rat \<Rightarrow> nat \<Rightarrow> int option" where
  "short_digits q n =
     (let u = 10 powi (exp10 q - int n + 1) :: rat;
          lo = \<lfloor>q / u\<rfloor>;
          ok = (\<lambda>d. fl (of_int d * u) = q)
      in if ok lo \<and> (\<not> ok (lo + 1) \<or> q - of_int lo * u \<le> of_int (lo + 1) * u - q) then Some lo
         else if ok (lo + 1) then Some (lo + 1) else None)"

fun shortest :: "rat \<Rightarrow> nat \<Rightarrow> nat list \<Rightarrow> nat \<times> int" where
  "shortest q dflt [] = (dflt, (case short_digits q dflt of Some d \<Rightarrow> d | None \<Rightarrow> 0))"
| "shortest q dflt (n # ns) = (case short_digits q n of Some d \<Rightarrow> (n, d) | None \<Rightarrow> shortest q dflt ns)"

definition float_repr :: "pyfloat \<Rightarrow> string" where
  "float_repr x =
     (if x = 0 then ''0.0''
      else let q = \<bar>x\<bar>;
               nd = shortest q 17 [1..<17];
               e0 = exp10 q - int (fst nd) + 1;
               ds = nat_digits (nat (snd nd));
               digs = rstrip_when (\<lambda>c. c = CHR ''0'') ds;
               e = e0 + int (length ds) - 1;
               body =
                 (if -4 \<le> e \<and> e < 16 then
                    (if e < 0 then ''0.'' @ replicate (nat (- e) - 1) (CHR ''0'') @ digs
                     else if nat e + 1 < length digs then take (nat e + 1) digs @ ''.'' @ drop (nat e + 1) digs
                     else digs @ replicate (nat e + 1 - length digs) (CHR ''0'') @ ''.0'')
                  else take 1 digs @ (if length digs = 1 then [] else ''.'' @ drop 1 digs) @ ''e'' @
                    (if e < 0 then ''-'' else ''+'') @
                    (if \<bar>e\<bar> < 10 then ''0'' else []) @ nat_digits (nat \<bar>e\<bar>))
           in (if x < 0 then ''-'' else []) @ body)"

subsection \<open>json.dumps\<close>

definition hex_char :: "nat \<Rightarrow> char" where
  "hex_char d = (if d < 10 then char_of (48 + d) else char_of (87 + d))"

definition hex4 :: "nat \<Rightarrow> string" where
  "hex4 n = map hex_char [n div 4096 mod 16, n div 256 mod 16, n div 16 mod 16, n mod 16]"

text \<open>The escapes of one code point that both modes share, by its number.\<close>

definition json_short_escape :: "nat \<Rightarrow> string option" where
  "json_short_escape n =
     map_of [(0x22, [CHR 0x5C, CHR 0x22]), (0x5C, [CHR 0x5C, CHR 0x5C]), (0x0A, CHR 0x5C # ''n''),
             (0x0D, CHR 0x5C # ''r''), (0x09, CHR 0x5C # ''t''), (0x0C, CHR 0x5C # ''f''), (0x08, CHR 0x5C # ''b'')] n"

definition json_ascii_char :: "nat \<Rightarrow> string" where
  "json_ascii_char n =
     (case json_short_escape n of
        Some s \<Rightarrow> s
      | None \<Rightarrow> if 0x20 \<le> n \<and> n \<le> 0x7E then [char_of n]
          else if n < 0x10000 then CHR 0x5C # ''u'' @ hex4 n
          else (let m = n - 0x10000 in
            CHR 0x5C # ''u'' @ hex4 (0xD800 + m div 0x400) @ CHR 0x5C # ''u'' @ hex4 (0xDC00 + m mod 0x400)))"

definition json_raw_char :: "char \<Rightarrow> string" where
  "json_raw_char c =
     (case json_short_escape (of_char c) of
        Some s \<Rightarrow> s
      | None \<Rightarrow> if of_char c < (0x20 :: nat) then CHR 0x5C # ''u'' @ hex4 (of_char c) else [c])"

definition json_string :: "bool \<Rightarrow> string \<Rightarrow> string" where
  "json_string ensure_ascii s =
     CHR 0x22 # (if ensure_ascii then concat (map json_ascii_char (utf8_decode (map of_char s)))
                 else concat (map json_raw_char s)) @ [CHR 0x22]"

text \<open>
  \<open>isep\<close> and \<open>ksep\<close> are the separators: \<open>(", ", ": ")\<close> by default.
\<close>

fun json_dumps :: "bool \<Rightarrow> string \<Rightarrow> string \<Rightarrow> pyval \<Rightarrow> string" where
  "json_dumps a isep ksep PNone = ''null''"
| "json_dumps a isep ksep (PBool b) = (if b then ''true'' else ''false'')"
| "json_dumps a isep ksep (PInt n) = py_str_int n"
| "json_dumps a isep ksep (PFloat x) = float_repr x"
| "json_dumps a isep ksep (PStr s) = json_string a s"
| "json_dumps a isep ksep (PList xs) = ''['' @ py_join isep (map (json_dumps a isep ksep) xs) @ '']''"
| "json_dumps a isep ksep (PDict d) =
     ''{'' @ py_join isep (map (\<lambda>(k, v). json_string a k @ ksep @ json_dumps a isep ksep v) d) @ ''}''"

subsection \<open>str and repr\<close>

definition repr_char :: "char \<Rightarrow> char \<Rightarrow> string" where
  "repr_char q c =
     (if c = q \<or> c = CHR 0x5C then [CHR 0x5C, c]
      else if c = CHR 0x0A then CHR 0x5C # ''n''
      else if c = CHR 0x0D then CHR 0x5C # ''r''
      else if c = CHR 0x09 then CHR 0x5C # ''t''
      else if of_char c < (0x20 :: nat) \<or> c = CHR 0x7F
      then CHR 0x5C # ''x'' @ drop 2 (hex4 (of_char c))
      else [c])"

definition repr_str :: "string \<Rightarrow> string" where
  "repr_str s =
     (let q = (if CHR 0x27 \<in> set s \<and> CHR 0x22 \<notin> set s then CHR 0x22 else CHR 0x27)
      in [q] @ concat (map (repr_char q) s) @ [q])"

fun py_repr :: "pyval \<Rightarrow> string" where
  "py_repr PNone = ''None''"
| "py_repr (PBool b) = (if b then ''True'' else ''False'')"
| "py_repr (PInt n) = py_str_int n"
| "py_repr (PFloat x) = float_repr x"
| "py_repr (PStr s) = repr_str s"
| "py_repr (PList xs) = ''['' @ py_join '', '' (map py_repr xs) @ '']''"
| "py_repr (PDict d) = ''{'' @ py_join '', '' (map (\<lambda>(k, v). repr_str k @ '': '' @ py_repr v) d) @ ''}''"

fun py_str :: "pyval \<Rightarrow> string" where
  "py_str (PStr s) = s"
| "py_str v = py_repr v"

end
