(* ===== verification/Circuit_Breaker.thy ===== *)
theory Circuit_Breaker
  imports Py_Json "HOL-Library.List_Lexorder"
begin

text \<open>
  The retry-dedup circuit breaker, \<^verbatim>\<open>src/agentos/security/circuit_breaker.py\<close>. The two
  dictionaries are association lists in insertion order; \<open>time.time()\<close> is an argument of each
  operation, one per reading. The parameter values are strings or \<open>None\<close>, which is what the
  kernel passes. SHA-256 and numpy are the parameter \<open>lib\<close>: \<open>np.random.RandomState\<close> with its
  draws, \<open>np.linalg.norm\<close> and \<open>np.dot\<close>; the vector they fill is computed here.
\<close>

record 'r cb_lib =
  sha256_hex :: "string \<Rightarrow> string"
  RandomState :: "nat \<Rightarrow> 'r"
  randint :: "'r \<Rightarrow> nat \<Rightarrow> nat \<times> 'r"
  np_rand :: "'r \<Rightarrow> pyfloat \<times> 'r"
  np_norm :: "pyfloat list \<Rightarrow> pyfloat"
  np_dot :: "pyfloat list \<Rightarrow> pyfloat list \<Rightarrow> pyfloat"

type_synonym cb_params = "(string \<times> string option) list"

record request_signature =
  sig_tool_name :: string
  sig_parameters_hash :: string
  sig_parameter_vector :: "pyfloat list option"

record failure_record =
  fr_signature :: request_signature
  fr_timestamp :: pyfloat
  fr_error_type :: string

record circuit_breaker_config =
  window_seconds :: int
  failure_threshold :: int
  similarity_threshold :: pyfloat
  max_vector_size :: nat

definition default_circuit_breaker_config :: circuit_breaker_config where
  "default_circuit_breaker_config =
     \<lparr>window_seconds = 300, failure_threshold = 3, similarity_threshold = fl (85 / 100), max_vector_size = 128\<rparr>"

record circuit_breaker =
  cb_config :: circuit_breaker_config
  cb_failures :: "(string \<times> failure_record list) list"
  cb_open_circuits :: "(string \<times> pyfloat) list"

definition new_CircuitBreaker :: "circuit_breaker_config \<Rightarrow> circuit_breaker" where
  "new_CircuitBreaker config = \<lparr>cb_config = config, cb_failures = [], cb_open_circuits = []\<rparr>"

subsection \<open>Signatures\<close>

definition hex_digit_val :: "char \<Rightarrow> nat" where
  "hex_digit_val c = (if is_digit c then of_char c - 48 else of_char c - 87)"

definition hex_int :: "string \<Rightarrow> nat" where
  "hex_int s = fold (\<lambda>c n. 16 * n + hex_digit_val c) s 0"

definition feature_seed :: "'r cb_lib \<Rightarrow> string \<Rightarrow> nat" where
  "feature_seed lib s = hex_int (take 8 (sha256_hex lib s))"

definition bump :: "pyfloat list \<Rightarrow> nat \<Rightarrow> pyfloat \<Rightarrow> pyfloat list" where
  "bump vec idx d = vec[idx := fadd (vec ! idx) d]"

text \<open>Three draws of a position and a sign.\<close>

fun draw_slots :: "'r cb_lib \<Rightarrow> nat \<Rightarrow> nat \<Rightarrow> 'r \<Rightarrow> pyfloat list \<Rightarrow> pyfloat list" where
  "draw_slots lib sz 0 rng vec = vec"
| "draw_slots lib sz (Suc n) rng vec =
     (let (idx, rng1) = randint lib rng sz;
          (r, rng2) = np_rand lib rng1
      in draw_slots lib sz n rng2 (bump vec idx (if r > 1 / 2 then 1 else -1)))"

definition value_feature :: "'r cb_lib \<Rightarrow> nat \<Rightarrow> string \<times> string option \<Rightarrow> pyfloat list \<Rightarrow> pyfloat list" where
  "value_feature lib sz kv vec =
     (case snd kv of
        None \<Rightarrow> vec
      | Some v \<Rightarrow> draw_slots lib sz 3 (RandomState lib (feature_seed lib (fst kv @ ''='' @ v))) vec)"

definition key_feature :: "'r cb_lib \<Rightarrow> nat \<Rightarrow> string \<times> string option \<Rightarrow> pyfloat list \<Rightarrow> pyfloat list" where
  "key_feature lib sz kv vec =
     bump vec (fst (randint lib (RandomState lib (feature_seed lib (fst kv))) sz)) (1 / 2)"

definition sorted_items :: "cb_params \<Rightarrow> cb_params" where
  "sorted_items params = sort_key fst params"

definition parameters_to_vector :: "'r cb_lib \<Rightarrow> circuit_breaker_config \<Rightarrow> cb_params \<Rightarrow> pyfloat list" where
  "parameters_to_vector lib cfg params =
     (let sz = max_vector_size cfg;
          items = sorted_items params;
          vec1 = fold (value_feature lib sz) items (replicate sz 0);
          vec2 = fold (key_feature lib sz) items vec1;
          norm = np_norm lib vec2
      in if norm > 0 then map (\<lambda>x. fdiv x norm) vec2 else vec2)"

definition canonical_params :: "cb_params \<Rightarrow> string" where
  "canonical_params params =
     json_dumps True '','' '':'' (PDict (map (\<lambda>(k, v). (k, py_opt_str v)) (sorted_items params)))"

definition build_signature :: "'r cb_lib \<Rightarrow> circuit_breaker_config \<Rightarrow> string \<Rightarrow> cb_params \<Rightarrow> request_signature" where
  "build_signature lib cfg tool_name params =
     \<lparr>sig_tool_name = tool_name,
      sig_parameters_hash = sha256_hex lib (canonical_params params),
      sig_parameter_vector = Some (parameters_to_vector lib cfg params)\<rparr>"

subsection \<open>The failure buffer\<close>

definition failures_of :: "circuit_breaker \<Rightarrow> string \<Rightarrow> failure_record list" where
  "failures_of cb tool = (case map_of (cb_failures cb) tool of Some rs \<Rightarrow> rs | None \<Rightarrow> [])"

definition similar_to :: "'r cb_lib \<Rightarrow> circuit_breaker_config \<Rightarrow> request_signature \<Rightarrow> failure_record \<Rightarrow> bool" where
  "similar_to lib cfg target r =
     (if sig_parameters_hash (fr_signature r) = sig_parameters_hash target then True
      else case (sig_parameter_vector (fr_signature r), sig_parameter_vector target) of
          (Some existing_vec, Some target_vec) \<Rightarrow> np_dot lib target_vec existing_vec \<ge> similarity_threshold cfg
        | _ \<Rightarrow> False)"

definition count_similar_failures :: "'r cb_lib \<Rightarrow> circuit_breaker \<Rightarrow> string \<Rightarrow> request_signature \<Rightarrow> int" where
  "count_similar_failures lib cb tool target =
     int (length (filter (similar_to lib (cb_config cb) target) (failures_of cb tool)))"

definition cb_cutoff :: "circuit_breaker_config \<Rightarrow> pyfloat \<Rightarrow> pyfloat" where
  "cb_cutoff cfg now = fsub now (fl (of_int (window_seconds cfg)))"

definition cleanup_expired :: "circuit_breaker \<Rightarrow> string \<Rightarrow> pyfloat \<Rightarrow> circuit_breaker" where
  "cleanup_expired cb tool now =
     (case map_of (cb_failures cb) tool of
        None \<Rightarrow> cb
      | Some rs \<Rightarrow>
          (let live = filter (\<lambda>r. fr_timestamp r > cb_cutoff (cb_config cb) now) rs
           in if live = [] then cb\<lparr>cb_failures := AList.delete tool (cb_failures cb)\<rparr>
              else cb\<lparr>cb_failures := AList.update tool live (cb_failures cb)\<rparr>))"

subsection \<open>The operations\<close>

text \<open>The three readings of the clock: for the record, for the cut-off, for the opening.\<close>

record clock3 =
  clk_record :: pyfloat
  clk_cleanup :: pyfloat
  clk_open :: pyfloat

definition record_failure ::
  "'r cb_lib \<Rightarrow> circuit_breaker \<Rightarrow> string \<Rightarrow> cb_params \<Rightarrow> string \<Rightarrow> clock3 \<Rightarrow> bool \<times> circuit_breaker" where
  "record_failure lib cb tool params error_type clk =
     (let sig = build_signature lib (cb_config cb) tool params;
          rec = \<lparr>fr_signature = sig, fr_timestamp = clk_record clk, fr_error_type = error_type\<rparr>;
          cb1 = cb\<lparr>cb_failures := AList.update tool (failures_of cb tool @ [rec]) (cb_failures cb)\<rparr>;
          cb2 = cleanup_expired cb1 tool (clk_cleanup clk);
          n = count_similar_failures lib cb2 tool sig
      in if n \<ge> failure_threshold (cb_config cb)
         then (True, cb2\<lparr>cb_open_circuits := AList.update tool (clk_open clk) (cb_open_circuits cb2)\<rparr>)
         else (False, cb2))"

definition cb_reset :: "circuit_breaker \<Rightarrow> string option \<Rightarrow> circuit_breaker" where
  "cb_reset cb tool =
     (case tool of
        None \<Rightarrow> cb\<lparr>cb_failures := [], cb_open_circuits := []\<rparr>
      | Some t \<Rightarrow> cb\<lparr>cb_failures := AList.delete t (cb_failures cb),
                    cb_open_circuits := AList.delete t (cb_open_circuits cb)\<rparr>)"

definition last_failure_time :: "failure_record list \<Rightarrow> pyfloat" where
  "last_failure_time rs = fold (\<lambda>r m. max m (fr_timestamp r)) (tl rs) (fr_timestamp (hd rs))"

definition is_open :: "circuit_breaker \<Rightarrow> string \<Rightarrow> pyfloat \<Rightarrow> bool \<times> circuit_breaker" where
  "is_open cb tool now =
     (if map_of (cb_open_circuits cb) tool = None then (False, cb)
      else let failures = failures_of cb tool
           in if failures \<noteq> [] \<and> fsub now (last_failure_time failures) > of_int (window_seconds (cb_config cb))
              then (False, cb_reset cb (Some tool))
              else (True, cb))"

definition cb_get_status :: "circuit_breaker \<Rightarrow> (string \<times> pyval) list" where
  "cb_get_status cb =
    [(''open_circuits'', PList (map (PStr \<circ> fst) (cb_open_circuits cb))),
     (''tracked_tools'', PList (map (PStr \<circ> fst) (cb_failures cb))),
     (''total_failures'', PInt (int (sum_list (map (length \<circ> snd) (cb_failures cb))))),
     (''threshold'', PInt (failure_threshold (cb_config cb))),
     (''window_seconds'', PInt (window_seconds (cb_config cb)))]"

subsection \<open>What the operations do to the buffer\<close>

lemma failures_of_update [simp]:
  "failures_of (cb\<lparr>cb_failures := AList.update t rs (cb_failures cb)\<rparr>) u = (if u = t then rs else failures_of cb u)"
  by (simp add: failures_of_def map_of_update_eq)

lemma failures_of_open [simp]: "failures_of (cb\<lparr>cb_open_circuits := d\<rparr>) u = failures_of cb u"
  by (simp add: failures_of_def)

lemma failures_of_cleanup:
  "failures_of (cleanup_expired cb tool now) u =
     (if u = tool then filter (\<lambda>r. fr_timestamp r > cb_cutoff (cb_config cb) now) (failures_of cb tool)
      else failures_of cb u)"
  by (auto simp: cleanup_expired_def failures_of_def Let_def map_of_update_eq map_of_delete_eq split: option.splits)

lemma cleanup_frame [simp]:
  "cb_config (cleanup_expired cb tool now) = cb_config cb"
  "cb_open_circuits (cleanup_expired cb tool now) = cb_open_circuits cb"
  by (simp_all add: cleanup_expired_def Let_def split: option.split)

definition new_record :: "'r cb_lib \<Rightarrow> circuit_breaker \<Rightarrow> string \<Rightarrow> cb_params \<Rightarrow> string \<Rightarrow> clock3 \<Rightarrow> failure_record" where
  "new_record lib cb tool params err clk =
     \<lparr>fr_signature = build_signature lib (cb_config cb) tool params, fr_timestamp = clk_record clk, fr_error_type = err\<rparr>"

lemma record_failure_config [simp]:
  "cb_config (snd (record_failure lib cb tool params err clk)) = cb_config cb"
  by (simp add: record_failure_def Let_def)

lemma record_failure_failures:
  "failures_of (snd (record_failure lib cb tool params err clk)) u =
     (if u = tool
      then filter (\<lambda>r. fr_timestamp r > cb_cutoff (cb_config cb) (clk_cleanup clk))
             (failures_of cb tool @ [new_record lib cb tool params err clk])
      else failures_of cb u)"
  by (simp add: record_failure_def Let_def failures_of_cleanup new_record_def)

lemma record_failure_open:
  "map_of (cb_open_circuits (snd (record_failure lib cb tool params err clk))) u =
     (if u = tool \<and> fst (record_failure lib cb tool params err clk) then Some (clk_open clk)
      else map_of (cb_open_circuits cb) u)"
  by (simp add: record_failure_def Let_def map_of_update_eq)

lemma record_failure_count:
  "fst (record_failure lib cb tool params err clk) \<longleftrightarrow>
     failure_threshold (cb_config cb) \<le>
       int (length (filter (similar_to lib (cb_config cb) (build_signature lib (cb_config cb) tool params))
              (failures_of (snd (record_failure lib cb tool params err clk)) tool)))"
  by (simp add: record_failure_def Let_def count_similar_failures_def)

subsection \<open>Reachable breakers\<close>

text \<open>
  The clock does not go back, and the readings of one call are less than a window apart.
\<close>

definition clock_ok :: "circuit_breaker_config \<Rightarrow> pyfloat \<Rightarrow> clock3 \<Rightarrow> bool" where
  "clock_ok cfg now clk \<longleftrightarrow> now \<le> clk_record clk \<and> clk_record clk \<le> clk_cleanup clk \<and>
     clk_cleanup clk \<le> clk_open clk \<and> cb_cutoff cfg (clk_cleanup clk) < clk_record clk"

inductive cb_reach :: "'r cb_lib \<Rightarrow> circuit_breaker_config \<Rightarrow> pyfloat \<Rightarrow> circuit_breaker \<Rightarrow> bool"
  for lib cfg where
  init: "cb_reach lib cfg now (new_CircuitBreaker cfg)"
| failed: "cb_reach lib cfg now cb \<Longrightarrow> clock_ok cfg now clk \<Longrightarrow>
    cb_reach lib cfg (clk_open clk) (snd (record_failure lib cb tool params err clk))"
| asked: "cb_reach lib cfg now cb \<Longrightarrow> now \<le> t \<Longrightarrow> cb_reach lib cfg t (snd (is_open cb tool t))"
| reset: "cb_reach lib cfg now cb \<Longrightarrow> cb_reach lib cfg now (cb_reset cb tool)"

definition cb_inv :: "circuit_breaker_config \<Rightarrow> pyfloat \<Rightarrow> circuit_breaker \<Rightarrow> bool" where
  "cb_inv cfg now cb \<longleftrightarrow> cb_config cb = cfg \<and>
     (\<forall>u. \<forall>r\<in>set (failures_of cb u). fr_timestamp r \<le> now) \<and>
     (\<forall>u. map_of (cb_open_circuits cb) u \<noteq> None \<longrightarrow> failures_of cb u \<noteq> [])"

lemma cb_reset_parts:
  "cb_config (cb_reset cb tool) = cb_config cb"
  "failures_of (cb_reset cb tool) u = (if tool = None \<or> tool = Some u then [] else failures_of cb u)"
  "map_of (cb_open_circuits (cb_reset cb tool)) u =
     (if tool = None \<or> tool = Some u then None else map_of (cb_open_circuits cb) u)"
  by (auto simp: cb_reset_def failures_of_def map_of_delete_eq split: option.splits)

lemma is_open_state: "snd (is_open cb tool t) = cb \<or> snd (is_open cb tool t) = cb_reset cb (Some tool)"
  by (simp add: is_open_def Let_def)

lemma cb_inv_reset: "cb_inv cfg now cb \<Longrightarrow> cb_inv cfg now (cb_reset cb tool)"
  by (simp add: cb_inv_def cb_reset_parts)

lemma cb_inv_mono: "cb_inv cfg now cb \<Longrightarrow> now \<le> t \<Longrightarrow> cb_inv cfg t cb"
  by (fastforce simp: cb_inv_def)

lemma cb_inv_record:
  assumes "cb_inv cfg now cb" "clock_ok cfg now clk"
  shows "cb_inv cfg (clk_open clk) (snd (record_failure lib cb tool params err clk))"
proof -
  have "now \<le> clk_open clk" "clk_record clk \<le> clk_open clk" using assms(2) by (auto simp: clock_ok_def)
  then show ?thesis
    using assms
    by (fastforce simp: cb_inv_def record_failure_failures record_failure_open new_record_def clock_ok_def)
qed

lemma cb_reach_inv: "cb_reach lib cfg now cb \<Longrightarrow> cb_inv cfg now cb"
proof (induction rule: cb_reach.induct)
  case (init now)
  then show ?case by (simp add: cb_inv_def new_CircuitBreaker_def failures_of_def)
next
  case (failed now cb clk tool params err)
  then show ?case by (simp add: cb_inv_record)
next
  case (asked now cb t tool)
  then have "cb_inv cfg t cb" using cb_inv_mono by blast
  then show ?case using is_open_state [of cb tool t] cb_inv_reset by metis
next
  case (reset now cb tool)
  then show ?case by (simp add: cb_inv_reset)
qed

text \<open>
  An open circuit answers \<open>True\<close> exactly as long as no more than the window has passed
  since the last failure of its tool, and the first question after that closes it: no circuit
  stays open for ever and none closes early. A closed one answers \<open>False\<close>. Asking about one
  tool never changes another.
\<close>

theorem is_open_until_quiet:
  assumes "cb_reach lib cfg now cb"
  shows "(fst (is_open cb tool t) \<longleftrightarrow> map_of (cb_open_circuits cb) tool \<noteq> None \<and>
      fsub t (last_failure_time (failures_of cb tool)) \<le> of_int (window_seconds cfg)) \<and>
    (\<not> fst (is_open cb tool t) \<longrightarrow> map_of (cb_open_circuits (snd (is_open cb tool t))) tool = None) \<and>
    (\<forall>u. u \<noteq> tool \<longrightarrow> failures_of (snd (is_open cb tool t)) u = failures_of cb u \<and>
       map_of (cb_open_circuits (snd (is_open cb tool t))) u = map_of (cb_open_circuits cb) u)"
proof -
  have "cb_config cb = cfg" "map_of (cb_open_circuits cb) tool \<noteq> None \<longrightarrow> failures_of cb tool \<noteq> []"
    using cb_reach_inv [OF assms] by (auto simp: cb_inv_def)
  then show ?thesis by (auto simp: is_open_def Let_def cb_reset_parts)
qed

subsection \<open>Repeated failures\<close>

definition fail_run ::
  "'r cb_lib \<Rightarrow> string \<Rightarrow> cb_params \<Rightarrow> (string \<times> clock3) list \<Rightarrow> bool \<times> circuit_breaker \<Rightarrow> bool \<times> circuit_breaker" where
  "fail_run lib tool params calls = fold (\<lambda>(err, clk) (_, cb). record_failure lib cb tool params err clk) calls"

definition same_hash :: "'r cb_lib \<Rightarrow> cb_params \<Rightarrow> failure_record \<Rightarrow> bool" where
  "same_hash lib params r \<longleftrightarrow> sig_parameters_hash (fr_signature r) = sha256_hex lib (canonical_params params)"

lemma record_failure_kept:
  assumes "cb_cutoff (cb_config cb) (clk_cleanup clk) \<le> c" "c < clk_record clk"
  shows "length (filter (\<lambda>r. c < fr_timestamp r \<and> same_hash lib params r)
       (failures_of (snd (record_failure lib cb tool params err clk)) tool)) =
     Suc (length (filter (\<lambda>r. c < fr_timestamp r \<and> same_hash lib params r) (failures_of cb tool)))"
proof -
  have "filter (\<lambda>r. c < fr_timestamp r \<and> same_hash lib params r)
     (filter (\<lambda>r. cb_cutoff (cb_config cb) (clk_cleanup clk) < fr_timestamp r) rs) =
     filter (\<lambda>r. c < fr_timestamp r \<and> same_hash lib params r) rs" for rs
    using assms(1) by (intro filter_filter_imp) auto
  moreover have "same_hash lib params (new_record lib cb tool params err clk)"
    by (simp add: same_hash_def new_record_def build_signature_def)
  moreover have "cb_cutoff (cb_config cb) (clk_cleanup clk) < clk_record clk" using assms by simp
  ultimately show ?thesis
    using assms(2) by (simp add: record_failure_failures new_record_def del: filter_filter)
qed

lemma fail_run_kept:
  assumes "\<forall>(err, clk)\<in>set calls. cb_cutoff (cb_config cb) (clk_cleanup clk) \<le> c \<and> c < clk_record clk"
  shows "length calls \<le> length (filter (\<lambda>r. c < fr_timestamp r \<and> same_hash lib params r)
       (failures_of (snd (fail_run lib tool params calls (b, cb))) tool)) \<and>
     cb_config (snd (fail_run lib tool params calls (b, cb))) = cb_config cb"
  using assms
proof (induction calls arbitrary: b cb rule: rev_induct)
  case Nil
  then show ?case by (simp add: fail_run_def)
next
  case (snoc call calls)
  obtain err clk where call: "call = (err, clk)" by force
  obtain b1 cb1 where run: "fail_run lib tool params calls (b, cb) = (b1, cb1)" by force
  have IH: "length calls \<le> length (filter (\<lambda>r. c < fr_timestamp r \<and> same_hash lib params r) (failures_of cb1 tool))"
    "cb_config cb1 = cb_config cb"
    using snoc.IH [of cb b] snoc.prems run by auto
  have "fail_run lib tool params (calls @ [call]) (b, cb) = record_failure lib cb1 tool params err clk"
    using run by (simp add: fail_run_def call)
  then show ?case
    using IH record_failure_kept [of cb1 clk c lib params tool err] snoc.prems call by simp
qed

lemma same_hash_similar: "same_hash lib params r \<Longrightarrow> similar_to lib cfg (build_signature lib cfg tool params) r"
  by (simp add: same_hash_def similar_to_def build_signature_def)

lemma fail_run_opens:
  assumes "calls \<noteq> []" and "failure_threshold (cb_config cb) \<le> int (length calls)"
    and "\<forall>(err, clk)\<in>set calls. cb_cutoff (cb_config cb) (clk_cleanup clk) \<le> c \<and> c < clk_record clk"
    and "fail_run lib tool params calls (b, cb) = (opened, cb')"
  shows "opened \<and> map_of (cb_open_circuits cb') tool = Some (clk_open (snd (last calls))) \<and>
    (\<forall>t. fsub t (last_failure_time (failures_of cb' tool)) \<le> of_int (window_seconds (cb_config cb)) \<longrightarrow>
       fst (is_open cb' tool t))"
proof -
  obtain pre err clk where calls: "calls = pre @ [(err, clk)]"
    using assms(1) by (metis prod.exhaust rev_exhaust)
  obtain b1 cb1 where run: "fail_run lib tool params pre (b, cb) = (b1, cb1)" by force
  have cfg: "cb_config cb1 = cb_config cb" using fail_run_kept [of pre cb c lib params tool b] assms(3) run calls by auto
  have last: "fail_run lib tool params calls (b, cb) = record_failure lib cb1 tool params err clk"
    using run by (simp add: fail_run_def calls)
  then have res: "record_failure lib cb1 tool params err clk = (opened, cb')" using assms(4) by simp
  let ?rs = "failures_of cb' tool"
  have "length calls \<le> length (filter (\<lambda>r. c < fr_timestamp r \<and> same_hash lib params r) ?rs)"
    using fail_run_kept [OF assms(3), of lib params tool b] assms(4) by simp
  also have "\<dots> \<le> length (filter (similar_to lib (cb_config cb1) (build_signature lib (cb_config cb1) tool params)) ?rs)"
    using same_hash_similar by (intro filter_length_le_of_imp) blast
  finally have opened: "opened"
    using record_failure_count [of lib cb1 tool params err clk] res assms(2) cfg by simp
  moreover have "map_of (cb_open_circuits cb') tool = Some (clk_open clk)" "cb_config cb' = cb_config cb"
    using record_failure_open [of lib cb1 tool params err clk tool] opened res cfg
      record_failure_config [of lib cb1 tool params err clk] by auto
  ultimately show ?thesis by (auto simp: calls is_open_def Let_def)
qed

text \<open>
  The breaker opens on repetition: from any state, a run of at least
  \<open>failure_threshold\<close> failures of the same call, all recorded after the cut-off of the last
  one, ends with the circuit open, whatever numpy and SHA-256 compute; and it then answers
  \<open>True\<close> until a window has passed.
\<close>

theorem repeated_failures_open:
  assumes "calls \<noteq> []" and "failure_threshold (cb_config cb) \<le> int (length calls)"
    and "\<forall>(err, clk)\<in>set calls. cb_cutoff (cb_config cb) (clk_cleanup clk) \<le> c \<and> c < clk_record clk"
    and "fail_run lib tool params calls (b, cb) = (opened, cb')"
  shows "opened \<and> map_of (cb_open_circuits cb') tool = Some (clk_open (snd (last calls))) \<and>
    (\<forall>t. fsub t (last_failure_time (failures_of cb' tool)) \<le> of_int (window_seconds (cb_config cb)) \<longrightarrow>
       fst (is_open cb' tool t))"
  using assms by (rule fail_run_opens)

text \<open>
  The answer of \<open>record_failure\<close> is exact: it is \<open>True\<close> if and only if the failures of the
  tool within the window, the new one included, hold at least \<open>failure_threshold\<close> that are
  similar to the new one; the buffer keeps exactly those within the window, and the other
  tools keep their failures and circuits.
\<close>

theorem record_failure_exact:
  "let r = record_failure lib cb tool params err clk;
       live = filter (\<lambda>r. fr_timestamp r > cb_cutoff (cb_config cb) (clk_cleanup clk))
                (failures_of cb tool @ [new_record lib cb tool params err clk])
   in failures_of (snd r) tool = live \<and>
      (fst r \<longleftrightarrow> failure_threshold (cb_config cb) \<le> int (length (filter
         (similar_to lib (cb_config cb) (build_signature lib (cb_config cb) tool params)) live))) \<and>
      (\<forall>u. u \<noteq> tool \<longrightarrow> failures_of (snd r) u = failures_of cb u \<and>
         map_of (cb_open_circuits (snd r)) u = map_of (cb_open_circuits cb) u)"
  unfolding Let_def record_failure_count record_failure_failures by (simp add: record_failure_open)


lemma fold_max_ge: "x \<le> fold (\<lambda>r m. max m (fr_timestamp r)) rs x \<and>
    (\<forall>r\<in>set rs. fr_timestamp r \<le> fold (\<lambda>r m. max m (fr_timestamp r)) rs x)"
proof (induction rs arbitrary: x)
  case (Cons r rs)
  have "max x (fr_timestamp r) \<le> fold (\<lambda>r m. max m (fr_timestamp r)) rs (max x (fr_timestamp r)) \<and>
    (\<forall>q\<in>set rs. fr_timestamp q \<le> fold (\<lambda>r m. max m (fr_timestamp r)) rs (max x (fr_timestamp r)))" by (rule Cons.IH)
  then show ?case by simp
qed simp

lemma last_failure_time_ge: "r \<in> set rs \<Longrightarrow> fr_timestamp r \<le> last_failure_time rs"
  using fold_max_ge [of "fr_timestamp (hd rs)" "tl rs"] by (cases rs) (auto simp: last_failure_time_def)

lemma fsub_antimono: "a \<le> b \<Longrightarrow> fsub t b \<le> fsub t a"
  by (simp add: fsub_def fl_mono)

text \<open>Just after a failure the question is answered by the window since that failure.\<close>

lemma open_after_failure:
  assumes "fst (record_failure lib cb tool params err clk)" and "cb_cutoff (cb_config cb) (clk_cleanup clk) < clk_record clk"
    and "fsub now (clk_record clk) \<le> of_int (window_seconds (cb_config cb))"
  shows "fst (is_open (snd (record_failure lib cb tool params err clk)) tool now)"
proof -
  let ?cb = "snd (record_failure lib cb tool params err clk)"
  have "new_record lib cb tool params err clk \<in> set (failures_of ?cb tool)"
    using assms(2) by (simp add: record_failure_failures new_record_def)
  then have "clk_record clk \<le> last_failure_time (failures_of ?cb tool)"
    using last_failure_time_ge by (fastforce simp: new_record_def)
  then have "fsub now (last_failure_time (failures_of ?cb tool)) \<le> of_int (window_seconds (cb_config cb))"
    using fsub_antimono assms(3) order_trans by blast
  then show ?thesis using assms(1) by (simp add: is_open_def Let_def record_failure_open not_less)
qed

text \<open>A library with constant hashing and a zero norm, and two configurations, for the witnesses.\<close>

definition plain_cb_lib :: "unit cb_lib" where
  "plain_cb_lib = \<lparr>sha256_hex = (\<lambda>_. ''00000000''), RandomState = (\<lambda>_. ()), randint = (\<lambda>r n. (0, r)),
     np_rand = (\<lambda>r. (0, r)), np_norm = (\<lambda>_. 0), np_dot = (\<lambda>_ _. 0)\<rparr>"

definition minute_config :: "int \<Rightarrow> circuit_breaker_config" where
  "minute_config n = \<lparr>window_seconds = 60, failure_threshold = n, similarity_threshold = 1, max_vector_size = 1\<rparr>"

definition clk_at :: "pyfloat \<Rightarrow> clock3" where
  "clk_at t = \<lparr>clk_record = t, clk_cleanup = t, clk_open = t\<rparr>"

lemma minute_cutoff: "cb_cutoff (minute_config n) 100 = 40" "cb_cutoff (minute_config n) 110 = 50"
  by (simp_all add: cb_cutoff_def minute_config_def fsub_def fl_numeral)

theorem repeated_failures_open_witness:
  "\<exists>cb'. fail_run plain_cb_lib ''t'' [(''input'', Some ''t'')] [(''E'', clk_at 100), (''E'', clk_at 110)]
     (False, new_CircuitBreaker (minute_config 2)) = (True, cb') \<and>
   map_of (cb_open_circuits cb') ''t'' = Some 110"
proof -
  obtain opened cb' where run: "fail_run plain_cb_lib ''t'' [(''input'', Some ''t'')] [(''E'', clk_at 100), (''E'', clk_at 110)]
     (False, new_CircuitBreaker (minute_config 2)) = (opened, cb')" by force
  have cfg: "cb_config (new_CircuitBreaker (minute_config 2)) = minute_config 2" by (simp add: new_CircuitBreaker_def)
  have "failure_threshold (minute_config 2) = 2" by (simp add: minute_config_def)
  then have "opened \<and> map_of (cb_open_circuits cb') ''t'' = Some 110"
    using repeated_failures_open [OF _ _ _ run, of 50] by (simp add: cfg clk_at_def minute_cutoff)
  then show ?thesis using run by auto
qed

theorem is_open_until_quiet_witness:
  "let cb = snd (record_failure plain_cb_lib (new_CircuitBreaker (minute_config 1)) ''t'' [] ''E'' (clk_at 100))
   in fst (is_open cb ''t'' 160) \<and> \<not> fst (is_open cb ''t'' 161)"
proof -
  let ?new = "new_CircuitBreaker (minute_config 1)"
  let ?cb = "snd (record_failure plain_cb_lib ?new ''t'' [] ''E'' (clk_at 100))"
  have cfg: "cb_config ?new = minute_config 1" by (simp add: new_CircuitBreaker_def)
  have "clock_ok (minute_config 1) 0 (clk_at 100)" by (simp add: clock_ok_def clk_at_def minute_cutoff)
  from cb_reach.failed [OF cb_reach.init this, of plain_cb_lib "''t''" "[]" "''E''"]
  have reach: "cb_reach plain_cb_lib (minute_config 1) 100 ?cb" by (simp add: clk_at_def)
  have rs: "failures_of ?cb ''t'' = [new_record plain_cb_lib ?new ''t'' [] ''E'' (clk_at 100)]"
    by (simp add: record_failure_failures cfg clk_at_def minute_cutoff new_record_def) (simp add: failures_of_def new_CircuitBreaker_def)
  moreover have "similar_to plain_cb_lib (minute_config 1) (build_signature plain_cb_lib (minute_config 1) ''t'' [])
      (new_record plain_cb_lib ?new ''t'' [] ''E'' (clk_at 100))"
    by (simp add: similar_to_def new_record_def cfg)
  moreover have "failure_threshold (minute_config 1) = 1" "window_seconds (minute_config 1) = 60"
    by (simp_all add: minute_config_def)
  ultimately have "fst (record_failure plain_cb_lib ?new ''t'' [] ''E'' (clk_at 100))"
    by (simp add: record_failure_count cfg)
  then have "map_of (cb_open_circuits ?cb) ''t'' \<noteq> None" by (simp add: record_failure_open)
  moreover have "last_failure_time (failures_of ?cb ''t'') = 100"
    unfolding rs by (simp add: last_failure_time_def new_record_def clk_at_def)
  ultimately show ?thesis
    using is_open_until_quiet [OF reach, of "''t''" 160] is_open_until_quiet [OF reach, of "''t''" 161]
      \<open>window_seconds (minute_config 1) = 60\<close>
    by (simp add: fsub_def fl_numeral)
qed

theorem record_failure_exact_witness:
  "fst (record_failure plain_cb_lib (new_CircuitBreaker (minute_config 1)) ''t'' [] ''E'' (clk_at 100)) \<and>
   failures_of (snd (record_failure plain_cb_lib (new_CircuitBreaker (minute_config 1)) ''t'' [] ''E'' (clk_at 100))) ''u'' = []"
proof -
  let ?cb = "new_CircuitBreaker (minute_config 1)"
  have cfg: "cb_config ?cb = minute_config 1" "failures_of ?cb u = []" for u
    by (simp_all add: new_CircuitBreaker_def failures_of_def)
  have n: "fr_timestamp (new_record plain_cb_lib ?cb ''t'' [] ''E'' (clk_at 100)) = 100"
    "similar_to plain_cb_lib (minute_config 1) (build_signature plain_cb_lib (minute_config 1) ''t'' [])
      (new_record plain_cb_lib ?cb ''t'' [] ''E'' (clk_at 100))"
    by (simp_all add: similar_to_def new_record_def cfg clk_at_def)
  have c: "cb_cutoff (minute_config 1) (clk_cleanup (clk_at 100)) = 40" "failure_threshold (minute_config 1) = 1"
    by (simp_all add: clk_at_def minute_cutoff) (simp add: minute_config_def)
  show ?thesis
    using record_failure_exact [of plain_cb_lib ?cb "''t''" "[]" "''E''" "clk_at 100"]
    by (simp add: Let_def cfg n c)
qed

end
