(* ===== verification/Billing_Fuse.thy ===== *)
theory Billing_Fuse
  imports Exceptions
begin

text \<open>
  The billing hard-fuse, \<^verbatim>\<open>src/agentos/security/billing_fuse.py\<close>. Amounts are doubles:
  every operation of the source is one rounding \<open>fl\<close>. The revoke callback's own failure is
  caught and logged, so the model only records that it was called: \<open>record_usage\<close> returns
  its result, the new fuse and that flag. Token counts stay below the range of doubles.
\<close>

record token_usage =
  tu_prompt_tokens :: int
  tu_completion_tokens :: int
  tu_model :: string
  tu_timestamp :: pyfloat

record rates =
  rate_prompt :: pyfloat
  rate_completion :: pyfloat

definition usd_rates :: "rat \<Rightarrow> rat \<Rightarrow> rates" where
  "usd_rates p c = \<lparr>rate_prompt = fl p, rate_completion = fl c\<rparr>"

definition DEFAULT_PRICING :: "(string \<times> rates) list" where
  "DEFAULT_PRICING =
    [(''claude-sonnet-4-20250514'', usd_rates 3 15),
     (''claude-sonnet-4'', usd_rates 3 15),
     (''claude-opus-4-20250514'', usd_rates 15 75),
     (''claude-opus-4'', usd_rates 15 75),
     (''claude-haiku-4-5-20251001'', usd_rates 1 5),
     (''claude-haiku-4-5'', usd_rates 1 5),
     (''gpt-4o'', usd_rates (5 / 2) 10),
     (''gpt-4o-mini'', usd_rates (15 / 100) (60 / 100)),
     (''gpt-4'', usd_rates 30 60),
     (''gpt-3.5-turbo'', usd_rates (1 / 2) (3 / 2))]"

record billing_fuse_config =
  budget_cap_usd :: pyfloat
  pricing_table :: "(string \<times> rates) list"
  revoke_on_trip :: bool
  default_prompt_rate :: pyfloat
  default_completion_rate :: pyfloat

definition default_billing_fuse_config :: billing_fuse_config where
  "default_billing_fuse_config =
     \<lparr>budget_cap_usd = 1 / 2, pricing_table = DEFAULT_PRICING, revoke_on_trip = True,
      default_prompt_rate = 3, default_completion_rate = 15\<rparr>"

record billing_fuse =
  bf_config :: billing_fuse_config
  bf_revoke_callback :: bool
  bf_spend_usd :: pyfloat
  bf_usage_history :: "token_usage list"
  bf_tripped :: bool

definition new_BillingFuse :: "billing_fuse_config \<Rightarrow> bool \<Rightarrow> billing_fuse" where
  "new_BillingFuse config revoke_callback =
     \<lparr>bf_config = config, bf_revoke_callback = revoke_callback, bf_spend_usd = 0,
      bf_usage_history = [], bf_tripped = False\<rparr>"

definition calculate_cost :: "billing_fuse_config \<Rightarrow> token_usage \<Rightarrow> pyfloat" where
  "calculate_cost cfg usage =
     (let rates = (case map_of (pricing_table cfg) (tu_model usage) of
            Some r \<Rightarrow> r
          | None \<Rightarrow> \<lparr>rate_prompt = default_prompt_rate cfg, rate_completion = default_completion_rate cfg\<rparr>);
          prompt_cost = fmul (fdiv (fl (of_int (tu_prompt_tokens usage))) 1000000) (rate_prompt rates);
          completion_cost = fmul (fdiv (fl (of_int (tu_completion_tokens usage))) 1000000) (rate_completion rates)
      in fadd prompt_cost completion_cost)"

definition tripped_message :: "pyfloat \<Rightarrow> pyfloat \<Rightarrow> string" where
  "tripped_message spend cap =
     ''Billing fuse already tripped. Cumulative spend: $'' @ py_fixed 4 spend @ '' / $'' @ py_fixed 2 cap"

definition exceeded_message :: "pyfloat \<Rightarrow> pyfloat \<Rightarrow> string" where
  "exceeded_message spend cap =
     ''Budget exceeded: $'' @ py_fixed 4 spend @ '' spent of $'' @ py_fixed 2 cap @
     '' cap. All further LLM calls are blocked.''"

definition record_usage :: "billing_fuse \<Rightarrow> token_usage \<Rightarrow> (exn + pyfloat) \<times> billing_fuse \<times> bool" where
  "record_usage fuse usage =
     (let cap = budget_cap_usd (bf_config fuse)
      in if bf_tripped fuse
         then (Inl (BillingFuseTrippedError (tripped_message (bf_spend_usd fuse) cap) cap (bf_spend_usd fuse)), fuse, False)
         else let cost = calculate_cost (bf_config fuse) usage;
                  spend = fadd (bf_spend_usd fuse) cost;
                  fuse1 = fuse\<lparr>bf_spend_usd := spend, bf_usage_history := bf_usage_history fuse @ [usage]\<rparr>
              in if spend > cap
                 then (Inl (BillingFuseTrippedError (exceeded_message spend cap) cap spend),
                       fuse1\<lparr>bf_tripped := True\<rparr>,
                       revoke_on_trip (bf_config fuse) \<and> bf_revoke_callback fuse)
                 else (Inr spend, fuse1, False))"

definition bf_reset :: "billing_fuse \<Rightarrow> billing_fuse" where
  "bf_reset fuse = fuse\<lparr>bf_spend_usd := 0, bf_usage_history := [], bf_tripped := False\<rparr>"

definition cumulative_spend :: "billing_fuse \<Rightarrow> pyfloat" where
  "cumulative_spend fuse = bf_spend_usd fuse"

definition budget_remaining :: "billing_fuse \<Rightarrow> pyfloat" where
  "budget_remaining fuse = max 0 (fsub (budget_cap_usd (bf_config fuse)) (bf_spend_usd fuse))"

definition usage_count :: "billing_fuse \<Rightarrow> int" where
  "usage_count fuse = int (length (bf_usage_history fuse))"

subsection \<open>Reachable fuses\<close>

inductive bf_reach :: "billing_fuse_config \<Rightarrow> bool \<Rightarrow> billing_fuse \<Rightarrow> bool" for cfg cb where
  init: "bf_reach cfg cb (new_BillingFuse cfg cb)"
| usage: "bf_reach cfg cb fuse \<Longrightarrow> bf_reach cfg cb (fst (snd (record_usage fuse u)))"
| reset: "bf_reach cfg cb fuse \<Longrightarrow> bf_reach cfg cb (bf_reset fuse)"

lemma record_usage_cases:
  obtains (tripped) "bf_tripped fuse"
      "record_usage fuse u = (Inl (BillingFuseTrippedError (tripped_message (bf_spend_usd fuse) (budget_cap_usd (bf_config fuse)))
         (budget_cap_usd (bf_config fuse)) (bf_spend_usd fuse)), fuse, False)"
  | (trips) spend where "\<not> bf_tripped fuse" "spend = fadd (bf_spend_usd fuse) (calculate_cost (bf_config fuse) u)"
      "budget_cap_usd (bf_config fuse) < spend"
      "record_usage fuse u = (Inl (BillingFuseTrippedError (exceeded_message spend (budget_cap_usd (bf_config fuse)))
         (budget_cap_usd (bf_config fuse)) spend),
         fuse\<lparr>bf_spend_usd := spend, bf_usage_history := bf_usage_history fuse @ [u], bf_tripped := True\<rparr>,
         revoke_on_trip (bf_config fuse) \<and> bf_revoke_callback fuse)"
  | (passes) spend where "\<not> bf_tripped fuse" "spend = fadd (bf_spend_usd fuse) (calculate_cost (bf_config fuse) u)"
      "spend \<le> budget_cap_usd (bf_config fuse)"
      "record_usage fuse u = (Inr spend,
         fuse\<lparr>bf_spend_usd := spend, bf_usage_history := bf_usage_history fuse @ [u]\<rparr>, False)"
proof (cases "bf_tripped fuse")
  case True
  then show ?thesis by (intro tripped) (simp_all add: record_usage_def Let_def)
next
  case False
  let ?s = "fadd (bf_spend_usd fuse) (calculate_cost (bf_config fuse) u)"
  show ?thesis
  proof (cases "?s > budget_cap_usd (bf_config fuse)")
    case True
    with False show ?thesis by (intro trips [of ?s]) (simp_all add: record_usage_def Let_def)
  next
    case notover: False
    with False show ?thesis by (intro passes [of ?s]) (simp_all add: record_usage_def Let_def)
  qed
qed

definition bf_inv :: "billing_fuse_config \<Rightarrow> bool \<Rightarrow> billing_fuse \<Rightarrow> bool" where
  "bf_inv cfg cb fuse \<longleftrightarrow> bf_config fuse = cfg \<and> bf_revoke_callback fuse = cb \<and>
     bf_spend_usd fuse = foldl fadd 0 (map (calculate_cost cfg) (bf_usage_history fuse)) \<and>
     (bf_tripped fuse \<longleftrightarrow> budget_cap_usd cfg < bf_spend_usd fuse)"

lemma bf_inv_usage:
  assumes "bf_inv cfg cb fuse"
  shows "bf_inv cfg cb (fst (snd (record_usage fuse u)))"
proof (cases rule: record_usage_cases [of fuse u])
  case tripped
  then show ?thesis using assms by simp
next
  case (trips spend)
  then show ?thesis using assms by (simp add: bf_inv_def)
next
  case (passes spend)
  then show ?thesis using assms by (simp add: bf_inv_def)
qed

lemma bf_reach_inv: "bf_reach cfg cb fuse \<Longrightarrow> 0 \<le> budget_cap_usd cfg \<Longrightarrow> bf_inv cfg cb fuse"
proof (induction rule: bf_reach.induct)
  case init
  then show ?case by (simp add: bf_inv_def new_BillingFuse_def)
next
  case (usage fuse u)
  then show ?case by (simp add: bf_inv_usage)
next
  case (reset fuse)
  then show ?case by (simp add: bf_inv_def bf_reset_def)
qed

text \<open>
  In every state the fuse can reach, the cumulative spend is the sum of the costs of the
  recorded usages in order (with the rounding of each addition), and the fuse is tripped
  exactly when that sum is above the cap.
\<close>

theorem fuse_accounts:
  assumes "bf_reach cfg cb fuse" and "0 \<le> budget_cap_usd cfg"
  shows "cumulative_spend fuse = foldl fadd 0 (map (calculate_cost cfg) (bf_usage_history fuse)) \<and>
    (bf_tripped fuse \<longleftrightarrow> budget_cap_usd cfg < cumulative_spend fuse)"
  using bf_reach_inv [OF assms] by (simp add: bf_inv_def cumulative_spend_def)

lemma usage_reach:
  "bf_reach default_billing_fuse_config True
     (fst (snd (record_usage (new_BillingFuse default_billing_fuse_config True) u)))"
  by (intro bf_reach.intros)

theorem fuse_accounts_witness:
  "let fuse = fst (snd (record_usage (new_BillingFuse default_billing_fuse_config True)
      \<lparr>tu_prompt_tokens = 1000000, tu_completion_tokens = 0, tu_model = ''gpt-4'', tu_timestamp = 0\<rparr>))
   in cumulative_spend fuse = 30 \<and> bf_tripped fuse"
proof -
  let ?u = "\<lparr>tu_prompt_tokens = 1000000, tu_completion_tokens = 0, tu_model = ''gpt-4'', tu_timestamp = 0\<rparr>"
  let ?fuse = "fst (snd (record_usage (new_BillingFuse default_billing_fuse_config True) ?u))"
  have "calculate_cost default_billing_fuse_config ?u = 30" by code_simp
  moreover have "bf_usage_history ?fuse = [?u]"
    by (simp add: record_usage_def new_BillingFuse_def Let_def)
  moreover have "budget_cap_usd default_billing_fuse_config = 1 / 2"
    by (simp add: default_billing_fuse_config_def)
  moreover have "fl 30 = 30" by (simp add: fl_numeral)
  ultimately show ?thesis
    using fuse_accounts [OF usage_reach, of ?u] by (simp add: fadd_def)
qed

text \<open>
  A tripped fuse stays tripped: whatever usages follow, each one raises with the same
  amounts, nothing is recorded and no credentials are revoked a second time, until a reset,
  which clears spend, history and trip.
\<close>

theorem tripped_is_sticky:
  assumes "bf_tripped fuse"
  shows "fold (\<lambda>u f. fst (snd (record_usage f u))) us fuse = fuse \<and>
    (\<exists>m. fst (record_usage fuse u) = Inl (BillingFuseTrippedError m (budget_cap_usd (bf_config fuse)) (bf_spend_usd fuse))) \<and>
    \<not> snd (snd (record_usage fuse u)) \<and>
    \<not> bf_tripped (bf_reset fuse) \<and> cumulative_spend (bf_reset fuse) = 0 \<and> usage_count (bf_reset fuse) = 0"
proof -
  have "fold (\<lambda>u f. fst (snd (record_usage f u))) us fuse = fuse"
    using assms by (induction us) (simp_all add: record_usage_def Let_def)
  then show ?thesis
    using assms by (simp add: record_usage_def bf_reset_def cumulative_spend_def usage_count_def Let_def)
qed

theorem tripped_is_sticky_witness:
  "\<exists>fuse. bf_tripped fuse \<and> (\<exists>m. fst (record_usage fuse
      \<lparr>tu_prompt_tokens = 1, tu_completion_tokens = 1, tu_model = ''gpt-4'', tu_timestamp = 0\<rparr>) =
    Inl (BillingFuseTrippedError m (1 / 2) 1))"
proof -
  let ?fuse = "(new_BillingFuse default_billing_fuse_config True)\<lparr>bf_spend_usd := 1, bf_tripped := True\<rparr>"
  have t: "bf_tripped ?fuse" by simp
  have "budget_cap_usd (bf_config ?fuse) = 1 / 2" "bf_spend_usd ?fuse = 1"
    by (simp_all add: new_BillingFuse_def default_billing_fuse_config_def)
  then show ?thesis using tripped_is_sticky [OF t, of "[]"] t by metis
qed

definition nonneg_pricing :: "billing_fuse_config \<Rightarrow> bool" where
  "nonneg_pricing cfg \<longleftrightarrow> list_all (\<lambda>(m, r). 0 \<le> rate_prompt r \<and> 0 \<le> rate_completion r) (pricing_table cfg) \<and>
     0 \<le> default_prompt_rate cfg \<and> 0 \<le> default_completion_rate cfg"

definition nonneg_usage :: "token_usage \<Rightarrow> bool" where
  "nonneg_usage u \<longleftrightarrow> 0 \<le> tu_prompt_tokens u \<and> 0 \<le> tu_completion_tokens u"

lemma cost_nonneg:
  assumes "nonneg_usage u" "nonneg_pricing cfg"
  shows "0 \<le> calculate_cost cfg u"
proof -
  have pos: "0 \<le> fadd (fmul (fdiv (fl (of_int (tu_prompt_tokens u))) 1000000) (rate_prompt r))
      (fmul (fdiv (fl (of_int (tu_completion_tokens u))) 1000000) (rate_completion r))"
    if "0 \<le> rate_prompt r" "0 \<le> rate_completion r" for r :: rates
    using assms(1) that by (simp add: nonneg_usage_def fadd_def fmul_def fdiv_def fl_nonneg)
  show ?thesis
  proof (cases "map_of (pricing_table cfg) (tu_model u)")
    case None
    then show ?thesis using assms(2) pos [of "\<lparr>rate_prompt = default_prompt_rate cfg, rate_completion = default_completion_rate cfg\<rparr>"]
      by (simp add: calculate_cost_def nonneg_pricing_def)
  next
    case (Some r)
    then have "0 \<le> rate_prompt r \<and> 0 \<le> rate_completion r"
      using assms(2) map_of_SomeD [OF Some] by (auto simp: nonneg_pricing_def list_all_iff)
    then show ?thesis using pos Some by (simp add: calculate_cost_def)
  qed
qed

lemma bf_spend_run_sum:
  "bf_inv cfg cb fuse \<Longrightarrow> bf_spend_usd fuse = flr.run_sum (map (calculate_cost cfg) (bf_usage_history fuse))"
proof -
  have "fadd = (\<lambda>s x. fl (s + x))" by (intro ext) (simp add: fadd_def)
  then show "bf_inv cfg cb fuse \<Longrightarrow> bf_spend_usd fuse = flr.run_sum (map (calculate_cost cfg) (bf_usage_history fuse))"
    by (simp add: bf_inv_def flr.run_sum_def)
qed

text \<open>
  With prices and token counts that are not negative, the cumulative spend is never
  negative, and a further usage never lowers it.
\<close>

theorem spend_never_decreases:
  assumes "bf_reach cfg cb fuse" and "0 \<le> budget_cap_usd cfg" and "nonneg_pricing cfg"
    and "\<forall>u\<in>set (bf_usage_history fuse). nonneg_usage u" and "nonneg_usage u"
  shows "0 \<le> cumulative_spend fuse \<and> cumulative_spend fuse \<le> cumulative_spend (fst (snd (record_usage fuse u)))"
proof -
  let ?cs = "map (calculate_cost cfg) (bf_usage_history fuse)"
  have inv: "bf_inv cfg cb fuse" using bf_reach_inv [OF assms(1,2)] .
  then have s: "cumulative_spend fuse = flr.run_sum ?cs" by (simp add: cumulative_spend_def bf_spend_run_sum)
  have c: "0 \<le> calculate_cost cfg u" using cost_nonneg assms(3,5) by blast
  have step: "flr.run_sum (?cs @ [calculate_cost cfg u]) = fadd (flr.run_sum ?cs) (calculate_cost cfg u)"
    by (simp add: flr.run_sum_def fadd_def)
  have "0 \<le> flr.run_sum ?cs" using assms(3,4) cost_nonneg by (intro flr.run_sum_nonneg) auto
  moreover have "flr.run_sum ?cs \<le> fadd (flr.run_sum ?cs) (calculate_cost cfg u)"
    using flr.run_sum_grows [OF c, of ?cs] unfolding step .
  ultimately show ?thesis
    using s inv by (cases rule: record_usage_cases [of fuse u]) (auto simp: cumulative_spend_def bf_inv_def)
qed

theorem spend_never_decreases_witness:
  "0 \<le> cumulative_spend (new_BillingFuse default_billing_fuse_config True) \<and>
   cumulative_spend (new_BillingFuse default_billing_fuse_config True) \<le>
     cumulative_spend (fst (snd (record_usage (new_BillingFuse default_billing_fuse_config True)
       \<lparr>tu_prompt_tokens = 800, tu_completion_tokens = 400, tu_model = ''claude-sonnet-4'', tu_timestamp = 0\<rparr>)))"
proof (rule spend_never_decreases [OF bf_reach.init])
  show "nonneg_pricing default_billing_fuse_config" by code_simp
qed (simp_all add: default_billing_fuse_config_def new_BillingFuse_def nonneg_usage_def)



end
