(* ===== verification/Autonomy_Policy.thy ===== *)
theory Autonomy_Policy
  imports Py_Json "HOL-Library.List_Lexorder"
begin

text \<open>
  The autonomy policy, \<^verbatim>\<open>src/agentos/policies/autonomy_policy.py\<close>: the policy models with
  their defaults, the path and command checks, the write quota, the session limit and the
  status. \<open>time.time()\<close> is an argument; \<open>Path(p).resolve()\<close>, which asks the file system, is
  the parameter \<open>resolve\<close>. \<open>fnmatch.fnmatch\<close> is the one of POSIX, on bytes.
\<close>

subsection \<open>The policy models\<close>

record filesystem_policy =
  allowed_paths :: "string list"
  denied_paths :: "string list"

record commands_policy =
  cmd_mode :: string
  cmd_allowed :: "string list"
  cmd_denied :: "string list"

record write_quotas_policy =
  max_operations_per_session :: int
  max_operations_per_minute :: int
  shacl_required_domains :: "string list"

record network_policy =
  allowed_hosts :: "string list"
  default_policy :: string

record session_limits_policy =
  max_duration_seconds :: int
  max_token_budget_usd :: pyfloat

record policy_config =
  pc_version :: string
  pc_description :: string
  pc_filesystem :: filesystem_policy
  pc_commands :: commands_policy
  pc_write_quotas :: write_quotas_policy
  pc_network :: network_policy
  pc_session :: session_limits_policy

definition default_policy_config :: policy_config where
  "default_policy_config =
     \<lparr>pc_version = ''1.0'', pc_description = [],
      pc_filesystem = \<lparr>allowed_paths = [], denied_paths = []\<rparr>,
      pc_commands = \<lparr>cmd_mode = ''allowlist'', cmd_allowed = [], cmd_denied = []\<rparr>,
      pc_write_quotas = \<lparr>max_operations_per_session = 50, max_operations_per_minute = 10, shacl_required_domains = []\<rparr>,
      pc_network = \<lparr>allowed_hosts = [], default_policy = ''deny''\<rparr>,
      pc_session = \<lparr>max_duration_seconds = 3600, max_token_budget_usd = 1 / 2\<rparr>\<rparr>"

text \<open>The policy the repository ships, \<^verbatim>\<open>policy_config.yaml\<close>.\<close>

definition shipped_policy_config :: policy_config where
  "shipped_policy_config =
     \<lparr>pc_version = ''1.0'', pc_description = ''Minimum privilege policy for Agent OS MVP PoC'',
      pc_filesystem =
        \<lparr>allowed_paths = [''./**'', ''/tmp/agent-os-poc/**''],
         denied_paths = [''./.env'', ''./.env.local'', ''/etc/**'', ''/var/**'', ''/usr/**'']\<rparr>,
      pc_commands =
        \<lparr>cmd_mode = ''allowlist'',
         cmd_allowed = [''ls'', ''cat'', ''echo'', ''pytest'', ''python3'', ''pip'', ''git'', ''docker'', ''docker-compose''],
         cmd_denied = []\<rparr>,
      pc_write_quotas =
        \<lparr>max_operations_per_session = 50, max_operations_per_minute = 10,
         shacl_required_domains = [''it-asset-mgmt'', ''hr'', ''finance'']\<rparr>,
      pc_network =
        \<lparr>allowed_hosts = [''localhost:7687'', ''localhost:8100'', ''localhost:8000'', ''open.feishu.cn'', ''api.github.com''],
         default_policy = ''deny''\<rparr>,
      pc_session = \<lparr>max_duration_seconds = 3600, max_token_budget_usd = 1 / 2\<rparr>\<rparr>"

record autonomy_policy =
  ap_config :: policy_config
  ap_session_start :: pyfloat
  ap_write_count :: int
  ap_write_timestamps :: "pyfloat list"

definition new_AutonomyPolicy :: "policy_config \<Rightarrow> pyfloat \<Rightarrow> autonomy_policy" where
  "new_AutonomyPolicy cfg now =
     \<lparr>ap_config = cfg, ap_session_start = now, ap_write_count = 0, ap_write_timestamps = []\<rparr>"

subsection \<open>fnmatch\<close>

text \<open>The body of a bracket after \<open>[\<close>, and the pattern after its \<open>]\<close>, if it is closed.\<close>

definition fn_bracket :: "string \<Rightarrow> (string \<times> string) option" where
  "fn_bracket p =
     (let k0 = (if p \<noteq> [] \<and> hd p = CHR ''!'' then 1 else 0);
          k = (if drop k0 p \<noteq> [] \<and> hd (drop k0 p) = CHR '']'' then Suc k0 else k0);
          body = takeWhile (\<lambda>c. c \<noteq> CHR '']'') (drop k p);
          rest = dropWhile (\<lambda>c. c \<noteq> CHR '']'') (drop k p)
      in if rest = [] then None else Some (take k p @ body, tl rest))"

fun fn_in_set :: "string \<Rightarrow> char \<Rightarrow> bool" where
  "fn_in_set [] c = False"
| "fn_in_set (a # s) c =
     (case s of
        d # b # r \<Rightarrow> if d = CHR ''-'' then (a \<le> c \<and> c \<le> b) \<or> fn_in_set r c else a = c \<or> fn_in_set s c
      | _ \<Rightarrow> a = c \<or> fn_in_set s c)"

definition fn_set_ok :: "string \<Rightarrow> char \<Rightarrow> bool" where
  "fn_set_ok stuff c = (if stuff \<noteq> [] \<and> hd stuff = CHR ''!'' then \<not> fn_in_set (tl stuff) c else fn_in_set stuff c)"

lemma fn_bracket_shorter: "fn_bracket p = Some (stuff, rest) \<Longrightarrow> length rest < length p"
proof -
  assume "fn_bracket p = Some (stuff, rest)"
  then obtain k where r: "rest = tl (dropWhile (\<lambda>c. c \<noteq> CHR '']'') (drop k p))"
    "dropWhile (\<lambda>c. c \<noteq> CHR '']'') (drop k p) \<noteq> []"
    unfolding fn_bracket_def Let_def by (metis option.distinct(1) option.inject prod.inject)
  have "length (dropWhile (\<lambda>c. c \<noteq> CHR '']'') (drop k p)) \<le> length p"
    by (rule le_trans [OF length_dropWhile_le]) simp
  then show ?thesis using r by (cases "dropWhile (\<lambda>c. c \<noteq> CHR '']'') (drop k p)") simp_all
qed

function fnmatch :: "string \<Rightarrow> string \<Rightarrow> bool" where
  "fnmatch [] s = (s = [])"
| "fnmatch (c # p) s =
     (if c = CHR ''*'' then fnmatch p s \<or> (case s of [] \<Rightarrow> False | _ # t \<Rightarrow> fnmatch (c # p) t)
      else case s of
        [] \<Rightarrow> False
      | x # t \<Rightarrow>
          (if c = CHR ''?'' then fnmatch p t
           else if c = CHR ''['' then
             (case fn_bracket p of
                None \<Rightarrow> x = c \<and> fnmatch p t
              | Some (stuff, rest) \<Rightarrow> fn_set_ok stuff x \<and> fnmatch rest t)
           else x = c \<and> fnmatch p t))"
  by pat_completeness auto
termination
  by (relation "measure (\<lambda>(p, s). length p + length s)") (auto dest!: fn_bracket_shorter)

declare fnmatch.simps(2) [simp del]

subsection \<open>The checks\<close>

definition match_path :: "string \<Rightarrow> string \<Rightarrow> bool" where
  "match_path resolved_path pattern =
     (if prefix ''/'' pattern
      then fnmatch pattern resolved_path \<or>
           prefix (rstrip_when (\<lambda>c. c = CHR ''/'') (rstrip_when (\<lambda>c. c = CHR ''*'') pattern)) resolved_path
      else fnmatch (''*/'' @ pattern) resolved_path)"

definition sq :: "string \<Rightarrow> string" where
  "sq s = [CHR 0x27] @ s @ [CHR 0x27]"

definition py_repr_strs :: "string list \<Rightarrow> string" where
  "py_repr_strs xs = py_repr (PList (map PStr xs))"

definition check_path_access :: "(string \<Rightarrow> string) \<Rightarrow> autonomy_policy \<Rightarrow> string \<Rightarrow> string \<Rightarrow> exn + unit" where
  "check_path_access resolve ap target operation =
     (let resolved = resolve target;
          fs = pc_filesystem (ap_config ap)
      in case find (match_path resolved) (denied_paths fs) of
           Some pattern \<Rightarrow> Inl (PolicyViolationError (''Path access DENIED: '' @ sq target @
             '' matches denied pattern '' @ sq pattern @ ''. Operation '' @ sq operation @ '' blocked.''))
         | None \<Rightarrow>
             if list_ex (match_path resolved) (allowed_paths fs) then Inr ()
             else Inl (PolicyViolationError (''Path access DENIED: '' @ sq target @
               '' is outside allowed workspace. Allowed patterns: '' @ py_repr_strs (allowed_paths fs) @
               ''. Operation '' @ sq operation @ '' blocked.'')))"

definition program_of :: "string \<Rightarrow> string" where
  "program_of command = (case py_words (py_strip command) of [] \<Rightarrow> [] | w # _ \<Rightarrow> w)"

definition check_command :: "autonomy_policy \<Rightarrow> string \<Rightarrow> exn + unit" where
  "check_command ap command =
     (let program = program_of command;
          cmds = pc_commands (ap_config ap)
      in if cmd_mode cmds = ''allowlist'' then
           (if program \<in> set (cmd_allowed cmds) then Inr ()
            else Inl (PolicyViolationError (''Command '' @ sq program @
              '' is not in the allowlist. Allowed commands: '' @ py_repr_strs (cmd_allowed cmds))))
         else
           (if program \<in> set (cmd_denied cmds)
            then Inl (PolicyViolationError (''Command '' @ sq program @
              '' is explicitly denied. This command cannot be executed.''))
            else Inr ()))"

definition quota_cutoff :: "pyfloat \<Rightarrow> pyfloat" where
  "quota_cutoff now = fsub now 60"

definition check_write_quota :: "autonomy_policy \<Rightarrow> string \<Rightarrow> pyfloat \<Rightarrow> (exn + unit) \<times> autonomy_policy" where
  "check_write_quota ap domain now =
     (let q = pc_write_quotas (ap_config ap)
      in if ap_write_count ap \<ge> max_operations_per_session q
         then (Inl (PolicyViolationError (''Write quota exhausted: '' @ py_str_int (ap_write_count ap) @ ''/'' @
                py_str_int (max_operations_per_session q) @
                '' operations this session. Start a new session to continue.'')), ap)
         else let recent = filter (\<lambda>ts. ts > quota_cutoff now) (ap_write_timestamps ap);
                  ap1 = ap\<lparr>ap_write_timestamps := recent\<rparr>
              in if int (length recent) \<ge> max_operations_per_minute q
                 then (Inl (PolicyViolationError (''Write rate limit exceeded: '' @ py_str_int (int (length recent)) @
                        '' operations in the last 60s (max: '' @ py_str_int (max_operations_per_minute q) @
                        ''/min). Please wait before retrying.'')), ap1)
                 else (Inr (), ap1\<lparr>ap_write_count := ap_write_count ap + 1,
                                   ap_write_timestamps := recent @ [now]\<rparr>))"

definition check_session_alive :: "autonomy_policy \<Rightarrow> pyfloat \<Rightarrow> exn + unit" where
  "check_session_alive ap now =
     (let elapsed = fsub now (ap_session_start ap);
          max_duration = max_duration_seconds (pc_session (ap_config ap))
      in if elapsed > of_int max_duration
         then Inl (PolicyViolationError (''Session expired: running for '' @ py_fixed 0 elapsed @ ''s (max: '' @
           py_str_int max_duration @ ''s). Please start a new session.''))
         else Inr ())"

definition trunc :: "rat \<Rightarrow> int" where
  "trunc x = (if 0 \<le> x then \<lfloor>x\<rfloor> else - \<lfloor>- x\<rfloor>)"

definition ap_get_status :: "autonomy_policy \<Rightarrow> pyfloat \<Rightarrow> (string \<times> pyval) list" where
  "ap_get_status ap now =
    [(''version'', PStr (pc_version (ap_config ap))),
     (''session_elapsed_seconds'', PInt (trunc (fsub now (ap_session_start ap)))),
     (''write_count'', PInt (ap_write_count ap)),
     (''write_quota_max'', PInt (max_operations_per_session (pc_write_quotas (ap_config ap)))),
     (''recent_writes_per_minute'', PInt (int (length (ap_write_timestamps ap)))),
     (''allowed_paths'', PList (map PStr (allowed_paths (pc_filesystem (ap_config ap))))),
     (''allowed_commands'', PList (map PStr (cmd_allowed (pc_commands (ap_config ap)))))]"

subsection \<open>What patterns match\<close>

definition fn_plain :: "string \<Rightarrow> bool" where
  "fn_plain k \<longleftrightarrow> list_all (\<lambda>c. c \<notin> {CHR ''*'', CHR ''?'', CHR ''[''}) k"

lemma fnmatch_star: "fnmatch (CHR ''*'' # p) s \<longleftrightarrow> (\<exists>u v. s = u @ v \<and> fnmatch p v)"
proof (induction s)
  case Nil
  then show ?case by (simp add: fnmatch.simps(2))
next
  case (Cons c s)
  have "fnmatch (CHR ''*'' # p) (c # s) \<longleftrightarrow> fnmatch p (c # s) \<or> fnmatch (CHR ''*'' # p) s"
    by (simp add: fnmatch.simps(2))
  then show ?case using Cons by (auto simp: Cons_eq_append_conv)
qed

lemma fnmatch_plain: "fn_plain k \<Longrightarrow> fnmatch (k @ p) s \<longleftrightarrow> (\<exists>t. s = k @ t \<and> fnmatch p t)"
proof (induction k arbitrary: s)
  case (Cons c k)
  then show ?case by (cases s) (auto simp: fn_plain_def fnmatch.simps(2))
qed simp

lemma fnmatch_all: "fnmatch ''*'' s"
  by (auto simp: fnmatch_star intro: exI [of _ "[]"])

lemma fnmatch_all2: "fnmatch ''**'' s"
  using fnmatch_all by (auto simp: fnmatch_star intro: exI [of _ "[]"])

text \<open>A relative pattern \<open>./**\<close> or \<open>./name\<close> only matches a path with a \<open>/./\<close> inside.\<close>

lemma match_relative: 
  assumes "fn_plain k"
  shows "match_path r (''./'' @ k) \<longleftrightarrow> suffix (''/./'' @ k) r"
    and "match_path r (''./**'') \<longleftrightarrow> py_in ''/./'' r"
proof -
  have rel: "match_path r (''./'' @ x) \<longleftrightarrow> (\<exists>u v. r = u @ v \<and> fnmatch (''/./'' @ x) v)" for x
    using fnmatch_star [of "''/./'' @ x" r] by (simp add: match_path_def)
  have "fn_plain (''/./'' @ k)" using assms by (simp add: fn_plain_def)
  from fnmatch_plain [OF this, of "[]"] have "fnmatch (''/./'' @ k) v \<longleftrightarrow> v = ''/./'' @ k" for v by simp
  then show "match_path r (''./'' @ k) \<longleftrightarrow> suffix (''/./'' @ k) r"
    unfolding rel suffix_def by metis
  have "fn_plain ''/./''" by (simp add: fn_plain_def)
  from fnmatch_plain [OF this, of "''**''"] have "fnmatch (''/./'' @ ''**'') v \<longleftrightarrow> (\<exists>t. v = ''/./'' @ t)" for v
    by (simp only: fnmatch_all2 simp_thms)
  then have "match_path r (''./'' @ ''**'') \<longleftrightarrow> (\<exists>u t. r = u @ ''/./'' @ t)"
    unfolding rel by metis
  then show "match_path r (''./**'') \<longleftrightarrow> py_in ''/./'' r"
    by (simp add: py_in_iff_sublist sublist_def)
qed

text \<open>An absolute pattern \<open>dir/**\<close> matches by the prefix \<open>dir\<close>, not by the directory.\<close>

lemma match_absolute:
  assumes "fn_plain d" "prefix ''/'' d" "last d \<noteq> CHR ''/''"
  shows "match_path r (d @ ''/**'') \<longleftrightarrow> prefix d r"
proof -
  have "d \<noteq> []" using assms(2) by auto
  then obtain i x where d: "d = i @ [x]" by (metis rev_exhaust)
  have "rstrip_when (\<lambda>c. c = CHR ''/'') (rstrip_when (\<lambda>c. c = CHR ''*'') (d @ ''/**'')) = d"
    using assms(3) by (simp add: rstrip_when_def d)
  moreover have "fn_plain (d @ ''/'')" using assms(1) by (simp add: fn_plain_def)
  then have "fnmatch (d @ ''/**'') r \<Longrightarrow> prefix d r"
    using fnmatch_plain [of "d @ ''/''" "''**''" r] by (auto simp: prefix_def)
  moreover have "prefix ''/'' (d @ ''/**'')" using assms(2) by (simp add: prefix_def) (metis append_assoc append_Cons append_Nil)
  ultimately show ?thesis by (auto simp: match_path_def)
qed

lemma path_access_decision_lemma:
  "(check_path_access resolve ap target operation = Inr () \<longleftrightarrow>
     (\<forall>p\<in>set (denied_paths (pc_filesystem (ap_config ap))). \<not> match_path (resolve target) p) \<and>
     (\<exists>p\<in>set (allowed_paths (pc_filesystem (ap_config ap))). match_path (resolve target) p)) \<and>
   (case check_path_access resolve ap target operation of Inl e \<Rightarrow> is_PolicyViolationError e | Inr _ \<Rightarrow> True)"
  by (auto simp: check_path_access_def Let_def list_ex_iff find_None_iff find_Some_iff split: option.split)

text \<open>
  A path is granted exactly when no denied pattern matches it and some allowed one does:
  denied patterns win, and everything else is a \<open>PolicyViolationError\<close>.
\<close>

theorem path_access_decision:
  "(check_path_access resolve ap target operation = Inr () \<longleftrightarrow>
     (\<forall>p\<in>set (denied_paths (pc_filesystem (ap_config ap))). \<not> match_path (resolve target) p) \<and>
     (\<exists>p\<in>set (allowed_paths (pc_filesystem (ap_config ap))). match_path (resolve target) p)) \<and>
   (case check_path_access resolve ap target operation of Inl e \<Rightarrow> is_PolicyViolationError e | Inr _ \<Rightarrow> True)"
  by (rule path_access_decision_lemma)

text \<open>
  Under the shipped policy the agent can reach exactly the paths whose text starts with
  \<open>/tmp/agent-os-poc\<close>, among the paths \<open>resolve()\<close> can return (normalised, so without \<open>/./\<close>):
  the workspace pattern \<open>./**\<close> grants nothing, and the scratch pattern also grants siblings
  such as \<open>/tmp/agent-os-poc-evil\<close>.
\<close>

theorem shipped_paths:
  assumes "ap_config ap = shipped_policy_config" and "\<not> py_in ''/./'' (resolve target)"
  shows "check_path_access resolve ap target operation = Inr () \<longleftrightarrow> prefix ''/tmp/agent-os-poc'' (resolve target)"
proof -
  let ?r = "resolve target"
  have plain: "fn_plain ''.env''" "fn_plain ''.env.local''" "fn_plain ''/etc''" "fn_plain ''/var''" "fn_plain ''/usr''"
    "fn_plain ''/tmp/agent-os-poc''" by (simp_all add: fn_plain_def)
  have suf: "\<not> suffix (''/./'' @ k) ?r" for k
    using assms(2) by (auto simp: suffix_def py_in_iff_sublist sublist_def)
  have m: "\<not> match_path ?r ''./.env''" "\<not> match_path ?r ''./.env.local''" "\<not> match_path ?r ''./**''"
    using match_relative [OF plain(1), of ?r] match_relative [OF plain(2), of ?r] suf assms(2) by simp_all
  have a: "match_path ?r ''/etc/**'' \<longleftrightarrow> prefix ''/etc'' ?r" "match_path ?r ''/var/**'' \<longleftrightarrow> prefix ''/var'' ?r"
    "match_path ?r ''/usr/**'' \<longleftrightarrow> prefix ''/usr'' ?r"
    "match_path ?r ''/tmp/agent-os-poc/**'' \<longleftrightarrow> prefix ''/tmp/agent-os-poc'' ?r"
    using match_absolute [OF plain(3)] match_absolute [OF plain(4)] match_absolute [OF plain(5)]
      match_absolute [OF plain(6)] by simp_all
  have ex: "prefix ''/tmp/agent-os-poc'' ?r \<Longrightarrow> \<not> prefix ''/etc'' ?r \<and> \<not> prefix ''/var'' ?r \<and> \<not> prefix ''/usr'' ?r"
    by (auto simp: prefix_def)
  show ?thesis
    using m a ex by (auto simp: conjunct1 [OF path_access_decision_lemma] assms(1) shipped_policy_config_def)
qed

theorem shipped_paths_witness:
  "check_path_access (\<lambda>p. p)
     (new_AutonomyPolicy shipped_policy_config 0) ''/tmp/agent-os-poc-evil/x'' ''write'' = Inr () \<and>
   check_path_access (\<lambda>p. p)
     (new_AutonomyPolicy shipped_policy_config 0) ''/home/agent/workspace/README.md'' ''read'' \<noteq> Inr ()"
proof -
  have cfg: "ap_config (new_AutonomyPolicy shipped_policy_config 0) = shipped_policy_config"
    by (simp add: new_AutonomyPolicy_def)
  have "\<not> py_in ''/./'' ''/tmp/agent-os-poc-evil/x''" "\<not> py_in ''/./'' ''/home/agent/workspace/README.md''"
    by code_simp+
  then show ?thesis
    using shipped_paths [OF cfg, of "\<lambda>p. p" "''/tmp/agent-os-poc-evil/x''" "''write''"]
      shipped_paths [OF cfg, of "\<lambda>p. p" "''/home/agent/workspace/README.md''" "''read''"]
    by simp
qed

text \<open>
  In the allowlist mode a command runs exactly when its first word is on the list (its
  arguments are not looked at), in the other mode exactly when it is not on the deny list.
  Every refusal is a \<open>PolicyViolationError\<close>.
\<close>

theorem command_decision:
  "(check_command ap command = Inr () \<longleftrightarrow>
     (if cmd_mode (pc_commands (ap_config ap)) = ''allowlist''
      then program_of command \<in> set (cmd_allowed (pc_commands (ap_config ap)))
      else program_of command \<notin> set (cmd_denied (pc_commands (ap_config ap))))) \<and>
   (case check_command ap command of Inl e \<Rightarrow> is_PolicyViolationError e | Inr _ \<Rightarrow> True)"
  by (auto simp: check_command_def Let_def)

subsection \<open>The write quota\<close>

interpretation qw: sliding_window quota_cutoff
  by unfold_locales (simp add: quota_cutoff_def fsub_def fl_mono)

text \<open>The times at which a sequence of requests was accepted, and the policy after them.\<close>

definition quota_step :: "pyfloat list \<times> autonomy_policy \<Rightarrow> string \<times> pyfloat \<Rightarrow> pyfloat list \<times> autonomy_policy" where
  "quota_step = (\<lambda>(acc, ap) (domain, now).
     (case check_write_quota ap domain now of
        (Inl _, ap') \<Rightarrow> (acc, ap') | (Inr _, ap') \<Rightarrow> (acc @ [now], ap')))"

definition quota_run :: "autonomy_policy \<Rightarrow> (string \<times> pyfloat) list \<Rightarrow> pyfloat list \<times> autonomy_policy" where
  "quota_run ap calls = foldl quota_step ([], ap) calls"

definition in_minute :: "pyfloat \<Rightarrow> pyfloat list \<Rightarrow> pyfloat list" where
  "in_minute t xs = filter (\<lambda>x. quota_cutoff t < x \<and> x \<le> t) xs"

definition quota_inv :: "write_quotas_policy \<Rightarrow> pyfloat \<Rightarrow> pyfloat list \<times> autonomy_policy \<Rightarrow> bool" where
  "quota_inv q now = (\<lambda>(acc, ap). pc_write_quotas (ap_config ap) = q \<and>
     ap_write_count ap = int (length acc) \<and> int (length acc) \<le> max_operations_per_session q \<and>
     (\<forall>t\<ge>now. qw.live t (ap_write_timestamps ap) = qw.live t acc) \<and>
     (\<forall>t. int (length (in_minute t acc)) \<le> max_operations_per_minute q))"

lemma check_write_quota_cases:
  obtains (exhausted) e where "max_operations_per_session (pc_write_quotas (ap_config ap)) \<le> ap_write_count ap"
      "check_write_quota ap domain now = (Inl (PolicyViolationError e), ap)"
  | (rate) e where "ap_write_count ap < max_operations_per_session (pc_write_quotas (ap_config ap))"
      "max_operations_per_minute (pc_write_quotas (ap_config ap)) \<le> int (length (qw.live now (ap_write_timestamps ap)))"
      "check_write_quota ap domain now = (Inl (PolicyViolationError e),
         ap\<lparr>ap_write_timestamps := qw.live now (ap_write_timestamps ap)\<rparr>)"
  | (accepted) "ap_write_count ap < max_operations_per_session (pc_write_quotas (ap_config ap))"
      "int (length (qw.live now (ap_write_timestamps ap))) < max_operations_per_minute (pc_write_quotas (ap_config ap))"
      "check_write_quota ap domain now = (Inr (),
         ap\<lparr>ap_write_count := ap_write_count ap + 1,
            ap_write_timestamps := qw.live now (ap_write_timestamps ap) @ [now]\<rparr>)"
proof (cases "max_operations_per_session (pc_write_quotas (ap_config ap)) \<le> ap_write_count ap")
  case True
  then show ?thesis by (intro exhausted) (simp_all add: check_write_quota_def Let_def)
next
  case under: False
  show ?thesis
  proof (cases "max_operations_per_minute (pc_write_quotas (ap_config ap)) \<le> int (length (qw.live now (ap_write_timestamps ap)))")
    case True
    with under show ?thesis by (intro rate) (simp_all add: check_write_quota_def qw.live_def Let_def)
  next
    case False
    with under show ?thesis by (intro accepted) (simp_all add: check_write_quota_def qw.live_def Let_def)
  qed
qed

lemma quota_inv_step:
  assumes "quota_inv q now (acc, ap)" "now \<le> t"
  shows "quota_inv q t (quota_step (acc, ap) (domain, t))"
proof -
  have q: "pc_write_quotas (ap_config ap) = q" "ap_write_count ap = int (length acc)"
    "int (length acc) \<le> max_operations_per_session q"
    and live: "\<And>u. now \<le> u \<Longrightarrow> qw.live u (ap_write_timestamps ap) = qw.live u acc"
    and minute: "\<And>u. int (length (in_minute u acc)) \<le> max_operations_per_minute q"
    using assms(1) by (auto simp: quota_inv_def)
  have live': "qw.live u (ap_write_timestamps ap) = qw.live u acc" if "t \<le> u" for u
    using live assms(2) that by simp
  show ?thesis
  proof (cases rule: check_write_quota_cases [of ap domain t])
    case (exhausted e)
    then show ?thesis using q live' minute by (simp add: quota_step_def quota_inv_def)
  next
    case (rate e)
    then show ?thesis using q live' minute by (simp add: quota_step_def quota_inv_def qw.live_live)
  next
    case accepted
    have "int (length (in_minute u (acc @ [t]))) \<le> max_operations_per_minute q" for u
    proof (cases "t \<le> u")
      case True
      have "length (in_minute u (acc @ [t])) \<le> length (qw.live u (acc @ [t]))"
        unfolding in_minute_def by (rule qw.live_le_t)
      also have "\<dots> \<le> length (qw.live t (acc @ [t]))" by (rule qw.live_anti [OF True])
      also have "\<dots> \<le> Suc (length (qw.live t acc))" by (simp add: qw.live_def)
      finally show ?thesis using accepted(2) live' [of t] q(1) by simp
    next
      case False
      then show ?thesis using minute [of u] by (simp add: in_minute_def)
    qed
    then show ?thesis
      using accepted q live' by (simp add: quota_step_def quota_inv_def qw.live_live)
  qed
qed

lemma quota_run_inv:
  assumes "sorted (map snd calls)" "0 \<le> max_operations_per_session (pc_write_quotas cfg)"
    "0 \<le> max_operations_per_minute (pc_write_quotas cfg)"
  shows "\<exists>now. quota_inv (pc_write_quotas cfg) now (quota_run (new_AutonomyPolicy cfg t0) calls) \<and>
    (\<forall>c\<in>set calls. snd c \<le> now) \<and> (calls \<noteq> [] \<longrightarrow> now = snd (last calls))"
  using assms(1)
proof (induction calls rule: rev_induct)
  case Nil
  then show ?case using assms(2,3)
    by (simp add: quota_run_def quota_inv_def new_AutonomyPolicy_def in_minute_def)
next
  case (snoc call calls)
  obtain domain t where call: "call = (domain, t)" by force
  let ?st = "quota_run (new_AutonomyPolicy cfg t0) calls"
  have le: "\<forall>c\<in>set calls. snd c \<le> t" using snoc.prems call by (simp add: sorted_append)
  obtain now where IH: "quota_inv (pc_write_quotas cfg) now ?st" "calls \<noteq> [] \<longrightarrow> now = snd (last calls)"
    using snoc by (auto simp: sorted_append)
  have "quota_inv (pc_write_quotas cfg) t (quota_step ?st call)"
  proof (cases "calls = []")
    case True
    have "quota_inv (pc_write_quotas cfg) t ?st"
      using True assms(2,3) by (simp add: quota_run_def quota_inv_def new_AutonomyPolicy_def in_minute_def)
    then show ?thesis using quota_inv_step [of _ t "fst ?st" "snd ?st" t domain] call by simp
  next
    case False
    then have "now \<le> t" using IH(2) le by simp
    then show ?thesis using quota_inv_step [of _ now "fst ?st" "snd ?st" t domain] IH(1) call by simp
  qed
  then show ?case using le call by (intro exI [of _ t]) (simp add: quota_run_def)
qed

text \<open>
  Whatever writes are requested, as long as the clock does not go back, the session never
  accepts more than \<open>max_operations_per_session\<close> of them, and no window of sixty seconds, at
  any moment, holds more than \<open>max_operations_per_minute\<close>; the counter is the number accepted.
\<close>

theorem write_quota_holds:
  assumes "sorted (map snd calls)" "0 \<le> max_operations_per_session (pc_write_quotas cfg)"
    "0 \<le> max_operations_per_minute (pc_write_quotas cfg)"
    and "quota_run (new_AutonomyPolicy cfg t0) calls = (acc, ap)"
  shows "int (length acc) \<le> max_operations_per_session (pc_write_quotas cfg) \<and>
    (\<forall>t. int (length (in_minute t acc)) \<le> max_operations_per_minute (pc_write_quotas cfg)) \<and>
    ap_write_count ap = int (length acc)"
  using quota_run_inv [OF assms(1-3), of t0] assms(4) by (auto simp: quota_inv_def)

theorem write_quota_holds_witness:
  "\<exists>acc ap. quota_run (new_AutonomyPolicy shipped_policy_config 0) (replicate 60 (''hr'', 5)) = (acc, ap) \<and>
     int (length acc) \<le> 50 \<and> int (length (in_minute 5 acc)) \<le> 10"
proof -
  let ?calls = "replicate 60 (''hr'', 5 :: pyfloat)"
  obtain acc ap where run: "quota_run (new_AutonomyPolicy shipped_policy_config 0) ?calls = (acc, ap)" by force
  have s: "sorted (map snd ?calls)" by simp
  have l: "max_operations_per_session (pc_write_quotas shipped_policy_config) = 50"
    "max_operations_per_minute (pc_write_quotas shipped_policy_config) = 10"
    by (simp_all add: shipped_policy_config_def)
  show ?thesis using write_quota_holds [OF s _ _ run] run l by auto
qed

text \<open>
  Every verdict of the quota is one of three: refused for the session, with the policy
  unchanged; refused for the last minute, with only old time stamps dropped; or accepted, with
  the count one higher and the time recorded. A session that has used up its quota refuses for
  ever, whatever the clock says.
\<close>

theorem write_quota_verdicts:
  "case check_write_quota ap domain now of
     (Inl e, ap') \<Rightarrow> is_PolicyViolationError e \<and> ap_write_count ap' = ap_write_count ap \<and>
       (max_operations_per_session (pc_write_quotas (ap_config ap)) \<le> ap_write_count ap \<longrightarrow>
          ap' = ap \<and> fst (check_write_quota ap' domain' now') \<noteq> Inr ())
   | (Inr _, ap') \<Rightarrow> ap_write_count ap' = ap_write_count ap + 1 \<and> last (ap_write_timestamps ap') = now \<and>
       ap_write_count ap < max_operations_per_session (pc_write_quotas (ap_config ap))"
  by (cases rule: check_write_quota_cases [of ap domain now]) (auto simp: check_write_quota_def [of ap domain'] Let_def)

theorem path_access_decision_witness:
  "check_path_access (\<lambda>p. p) (new_AutonomyPolicy shipped_policy_config 0) ''/etc/passwd'' ''read'' \<noteq> Inr () \<and>
   check_path_access (\<lambda>p. p) (new_AutonomyPolicy shipped_policy_config 0) ''/tmp/agent-os-poc/a'' ''read'' = Inr ()"
proof -
  let ?ap = "new_AutonomyPolicy shipped_policy_config 0"
  have m: "match_path ''/etc/passwd'' ''/etc/**''" "match_path ''/tmp/agent-os-poc/a'' ''/tmp/agent-os-poc/**''"
    "list_all (\<lambda>p. \<not> match_path ''/tmp/agent-os-poc/a'' p) (denied_paths (pc_filesystem shipped_policy_config))"
    by code_simp+
  have cfg: "ap_config ?ap = shipped_policy_config" by (simp add: new_AutonomyPolicy_def)
  have d: "''/etc/**'' \<in> set (denied_paths (pc_filesystem shipped_policy_config))"
    "''/tmp/agent-os-poc/**'' \<in> set (allowed_paths (pc_filesystem shipped_policy_config))"
    by (simp_all add: shipped_policy_config_def)
  show ?thesis
    using conjunct1 [OF path_access_decision [of "\<lambda>p. p" ?ap "''/etc/passwd''" "''read''"]]
      conjunct1 [OF path_access_decision [of "\<lambda>p. p" ?ap "''/tmp/agent-os-poc/a''" "''read''"]] m d
    unfolding cfg list_all_iff by blast
qed

theorem write_quota_verdicts_witness:
  "fst (check_write_quota (new_AutonomyPolicy shipped_policy_config 0\<lparr>ap_write_count := 50\<rparr>) ''hr'' 7) \<noteq> Inr ()"
proof -
  let ?ap = "new_AutonomyPolicy shipped_policy_config 0\<lparr>ap_write_count := 50\<rparr>"
  obtain r ap' where r: "check_write_quota ?ap ''hr'' 7 = (r, ap')" by force
  have "max_operations_per_session (pc_write_quotas (ap_config ?ap)) = 50" "ap_write_count ?ap = 50"
    by (simp_all add: new_AutonomyPolicy_def shipped_policy_config_def)
  then show ?thesis using write_quota_verdicts [where ap = ?ap and domain = "''hr''" and now = 7 and domain' = "''hr''" and now' = 7] by (simp add: r split: sum.splits)
qed

end
