(* ===== verification/Schema_Provider.thy ===== *)
theory Schema_Provider
  imports Py_Json
begin

text \<open>
  Graphs of rdflib as the program reads them, and the schema provider of
  \<^verbatim>\<open>src/agentos/governance/schema_provider.py\<close>. A graph is the list of its triples in the
  order rdflib iterates them. Parsing a Turtle file is the parameter \<open>parse_file\<close>: the
  triples read so far and the error, if there was one; the file system's \<open>exists\<close> is a
  parameter too.
\<close>

subsection \<open>rdflib\<close>

text \<open>
  A literal has its lexical form and the Python value rdflib gives it (\<open>PNone\<close> when it has
  none; a value of another class is the text \<open>str\<close> gives).
\<close>

datatype rdf_term = URIRef string | BNode string | Literal string pyval

type_synonym graph = "(rdf_term \<times> rdf_term \<times> rdf_term) list"

fun rdf_str :: "rdf_term \<Rightarrow> string" where
  "rdf_str (URIRef s) = s"
| "rdf_str (BNode s) = s"
| "rdf_str (Literal s _) = s"

fun rdf_truth :: "rdf_term \<Rightarrow> bool" where
  "rdf_truth (URIRef s) = (s \<noteq> [])"
| "rdf_truth (BNode s) = (s \<noteq> [])"
| "rdf_truth (Literal s v) = (if v \<noteq> PNone then py_truth v else s \<noteq> [])"

definition subjects :: "graph \<Rightarrow> rdf_term \<Rightarrow> rdf_term \<Rightarrow> rdf_term list" where
  "subjects g p ob = map fst (filter (\<lambda>(s, p', ob'). p' = p \<and> ob' = ob) g)"

definition objects :: "graph \<Rightarrow> rdf_term \<Rightarrow> rdf_term \<Rightarrow> rdf_term list" where
  "objects g s p = map (\<lambda>(s', p', ob). ob) (filter (\<lambda>(s', p', ob). s' = s \<and> p' = p) g)"

definition graph_value :: "graph \<Rightarrow> rdf_term \<Rightarrow> rdf_term \<Rightarrow> rdf_term option" where
  "graph_value g s p = (case objects g s p of [] \<Rightarrow> None | ob # _ \<Rightarrow> Some ob)"

text \<open>\<open>str(x) if x else None\<close>\<close>

definition opt_term_str :: "rdf_term option \<Rightarrow> pyval" where
  "opt_term_str t = (case t of Some x \<Rightarrow> (if rdf_truth x then PStr (rdf_str x) else PNone) | None \<Rightarrow> PNone)"

definition SH :: "string \<Rightarrow> rdf_term" where "SH n = URIRef (''http://www.w3.org/ns/shacl#'' @ n)"
definition OWL :: "string \<Rightarrow> rdf_term" where "OWL n = URIRef (''http://www.w3.org/2002/07/owl#'' @ n)"
definition RDFS :: "string \<Rightarrow> rdf_term" where "RDFS n = URIRef (''http://www.w3.org/2000/01/rdf-schema#'' @ n)"
definition RDF_type :: rdf_term where "RDF_type = URIRef ''http://www.w3.org/1999/02/22-rdf-syntax-ns#type''"

subsection \<open>DomainSchema\<close>

record domain_schema =
  ds_name :: string
  ds_owl_path :: string
  ds_shacl_path :: string
  ds_owl_graph :: "graph option"
  ds_shacl_graph :: "graph option"

type_synonym parse_file = "string \<Rightarrow> graph \<times> exn option"

text \<open>
  The lazy properties: the attribute is set to a fresh graph before the file is parsed into
  it, so a parse that raises leaves what it had read.
\<close>

definition lazy_graph :: "parse_file \<Rightarrow> graph option \<Rightarrow> string \<Rightarrow> (exn + graph) \<times> graph option" where
  "lazy_graph parse cached path =
     (case cached of
        Some g \<Rightarrow> (Inr g, Some g)
      | None \<Rightarrow> (case parse path of (g, None) \<Rightarrow> (Inr g, Some g) | (g, Some e) \<Rightarrow> (Inl e, Some g)))"

definition owl_graph :: "parse_file \<Rightarrow> domain_schema \<Rightarrow> (exn + graph) \<times> domain_schema" where
  "owl_graph parse d =
     (case lazy_graph parse (ds_owl_graph d) (ds_owl_path d) of (r, c) \<Rightarrow> (r, d\<lparr>ds_owl_graph := c\<rparr>))"

definition shacl_graph :: "parse_file \<Rightarrow> domain_schema \<Rightarrow> (exn + graph) \<times> domain_schema" where
  "shacl_graph parse d =
     (case lazy_graph parse (ds_shacl_graph d) (ds_shacl_path d) of (r, c) \<Rightarrow> (r, d\<lparr>ds_shacl_graph := c\<rparr>))"

definition classes_of :: "graph \<Rightarrow> pyval" where
  "classes_of g = PList (map (\<lambda>s. PDict
     [(''iri'', PStr (rdf_str s)),
      (''label'', opt_term_str (graph_value g s (RDFS ''label''))),
      (''comment'', opt_term_str (graph_value g s (RDFS ''comment'')))])
     (subjects g RDF_type (OWL ''Class'')))"

definition properties_of :: "graph \<Rightarrow> pyval" where
  "properties_of g = PList (concat (map (\<lambda>t. map (\<lambda>s. PDict
     [(''iri'', PStr (rdf_str s)),
      (''type'', PStr t),
      (''label'', opt_term_str (graph_value g s (RDFS ''label''))),
      (''domain'', opt_term_str (graph_value g s (RDFS ''domain''))),
      (''range'', opt_term_str (graph_value g s (RDFS ''range'')))])
     (subjects g RDF_type (OWL t))) [''ObjectProperty'', ''DatatypeProperty'']))"

definition value_error_int :: "string \<Rightarrow> exn" where
  "value_error_int s = OtherException ''ValueError''
     (''invalid literal for int() with base 10: '' @ repr_str s)"

text \<open>\<open>int(x) if x is not None else None\<close>\<close>

definition opt_term_int :: "rdf_term option \<Rightarrow> exn + pyval" where
  "opt_term_int t =
     (case t of
        None \<Rightarrow> Inr PNone
      | Some x \<Rightarrow> (case py_int (rdf_str x) of Some n \<Rightarrow> Inr (PInt n) | None \<Rightarrow> Inl (value_error_int (rdf_str x))))"

definition parse_shacl_property :: "graph \<Rightarrow> rdf_term \<Rightarrow> exn + pyval" where
  "parse_shacl_property g shape =
     bindE (opt_term_int (graph_value g shape (SH ''minCount''))) (\<lambda>min_count.
     bindE (opt_term_int (graph_value g shape (SH ''maxCount''))) (\<lambda>max_count.
     Inr (PDict
       [(''path'', opt_term_str (graph_value g shape (SH ''path''))),
        (''datatype'', opt_term_str (graph_value g shape (SH ''datatype''))),
        (''minCount'', min_count),
        (''maxCount'', max_count),
        (''name'', opt_term_str (graph_value g shape (SH ''name''))),
        (''description'', opt_term_str (graph_value g shape (SH ''description''))),
        (''allowedValues'', PNone)])))"

definition shacl_shapes_of :: "graph \<Rightarrow> exn + pyval" where
  "shacl_shapes_of g =
     bindE (mapE (\<lambda>s.
        bindE (mapE (parse_shacl_property g) (objects g s (SH ''property''))) (\<lambda>props.
        Inr (PDict
          [(''shape_iri'', PStr (rdf_str s)),
           (''target_class'', opt_term_str (graph_value g s (SH ''targetClass''))),
           (''properties'', PList props)])))
      (subjects g RDF_type (SH ''NodeShape'')))
     (\<lambda>shapes. Inr (PList shapes))"

subsection \<open>SchemaProvider\<close>

type_synonym schema_provider = "(string \<times> domain_schema) list"

record domain_config =
  dc_name :: string
  dc_owl_file :: string
  dc_shacl_file :: string

definition path_join :: "string \<Rightarrow> string \<Rightarrow> string" where
  "path_join dir f = (if prefix ''/'' f then f else dir @ ''/'' @ f)"

definition new_DomainSchema :: "string \<Rightarrow> string \<Rightarrow> string \<Rightarrow> domain_schema" where
  "new_DomainSchema name owl_path shacl_path =
     \<lparr>ds_name = name, ds_owl_path = owl_path, ds_shacl_path = shacl_path, ds_owl_graph = None, ds_shacl_graph = None\<rparr>"

definition new_SchemaProvider :: "(string \<Rightarrow> bool) \<Rightarrow> string \<Rightarrow> string \<Rightarrow> domain_config list \<Rightarrow> schema_provider" where
  "new_SchemaProvider exists owl_dir shacl_dir domains =
     fold (\<lambda>d sp. let owl_path = path_join owl_dir (dc_owl_file d);
                      shacl_path = path_join shacl_dir (dc_shacl_file d)
                  in if exists owl_path
                     then AList.update (dc_name d) (new_DomainSchema (dc_name d) owl_path shacl_path) sp
                     else sp)
       domains []"

definition list_domains :: "schema_provider \<Rightarrow> string list" where
  "list_domains sp = map fst sp"

definition get_domain :: "schema_provider \<Rightarrow> string \<Rightarrow> domain_schema option" where
  "get_domain sp name = map_of sp name"

text \<open>
  The dictionary is built in order: both OWL lists, then the shapes; the domain keeps the
  graphs that were loaded even when a later part raises.
\<close>

definition get_schema_definition ::
  "parse_file \<Rightarrow> schema_provider \<Rightarrow> string \<Rightarrow> (exn + (string \<times> pyval) list) \<times> schema_provider" where
  "get_schema_definition parse sp domain_name =
     (case get_domain sp domain_name of
        None \<Rightarrow> (Inr [(''domain'', PStr domain_name),
                      (''error'', PStr (''Unknown domain: '' @ domain_name)),
                      (''available_domains'', PList (map PStr (list_domains sp)))], sp)
      | Some d \<Rightarrow>
          (case owl_graph parse d of
             (Inl e, d1) \<Rightarrow> (Inl e, AList.update domain_name d1 sp)
           | (Inr og, d1) \<Rightarrow>
               (case shacl_graph parse d1 of
                  (Inl e, d2) \<Rightarrow> (Inl e, AList.update domain_name d2 sp)
                | (Inr sg, d2) \<Rightarrow>
                    (bindE (shacl_shapes_of sg) (\<lambda>shapes.
                       Inr [(''domain'', PStr domain_name), (''classes'', classes_of og),
                            (''properties'', properties_of og), (''shacl_shapes'', shapes),
                            (''owl_path'', PStr (ds_owl_path d)), (''shacl_path'', PStr (ds_shacl_path d))]),
                     AList.update domain_name d2 sp))))"

subsection \<open>Laws\<close>

lemma lazy_graph_again: "fst (lazy_graph parse (snd (lazy_graph parse c path)) path) =
    Inr (case c of Some g \<Rightarrow> g | None \<Rightarrow> fst (parse path))"
  by (auto simp: lazy_graph_def split: option.splits prod.splits)

lemma update_keys: "map_of sp k = Some v \<Longrightarrow> map fst (AList.update k w sp) = map fst sp"
  by (induction sp) (auto split: if_splits)

lemma get_schema_keeps_domains:
  "list_domains (snd (get_schema_definition parse sp n)) = list_domains sp"
  by (auto simp: get_schema_definition_def get_domain_def list_domains_def update_keys
      split: option.splits prod.splits sum.splits)

text \<open>
  A schema request for an unknown domain answers with an error entry that lists the known
  domains and changes nothing; for a known one it either raises what the parser or a count
  that is not a number raised, or answers with exactly the classes, properties and shapes of
  the two graphs; no request adds or removes a domain.
\<close>

theorem schema_definition_outcome:
  assumes "get_schema_definition parse sp n = (r, sp')"
  shows "list_domains sp' = list_domains sp \<and>
    (case r of
       Inr d \<Rightarrow> (map_of d ''domain'' = Some (PStr n)) \<and>
         (map_of d ''error'' \<noteq> None \<longleftrightarrow> get_domain sp n = None) \<and>
         (get_domain sp n = None \<longrightarrow> sp' = sp \<and> map_of d ''available_domains'' = Some (PList (map PStr (list_domains sp))))
     | Inl e \<Rightarrow> get_domain sp n \<noteq> None)"
proof -
  have "list_domains sp' = list_domains sp" using get_schema_keeps_domains [of parse sp n] assms by simp
  moreover have "case r of
       Inr d \<Rightarrow> (map_of d ''domain'' = Some (PStr n)) \<and>
         (map_of d ''error'' \<noteq> None \<longleftrightarrow> get_domain sp n = None) \<and>
         (get_domain sp n = None \<longrightarrow> sp' = sp \<and> map_of d ''available_domains'' = Some (PList (map PStr (list_domains sp))))
     | Inl e \<Rightarrow> get_domain sp n \<noteq> None"
    using assms
    by (auto simp: get_schema_definition_def bindE_def split: option.splits prod.splits sum.splits)
  ultimately show ?thesis ..
qed

theorem schema_definition_outcome_witness:
  "map_of (projr (fst (get_schema_definition (\<lambda>_. ([], None)) [] ''hr''))) ''available_domains'' = Some (PList [])"
proof -
  have g: "get_schema_definition (\<lambda>_. ([], None)) [] ''hr'' =
    (Inr [(''domain'', PStr ''hr''), (''error'', PStr (''Unknown domain: '' @ ''hr'')),
          (''available_domains'', PList (map PStr (list_domains [])))], [])"
    by (simp add: get_schema_definition_def get_domain_def)
  have "get_domain [] ''hr'' = None" by (simp add: get_domain_def)
  then show ?thesis using schema_definition_outcome [OF g] by (simp add: g list_domains_def)
qed

text \<open>
  A file that fails to parse is only reported once: the first request for the schema
  raises, and leaves the graph the parser had begun in the cache, so that the second request
  succeeds with whatever was read before the error.
\<close>

theorem failed_parse_is_cached:
  assumes "get_domain sp n = Some d" and "ds_owl_graph d = None" and "ds_shacl_graph d = Some sg"
    and "parse (ds_owl_path d) = (g, Some e)" and "shacl_shapes_of sg = Inr shapes"
  shows "fst (get_schema_definition parse sp n) = Inl e \<and>
    fst (get_schema_definition parse (snd (get_schema_definition parse sp n)) n) =
      Inr [(''domain'', PStr n), (''classes'', classes_of g), (''properties'', properties_of g),
           (''shacl_shapes'', shapes), (''owl_path'', PStr (ds_owl_path d)), (''shacl_path'', PStr (ds_shacl_path d))]"
  using assms
  by (simp add: get_schema_definition_def owl_graph_def shacl_graph_def lazy_graph_def get_domain_def map_of_update_eq)

theorem failed_parse_is_cached_witness:
  "let d = (new_DomainSchema ''hr'' ''hr.ttl'' ''hr-shapes.ttl'')\<lparr>ds_shacl_graph := Some []\<rparr>;
       parse = (\<lambda>_. ([], Some (OtherException ''BadSyntax'' ''line 1'')))
   in fst (get_schema_definition parse [(''hr'', d)] ''hr'') = Inl (OtherException ''BadSyntax'' ''line 1'') \<and>
      is_ok (fst (get_schema_definition parse (snd (get_schema_definition parse [(''hr'', d)] ''hr'')) ''hr''))"
proof -
  let ?d = "(new_DomainSchema ''hr'' ''hr.ttl'' ''hr-shapes.ttl'')\<lparr>ds_shacl_graph := Some []\<rparr>"
  have s: "shacl_shapes_of [] = Inr (PList [])" by (simp add: shacl_shapes_of_def subjects_def)
  have d: "get_domain [(''hr'', ?d)] ''hr'' = Some ?d" "ds_owl_graph ?d = None" "ds_shacl_graph ?d = Some []"
    by (simp_all add: get_domain_def new_DomainSchema_def)
  show ?thesis
    using failed_parse_is_cached [OF d, of "\<lambda>_. ([], Some (OtherException ''BadSyntax'' ''line 1''))" "[]"
        "OtherException ''BadSyntax'' ''line 1''" "PList []"] s
    by (simp add: Let_def)
qed

end
