(* ===== verification/Shacl_Validator.thy ===== *)
theory Shacl_Validator
  imports Schema_Provider Security_Dimensions
begin

text \<open>
  The SHACL validator, \<^verbatim>\<open>src/agentos/governance/shacl_validator.py\<close>. The engine
  (\<open>pyshacl.validate\<close>) is the parameter \<open>engine\<close>: it raises or gives the verdict and the
  graph of results, which the code here turns into a report.
\<close>

record shacl_report =
  rep_conforms :: bool
  rep_results :: "(string \<times> pyval) list list"

definition is_valid :: "shacl_report \<Rightarrow> bool" where
  "is_valid r = rep_conforms r"

definition report_to_dict :: "shacl_report \<Rightarrow> pyval" where
  "report_to_dict r = PDict
     [(''conforms'', PBool (rep_conforms r)), (''is_valid'', PBool (rep_conforms r)),
      (''result_count'', PInt (int (length (rep_results r)))),
      (''results'', PList (map PDict (rep_results r)))]"

text \<open>The em dash of the messages.\<close>

definition em_dash :: string where "em_dash = u8 [0xE2, 0x80, 0x94]"

definition to_json_rpc_error :: "shacl_report \<Rightarrow> pyval" where
  "to_json_rpc_error r = PDict
     [(''jsonrpc'', PStr ''2.0''),
      (''error'', PDict
        [(''code'', PInt (-32602)),
         (''message'', PStr (''SHACL validation failed '' @ em_dash @ '' data does not comply with ontology constraints.'')),
         (''data'', PDict
           [(''domain'', PStr ''it-asset-mgmt''),
            (''validation'', report_to_dict r),
            (''hint'', PStr (''Please fix the violations listed in '' @ [CHR 0x27] @ ''results'' @ [CHR 0x27] @
              '' and retry. Each result includes a '' @ [CHR 0x27] @ ''fixHint'' @ [CHR 0x27] @ '' field.''))])])]"

record shacl_validator =
  sv_shacl_graph :: graph
  sv_tracer :: "tracer option"
  sv_domain_name :: "string option"

type_synonym shacl_engine = "graph \<Rightarrow> graph \<Rightarrow> exn + bool \<times> graph"

definition quoted :: "string \<Rightarrow> string" where
  "quoted s = [CHR 0x27] @ s @ [CHR 0x27]"

definition generate_fix_hint :: "string \<Rightarrow> string \<Rightarrow> string" where
  "generate_fix_hint path message =
     (let m = py_lower message
      in if py_in ''minCount'' m \<or> py_in ''required'' m then
           ''Add the required property '' @ quoted path @ '' to the entity.''
         else if py_in ''maxCount'' m then
           ''Remove duplicate values for property '' @ quoted path @ '' '' @ em_dash @ '' only one is allowed.''
         else if py_in ''in'' m \<or> py_in ''allowed'' m then
           ''Change '' @ quoted path @ '' to one of the allowed values listed in the schema.''
         else if py_in ''datatype'' m \<or> py_in ''type'' m then
           ''Ensure '' @ quoted path @ '' has the correct data type as defined in the schema.''
         else ''Review the SHACL shape constraint for '' @ quoted path @ '' and fix the data.'')"

text \<open>\<open>str(x)\<close> of a term that is there and true, else a default.\<close>

definition term_str_or :: "rdf_term option \<Rightarrow> (string \<Rightarrow> string) \<Rightarrow> string \<Rightarrow> string" where
  "term_str_or t f dflt = (case t of Some x \<Rightarrow> (if rdf_truth x then f (rdf_str x) else dflt) | None \<Rightarrow> dflt)"

definition parse_result :: "graph \<Rightarrow> rdf_term \<Rightarrow> (string \<times> pyval) list" where
  "parse_result g node =
     (let focus_node = graph_value g node (SH ''focusNode'');
          result_path = graph_value g node (SH ''resultPath'');
          result_message = graph_value g node (SH ''resultMessage'');
          result_severity = graph_value g node (SH ''resultSeverity'');
          val = graph_value g node (SH ''value'');
          severity = (if result_severity = Some (SH ''Warning'') then ''Warning''
                      else if result_severity = Some (SH ''Info'') then ''Info'' else ''Violation'');
          msg_str = term_str_or result_message (\<lambda>s. s) [];
          path_str = term_str_or result_path (\<lambda>s. last (py_split (CHR ''#'') s)) ''?''
      in [(''focusNode'', opt_term_str focus_node),
          (''resultPath'', opt_term_str result_path),
          (''resultMessage'', PStr msg_str),
          (''severity'', PStr severity),
          (''value'', opt_term_str val),
          (''fixHint'', PStr (generate_fix_hint path_str msg_str))])"

definition parse_results :: "graph \<Rightarrow> (string \<times> pyval) list list" where
  "parse_results g = map (parse_result g) (subjects g RDF_type (SH ''ValidationResult''))"

definition validate :: "shacl_engine \<Rightarrow> shacl_validator \<Rightarrow> graph \<Rightarrow> (exn + shacl_report) \<times> span list" where
  "validate engine v data_graph =
     (case engine data_graph (sv_shacl_graph v) of
        Inl exc \<Rightarrow> (Inl (new_SHACLValidationError (''SHACL validation engine error: '' @ exn_str exc) PNone), [])
      | Inr (conforms, results_graph) \<Rightarrow>
          (let report = \<lparr>rep_conforms = conforms, rep_results = parse_results results_graph\<rparr>
           in (Inr report,
               if \<not> conforms then
                 (case sv_tracer v of
                    Some tr \<Rightarrow> emit_shacl_validation_error_span tr
                      (case sv_domain_name v of Some (c # cs) \<Rightarrow> c # cs | _ \<Rightarrow> ''unknown'') (rep_results report)
                  | None \<Rightarrow> [])
               else [])))"

definition validator_from_file ::
  "parse_file \<Rightarrow> string \<Rightarrow> tracer option \<Rightarrow> string option \<Rightarrow> exn + shacl_validator" where
  "validator_from_file parse path tracer domain_name =
     (case parse path of
        (g, None) \<Rightarrow> Inr \<lparr>sv_shacl_graph = g, sv_tracer = tracer, sv_domain_name = domain_name\<rparr>
      | (_, Some e) \<Rightarrow> Inl e)"

subsection \<open>What reports say\<close>

lemma ascii_lower_not_upper: "is_upper_char c \<Longrightarrow> c \<notin> set (py_lower m)"
proof -
  have "\<not> is_upper_char (ascii_lower d)" for d
    by (auto simp: is_upper_char_def ascii_lower_def Let_def)
  then show "is_upper_char c \<Longrightarrow> c \<notin> set (py_lower m)" by (auto simp: py_lower_def)
qed

lemma py_in_set: "py_in k m \<Longrightarrow> set k \<subseteq> set m"
  by (auto simp: py_in_iff_sublist sublist_def)

lemma fix_hint_dead: "\<not> py_in ''minCount'' (py_lower m)" "\<not> py_in ''maxCount'' (py_lower m)"
proof -
  have "CHR ''C'' \<notin> set (py_lower m)" by (rule ascii_lower_not_upper) (simp add: is_upper_char_def)
  then show "\<not> py_in ''minCount'' (py_lower m)" "\<not> py_in ''maxCount'' (py_lower m)"
    using py_in_set by fastforce+
qed

text \<open>
  The hint to remove duplicate values is never given, and the one to add a required
  property only for the word "required": \<open>minCount\<close> and \<open>maxCount\<close> are searched in the
  lower-cased message, which contains no capital letter.
\<close>

theorem fix_hint_reachable:
  "generate_fix_hint path message \<in>
     {''Add the required property '' @ quoted path @ '' to the entity.'',
      ''Change '' @ quoted path @ '' to one of the allowed values listed in the schema.'',
      ''Ensure '' @ quoted path @ '' has the correct data type as defined in the schema.'',
      ''Review the SHACL shape constraint for '' @ quoted path @ '' and fix the data.''} \<and>
   (generate_fix_hint path message = ''Add the required property '' @ quoted path @ '' to the entity.'' \<longleftrightarrow>
      py_in ''required'' (py_lower message))"
  by (simp add: generate_fix_hint_def Let_def fix_hint_dead)

lemma parse_result_get [simp]:
  "map_of (parse_result g n) ''focusNode'' = Some (opt_term_str (graph_value g n (SH ''focusNode'')))"
  "map_of (parse_result g n) ''resultMessage'' = Some (PStr (term_str_or (graph_value g n (SH ''resultMessage'')) (\<lambda>s. s) []))"
  by (simp_all add: parse_result_def Let_def)

text \<open>
  A validation either raises a \<open>SHACLValidationError\<close> (the engine's own failure) or gives
  a report with the engine's verdict and one entry per validation result, in order, with its
  node and message; and it emits at most one span, only for a verdict of non-conformance.
\<close>

theorem validate_outcome:
  "case validate engine v g of
     (Inl e, spans) \<Rightarrow> (\<exists>exc. engine g (sv_shacl_graph v) = Inl exc \<and>
        e = SHACLValidationError (''SHACL validation engine error: '' @ exn_str exc) (PDict [])) \<and> spans = []
   | (Inr r, spans) \<Rightarrow> (\<exists>rg. engine g (sv_shacl_graph v) = Inr (is_valid r, rg) \<and>
        length (rep_results r) = length (subjects rg RDF_type (SH ''ValidationResult''))) \<and>
        length spans \<le> 1 \<and> (spans \<noteq> [] \<longrightarrow> \<not> is_valid r \<and> sv_tracer v \<noteq> None)"
  by (auto simp: validate_def new_SHACLValidationError_def is_valid_def parse_results_def Let_def split: sum.split prod.split option.split list.split)

theorem validate_outcome_witness:
  "\<exists>r. fst (validate (\<lambda>g s. Inr (False, [])) \<lparr>sv_shacl_graph = [], sv_tracer = None, sv_domain_name = None\<rparr> []) = Inr r \<and>
     \<not> is_valid r \<and> rep_results r = []"
proof -
  obtain r spans where r: "validate (\<lambda>g s. Inr (False, []))
      \<lparr>sv_shacl_graph = [], sv_tracer = None, sv_domain_name = None\<rparr> [] = (r, spans)" by force
  have "subjects [] RDF_type (SH ''ValidationResult'') = []" by code_simp
  then show ?thesis
    using validate_outcome [where engine = "\<lambda>g s. Inr (False, [])" and g = "[]"
        and v = "\<lparr>sv_shacl_graph = [], sv_tracer = None, sv_domain_name = None\<rparr>"]
    by (auto simp: r split: sum.splits)
qed

end
