(* ===== verification/Neo4j_Client.thy ===== *)
theory Neo4j_Client
  imports Exceptions
begin

text \<open>
  The write path of \<^verbatim>\<open>src/agentos/governance/neo4j_client.py\<close>: the transaction context and
  \<open>execute_write_batch\<close>. The driver is the parameter: it begins a transaction on the
  database, runs a statement in it (with the number of nodes and relationships it created),
  and commits it; each step may raise. A transaction that does not come to its commit is rolled
  back, which leaves the database as it was. A commit that raises may have changed the database
  or not (a connection that is lost while committing leaves the client in doubt), so the commit
  gives the database after it in either case.
\<close>

record ('db, 'tx) neo4j_driver =
  nd_begin :: "'db \<Rightarrow> exn + 'tx"
  nd_run :: "'tx \<Rightarrow> string \<Rightarrow> exn + ('tx \<times> int)"
  nd_commit :: "'tx \<Rightarrow> 'db \<Rightarrow> (exn + unit) \<times> 'db"

fun run_statements :: "('db, 'tx) neo4j_driver \<Rightarrow> string list \<Rightarrow> 'tx \<Rightarrow> int \<Rightarrow> exn + ('tx \<times> int)" where
  "run_statements drv [] tx cnt = Inr (tx, cnt)"
| "run_statements drv (cypher # cs) tx cnt =
     (if py_strip cypher \<noteq> []
      then bindE (nd_run drv tx cypher) (\<lambda>(tx', n). run_statements drv cs tx' (cnt + n))
      else run_statements drv cs tx cnt)"

text \<open>The \<open>async with self.transaction()\<close> block: up to the commit every error leaves the database alone.\<close>

definition execute_write_batch :: "('db, 'tx) neo4j_driver \<Rightarrow> 'db \<Rightarrow> string list \<Rightarrow> (exn + int) \<times> 'db" where
  "execute_write_batch drv db statements =
     (case bindE (nd_begin drv db) (\<lambda>tx. run_statements drv statements tx 0) of
        Inl e \<Rightarrow> (Inl e, db)
      | Inr (tx', cnt) \<Rightarrow> (case nd_commit drv tx' db of (r, db') \<Rightarrow> (bindE r (\<lambda>_. Inr cnt), db')))"

lemma run_statements_skip:
  "run_statements drv cs tx cnt = run_statements drv (filter (\<lambda>c. py_strip c \<noteq> []) cs) tx cnt"
proof (induction cs arbitrary: tx cnt)
  case (Cons c cs)
  then have "(\<lambda>(tx', n). run_statements drv cs tx' (cnt + n)) =
    (\<lambda>(tx', n). run_statements drv (filter (\<lambda>c. py_strip c \<noteq> []) cs) tx' (cnt + n))" by auto
  then show ?case using Cons by auto
qed simp

subsection \<open>All or nothing\<close>

text \<open>Whether a batch comes to its commit: it could begin, and every statement ran.\<close>

definition reaches_commit :: "('db, 'tx) neo4j_driver \<Rightarrow> 'db \<Rightarrow> string list \<Rightarrow> bool" where
  "reaches_commit drv db statements = is_ok (bindE (nd_begin drv db) (\<lambda>tx. run_statements drv statements tx 0))"

text \<open>What the write gate relies on: a batch that does not come to its commit raises and changes nothing.\<close>

locale write_backend =
  fixes batch :: "'db \<Rightarrow> string list \<Rightarrow> (exn + int) \<times> 'db" and committing :: "'db \<Rightarrow> string list \<Rightarrow> bool"
  assumes aborted: "\<not> committing db stmts \<Longrightarrow> \<exists>e. batch db stmts = (Inl e, db)"
begin

lemma changed_only_by_commit: "snd (batch db stmts) \<noteq> db \<Longrightarrow> committing db stmts"
  using aborted by fastforce

lemma success_commits: "batch db stmts = (Inr n, db') \<Longrightarrow> committing db stmts"
  using aborted by fastforce

end

interpretation neo4j: write_backend "execute_write_batch drv" "reaches_commit drv" for drv :: "('db, 'tx) neo4j_driver"
  by unfold_locales (auto simp: execute_write_batch_def reaches_commit_def is_ok_def split: sum.splits)

text \<open>
  A batch is one transaction: every statement that is not blank ran in it in order without an
  error, it was committed, and the result is the sum of what they created; or the batch raises,
  and the database is unchanged unless it was the commit that raised.
\<close>

theorem write_batch_atomic:
  "case execute_write_batch drv db stmts of
     (Inr n, db') \<Rightarrow> \<exists>tx tx'. nd_begin drv db = Inr tx \<and>
       run_statements drv (filter (\<lambda>c. py_strip c \<noteq> []) stmts) tx 0 = Inr (tx', n) \<and> nd_commit drv tx' db = (Inr (), db')
   | (Inl e, db') \<Rightarrow> db' = db \<or> (\<exists>tx'. nd_commit drv tx' db = (Inl e, db') \<and> reaches_commit drv db stmts)"
  unfolding execute_write_batch_def reaches_commit_def run_statements_skip [of drv stmts]
  by (auto simp: bindE_def is_ok_def split: sum.split prod.split sum.splits)

end
