(* ===== verification/Write_Gate.thy ===== *)
theory Write_Gate
  imports Shacl_Validator Neo4j_Client Autonomy_Policy
begin

text \<open>
  The three-stage write gate, \<^verbatim>\<open>src/agentos/governance/write_gate.py\<close>. The environment holds
  what is not this program's: SHA-256 and HMAC-SHA-256 (hex digests), the RDF parser, the
  SHACL engine, the file parser and the Neo4j driver. Each reading of a clock is an argument.
  The autonomy policy is the object the kernel shares with the gate, so it is passed in and
  returned. The awaited call at the end is the only point where another task can run: the
  nonce is checked and burned before it.
\<close>

record ('db, 'tx) gate_env =
  ge_sha256 :: "string \<Rightarrow> string"
  ge_hmac :: "string \<Rightarrow> string \<Rightarrow> string"
  ge_parse_rdf :: "string \<Rightarrow> string \<Rightarrow> exn + graph"
  ge_parse_file :: parse_file
  ge_engine :: shacl_engine
  ge_driver :: "('db, 'tx) neo4j_driver"

record write_gate =
  wg_schema_provider :: schema_provider
  wg_has_neo4j :: bool
  wg_nonce_secret :: string
  wg_nonce_ttl :: int
  wg_tracer :: "tracer option"
  wg_validators :: "(string \<times> shacl_validator) list"
  wg_consumed_nonces :: "(string \<times> pyfloat) list"

definition new_WriteGate :: "schema_provider \<Rightarrow> bool \<Rightarrow> string \<Rightarrow> int \<Rightarrow> tracer option \<Rightarrow> write_gate" where
  "new_WriteGate sp has_neo4j secret ttl tracer =
     \<lparr>wg_schema_provider = sp, wg_has_neo4j = has_neo4j, wg_nonce_secret = secret, wg_nonce_ttl = ttl,
      wg_tracer = tracer, wg_validators = [], wg_consumed_nonces = []\<rparr>"

subsection \<open>Stage 1: schema\<close>

definition get_domain_schema ::
  "('db, 'tx) gate_env \<Rightarrow> write_gate \<Rightarrow> string \<Rightarrow> (exn + (string \<times> pyval) list) \<times> write_gate" where
  "get_domain_schema env gate domain_name =
     (case get_schema_definition (ge_parse_file env) (wg_schema_provider gate) domain_name of
        (r, sp) \<Rightarrow>
          (bindE r (\<lambda>d. if map_of d ''error'' \<noteq> None
             then Inl (GovernanceError (''Unknown domain '' @ sq domain_name @ ''. Available: '' @
                    py_str (py_get d ''available_domains'' (PList []))))
             else Inr d),
           gate\<lparr>wg_schema_provider := sp\<rparr>))"

subsection \<open>The nonce\<close>

definition nonce_payload :: "int \<Rightarrow> string \<Rightarrow> string \<Rightarrow> string" where
  "nonce_payload ts data_hash domain_name = py_str_int ts @ '':'' @ data_hash @ '':'' @ domain_name"

definition generate_nonce :: "('db, 'tx) gate_env \<Rightarrow> write_gate \<Rightarrow> string \<Rightarrow> string \<Rightarrow> pyfloat \<Rightarrow> string" where
  "generate_nonce env gate domain_name data_rdf now =
     (let timestamp = trunc now;
          data_hash = ge_sha256 env data_rdf;
          signature = ge_hmac env (wg_nonce_secret gate) (nonce_payload timestamp data_hash domain_name)
      in py_str_int timestamp @ '':'' @ data_hash @ '':'' @ signature)"

definition cleanup_expired_nonces :: "write_gate \<Rightarrow> pyfloat \<Rightarrow> write_gate" where
  "cleanup_expired_nonces gate now =
     gate\<lparr>wg_consumed_nonces := filter (\<lambda>(sig, expires_at). \<not> expires_at \<le> now) (wg_consumed_nonces gate)\<rparr>"

text \<open>\<open>float(n)\<close>, which the subtraction from a float applies to an \<open>int\<close>.\<close>

definition int_to_float :: "int \<Rightarrow> exn + pyfloat" where
  "int_to_float n =
     (if \<bar>n\<bar> < 2 ^ 1024 - 2 ^ 970 then Inr (fl (of_int n))
      else Inl (OtherException ''OverflowError'' ''int too large to convert to float''))"

definition is_ascii :: "string \<Rightarrow> bool" where
  "is_ascii s = list_all (\<lambda>c. of_char c < (128 :: nat)) s"

text \<open>The handler that turns any other exception into a \<open>WriteGateError\<close>.\<close>

definition nonce_failure :: "exn \<Rightarrow> exn" where
  "nonce_failure exc = WriteGateError (''Failed to verify validation nonce: '' @ exn_str exc @
     ''. Ensure you are passing the exact nonce returned by verify_shacl_compliance.'')"

definition nonce_expired :: "int \<Rightarrow> exn" where
  "nonce_expired ttl = WriteGateError (''Validation nonce has expired (TTL='' @ py_str_int ttl @
     ''s). Please re-validate via verify_shacl_compliance.'')"

definition nonce_replayed :: exn where
  "nonce_replayed = WriteGateError (''Validation nonce has already been consumed. '' @
     ''Each nonce can only be used once. '' @
     ''Please re-validate via verify_shacl_compliance to get a new nonce.'')"

definition nonce_tampered :: exn where
  "nonce_tampered = WriteGateError (''Validation nonce signature is invalid. '' @
     ''This may indicate a tampering attempt. '' @ ''Please re-validate via verify_shacl_compliance.'')"

definition nonce_mismatch :: exn where
  "nonce_mismatch = WriteGateError (''Data hash mismatch '' @ em_dash @ '' the submitted data differs from '' @
     ''what was validated. Write blocked. '' @ ''Please re-validate the correct data via verify_shacl_compliance.'')"

definition verify_nonce ::
  "('db, 'tx) gate_env \<Rightarrow> write_gate \<Rightarrow> string \<Rightarrow> string \<Rightarrow> string \<Rightarrow> pyfloat \<Rightarrow> pyfloat \<Rightarrow> (exn + unit) \<times> write_gate" where
  "verify_nonce env gate domain_name data_rdf nonce t_ttl t_cleanup =
     (case py_split (CHR '':'') nonce of
        [timestamp_str, data_hash, signature] \<Rightarrow>
          (case py_int timestamp_str of
             None \<Rightarrow> (Inl (nonce_failure (value_error_int timestamp_str)), gate)
           | Some timestamp \<Rightarrow>
               (case int_to_float timestamp of
                  Inl e \<Rightarrow> (Inl (nonce_failure e), gate)
                | Inr ts \<Rightarrow>
                    if fsub t_ttl ts > of_int (wg_nonce_ttl gate) then (Inl (nonce_expired (wg_nonce_ttl gate)), gate)
                    else let gate1 = cleanup_expired_nonces gate t_cleanup
                    in if map_of (wg_consumed_nonces gate1) signature \<noteq> None then (Inl nonce_replayed, gate1)
                       else if \<not> is_ascii signature then
                         (Inl (nonce_failure (OtherException ''TypeError''
                            ''comparing strings with non-ASCII characters is not supported'')), gate1)
                       else if signature \<noteq> ge_hmac env (wg_nonce_secret gate) (nonce_payload timestamp data_hash domain_name)
                       then (Inl nonce_tampered, gate1)
                       else if ge_sha256 env data_rdf \<noteq> data_hash then (Inl nonce_mismatch, gate1)
                       else (Inr (), gate1)))
      | _ \<Rightarrow> (Inl (nonce_failure (OtherException ''ValueError'' ''Invalid nonce format'')), gate))"

definition consume_nonce :: "write_gate \<Rightarrow> string \<Rightarrow> pyfloat \<Rightarrow> write_gate" where
  "consume_nonce gate nonce now =
     (case py_split (CHR '':'') nonce of
        [_, _, signature] \<Rightarrow>
          gate\<lparr>wg_consumed_nonces :=
            AList.update signature (fadd now (fl (of_int (wg_nonce_ttl gate)))) (wg_consumed_nonces gate)\<rparr>
      | _ \<Rightarrow> gate)"

subsection \<open>Stage 2: validation\<close>

definition rdf_failure :: "exn \<Rightarrow> string \<Rightarrow> exn" where
  "rdf_failure exc rdf_format = new_SHACLValidationError (''Failed to parse RDF data: '' @ exn_str exc @
     ''. Ensure your data is valid '' @ py_upper rdf_format @ '' format.'') PNone"

text \<open>The cached validator of a domain, made on first use.\<close>

definition get_validator ::
  "('db, 'tx) gate_env \<Rightarrow> write_gate \<Rightarrow> string \<Rightarrow> (exn + shacl_validator) \<times> write_gate" where
  "get_validator env gate domain_name =
     (case map_of (wg_validators gate) domain_name of
        Some v \<Rightarrow> (Inr v, gate)
      | None \<Rightarrow>
          (case get_domain (wg_schema_provider gate) domain_name of
             None \<Rightarrow> (Inl (GovernanceError (''Unknown domain '' @ sq domain_name @ ''. Available: '' @
                        py_repr_strs (list_domains (wg_schema_provider gate)))), gate)
           | Some d \<Rightarrow>
               (case validator_from_file (ge_parse_file env) (ds_shacl_path d) (wg_tracer gate) (Some domain_name) of
                  Inl e \<Rightarrow> (Inl e, gate)
                | Inr v \<Rightarrow> (Inr v, gate\<lparr>wg_validators := AList.update domain_name v (wg_validators gate)\<rparr>))))"

definition verify_shacl_compliance ::
  "('db, 'tx) gate_env \<Rightarrow> write_gate \<Rightarrow> string \<Rightarrow> string \<Rightarrow> string \<Rightarrow> pyfloat \<Rightarrow>
     (exn + shacl_report \<times> string option) \<times> write_gate \<times> span list" where
  "verify_shacl_compliance env gate domain_name data_rdf rdf_format now =
     (case get_validator env gate domain_name of
        (Inl e, gate1) \<Rightarrow> (Inl e, gate1, [])
      | (Inr validator, gate1) \<Rightarrow>
          (case ge_parse_rdf env data_rdf rdf_format of
             Inl exc \<Rightarrow> (Inl (rdf_failure exc rdf_format), gate1, [])
           | Inr data_graph \<Rightarrow>
               (case validate (ge_engine env) validator data_graph of
                  (Inl e, spans) \<Rightarrow> (Inl e, gate1, spans)
                | (Inr report, spans) \<Rightarrow>
                    (Inr (report,
                       if is_valid report then Some (generate_nonce env gate1 domain_name data_rdf now) else None),
                     gate1, spans))))"

subsection \<open>RDF to Cypher\<close>

text \<open>
  \<open>re.sub(r"[^A-Z0-9_]", "_", label.upper(), flags=re.IGNORECASE)\<close>, code point by code point.
  \<open>upper\<close> maps some code points to ASCII letters or to several code points, and ignoring case
  \<open>A-Z\<close> also takes in U+0130 and U+212A; the tables are those of Python 3.11, every other code
  point outside ASCII becomes one underscore.
\<close>

definition label_letters :: "(nat \<times> string) list" where
  "label_letters =
    [(0xDF, ''SS''), (0x130, u8 [0xC4, 0xB0]), (0x131, ''I''), (0x149, ''_N''), (0x17F, ''S''), (0x1F0, ''J_''),
     (0x1E96, ''H_''), (0x1E97, ''T_''), (0x1E98, ''W_''), (0x1E99, ''Y_''), (0x1E9A, ''A_''), (0x212A, u8 [0xE2, 0x84, 0xAA]),
     (0xFB00, ''FF''), (0xFB01, ''FI''), (0xFB02, ''FL''), (0xFB03, ''FFI''), (0xFB04, ''FFL''), (0xFB05, ''ST''), (0xFB06, ''ST'')]"

definition in_ranges :: "(nat \<times> nat) list \<Rightarrow> nat \<Rightarrow> bool" where
  "in_ranges rs n = list_ex (\<lambda>(lo, hi). lo \<le> n \<and> n \<le> hi) rs"

definition upper_to_two :: "(nat \<times> nat) list" where
  "upper_to_two =
    [(0x587, 0x587), (0x1F50, 0x1F50), (0x1F80, 0x1FAF), (0x1FB2, 0x1FB4), (0x1FB6, 0x1FB6), (0x1FBC, 0x1FBC), (0x1FC2, 0x1FC4), (0x1FC6, 0x1FC6),
     (0x1FCC, 0x1FCC), (0x1FD6, 0x1FD6), (0x1FE4, 0x1FE4), (0x1FE6, 0x1FE6), (0x1FF2, 0x1FF4), (0x1FF6, 0x1FF6), (0x1FFC, 0x1FFC), (0xFB13, 0xFB17)]"

definition upper_to_three :: "(nat \<times> nat) list" where
  "upper_to_three =
    [(0x390, 0x390), (0x3B0, 0x3B0), (0x1F52, 0x1F52), (0x1F54, 0x1F54), (0x1F56, 0x1F56), (0x1FB7, 0x1FB7), (0x1FC7, 0x1FC7), (0x1FD2, 0x1FD3),
     (0x1FD7, 0x1FD7), (0x1FE2, 0x1FE3), (0x1FE7, 0x1FE7), (0x1FF7, 0x1FF7)]"

definition label_code :: "nat \<Rightarrow> string" where
  "label_code n =
     (if n < 128
      then (let c = ascii_upper (char_of n)
            in if is_upper_char c \<or> is_digit c then [c] else ''_'')
      else case map_of label_letters n of
        Some letters \<Rightarrow> letters
      | None \<Rightarrow> replicate (if in_ranges upper_to_two n then 2 else if in_ranges upper_to_three n then 3 else 1) (CHR ''_''))"

definition sanitize_label :: "string \<Rightarrow> string" where
  "sanitize_label label = concat (map label_code (utf8_decode (map of_char (py_replace (CHR ''-'') ''_'' label))))"

definition sanitize_cypher_value :: "string \<Rightarrow> string" where
  "sanitize_cypher_value v =
     py_replace (CHR 0x0D) []
       (py_replace (CHR 0x0A) '' ''
         (py_replace (CHR 0x00) []
           (py_replace (CHR 0x27) [CHR 0x5C, CHR 0x27]
             (py_replace (CHR 0x5C) [CHR 0x5C, CHR 0x5C] v))))"

fun rdf_term_to_str :: "rdf_term \<Rightarrow> string" where
  "rdf_term_to_str (URIRef s) = s"
| "rdf_term_to_str (Literal _ v) = py_str v"
| "rdf_term_to_str (BNode s) = s"

definition pred_label :: "string \<Rightarrow> string" where
  "pred_label p = sanitize_label (last (if CHR ''#'' \<in> set p then py_split (CHR ''#'') p else py_split (CHR ''/'') p))"

definition merge_statement :: "string \<Rightarrow> string \<Rightarrow> string \<Rightarrow> string" where
  "merge_statement subj_str label obj_str =
     ''MERGE (a:`Resource` {uri: '' @ [CHR 0x27] @ subj_str @ [CHR 0x27] @ ''}) '' @
     ''MERGE (b:`Resource` {uri: '' @ [CHR 0x27] @ obj_str @ [CHR 0x27] @ ''}) '' @
     ''MERGE (a)-[:`'' @ label @ ''`]->(b)''"

definition rdf_to_cypher_statements :: "graph \<Rightarrow> string list" where
  "rdf_to_cypher_statements g =
     map (\<lambda>(s, p, ob). merge_statement (sanitize_cypher_value (rdf_term_to_str s)) (pred_label (rdf_term_to_str p))
        (sanitize_cypher_value (rdf_term_to_str ob))) g"

subsection \<open>Stage 3: the governed write\<close>

record gate_clock =
  gc_quota :: pyfloat
  gc_ttl :: pyfloat
  gc_cleanup :: pyfloat
  gc_consume :: pyfloat
  gc_revalidate :: pyfloat
  gc_done :: pyfloat

definition revalidation_failed :: "shacl_report \<Rightarrow> exn" where
  "revalidation_failed report = new_SHACLValidationError
     (''Re-validation failed: data does not match the previously validated payload. The write has been blocked.'')
     (report_to_dict report)"

definition transaction_id :: "('db, 'tx) gate_env \<Rightarrow> string \<Rightarrow> pyfloat \<Rightarrow> string" where
  "transaction_id env domain_name now = take 16 (ge_sha256 env (domain_name @ '':'' @ float_repr now))"

text \<open>What a governed write works on: the gate, the shared policy, the database.\<close>

record 'db gate_world =
  gw_gate :: write_gate
  gw_policy :: "autonomy_policy option"
  gw_db :: 'db
  gw_spans :: "span list"

definition check_quota :: "'db gate_world \<Rightarrow> string \<Rightarrow> pyfloat \<Rightarrow> (exn + unit) \<times> 'db gate_world" where
  "check_quota w domain_name now =
     (case gw_policy w of
        None \<Rightarrow> (Inr (), w)
      | Some ap \<Rightarrow> (case check_write_quota ap domain_name now of (r, ap') \<Rightarrow> (r, w\<lparr>gw_policy := Some ap'\<rparr>)))"

text \<open>Steps 3 and 4: parse again, translate, write.\<close>

definition write_graph ::
  "('db, 'tx) gate_env \<Rightarrow> 'db gate_world \<Rightarrow> string \<Rightarrow> string \<Rightarrow> string \<Rightarrow> pyfloat \<Rightarrow>
     (exn + (string \<times> pyval) list) \<times> 'db gate_world" where
  "write_graph env w domain_name data_rdf rdf_format now =
     (case ge_parse_rdf env data_rdf rdf_format of
        Inl e \<Rightarrow> (Inl e, w)
      | Inr data_graph \<Rightarrow>
          if wg_has_neo4j (gw_gate w)
          then (case execute_write_batch (ge_driver env) (gw_db w) (rdf_to_cypher_statements data_graph) of
                  (Inl e, db) \<Rightarrow> (Inl e, w\<lparr>gw_db := db\<rparr>)
                | (Inr n, db) \<Rightarrow>
                    (Inr [(''status'', PStr ''success''), (''domain'', PStr domain_name),
                          (''transaction_id'', PStr (transaction_id env domain_name now)),
                          (''records_written'', PInt n)], w\<lparr>gw_db := db\<rparr>))
          else (Inr [(''status'', PStr ''success''), (''domain'', PStr domain_name),
                     (''transaction_id'', PStr (transaction_id env domain_name now))], w))"

definition execute_governed_write ::
  "('db, 'tx) gate_env \<Rightarrow> 'db gate_world \<Rightarrow> string \<Rightarrow> string \<Rightarrow> string \<Rightarrow> string \<Rightarrow> gate_clock \<Rightarrow>
     (exn + (string \<times> pyval) list) \<times> 'db gate_world" where
  "execute_governed_write env w domain_name data_rdf nonce rdf_format clk =
     (case check_quota w domain_name (gc_quota clk) of
        (Inl e, w1) \<Rightarrow> (Inl e, w1)
      | (Inr _, w1) \<Rightarrow>
          (case verify_nonce env (gw_gate w1) domain_name data_rdf nonce (gc_ttl clk) (gc_cleanup clk) of
             (Inl e, g) \<Rightarrow> (Inl e, w1\<lparr>gw_gate := g\<rparr>)
           | (Inr _, g) \<Rightarrow>
               (let g1 = consume_nonce g nonce (gc_consume clk)
                in case verify_shacl_compliance env g1 domain_name data_rdf rdf_format (gc_revalidate clk) of
                     (r, g2, spans) \<Rightarrow>
                       (let w2 = w1\<lparr>gw_gate := g2, gw_spans := gw_spans w1 @ spans\<rparr>
                        in case r of
                             Inl e \<Rightarrow> (Inl e, w2)
                           | Inr (report, _) \<Rightarrow>
                               if \<not> is_valid report then (Inl (revalidation_failed report), w2)
                               else write_graph env w2 domain_name data_rdf rdf_format (gc_done clk)))))"

subsection \<open>When a nonce is accepted\<close>

definition nonce_valid ::
  "('db, 'tx) gate_env \<Rightarrow> write_gate \<Rightarrow> string \<Rightarrow> string \<Rightarrow> string \<Rightarrow> string \<Rightarrow> pyfloat \<Rightarrow> bool" where
  "nonce_valid env gate domain_name data_rdf nonce signature t \<longleftrightarrow>
     (\<exists>timestamp_str data_hash timestamp ts.
        py_split (CHR '':'') nonce = [timestamp_str, data_hash, signature] \<and>
        py_int timestamp_str = Some timestamp \<and> int_to_float timestamp = Inr ts \<and>
        fsub t ts \<le> of_int (wg_nonce_ttl gate) \<and> is_ascii signature \<and>
        signature = ge_hmac env (wg_nonce_secret gate) (nonce_payload timestamp data_hash domain_name) \<and>
        data_hash = ge_sha256 env data_rdf)"

definition burned :: "write_gate \<Rightarrow> string \<Rightarrow> pyfloat option" where
  "burned gate signature = map_of (wg_consumed_nonces gate) signature"

definition gate_wf :: "write_gate \<Rightarrow> bool" where
  "gate_wf gate \<longleftrightarrow> distinct (map fst (wg_consumed_nonces gate))"

lemma map_of_filter_val:
  "distinct (map fst d) \<Longrightarrow> map_of (filter (\<lambda>(k, v). P v) d) k = (case map_of d k of Some v \<Rightarrow> if P v then Some v else None | None \<Rightarrow> None)"
proof (induction d)
  case (Cons kv d)
  obtain j v where kv: "kv = (j, v)" by force
  have "map_of d j = None" using Cons.prems kv by (simp add: map_of_eq_None_iff)
  then show ?case using Cons kv by (auto split: option.splits)
qed simp

lemma burned_cleanup:
  "gate_wf gate \<Longrightarrow> burned (cleanup_expired_nonces gate t) k =
     (case burned gate k of Some e \<Rightarrow> if t < e then Some e else None | None \<Rightarrow> None)"
  using map_of_filter_val [of "wg_consumed_nonces gate" "\<lambda>e. t < e" k]
  by (simp add: gate_wf_def burned_def cleanup_expired_nonces_def not_le)

lemma gate_wf_cleanup: "gate_wf gate \<Longrightarrow> gate_wf (cleanup_expired_nonces gate t)"
  by (simp add: gate_wf_def cleanup_expired_nonces_def distinct_map_filter)

lemma verify_nonce_cases:
  obtains (refused) m g where "verify_nonce env gate dm data nonce t1 t2 = (Inl (WriteGateError m), g)"
      "g = gate \<or> g = cleanup_expired_nonces gate t2"
  | (accepted) signature where
      "verify_nonce env gate dm data nonce t1 t2 = (Inr (), cleanup_expired_nonces gate t2)"
      "nonce_valid env gate dm data nonce signature t1"
      "burned (cleanup_expired_nonces gate t2) signature = None"
proof -
  let ?v = "verify_nonce env gate dm data nonce t1 t2"
  have "(\<exists>m g. ?v = (Inl (WriteGateError m), g) \<and> (g = gate \<or> g = cleanup_expired_nonces gate t2)) \<or>
    (\<exists>signature. ?v = (Inr (), cleanup_expired_nonces gate t2) \<and> nonce_valid env gate dm data nonce signature t1 \<and>
       burned (cleanup_expired_nonces gate t2) signature = None)"
    unfolding verify_nonce_def nonce_valid_def burned_def Let_def
    by (auto simp: nonce_failure_def nonce_expired_def nonce_replayed_def nonce_tampered_def nonce_mismatch_def
        split: list.split option.split sum.split)
  then show ?thesis using refused accepted by blast
qed

lemma verify_nonce_complete:
  "nonce_valid env gate dm data nonce signature t1 \<Longrightarrow> burned (cleanup_expired_nonces gate t2) signature = None \<Longrightarrow>
   verify_nonce env gate dm data nonce t1 t2 = (Inr (), cleanup_expired_nonces gate t2)"
  by (auto simp: nonce_valid_def verify_nonce_def burned_def Let_def not_less)


lemma get_validator_gate:
  "wg_consumed_nonces (snd (get_validator env gate dm)) = wg_consumed_nonces gate"
  "wg_nonce_secret (snd (get_validator env gate dm)) = wg_nonce_secret gate"
  "wg_nonce_ttl (snd (get_validator env gate dm)) = wg_nonce_ttl gate"
  by (auto simp: get_validator_def split: option.split sum.split)

lemma verify_shacl_gate:
  "fst (snd (verify_shacl_compliance env gate dm data fmt now)) = snd (get_validator env gate dm)"
  by (auto simp: verify_shacl_compliance_def split: option.split sum.split prod.split)

lemma verify_shacl_frame [simp]:
  "wg_consumed_nonces (fst (snd (verify_shacl_compliance env gate dm data fmt now))) = wg_consumed_nonces gate"
  "wg_nonce_secret (fst (snd (verify_shacl_compliance env gate dm data fmt now))) = wg_nonce_secret gate"
  "wg_nonce_ttl (fst (snd (verify_shacl_compliance env gate dm data fmt now))) = wg_nonce_ttl gate"
  by (simp_all add: verify_shacl_gate get_validator_gate)

lemma consume_nonce_burns:
  "py_split (CHR '':'') nonce = [a, b, signature] \<Longrightarrow>
   burned (consume_nonce gate nonce now) k =
     (if k = signature then Some (fadd now (fl (of_int (wg_nonce_ttl gate)))) else burned gate k)"
  by (simp add: consume_nonce_def burned_def map_of_update_eq)

lemma consume_nonce_frame [simp]:
  "wg_nonce_secret (consume_nonce gate nonce now) = wg_nonce_secret gate"
  "wg_nonce_ttl (consume_nonce gate nonce now) = wg_nonce_ttl gate"
  by (auto simp: consume_nonce_def split: list.split)

lemma write_graph_frame [simp]:
  "gw_gate (snd (write_graph env w dm data fmt now)) = gw_gate w"
  "gw_policy (snd (write_graph env w dm data fmt now)) = gw_policy w"
  by (auto simp: write_graph_def split: sum.split prod.split)

lemma check_quota_frame:
  "gw_gate (snd (check_quota w dm now)) = gw_gate w" "gw_db (snd (check_quota w dm now)) = gw_db w"
  by (auto simp: check_quota_def split: option.split prod.split)

text \<open>The four ways a governed write can go.\<close>

lemma governed_write_cases:
  obtains (quota) e where "fst (check_quota w dm (gc_quota clk)) = Inl e"
      "execute_governed_write env w dm data nonce fmt clk = (Inl e, snd (check_quota w dm (gc_quota clk)))"
  | (nonce) m g where "fst (check_quota w dm (gc_quota clk)) = Inr ()"
      "g = gw_gate w \<or> g = cleanup_expired_nonces (gw_gate w) (gc_cleanup clk)"
      "execute_governed_write env w dm data nonce fmt clk =
         (Inl (WriteGateError m), (snd (check_quota w dm (gc_quota clk)))\<lparr>gw_gate := g\<rparr>)"
  | (invalid) signature g e spans where "fst (check_quota w dm (gc_quota clk)) = Inr ()"
      "nonce_valid env (gw_gate w) dm data nonce signature (gc_ttl clk)"
      "burned (cleanup_expired_nonces (gw_gate w) (gc_cleanup clk)) signature = None"
      "g = fst (snd (verify_shacl_compliance env
         (consume_nonce (cleanup_expired_nonces (gw_gate w) (gc_cleanup clk)) nonce (gc_consume clk)) dm data fmt (gc_revalidate clk)))"
      "execute_governed_write env w dm data nonce fmt clk =
         (Inl e, (snd (check_quota w dm (gc_quota clk)))\<lparr>gw_gate := g, gw_spans := gw_spans w @ spans\<rparr>)"
  | (written) signature g report n spans where "fst (check_quota w dm (gc_quota clk)) = Inr ()"
      "nonce_valid env (gw_gate w) dm data nonce signature (gc_ttl clk)"
      "burned (cleanup_expired_nonces (gw_gate w) (gc_cleanup clk)) signature = None"
      "verify_shacl_compliance env
         (consume_nonce (cleanup_expired_nonces (gw_gate w) (gc_cleanup clk)) nonce (gc_consume clk)) dm data fmt (gc_revalidate clk)
       = (Inr (report, n), g, spans)" "is_valid report"
      "execute_governed_write env w dm data nonce fmt clk =
         write_graph env ((snd (check_quota w dm (gc_quota clk)))\<lparr>gw_gate := g, gw_spans := gw_spans w @ spans\<rparr>) dm data fmt (gc_done clk)"
proof (cases "fst (check_quota w dm (gc_quota clk))")
  case (Inl e)
  then show ?thesis by (intro quota) (auto simp: execute_governed_write_def split: prod.split sum.split)
next
  case (Inr u)
  obtain w1 where w1: "check_quota w dm (gc_quota clk) = (Inr (), w1)" using Inr by (metis prod.collapse unit.exhaust)
  have gate: "gw_gate w1 = gw_gate w" "gw_spans w1 = gw_spans w"
    using w1 check_quota_frame [of w dm "gc_quota clk"]
    by (auto simp: check_quota_def split: option.splits prod.splits)
  show ?thesis
  proof (cases rule: verify_nonce_cases [of env "gw_gate w" dm data nonce "gc_ttl clk" "gc_cleanup clk"])
    case (refused m g)
    then show ?thesis using w1 gate by (intro nonce [of g m]) (auto simp: execute_governed_write_def)
  next
    case (accepted signature)
    obtain r g spans where v: "verify_shacl_compliance env
         (consume_nonce (cleanup_expired_nonces (gw_gate w) (gc_cleanup clk)) nonce (gc_consume clk)) dm data fmt (gc_revalidate clk)
       = (r, g, spans)" by (metis prod.exhaust)
    show ?thesis
    proof (cases r)
      case (Inl e)
      then show ?thesis using accepted w1 gate v
        by (intro invalid [of signature g e spans]) (simp_all add: execute_governed_write_def Let_def)
    next
      case (Inr rn)
      obtain report n where rn: "rn = (report, n)" by force
      show ?thesis
      proof (cases "is_valid report")
        case True
        then show ?thesis using accepted w1 gate v Inr rn
          by (intro written [of signature report n g spans]) (simp_all add: execute_governed_write_def Let_def)
      next
        case False
        then show ?thesis using accepted w1 gate v Inr rn
          by (intro invalid [of signature g "revalidation_failed report" spans]) (simp_all add: execute_governed_write_def Let_def)
      qed
    qed
  qed
qed

subsection \<open>No write without a nonce\<close>

text \<open>What must hold for a governed write to reach the database.\<close>

definition write_authorised ::
  "('db, 'tx) gate_env \<Rightarrow> 'db gate_world \<Rightarrow> string \<times> string \<times> string \<times> string \<times> gate_clock \<Rightarrow> bool" where
  "write_authorised env w = (\<lambda>(dm, data, nonce, fmt, clk).
     fst (check_quota w dm (gc_quota clk)) = Inr () \<and>
     (\<exists>signature. nonce_valid env (gw_gate w) dm data nonce signature (gc_ttl clk) \<and>
        burned (cleanup_expired_nonces (gw_gate w) (gc_cleanup clk)) signature = None) \<and>
     (\<exists>g v report spans. ge_parse_rdf env data fmt = Inr g \<and>
        validate (ge_engine env) v g = (Inr report, spans) \<and> is_valid report))"

definition governed_write ::
  "('db, 'tx) gate_env \<Rightarrow> 'db gate_world \<Rightarrow> string \<times> string \<times> string \<times> string \<times> gate_clock \<Rightarrow>
     (exn + (string \<times> pyval) list) \<times> 'db gate_world" where
  "governed_write env w = (\<lambda>(dm, data, nonce, fmt, clk). execute_governed_write env w dm data nonce fmt clk)"

lemma verify_shacl_report:
  "verify_shacl_compliance env gate dm data fmt now = (Inr (report, n), g, spans) \<Longrightarrow>
   \<exists>dg v spans. ge_parse_rdf env data fmt = Inr dg \<and> validate (ge_engine env) v dg = (Inr report, spans)"
  by (auto simp: verify_shacl_compliance_def split: sum.splits prod.splits)

lemma governed_write_refused:
  assumes "\<not> write_authorised env w a"
  shows "\<exists>e w'. governed_write env w a = (Inl e, w') \<and> gw_db w' = gw_db w"
proof -
  obtain dm data nonce fmt clk where a: "a = (dm, data, nonce, fmt, clk)" by (metis prod.exhaust)
  have "\<exists>e w'. execute_governed_write env w dm data nonce fmt clk = (Inl e, w') \<and> gw_db w' = gw_db w"
  proof (cases rule: governed_write_cases [of w dm clk env data nonce fmt])
    case (written signature g report n spans)
    have "\<exists>g v spans. ge_parse_rdf env data fmt = Inr g \<and> validate (ge_engine env) v g = (Inr report, spans)"
      using verify_shacl_report [OF written(4)] .
    then have "write_authorised env w a" using written(1,2,3,5) unfolding write_authorised_def a prod.case by blast
    then show ?thesis using assms by simp
  qed (simp_all add: check_quota_frame)
  then show ?thesis by (simp add: governed_write_def a)
qed

interpretation gate: governed_writer "governed_write env" gw_db "write_authorised env"
  for env :: "('db, 'tx) gate_env"
  by unfold_locales (rule governed_write_refused)

text \<open>
  What a governed write may put into the database: the statements of exactly the data it was
  given, as one batch.
\<close>

definition writes_data :: "('db, 'tx) gate_env \<Rightarrow> string \<Rightarrow> string \<Rightarrow> 'db \<Rightarrow> 'db \<Rightarrow> bool" where
  "writes_data env data fmt db db' \<longleftrightarrow>
     (\<exists>g. ge_parse_rdf env data fmt = Inr g \<and> db' = snd (execute_write_batch (ge_driver env) db (rdf_to_cypher_statements g)))"

lemma governed_write_data:
  assumes "gw_db (snd (execute_governed_write env w dm data nonce fmt clk)) \<noteq> gw_db w"
  shows "writes_data env data fmt (gw_db w) (gw_db (snd (execute_governed_write env w dm data nonce fmt clk)))"
proof (cases rule: governed_write_cases [of w dm clk env data nonce fmt])
  case (written signature g report n spans)
  then show ?thesis using assms
    by (auto simp: write_graph_def writes_data_def check_quota_frame split: sum.splits prod.splits if_splits)
qed (use assms in \<open>auto simp: check_quota_frame\<close>)

text \<open>
  C4. No write without validation: a governed write that succeeds, or that changes the database
  in any way, was within the quota, carried a nonce that this gate signed for exactly this
  domain and the digest of exactly this data, was not expired and not spent, and its data
  passed the SHACL engine again.
\<close>

theorem write_needs_nonce:
  assumes "execute_governed_write env w dm data nonce fmt clk = (r, w')" and "is_ok r \<or> gw_db w' \<noteq> gw_db w"
  shows "fst (check_quota w dm (gc_quota clk)) = Inr () \<and>
    (\<exists>signature. nonce_valid env (gw_gate w) dm data nonce signature (gc_ttl clk) \<and>
       burned (cleanup_expired_nonces (gw_gate w) (gc_cleanup clk)) signature = None) \<and>
    (\<exists>g v report spans. ge_parse_rdf env data fmt = Inr g \<and>
       validate (ge_engine env) v g = (Inr report, spans) \<and> is_valid report)"
proof -
  let ?a = "(dm, data, nonce, fmt, clk)"
  have g: "governed_write env w ?a = (r, w')" using assms(1) by (simp add: governed_write_def)
  then have "write_authorised env w ?a"
    using assms(2) gate.changed_authorised [of env w ?a] gate.success_authorised [of env w ?a]
    by (cases r) auto
  then show ?thesis by (simp add: write_authorised_def)
qed

subsection \<open>A nonce is spent once\<close>

text \<open>
  The steps of the gate, with the time they read the clock for the clean-up: the three
  stages, and a write that is refused before its nonce is consumed (also for a nonce or data
  that are no text).
\<close>

inductive gate_step :: "('db, 'tx) gate_env \<Rightarrow> pyfloat \<Rightarrow> 'db gate_world \<Rightarrow> 'db gate_world \<Rightarrow> bool" for env where
  schema: "gate_step env t w (w\<lparr>gw_gate := snd (get_domain_schema env (gw_gate w) dm)\<rparr>)"
| verify: "gate_step env t w
    (w\<lparr>gw_gate := fst (snd (verify_shacl_compliance env (gw_gate w) dm data fmt now)), gw_spans := spans\<rparr>)"
| execute: "gate_step env (gc_cleanup clk) w (snd (execute_governed_write env w dm data nonce fmt clk))"
| refused: "g \<in> {gw_gate w, cleanup_expired_nonces (gw_gate w) t} \<Longrightarrow>
    gate_step env t w ((snd (check_quota w dm q))\<lparr>gw_gate := g\<rparr>)"

definition world_expiry :: "'db gate_world \<Rightarrow> string \<Rightarrow> pyfloat option" where
  "world_expiry w k = (if gate_wf (gw_gate w) then burned (gw_gate w) k else None)"

lemma get_domain_schema_frame [simp]:
  "wg_consumed_nonces (snd (get_domain_schema env gate dm)) = wg_consumed_nonces gate"
  "wg_nonce_secret (snd (get_domain_schema env gate dm)) = wg_nonce_secret gate"
  "wg_nonce_ttl (snd (get_domain_schema env gate dm)) = wg_nonce_ttl gate"
  by (simp_all add: get_domain_schema_def split: prod.split)

lemma gate_wf_consume: "gate_wf gate \<Longrightarrow> gate_wf (consume_nonce gate nonce now)"
  by (auto simp: gate_wf_def consume_nonce_def distinct_update split: list.split)

lemma gate_wf_consumed: "wg_consumed_nonces g = wg_consumed_nonces g' \<Longrightarrow> gate_wf g \<longleftrightarrow> gate_wf g'"
  by (simp add: gate_wf_def)

lemma burned_consumed: "wg_consumed_nonces g = wg_consumed_nonces g' \<Longrightarrow> burned g k = burned g' k"
  by (simp add: burned_def)

text \<open>The ledger of the gate after a governed write.\<close>

lemma execute_ledger:
  assumes wf: "gate_wf (gw_gate w)" and w'_def: "w' = snd (execute_governed_write env w dm data nonce fmt clk)"
  shows "gate_wf (gw_gate w') \<and>
    (\<forall>k e. burned (gw_gate w) k = Some e \<and> gc_cleanup clk < e \<longrightarrow> burned (gw_gate w') k = Some e)"
proof -
  let ?c = "cleanup_expired_nonces (gw_gate w) (gc_cleanup clk)"
  have keep: "gate_wf ?c" "\<And>k e. burned (gw_gate w) k = Some e \<Longrightarrow> gc_cleanup clk < e \<Longrightarrow> burned ?c k = Some e"
    using wf by (simp_all add: gate_wf_cleanup burned_cleanup)
  have spent: "gate_wf (consume_nonce ?c nonce (gc_consume clk)) \<and>
      (\<forall>k e. burned (gw_gate w) k = Some e \<and> gc_cleanup clk < e \<longrightarrow>
         burned (consume_nonce ?c nonce (gc_consume clk)) k = Some e)"
    if valid: "nonce_valid env (gw_gate w) dm data nonce signature (gc_ttl clk)" and unspent: "burned ?c signature = None"
    for signature
  proof -
    obtain a b where "py_split (CHR '':'') nonce = [a, b, signature]" using valid by (auto simp: nonce_valid_def)
    then show ?thesis using keep unspent by (auto simp: consume_nonce_burns gate_wf_consume)
  qed
  show ?thesis
  proof (cases rule: governed_write_cases [of w dm clk env data nonce fmt])
    case (quota e)
    then show ?thesis using wf by (simp add: w'_def check_quota_frame)
  next
    case (nonce m g)
    then show ?thesis using wf keep by (auto simp: w'_def)
  next
    case (invalid signature g e spans)
    then have "wg_consumed_nonces (gw_gate w') = wg_consumed_nonces (consume_nonce ?c nonce (gc_consume clk))"
      by (simp add: w'_def)
    then show ?thesis using spent [OF invalid(2,3)] gate_wf_consumed burned_consumed by metis
  next
    case (written signature g report n spans)
    then have "g = fst (snd (verify_shacl_compliance env (consume_nonce ?c nonce (gc_consume clk)) dm data fmt (gc_revalidate clk)))"
      by simp
    then have "wg_consumed_nonces (gw_gate w') = wg_consumed_nonces (consume_nonce ?c nonce (gc_consume clk))"
      using written(6) by (simp add: w'_def)
    then show ?thesis using spent [OF written(2,3)] gate_wf_consumed burned_consumed by metis
  qed
qed

lemma gate_step_ledger:
  "gate_step env t w w' \<Longrightarrow> gate_wf (gw_gate w) \<Longrightarrow>
   gate_wf (gw_gate w') \<and> (\<forall>k e. burned (gw_gate w) k = Some e \<and> t < e \<longrightarrow> burned (gw_gate w') k = Some e)"
proof (induction rule: gate_step.induct)
  case (schema t w dm)
  then show ?case by (simp add: gate_wf_def burned_def)
next
  case (verify t w dm data fmt now spans)
  then show ?case by (simp add: gate_wf_def burned_def)
next
  case (execute clk w dm data nonce fmt)
  then show ?case using execute_ledger by blast
next
  case (refused g w t dm q)
  then show ?case by (auto simp: gate_wf_cleanup burned_cleanup)
qed

interpretation ledger: token_ledger "gate_step env" world_expiry for env :: "('db, 'tx) gate_env"
proof
  fix t s s' k e assume "gate_step env t s s'" "world_expiry s k = Some e" "t < e"
  then show "world_expiry s' k = Some e"
    using gate_step_ledger [of env t s s'] by (auto simp: world_expiry_def split: if_splits)
qed

lemma success_burns:
  assumes "execute_governed_write env w dm data nonce fmt clk = (Inr r, w')" and "gate_wf (gw_gate w)"
    and "py_split (CHR '':'') nonce = [a, b, signature]"
  shows "world_expiry w' signature = Some (fadd (gc_consume clk) (fl (of_int (wg_nonce_ttl (gw_gate w)))))"
proof (cases rule: governed_write_cases [of w dm clk env data nonce fmt])
  case (written s g report n spans)
  let ?c = "cleanup_expired_nonces (gw_gate w) (gc_cleanup clk)"
  have "g = fst (snd (verify_shacl_compliance env (consume_nonce ?c nonce (gc_consume clk)) dm data fmt (gc_revalidate clk)))"
    using written(4) by simp
  moreover have "gw_gate w' = g"
  proof -
    have "w' = snd (write_graph env ((snd (check_quota w dm (gc_quota clk)))\<lparr>gw_gate := g, gw_spans := gw_spans w @ spans\<rparr>)
        dm data fmt (gc_done clk))" using written(6) assms(1) by (metis snd_conv)
    then show ?thesis by simp
  qed
  ultimately have "burned (gw_gate w') signature = burned (consume_nonce ?c nonce (gc_consume clk)) signature"
    by (simp add: burned_def)
  moreover have "gate_wf (gw_gate w')" using execute_ledger [OF assms(2), of w' env dm data nonce fmt clk] assms(1) by simp
  ultimately show ?thesis
    using assms(3) by (simp add: world_expiry_def consume_nonce_burns) (simp add: cleanup_expired_nonces_def)
qed (use assms(1) in auto)

text \<open>
  C3. A nonce writes at most once: after a successful write, whatever schema requests,
  validations and writes follow, a second write with any nonce of the same signature (the
  same one, or one with its time stamp respelled) is refused with a \<open>WriteGateError\<close> and
  changes nothing in the database, as long as the clean-up reads the clock before the
  spent nonce's expiry, which is the TTL after it was spent.
\<close>

theorem nonce_spent_once:
  assumes "execute_governed_write env w dm data nonce fmt clk = (Inr r, w1)" and "gate_wf (gw_gate w)"
    and "py_split (CHR '':'') nonce = [a, b, signature]"
    and "runs_before (gate_step env) T w1 w2" and "T \<le> fadd (gc_consume clk) (fl (of_int (wg_nonce_ttl (gw_gate w))))"
    and "py_split (CHR '':'') nonce2 = [a2, b2, signature]"
    and "gc_cleanup clk2 < fadd (gc_consume clk) (fl (of_int (wg_nonce_ttl (gw_gate w))))"
    and "fst (check_quota w2 dm2 (gc_quota clk2)) = Inr ()"
  shows "\<exists>m. fst (execute_governed_write env w2 dm2 data2 nonce2 fmt2 clk2) = Inl (WriteGateError m) \<and>
    gw_db (snd (execute_governed_write env w2 dm2 data2 nonce2 fmt2 clk2)) = gw_db w2"
proof -
  let ?e = "fadd (gc_consume clk) (fl (of_int (wg_nonce_ttl (gw_gate w))))"
  have "world_expiry w1 signature = Some ?e" by (rule success_burns [OF assms(1-3)])
  then have "world_expiry w2 signature = Some ?e" using ledger.run_keeps [OF assms(4)] assms(5) by blast
  then have wf: "gate_wf (gw_gate w2)" and "burned (gw_gate w2) signature = Some ?e"
    by (auto simp: world_expiry_def split: if_splits)
  then have spent: "burned (cleanup_expired_nonces (gw_gate w2) (gc_cleanup clk2)) signature = Some ?e"
    using assms(7) by (simp add: burned_cleanup)
  have same: "s = signature" if "nonce_valid env (gw_gate w2) dm2 data2 nonce2 s t" for s t
    using that assms(6) by (auto simp: nonce_valid_def)
  show ?thesis
  proof (cases rule: governed_write_cases [of w2 dm2 clk2 env data2 nonce2 fmt2])
    case (quota e)
    then show ?thesis using assms(8) by simp
  next
    case (nonce m g)
    then show ?thesis by (simp add: check_quota_frame)
  next
    case (invalid s g e spans)
    then show ?thesis using same spent by fastforce
  next
    case (written s g report n spans)
    then show ?thesis using same spent by fastforce
  qed
qed

subsection \<open>Round trip and binding\<close>

text \<open>Hex digests: no separator, only ASCII.\<close>

definition hex_digests :: "('db, 'tx) gate_env \<Rightarrow> bool" where
  "hex_digests env \<longleftrightarrow> (\<forall>x. list_all (\<lambda>c. is_digit c \<or> is_lower_char c) (ge_sha256 env x)) \<and>
     (\<forall>k x. list_all (\<lambda>c. is_digit c \<or> is_lower_char c) (ge_hmac env k x))"

lemma hex_plain: "list_all (\<lambda>c. is_digit c \<or> is_lower_char c) s \<Longrightarrow> CHR '':'' \<notin> set s \<and> is_ascii s"
  by (fastforce simp: list_all_iff is_ascii_def is_digit_def is_lower_char_def Let_def)

lemma py_str_int_no_colon: "CHR '':'' \<notin> set (py_str_int n)"
proof -
  have "CHR '':'' \<notin> set (nat_digits m)" for m using nat_digits_digits digit_not_sign by blast
  then show ?thesis by (simp add: py_str_int_def)
qed

lemma split_when_first:
  assumes "CHR '':'' \<notin> set a"
  shows "split_when (\<lambda>c. c = CHR '':'') (a @ CHR '':'' # s) = a # split_when (\<lambda>c. c = CHR '':'') s"
  using assms by (induction a) auto

lemma py_split_three:
  assumes "CHR '':'' \<notin> set a" "CHR '':'' \<notin> set b" "CHR '':'' \<notin> set c"
  shows "py_split (CHR '':'') (a @ '':'' @ b @ '':'' @ c) = [a, b, c]"
proof -
  have "split_when (\<lambda>c. c = CHR '':'') c = [c]" using assms(3) by (intro split_when_no_sep) auto
  then show ?thesis using split_when_first assms(1,2) by (simp add: py_split_def)
qed

lemma generated_parts:
  assumes "hex_digests env"
  shows "py_split (CHR '':'') (generate_nonce env gate dm data now) =
    [py_str_int (trunc now), ge_sha256 env data,
     ge_hmac env (wg_nonce_secret gate) (nonce_payload (trunc now) (ge_sha256 env data) dm)]"
  unfolding generate_nonce_def Let_def
  by (rule py_split_three) (use assms hex_plain py_str_int_no_colon in \<open>auto simp: hex_digests_def\<close>)

text \<open>The clock reads below \<open>2 ^ 53\<close> seconds.\<close>

definition clock_range :: "pyfloat \<Rightarrow> bool" where
  "clock_range t \<longleftrightarrow> 0 \<le> t \<and> t < 2 ^ 53"

lemma trunc_range: "clock_range t \<Longrightarrow> 0 \<le> trunc t \<and> trunc t < 2 ^ 53"
  by (auto simp: clock_range_def trunc_def floor_less_iff)

lemma int_to_float_small: "0 \<le> n \<Longrightarrow> n < 2 ^ 53 \<Longrightarrow> int_to_float n = Inr (of_int n)"
proof -
  assume n: "0 \<le> n" "n < 2 ^ 53"
  have "(2::int) ^ 53 \<le> 2 ^ 1024 - 2 ^ 970" by simp
  then show ?thesis using n by (simp add: int_to_float_def fl_of_int)
qed

lemma nat_digits_length: "n < 10 ^ k \<Longrightarrow> 0 < k \<Longrightarrow> length (nat_digits n) \<le> k"
proof (induction k arbitrary: n)
  case (Suc k)
  show ?case
  proof (cases "n < 10")
    case True
    then show ?thesis by (simp add: nat_digits.simps [of n])
  next
    case False
    then have "0 < k" using Suc.prems by (cases k) auto
    moreover have "n div 10 < 10 ^ k" using Suc.prems(1) by (simp add: less_mult_imp_div_less mult.commute)
    ultimately have "length (nat_digits (n div 10)) \<le> k" by (rule Suc.IH [rotated])
    then show ?thesis using False by (simp add: nat_digits.simps [of n])
  qed
qed simp

lemma py_int_small:
  assumes "0 \<le> n" "n < 2 ^ 53"
  shows "py_int (py_str_int n) = Some n"
proof -
  have "nat n < 2 ^ 53" using assms by (simp add: nat_less_iff)
  also have "(2 :: nat) ^ 53 < 10 ^ 16" by simp
  finally have "length (nat_digits (nat n)) \<le> 16" by (rule nat_digits_length) simp
  then show ?thesis using py_int_str [of "nat n"] assms(1) by simp
qed

text \<open>What a nonce from validation is to a gate with the same secret.\<close>

lemma validated_nonce:
  assumes "hex_digests env" and "clock_range now" and "fsub t1 (of_int (trunc now)) \<le> of_int (wg_nonce_ttl gate)"
    and "verify_shacl_compliance env gate0 dm data fmt now = (Inr (report, Some nonce), gate1, spans)"
    and "wg_nonce_secret gate = wg_nonce_secret gate0"
  shows "is_valid report" "nonce_valid env gate dm data nonce (last (py_split (CHR '':'') nonce)) t1"
proof -
  have gate1: "gate1 = snd (get_validator env gate0 dm)" using verify_shacl_gate [of env gate0 dm data fmt now] assms(4) by simp
  have n: "nonce = generate_nonce env gate1 dm data now" "is_valid report"
    using assms(4) gate1
    by (auto simp: verify_shacl_compliance_def split: prod.splits sum.splits if_splits)
  have secret: "wg_nonce_secret gate1 = wg_nonce_secret gate" using assms(5) gate1 by (simp add: get_validator_gate)
  let ?sig = "ge_hmac env (wg_nonce_secret gate) (nonce_payload (trunc now) (ge_sha256 env data) dm)"
  have parts: "py_split (CHR '':'') nonce = [py_str_int (trunc now), ge_sha256 env data, ?sig]"
    using generated_parts [OF assms(1), of gate1 dm data now] by (simp add: n(1) secret)
  then show "nonce_valid env gate dm data nonce (last (py_split (CHR '':'') nonce)) t1"
    using py_int_small int_to_float_small trunc_range [OF assms(2)] assms(1,3) hex_plain
    by (auto simp: nonce_valid_def hex_digests_def)
  show "is_valid report" by (rule n(2))
qed

text \<open>
  C17. Round trip: a nonce the gate issued for a domain and data is accepted for them by the
  same gate later, as long as the whole seconds since the time stamp are within the TTL and
  its signature is not spent; and validation issues one exactly for valid data.
\<close>

theorem nonce_round_trip:
  assumes "hex_digests env" and "clock_range now" and "fsub t1 (of_int (trunc now)) \<le> of_int (wg_nonce_ttl gate)"
    and "verify_shacl_compliance env gate0 dm data fmt now = (Inr (report, Some nonce), gate1, spans)"
    and "wg_nonce_secret gate = wg_nonce_secret gate0"
    and "burned (cleanup_expired_nonces gate t2) (last (py_split (CHR '':'') nonce)) = None"
  shows "is_valid report \<and> verify_nonce env gate dm data nonce t1 t2 = (Inr (), cleanup_expired_nonces gate t2)"
  using validated_nonce [OF assms(1-5)] verify_nonce_complete assms(6) by blast

text \<open>
  A nonce is bound to its data, its domain, its time stamp and the gate's secret: if a
  nonce issued for one domain and data is accepted for another pair by a gate with any
  secret, then the data have the same digest and the two signed texts the same HMAC; no
  forgery is possible without a collision.
\<close>

theorem nonce_binding:
  assumes "hex_digests env" and "clock_range now"
    and "fst (verify_nonce env gate dm2 data2 (generate_nonce env gate0 dm data now) t1 t2) = Inr ()"
  shows "ge_sha256 env data2 = ge_sha256 env data \<and>
    ge_hmac env (wg_nonce_secret gate) (nonce_payload (trunc now) (ge_sha256 env data) dm2) =
    ge_hmac env (wg_nonce_secret gate0) (nonce_payload (trunc now) (ge_sha256 env data) dm)"
proof (cases rule: verify_nonce_cases [of env gate dm2 data2 "generate_nonce env gate0 dm data now" t1 t2])
  case (refused m g)
  then show ?thesis using assms(3) by simp
next
  case (accepted signature)
  then show ?thesis
    using generated_parts [OF assms(1), of gate0 dm data now] py_int_small trunc_range [OF assms(2)]
    by (auto simp: nonce_valid_def)
qed

subsection \<open>Liveness\<close>

lemma verify_shacl_valid:
  assumes "get_validator env gate dm = (Inr v, g)" "ge_parse_rdf env data fmt = Inr dg"
    and "validate (ge_engine env) v dg = (Inr report, spans)" "is_valid report"
  shows "verify_shacl_compliance env gate dm data fmt now = (Inr (report, Some (generate_nonce env g dm data now)), g, spans)"
  using assms by (simp add: verify_shacl_compliance_def)

text \<open>A write whose nonce and data are good reaches the database step, with the nonce spent.\<close>

lemma governed_write_reaches:
  assumes "fst (check_quota w dm (gc_quota clk)) = Inr ()"
    and "nonce_valid env (gw_gate w) dm data nonce signature (gc_ttl clk)"
    and "burned (cleanup_expired_nonces (gw_gate w) (gc_cleanup clk)) signature = None"
    and "get_validator env (consume_nonce (cleanup_expired_nonces (gw_gate w) (gc_cleanup clk)) nonce (gc_consume clk)) dm = (Inr v, g)"
    and "ge_parse_rdf env data fmt = Inr dg" and "validate (ge_engine env) v dg = (Inr report, spans)" and "is_valid report"
  obtains w2 where "execute_governed_write env w dm data nonce fmt clk = write_graph env w2 dm data fmt (gc_done clk)"
    "gw_gate w2 = g" "gw_db w2 = gw_db w"
    "burned g signature = Some (fadd (gc_consume clk) (fl (of_int (wg_nonce_ttl (gw_gate w)))))"
proof -
  let ?c = "cleanup_expired_nonces (gw_gate w) (gc_cleanup clk)"
  obtain w1 where w1: "check_quota w dm (gc_quota clk) = (Inr (), w1)" using assms(1) by (metis prod.collapse)
  have f: "gw_gate w1 = gw_gate w" "gw_db w1 = gw_db w" using check_quota_frame [of w dm "gc_quota clk"] w1 by simp_all
  have v: "verify_nonce env (gw_gate w) dm data nonce (gc_ttl clk) (gc_cleanup clk) = (Inr (), ?c)"
    using verify_nonce_complete assms(2,3) by blast
  have "wg_consumed_nonces g = wg_consumed_nonces (consume_nonce ?c nonce (gc_consume clk))"
    using get_validator_gate(1) [of env "consume_nonce ?c nonce (gc_consume clk)" dm] assms(4) by simp
  moreover obtain a b where "py_split (CHR '':'') nonce = [a, b, signature]" using assms(2) by (auto simp: nonce_valid_def)
  ultimately have "burned g signature = Some (fadd (gc_consume clk) (fl (of_int (wg_nonce_ttl (gw_gate w)))))"
    using burned_consumed [of g "consume_nonce ?c nonce (gc_consume clk)" signature]
    by (simp add: consume_nonce_burns) (simp add: cleanup_expired_nonces_def)
  then show ?thesis
    using w1 f v verify_shacl_valid [OF assms(4-7)] assms(7)
    by (intro that [of "w1\<lparr>gw_gate := g, gw_spans := gw_spans w1 @ spans\<rparr>"]) (simp_all add: execute_governed_write_def Let_def)
qed

lemma governed_write_complete:
  assumes "fst (check_quota w dm (gc_quota clk)) = Inr ()"
    and "nonce_valid env (gw_gate w) dm data nonce signature (gc_ttl clk)"
    and "burned (cleanup_expired_nonces (gw_gate w) (gc_cleanup clk)) signature = None"
    and "get_validator env (consume_nonce (cleanup_expired_nonces (gw_gate w) (gc_cleanup clk)) nonce (gc_consume clk)) dm = (Inr v, g)"
    and "ge_parse_rdf env data fmt = Inr dg" and "validate (ge_engine env) v dg = (Inr report, spans)" and "is_valid report"
    and "wg_has_neo4j g" and "execute_write_batch (ge_driver env) (gw_db w) (rdf_to_cypher_statements dg) = (Inr n, db)"
  shows "\<exists>w'. execute_governed_write env w dm data nonce fmt clk =
      (Inr [(''status'', PStr ''success''), (''domain'', PStr dm),
            (''transaction_id'', PStr (transaction_id env dm (gc_done clk))), (''records_written'', PInt n)], w') \<and>
    gw_db w' = db \<and> burned (gw_gate w') signature = Some (fadd (gc_consume clk) (fl (of_int (wg_nonce_ttl (gw_gate w)))))"
  using assms(8,9) by (rule_tac governed_write_reaches [OF assms(1-7)]) (simp add: write_graph_def assms(5))

text \<open>Without a database the same write is answered with success, and nothing is written.\<close>

lemma governed_write_offline:
  assumes "fst (check_quota w dm (gc_quota clk)) = Inr ()"
    and "nonce_valid env (gw_gate w) dm data nonce signature (gc_ttl clk)"
    and "burned (cleanup_expired_nonces (gw_gate w) (gc_cleanup clk)) signature = None"
    and "get_validator env (consume_nonce (cleanup_expired_nonces (gw_gate w) (gc_cleanup clk)) nonce (gc_consume clk)) dm = (Inr v, g)"
    and "ge_parse_rdf env data fmt = Inr dg" and "validate (ge_engine env) v dg = (Inr report, spans)" and "is_valid report"
    and "\<not> wg_has_neo4j g"
  shows "\<exists>w'. execute_governed_write env w dm data nonce fmt clk =
      (Inr [(''status'', PStr ''success''), (''domain'', PStr dm),
            (''transaction_id'', PStr (transaction_id env dm (gc_done clk)))], w') \<and> gw_db w' = gw_db w"
  using assms(8) by (rule_tac governed_write_reaches [OF assms(1-7)]) (simp add: write_graph_def assms(5))

text \<open>
  A write with a valid and unspent nonce goes through when the quota has room, the
  domain's shapes load, the data still conforms and the database accepts the batch: the
  result counts what was written, the database is the one after the batch of exactly the
  statements of the data's triples, and the nonce is spent.
\<close>

theorem governed_write_succeeds:
  assumes "fst (check_quota w dm (gc_quota clk)) = Inr ()"
    and "nonce_valid env (gw_gate w) dm data nonce signature (gc_ttl clk)"
    and "burned (cleanup_expired_nonces (gw_gate w) (gc_cleanup clk)) signature = None"
    and "get_validator env (consume_nonce (cleanup_expired_nonces (gw_gate w) (gc_cleanup clk)) nonce (gc_consume clk)) dm = (Inr v, g)"
    and "ge_parse_rdf env data fmt = Inr dg" and "validate (ge_engine env) v dg = (Inr report, spans)" and "is_valid report"
    and "wg_has_neo4j g" and "execute_write_batch (ge_driver env) (gw_db w) (rdf_to_cypher_statements dg) = (Inr n, db)"
  shows "\<exists>w'. execute_governed_write env w dm data nonce fmt clk =
      (Inr [(''status'', PStr ''success''), (''domain'', PStr dm),
            (''transaction_id'', PStr (transaction_id env dm (gc_done clk))), (''records_written'', PInt n)], w') \<and>
    gw_db w' = db \<and> burned (gw_gate w') signature = Some (fadd (gc_consume clk) (fl (of_int (wg_nonce_ttl (gw_gate w)))))"
  using assms by (rule governed_write_complete)

subsection \<open>The edge of the window\<close>

text \<open>
  The protection against replay ends one instant too early: a nonce spent in the very
  second of its time stamp is accepted a second time exactly TTL later, because the clean-up
  drops entries that expire now while the TTL check still accepts an age equal to the TTL.
\<close>

theorem replay_at_expiry:
  assumes "py_split (CHR '':'') nonce = [py_str_int n, ge_sha256 env data, signature]" and "gate_wf gate"
    and "0 \<le> n" and "0 \<le> wg_nonce_ttl gate" and "n + wg_nonce_ttl gate < 2 ^ 53" and "is_ascii signature"
    and "signature = ge_hmac env (wg_nonce_secret gate) (nonce_payload n (ge_sha256 env data) dm)"
  shows "let t = of_int (n + wg_nonce_ttl gate); spent = consume_nonce gate nonce (of_int n)
    in burned spent signature = Some t \<and> fst (verify_nonce env spent dm data nonce t t) = Inr ()"
proof -
  let ?t = "of_int (n + wg_nonce_ttl gate) :: pyfloat" and ?spent = "consume_nonce gate nonce (of_int n)"
  have f: "fl (of_int (n + wg_nonce_ttl gate)) = of_int (n + wg_nonce_ttl gate)"
    "fl (of_int (wg_nonce_ttl gate)) = of_int (wg_nonce_ttl gate)"
    using assms(3-5) fl_of_int [of "n + wg_nonce_ttl gate"] fl_of_int [of "wg_nonce_ttl gate"] by simp_all
  then have e: "burned ?spent signature = Some ?t"
    using assms(1) by (simp add: consume_nonce_burns fadd_def)
  have wf: "gate_wf ?spent" using assms(2) by (rule gate_wf_consume)
  have "burned (cleanup_expired_nonces ?spent ?t) signature = None" using e wf by (simp add: burned_cleanup)
  moreover have "nonce_valid env ?spent dm data nonce signature ?t"
    using assms f py_int_small [of n] int_to_float_small [of n] by (simp add: nonce_valid_def fsub_def)
  ultimately show ?thesis using verify_nonce_complete e by (fastforce simp: Let_def)
qed

subsection \<open>Cypher text\<close>

text \<open>
  How Cypher reads a string literal after the opening quote: up to the closing quote, a
  backslash taking the next character (the only escapes the gate writes are of the backslash
  and the quote). The result is the value and the text after the literal.
\<close>

fun cypher_literal :: "string \<Rightarrow> (string \<times> string) option" where
  "cypher_literal [] = None"
| "cypher_literal (c # cs) =
     (if c = CHR 0x27 then Some ([], cs)
      else if c = CHR 0x5C then
        (case cs of [] \<Rightarrow> None | d # ds \<Rightarrow> map_option (\<lambda>(v, r). (d # v, r)) (cypher_literal ds))
      else map_option (\<lambda>(v, r). (c # v, r)) (cypher_literal cs))"

definition cypher_escape :: "char \<Rightarrow> string" where
  "cypher_escape c =
     (if c = CHR 0x5C then [CHR 0x5C, CHR 0x5C] else if c = CHR 0x27 then [CHR 0x5C, CHR 0x27]
      else if c = CHR 0x00 \<or> c = CHR 0x0D then [] else if c = CHR 0x0A then '' '' else [c])"

definition flattened :: "string \<Rightarrow> string" where
  "flattened v = map (\<lambda>c. if c = CHR 0x0A then CHR '' '' else c) (filter (\<lambda>c. c \<noteq> CHR 0x00 \<and> c \<noteq> CHR 0x0D) v)"

lemma sanitize_escapes: "sanitize_cypher_value v = concat (map cypher_escape v)"
proof (induction v)
  case (Cons c v)
  have "sanitize_cypher_value (c # v) = cypher_escape c @ sanitize_cypher_value v"
    by (auto simp: sanitize_cypher_value_def py_replace_def cypher_escape_def)
  then show ?case using Cons by simp
qed (simp add: sanitize_cypher_value_def py_replace_def)

lemma cypher_literal_sanitized:
  "cypher_literal (sanitize_cypher_value v @ CHR 0x27 # rest) = Some (flattened v, rest)"
  unfolding sanitize_escapes
proof (induction v)
  case (Cons c v)
  then show ?case by (auto simp: cypher_escape_def flattened_def)
qed (simp add: flattened_def)

text \<open>The characters of a relationship type.\<close>

definition label_char :: "string \<Rightarrow> bool" where
  "label_char p \<longleftrightarrow> (\<exists>c. p = [c] \<and> (is_upper_char c \<or> is_digit c \<or> c = CHR ''_'')) \<or>
     p = u8 [0xC4, 0xB0] \<or> p = u8 [0xE2, 0x84, 0xAA]"

definition label_text :: "string \<Rightarrow> bool" where
  "label_text s \<longleftrightarrow> (\<exists>ps. s = concat ps \<and> list_all label_char ps)"

lemma label_textI: "list_all label_char ps \<Longrightarrow> label_text (concat ps)"
  by (auto simp: label_text_def)

lemma label_text_concat: "list_all label_text ss \<Longrightarrow> label_text (concat ss)"
proof (induction ss)
  case (Cons s ss)
  then obtain ps qs where "s = concat ps" "list_all label_char ps" "concat ss = concat qs" "list_all label_char qs"
    by (auto simp: label_text_def)
  then show ?case using label_textI [of "ps @ qs"] by simp
qed (simp add: label_text_def exI [of _ "[]"])

lemma label_text_chars: "list_all (\<lambda>c. is_upper_char c \<or> is_digit c \<or> c = CHR ''_'') s \<Longrightarrow> label_text s"
  using label_textI [of "map (\<lambda>c. [c]) s"] by (auto simp: list_all_iff label_char_def)

lemma label_code_text: "label_text (label_code n)"
proof (cases "n < 128")
  case True
  then show ?thesis by (auto simp: label_code_def Let_def intro: label_text_chars)
next
  case False
  show ?thesis
  proof (cases "map_of label_letters n")
    case None
    then show ?thesis using False by (auto simp: label_code_def list_all_iff intro!: label_text_chars)
  next
    case (Some letters)
    have "list_all (\<lambda>s. list_all (\<lambda>c. is_upper_char c \<or> is_digit c \<or> c = CHR ''_'') s \<or> s = u8 [0xC4, 0xB0] \<or> s = u8 [0xE2, 0x84, 0xAA])
        (map snd label_letters)"
      by (simp add: label_letters_def is_upper_char_def)
    then have "list_all (\<lambda>c. is_upper_char c \<or> is_digit c \<or> c = CHR ''_'') letters \<or> letters = u8 [0xC4, 0xB0] \<or> letters = u8 [0xE2, 0x84, 0xAA]"
      using map_of_SomeD [OF Some] by (force simp: list_all_iff)
    then have "label_text letters"
      using label_text_chars label_textI [of "[letters]"] by (auto simp: label_char_def)
    then show ?thesis using False Some by (simp add: label_code_def)
  qed
qed

lemma sanitize_label_text: "label_text (sanitize_label l)"
  unfolding sanitize_label_def by (rule label_text_concat) (auto simp: list_all_iff label_code_text)

text \<open>Such a text ends no quotation: it has no backtick, no quote and no backslash.\<close>

lemma label_char_plain: "label_char p \<Longrightarrow> c \<in> set p \<Longrightarrow> of_char c \<notin> {96, 39, 92 :: nat}"
  by (auto simp: label_char_def is_upper_char_def is_digit_def Let_def u8_def)

lemma label_text_plain: "label_text s \<Longrightarrow> c \<in> set s \<Longrightarrow> c \<notin> {CHR ''`'', CHR 0x27, CHR 0x5C}"
  using label_char_plain by (fastforce simp: label_text_def list_all_iff)

text \<open>
  C18. No Cypher injection: in every statement the gate sends, both values are read back as
  literals that end at their own closing quote and hold the term's text (with its control
  characters flattened), whatever the text is; the relationship type consists of ASCII capitals,
  digits, underscores and the two letters U+0130 and U+212A that the pattern keeps when it
  ignores case, so that no backtick in it ends its quotation; and there is one statement per
  triple.
\<close>

theorem cypher_statements_safe:
  "length (rdf_to_cypher_statements g) = length g \<and>
   (\<forall>i<length g. case g ! i of (s, p, ob) \<Rightarrow> \<exists>lab r1 r2.
      rdf_to_cypher_statements g ! i = ''MERGE (a:`Resource` {uri: '' @ [CHR 0x27] @ r1 \<and>
      cypher_literal r1 = Some (flattened (rdf_term_to_str s), ''}) MERGE (b:`Resource` {uri: '' @ [CHR 0x27] @ r2) \<and>
      cypher_literal r2 = Some (flattened (rdf_term_to_str ob), ''}) MERGE (a)-[:`'' @ lab @ ''`]->(b)'') \<and>
      label_text lab \<and> CHR ''`'' \<notin> set lab)"
proof (intro conjI allI impI)
  fix i assume i: "i < length g"
  obtain s p ob where t: "g ! i = (s, p, ob)" by (metis prod.exhaust)
  let ?r2 = "sanitize_cypher_value (rdf_term_to_str ob) @ CHR 0x27 # ''}) MERGE (a)-[:`'' @ pred_label (rdf_term_to_str p) @ ''`]->(b)''"
  let ?r1 = "sanitize_cypher_value (rdf_term_to_str s) @ CHR 0x27 # ''}) MERGE (b:`Resource` {uri: '' @ [CHR 0x27] @ ?r2"
  have "rdf_to_cypher_statements g ! i = ''MERGE (a:`Resource` {uri: '' @ [CHR 0x27] @ ?r1"
    using i t by (simp add: rdf_to_cypher_statements_def merge_statement_def)
  moreover have "label_text (pred_label (rdf_term_to_str p))" by (simp add: pred_label_def sanitize_label_text)
  moreover from this have "CHR ''`'' \<notin> set (pred_label (rdf_term_to_str p))" using label_text_plain by blast
  ultimately show "case g ! i of (s, p, ob) \<Rightarrow> \<exists>lab r1 r2.
      rdf_to_cypher_statements g ! i = ''MERGE (a:`Resource` {uri: '' @ [CHR 0x27] @ r1 \<and>
      cypher_literal r1 = Some (flattened (rdf_term_to_str s), ''}) MERGE (b:`Resource` {uri: '' @ [CHR 0x27] @ r2) \<and>
      cypher_literal r2 = Some (flattened (rdf_term_to_str ob), ''}) MERGE (a)-[:`'' @ lab @ ''`]->(b)'') \<and>
      label_text lab \<and> CHR ''`'' \<notin> set lab"
    unfolding t prod.case
    by (intro exI [of _ "pred_label (rdf_term_to_str p)"] exI [of _ ?r1] exI [of _ ?r2])
       (simp only: cypher_literal_sanitized simp_thms)
qed (simp add: rdf_to_cypher_statements_def)

subsection \<open>Rejected writes and the quota\<close>

text \<open>
  The quota is charged before the nonce is looked at: an attempt with a nonce that is
  refused writes nothing, but uses up one operation of the session and of the minute like a
  successful write.
\<close>

theorem refused_write_is_charged:
  assumes "gw_policy w = Some ap" and "check_write_quota ap dm (gc_quota clk) = (Inr (), ap')"
    and "\<not> (\<exists>signature. nonce_valid env (gw_gate w) dm data nonce signature (gc_ttl clk))"
  shows "\<exists>m w'. execute_governed_write env w dm data nonce fmt clk = (Inl (WriteGateError m), w') \<and>
    gw_db w' = gw_db w \<and> gw_policy w' = Some ap' \<and> ap_write_count ap' = ap_write_count ap + 1"
proof -
  have q: "check_quota w dm (gc_quota clk) = (Inr (), w\<lparr>gw_policy := Some ap'\<rparr>)"
    using assms(1,2) by (simp add: check_quota_def)
  have count: "ap_write_count ap' = ap_write_count ap + 1"
    using assms(2) by (auto simp: check_write_quota_def Let_def split: if_splits)
  show ?thesis
  proof (cases rule: governed_write_cases [of w dm clk env data nonce fmt])
    case (quota e)
    then show ?thesis using q by simp
  next
    case (nonce m g)
    then show ?thesis using q count by simp
  qed (use assms(3) in auto)
qed

subsection \<open>Validation\<close>

text \<open>
  Validation leaves the ledger of spent nonces, the secret and the TTL alone, and ends in
  one of three ways: an error of the hierarchy for an unknown domain, a shapes file, the data's
  syntax or the engine; a report of non-conformance without a nonce; or a report of conformance
  with a nonce for exactly this domain and data.
\<close>

theorem validation_outcome:
  "case verify_shacl_compliance env gate dm data fmt now of (r, gate', spans) \<Rightarrow>
     wg_consumed_nonces gate' = wg_consumed_nonces gate \<and> wg_nonce_secret gate' = wg_nonce_secret gate \<and>
     wg_nonce_ttl gate' = wg_nonce_ttl gate \<and>
     (case r of
        Inr (report, None) \<Rightarrow> \<not> is_valid report
      | Inr (report, Some nonce) \<Rightarrow> is_valid report \<and> nonce = generate_nonce env gate dm data now
      | Inl e \<Rightarrow> is_GovernanceError e \<or> (\<exists>d. get_domain (wg_schema_provider gate) dm = Some d \<and>
          snd (ge_parse_file env (ds_shacl_path d)) = Some e))"
proof -
  have gen: "generate_nonce env (snd (get_validator env gate dm)) dm data now = generate_nonce env gate dm data now"
    by (simp add: generate_nonce_def get_validator_gate)
  obtain v g where gv: "get_validator env gate dm = (v, g)" by force
  have frame: "wg_consumed_nonces g = wg_consumed_nonces gate" "wg_nonce_secret g = wg_nonce_secret gate"
    "wg_nonce_ttl g = wg_nonce_ttl gate" using get_validator_gate [of env gate dm] gv by simp_all
  have err: "is_GovernanceError e \<or> (\<exists>d. get_domain (wg_schema_provider gate) dm = Some d \<and>
      snd (ge_parse_file env (ds_shacl_path d)) = Some e)" if "v = Inl e" for e
    using gv that by (auto simp: get_validator_def validator_from_file_def split: option.splits sum.splits prod.splits)
  have eng: "is_GovernanceError e" if "validate (ge_engine env) x y = (Inl e, z)" for x y z e
    using that by (auto simp: validate_def new_SHACLValidationError_def Let_def split: sum.splits prod.splits)
  show ?thesis
    using gv frame gen err eng
    by (auto simp: verify_shacl_compliance_def rdf_failure_def new_SHACLValidationError_def split: sum.split prod.split)
qed

subsection \<open>Witnesses\<close>

text \<open>An environment with constant digests, one triple, a conforming engine and a list of statements as database.\<close>

definition demo_env :: "(string list, string list) gate_env" where
  "demo_env = \<lparr>ge_sha256 = (\<lambda>_. ''aa''), ge_hmac = (\<lambda>_ _. ''bb''),
     ge_parse_rdf = (\<lambda>_ _. Inr [(URIRef ''s'', URIRef ''p'', URIRef ''o'')]), ge_parse_file = (\<lambda>_. ([], None)),
     ge_engine = (\<lambda>_ _. Inr (True, [])),
     ge_driver = \<lparr>nd_begin = Inr, nd_run = (\<lambda>tx c. Inr (tx @ [c], 1)), nd_commit = (\<lambda>tx db. (Inr (), tx))\<rparr>\<rparr>"

definition demo_gate :: write_gate where
  "demo_gate = new_WriteGate [(''hr'', new_DomainSchema ''hr'' ''hr.ttl'' ''hr-shapes.ttl'')] True ''secret'' 300 None"

definition demo_world :: "string list gate_world" where
  "demo_world = \<lparr>gw_gate = demo_gate, gw_policy = None, gw_db = [], gw_spans = []\<rparr>"

definition clk_all :: "pyfloat \<Rightarrow> gate_clock" where
  "clk_all t = \<lparr>gc_quota = t, gc_ttl = t, gc_cleanup = t, gc_consume = t, gc_revalidate = t, gc_done = t\<rparr>"

lemma clk_all_sel [simp]:
  "gc_quota (clk_all t) = t" "gc_ttl (clk_all t) = t" "gc_cleanup (clk_all t) = t"
  "gc_consume (clk_all t) = t" "gc_revalidate (clk_all t) = t" "gc_done (clk_all t) = t"
  by (simp_all add: clk_all_def)

lemma demo_sel [simp]:
  "gw_gate demo_world = demo_gate" "gw_policy demo_world = None" "gw_db demo_world = []"
  "wg_nonce_ttl demo_gate = 300" "wg_nonce_secret demo_gate = ''secret''" "wg_consumed_nonces demo_gate = []"
  "wg_has_neo4j demo_gate = True" "wg_validators demo_gate = []"
  "ge_sha256 demo_env d = ''aa''" "ge_hmac demo_env k x = ''bb''"
  by (simp_all add: demo_world_def demo_gate_def new_WriteGate_def demo_env_def)

lemma demo_quota: "check_quota demo_world dm t = (Inr (), demo_world)"
  by (simp add: check_quota_def)

lemma demo_hex: "hex_digests demo_env"
  by (simp add: hex_digests_def is_digit_def is_lower_char_def)

lemma demo_split: "py_split (CHR '':'') ''100:aa:bb'' = [''100'', ''aa'', ''bb'']"
  by code_simp

lemma demo_100: "py_str_int 100 = ''100''" by code_simp

lemma demo_nonce_valid:
  assumes "wg_nonce_secret gate = ''secret''" "wg_nonce_ttl gate = 300" "fl (t - 100) \<le> 300"
  shows "nonce_valid demo_env gate dm data ''100:aa:bb'' ''bb'' t"
proof -
  have "py_int ''100'' = Some 100" using py_int_small [of 100] by (simp add: demo_100)
  moreover have "int_to_float 100 = Inr 100" using int_to_float_small [of 100] by simp
  ultimately show ?thesis using assms by (simp add: nonce_valid_def demo_split fsub_def is_ascii_def)
qed

definition demo_spent :: write_gate where
  "demo_spent = consume_nonce (cleanup_expired_nonces demo_gate 100) ''100:aa:bb'' 100"

definition demo_validator :: shacl_validator where
  "demo_validator = \<lparr>sv_shacl_graph = [], sv_tracer = None, sv_domain_name = Some ''hr''\<rparr>"

definition demo_graph :: graph where
  "demo_graph = [(URIRef ''s'', URIRef ''p'', URIRef ''o'')]"

lemma demo_get_validator:
  "get_validator demo_env demo_spent ''hr'' =
     (Inr demo_validator, demo_spent\<lparr>wg_validators := AList.update ''hr'' demo_validator []\<rparr>)"
  "wg_has_neo4j demo_spent"
proof -
  have sp: "wg_validators demo_spent = []"
    "get_domain (wg_schema_provider demo_spent) ''hr'' = Some (new_DomainSchema ''hr'' ''hr.ttl'' ''hr-shapes.ttl'')"
    "wg_tracer demo_spent = None"
    by (simp_all add: demo_spent_def consume_nonce_def demo_split cleanup_expired_nonces_def demo_gate_def
        new_WriteGate_def get_domain_def)
  then show "get_validator demo_env demo_spent ''hr'' =
     (Inr demo_validator, demo_spent\<lparr>wg_validators := AList.update ''hr'' demo_validator []\<rparr>)"
    by (simp add: get_validator_def validator_from_file_def demo_env_def demo_validator_def)
  show "wg_has_neo4j demo_spent"
    by (simp add: demo_spent_def consume_nonce_def demo_split cleanup_expired_nonces_def)
qed

lemma demo_parts:
  "ge_parse_rdf demo_env d f = Inr demo_graph"
  "validate (ge_engine demo_env) v demo_graph = (Inr \<lparr>rep_conforms = True, rep_results = []\<rparr>, [])"
  by (simp_all add: demo_env_def demo_graph_def validate_def parse_results_def subjects_def)

lemma demo_batch:
  "execute_write_batch (ge_driver demo_env) [] (rdf_to_cypher_statements demo_graph) =
    (Inr 1, rdf_to_cypher_statements demo_graph)"
proof -
  obtain c where c: "rdf_to_cypher_statements demo_graph = [CHR ''M'' # c]"
    by (simp add: demo_graph_def rdf_to_cypher_statements_def merge_statement_def)
  have "py_strip (CHR ''M'' # c) \<noteq> []"
    by (simp add: py_strip_def rstrip_when_def is_space_def dropWhile_eq_Nil_conv)
  then show ?thesis by (simp add: c execute_write_batch_def demo_env_def)
qed

lemma demo_fresh: "burned (cleanup_expired_nonces demo_gate 100) ''bb'' = None"
  by (simp add: burned_def cleanup_expired_nonces_def)

lemma demo_expiry: "fadd 100 (fl 300) = 400"
  by (simp add: fadd_def fl_numeral)

lemma demo_write:
  "\<exists>r w'. execute_governed_write demo_env demo_world ''hr'' ''data'' ''100:aa:bb'' ''turtle'' (clk_all 100) = (Inr r, w') \<and>
    gw_db w' = rdf_to_cypher_statements demo_graph \<and> burned (gw_gate w') ''bb'' = Some 400"
  using governed_write_complete [of demo_world "''hr''" "clk_all 100" demo_env "''data''" "''100:aa:bb''" "''bb''" demo_validator
        "demo_spent\<lparr>wg_validators := AList.update ''hr'' demo_validator []\<rparr>" "''turtle''" demo_graph
        "\<lparr>rep_conforms = True, rep_results = []\<rparr>" "[]" 1 "rdf_to_cypher_statements demo_graph"]
      demo_quota demo_nonce_valid [of demo_gate 100] demo_get_validator [unfolded demo_spent_def] demo_parts demo_batch
      demo_fresh demo_expiry
  by (simp add: is_valid_def demo_spent_def) blast

theorem governed_write_succeeds_witness:
  "\<exists>w'. execute_governed_write demo_env demo_world ''hr'' ''data'' ''100:aa:bb'' ''turtle'' (clk_all 100) =
      (Inr [(''status'', PStr ''success''), (''domain'', PStr ''hr''),
            (''transaction_id'', PStr (transaction_id demo_env ''hr'' 100)), (''records_written'', PInt 1)], w') \<and>
    gw_db w' = rdf_to_cypher_statements demo_graph"
  using governed_write_succeeds [of demo_world "''hr''" "clk_all 100" demo_env "''data''" "''100:aa:bb''" "''bb''" demo_validator
        "demo_spent\<lparr>wg_validators := AList.update ''hr'' demo_validator []\<rparr>" "''turtle''" demo_graph
        "\<lparr>rep_conforms = True, rep_results = []\<rparr>" "[]" 1 "rdf_to_cypher_statements demo_graph"]
      demo_quota demo_nonce_valid [of demo_gate 100] demo_get_validator [unfolded demo_spent_def] demo_parts demo_batch
      demo_fresh demo_expiry
  by (simp add: is_valid_def demo_spent_def) blast

theorem write_needs_nonce_witness:
  "\<exists>signature. nonce_valid demo_env demo_gate ''hr'' ''data'' ''100:aa:bb'' signature 100"
proof -
  obtain r w' where "execute_governed_write demo_env demo_world ''hr'' ''data'' ''100:aa:bb'' ''turtle'' (clk_all 100) = (Inr r, w')"
    using demo_write by blast
  from write_needs_nonce [OF this] show ?thesis by auto
qed

lemma demo_wf: "gate_wf demo_gate" by (simp add: gate_wf_def)

theorem nonce_spent_once_witness:
  "\<exists>r w1 m. execute_governed_write demo_env demo_world ''hr'' ''data'' ''100:aa:bb'' ''turtle'' (clk_all 100) = (Inr r, w1) \<and>
     fst (execute_governed_write demo_env w1 ''hr'' ''data'' ''100:aa:bb'' ''turtle'' (clk_all 399)) = Inl (WriteGateError m)"
proof -
  let ?x = "execute_governed_write demo_env demo_world ''hr'' ''data'' ''100:aa:bb'' ''turtle'' (clk_all 100)"
  obtain r w1 where w1: "?x = (Inr r, w1)" using demo_write by blast
  have wf: "gate_wf (gw_gate demo_world)" by (simp add: demo_wf)
  have "gw_policy w1 = None"
  proof (cases rule: governed_write_cases [of demo_world "''hr''" "clk_all 100" demo_env "''data''" "''100:aa:bb''" "''turtle''"])
    case (written s g report n spans)
    let ?w2 = "(snd (check_quota demo_world ''hr'' (gc_quota (clk_all 100))))\<lparr>gw_gate := g, gw_spans := gw_spans demo_world @ spans\<rparr>"
    have "w1 = snd (write_graph demo_env ?w2 ''hr'' ''data'' ''turtle'' (gc_done (clk_all 100)))"
      using written(6) w1 by (metis snd_conv)
    then show ?thesis by (simp add: demo_quota)
  qed (use w1 in auto)
  then have q: "fst (check_quota w1 ''hr'' 399) = Inr ()" by (simp add: check_quota_def)
  have e: "fadd (gc_consume (clk_all 100)) (fl (of_int (wg_nonce_ttl (gw_gate demo_world)))) = 400"
    by (simp add: demo_expiry)
  have "\<exists>m. fst (execute_governed_write demo_env w1 ''hr'' ''data'' ''100:aa:bb'' ''turtle'' (clk_all 399)) = Inl (WriteGateError m)"
    using nonce_spent_once [OF w1 wf demo_split runs_before.refl, of 400 "''100:aa:bb''" "''100''" "''aa''" "clk_all 399"
      "''hr''" "''data''" "''turtle''"] q demo_split unfolding e by simp
  then show ?thesis using w1 by blast
qed

theorem nonce_round_trip_witness:
  "verify_nonce demo_env demo_gate ''hr'' ''data'' (generate_nonce demo_env demo_gate ''hr'' ''data'' (201 / 2)) 400 400 =
    (Inr (), cleanup_expired_nonces demo_gate 400)"
proof -
  have t: "trunc (201 / 2) = 100" by (simp add: trunc_def floor_eq_iff)
  have v: "get_validator demo_env demo_gate ''hr'' =
     (Inr demo_validator, demo_gate\<lparr>wg_validators := AList.update ''hr'' demo_validator []\<rparr>)"
    by (simp add: get_validator_def demo_gate_def new_WriteGate_def get_domain_def validator_from_file_def demo_env_def
        demo_validator_def)
  have n: "generate_nonce demo_env gate ''hr'' ''data'' (201 / 2) = ''100:aa:bb''" for gate
    by (simp add: generate_nonce_def t demo_100)
  have c: "verify_shacl_compliance demo_env demo_gate ''hr'' ''data'' ''turtle'' (201 / 2) =
    (Inr (\<lparr>rep_conforms = True, rep_results = []\<rparr>, Some ''100:aa:bb''),
     demo_gate\<lparr>wg_validators := AList.update ''hr'' demo_validator []\<rparr>, [])"
    using v by (simp add: verify_shacl_compliance_def demo_parts is_valid_def n)
  have "clock_range (201 / 2)" by (simp add: clock_range_def)
  from nonce_round_trip [OF demo_hex this _ c, of 400 demo_gate 400]
  show ?thesis by (simp add: t n fsub_def fl_numeral demo_split) (simp add: burned_def cleanup_expired_nonces_def)
qed

theorem nonce_binding_witness:
  "ge_sha256 demo_env ''data2'' = ge_sha256 demo_env ''data''"
proof -
  have t: "trunc 100 = 100" by (simp add: trunc_def)
  have n: "generate_nonce demo_env demo_gate ''hr'' ''data'' 100 = ''100:aa:bb''"
    by (simp add: generate_nonce_def t demo_100)
  have "fst (verify_nonce demo_env demo_gate ''hr'' ''data2'' ''100:aa:bb'' 100 100) = Inr ()"
    using verify_nonce_complete [OF demo_nonce_valid [of demo_gate 100] demo_fresh] by simp
  moreover have "clock_range 100" by (simp add: clock_range_def)
  ultimately show ?thesis using nonce_binding [OF demo_hex, of 100] n by metis
qed

theorem replay_at_expiry_witness:
  "fst (verify_nonce demo_env (consume_nonce demo_gate ''100:aa:bb'' 100) ''hr'' ''data'' ''100:aa:bb'' 400 400) = Inr ()"
proof -
  have p: "py_split (CHR '':'') ''100:aa:bb'' = [py_str_int 100, ge_sha256 demo_env ''data'', ''bb'']"
    by (simp only: demo_split demo_100 demo_sel)
  have a: "is_ascii ''bb''" by (simp add: is_ascii_def)
  have h: "''bb'' = ge_hmac demo_env (wg_nonce_secret demo_gate) (nonce_payload 100 (ge_sha256 demo_env ''data'') ''hr'')"
    by (simp only: demo_sel)
  show ?thesis using replay_at_expiry [OF p demo_wf _ _ _ a h] by (simp add: Let_def)
qed

theorem refused_write_is_charged_witness:
  "\<exists>m w'. execute_governed_write demo_env
      (demo_world\<lparr>gw_policy := Some (new_AutonomyPolicy shipped_policy_config 0)\<rparr>) ''hr'' ''data'' ''forged'' ''turtle'' (clk_all 100) =
      (Inl (WriteGateError m), w') \<and>
    gw_policy w' = Some ((new_AutonomyPolicy shipped_policy_config 0)\<lparr>ap_write_count := 1, ap_write_timestamps := [100]\<rparr>)"
proof -
  let ?ap = "new_AutonomyPolicy shipped_policy_config 0"
  have q: "check_write_quota ?ap ''hr'' (gc_quota (clk_all 100)) =
      (Inr (), ?ap\<lparr>ap_write_count := 1, ap_write_timestamps := [100]\<rparr>)"
    by (simp add: check_write_quota_def new_AutonomyPolicy_def shipped_policy_config_def)
  have "py_split (CHR '':'') ''forged'' = [''forged'']" by code_simp
  then have "\<not> (\<exists>signature. nonce_valid demo_env (gw_gate (demo_world\<lparr>gw_policy := Some ?ap\<rparr>)) ''hr'' ''data'' ''forged'' signature (gc_ttl (clk_all 100)))"
    by (simp add: nonce_valid_def)
  from refused_write_is_charged [OF _ q this, of "''turtle''"] show ?thesis by auto
qed

theorem cypher_statements_safe_witness:
  "\<exists>lab r1 r2. rdf_to_cypher_statements [(URIRef [CHR 0x27], URIRef ''p'', URIRef ''o'')] ! 0 =
       ''MERGE (a:`Resource` {uri: '' @ [CHR 0x27] @ r1 \<and>
     cypher_literal r1 = Some ([CHR 0x27], ''}) MERGE (b:`Resource` {uri: '' @ [CHR 0x27] @ r2) \<and>
     cypher_literal r2 = Some (''o'', ''}) MERGE (a)-[:`'' @ lab @ ''`]->(b)'')"
proof -
  let ?g = "[(URIRef [CHR 0x27], URIRef ''p'', URIRef ''o'')]"
  have f: "flattened (rdf_term_to_str (URIRef [CHR 0x27])) = [CHR 0x27]"
    "flattened (rdf_term_to_str (URIRef ''o'')) = ''o''" by code_simp+
  have l: "0 < length ?g" "?g ! 0 = (URIRef [CHR 0x27], URIRef ''p'', URIRef ''o'')" by simp_all
  from conjunct2 [OF cypher_statements_safe [of ?g], rule_format, OF l(1)] show ?thesis
    unfolding l(2) prod.case f by blast
qed

end
