(* ===== verification/Database.thy ===== *)
theory Database
  imports Py_Json "HOL-Library.List_Lexorder"
begin

text \<open>
  The two SQLite tables: the approval records of \<^verbatim>\<open>src/agentos/database/feedback_db.py\<close> and
  the workflow states of \<^verbatim>\<open>src/agentos/database/state_store.py\<close>. A table is the list of its
  rows in the order of their row ids; a statement that violates a constraint raises and leaves
  the table as it was. \<open>ORDER BY ... DESC\<close> keeps the order of the rows whose keys are equal.
  The current time is an argument. SQLite's own failures (a locked or missing file) and the
  connections per thread are not modelled.
\<close>

definition order_desc :: "('a \<Rightarrow> 'k::linorder) \<Rightarrow> 'a list \<Rightarrow> 'a list" where
  "order_desc key rows = rev (sort_key key (rev rows))"

lemma order_desc_mset [simp]: "set (order_desc key rows) = set rows" "length (order_desc key rows) = length rows"
  by (simp_all add: order_desc_def)

lemma order_desc_sorted: "sorted (map key (rev (order_desc key rows)))"
  by (simp add: order_desc_def)

subsection \<open>feedback_db.py\<close>

record feedback_record =
  fb_id :: int
  fb_trace_id :: string
  fb_reviewer :: string
  fb_decision :: string
  fb_reason :: "string option"
  fb_original_agent_output :: "string option"
  fb_timestamp :: string

text \<open>\<open>AUTOINCREMENT\<close>: the largest id ever given is kept beside the rows.\<close>

record feedback_db =
  fdb_rows :: "feedback_record list"
  fdb_seq :: int

definition new_FeedbackDB :: feedback_db where
  "new_FeedbackDB = \<lparr>fdb_rows = [], fdb_seq = 0\<rparr>"

definition get_by_trace_id :: "feedback_db \<Rightarrow> string \<Rightarrow> feedback_record option" where
  "get_by_trace_id db trace_id = find (\<lambda>r. fb_trace_id r = trace_id) (fdb_rows db)"

definition insert_feedback ::
  "feedback_db \<Rightarrow> string \<Rightarrow> string \<Rightarrow> string \<Rightarrow> string option \<Rightarrow> string option \<Rightarrow> string option \<Rightarrow> string \<Rightarrow>
     (exn + int) \<times> feedback_db" where
  "insert_feedback db trace_id reviewer decision reason original_agent_output timestamp now =
     (if decision \<notin> {''APPROVED'', ''REJECTED''}
      then (Inl (OtherException ''ValueError'' ((''decision '' @ u8 [0xE5, 0xBF, 0x85, 0xE9, 0xA1, 0xBB, 0xE6, 0x98, 0xAF] @ '' '' @ [CHR 0x27] @ ''APPROVED'' @ [CHR 0x27] @ '' '' @ u8 [0xE6, 0x88, 0x96] @ '' '' @ [CHR 0x27] @ ''REJECTED'' @ [CHR 0x27] @ u8 [0xEF, 0xBC, 0x8C, 0xE6, 0x94, 0xB6, 0xE5, 0x88, 0xB0] @ '': '') @ repr_str decision)), db)
      else let ts = (case timestamp of Some (c # cs) \<Rightarrow> c # cs | _ \<Rightarrow> now)
           in if get_by_trace_id db trace_id \<noteq> None
              then (Inl (OtherException ''IntegrityError'' ''UNIQUE constraint failed: agent_feedback.trace_id''), db)
              else let row_id = fdb_seq db + 1
                   in (Inr row_id,
                       \<lparr>fdb_rows = fdb_rows db @
                          [\<lparr>fb_id = row_id, fb_trace_id = trace_id, fb_reviewer = reviewer, fb_decision = decision,
                            fb_reason = reason, fb_original_agent_output = original_agent_output, fb_timestamp = ts\<rparr>],
                        fdb_seq = row_id\<rparr>))"

definition list_all_feedback :: "feedback_db \<Rightarrow> feedback_record list" where
  "list_all_feedback db = order_desc fb_timestamp (fdb_rows db)"

definition count_by_decision :: "feedback_db \<Rightarrow> string \<Rightarrow> int" where
  "count_by_decision db decision = int (length (filter (\<lambda>r. fb_decision r = decision) (fdb_rows db)))"

subsection \<open>An append-only log\<close>

text \<open>
  What the workflow engine and the API rely on: an insertion that succeeds adds one record
  under its key and touches no other, and one that raises changes nothing.
\<close>

locale audit_log =
  fixes ins :: "'s \<Rightarrow> 'k \<Rightarrow> 'a \<Rightarrow> ('e + 'i) \<times> 's" and get :: "'s \<Rightarrow> 'k \<Rightarrow> 'r option"
  assumes ins_failed: "ins s k a = (Inl e, s') \<Longrightarrow> s' = s"
    and ins_other: "ins s k a = (Inr i, s') \<Longrightarrow> j \<noteq> k \<Longrightarrow> get s' j = get s j"
    and ins_present: "get s k \<noteq> None \<Longrightarrow> \<exists>e. fst (ins s k a) = Inl e"
    and ins_added: "ins s k a = (Inr i, s') \<Longrightarrow> get s' k \<noteq> None"
begin

fun ins_many :: "'s \<Rightarrow> ('k \<times> 'a) list \<Rightarrow> 's" where
  "ins_many s [] = s"
| "ins_many s ((k, a) # kas) = ins_many (snd (ins s k a)) kas"

lemma ins_keeps: "get s j = Some r \<Longrightarrow> get (snd (ins s k a)) j = Some r"
proof (cases "ins s k a")
  case (Pair v s')
  assume r: "get s j = Some r"
  show ?thesis
  proof (cases v)
    case (Inl e)
    then show ?thesis using ins_failed Pair r by fastforce
  next
    case (Inr i)
    then have "j \<noteq> k" using ins_present [of s k a] Pair r by auto
    then show ?thesis using ins_other Pair Inr r by fastforce
  qed
qed

lemma records_are_final: "get s j = Some r \<Longrightarrow> get (ins_many s kas) j = Some r"
  by (induction s kas rule: ins_many.induct) (simp_all add: ins_keeps)

lemma second_refused: "ins s k a = (Inr i, s') \<Longrightarrow> \<exists>e. fst (ins (ins_many s' kas) k a') = Inl e"
  using ins_added records_are_final ins_present by (metis not_Some_eq)

end

text \<open>An insertion with its arguments as one value: the record and the current time.\<close>

definition insert_row ::
  "feedback_db \<Rightarrow> string \<Rightarrow> string \<times> string \<times> string option \<times> string option \<times> string option \<times> string \<Rightarrow>
     (exn + int) \<times> feedback_db" where
  "insert_row db trace_id = (\<lambda>(reviewer, decision, reason, output, timestamp, now).
     insert_feedback db trace_id reviewer decision reason output timestamp now)"

lemma insert_feedback_cases:
  obtains (bad) m where "decision \<notin> {''APPROVED'', ''REJECTED''}"
      "insert_feedback db trace_id reviewer decision reason out ts now = (Inl (OtherException ''ValueError'' m), db)"
  | (dup) m where "decision \<in> {''APPROVED'', ''REJECTED''}" "get_by_trace_id db trace_id \<noteq> None"
      "insert_feedback db trace_id reviewer decision reason out ts now = (Inl (OtherException ''IntegrityError'' m), db)"
  | (added) r where "decision \<in> {''APPROVED'', ''REJECTED''}" "get_by_trace_id db trace_id = None"
      "fb_id r = fdb_seq db + 1" "fb_trace_id r = trace_id" "fb_reviewer r = reviewer" "fb_decision r = decision"
      "fb_reason r = reason" "fb_original_agent_output r = out"
      "insert_feedback db trace_id reviewer decision reason out ts now =
         (Inr (fdb_seq db + 1), \<lparr>fdb_rows = fdb_rows db @ [r], fdb_seq = fdb_seq db + 1\<rparr>)"
proof (cases "decision \<in> {''APPROVED'', ''REJECTED''}")
  case False
  then show ?thesis by (intro bad) (simp_all add: insert_feedback_def)
next
  case ok: True
  show ?thesis
  proof (cases "get_by_trace_id db trace_id = None")
    case False
    with ok show ?thesis by (intro dup) (simp_all add: insert_feedback_def Let_def)
  next
    case True
    with ok show ?thesis by (intro added) (simp_all add: insert_feedback_def Let_def)
  qed
qed

lemma get_by_trace_id_append:
  "get_by_trace_id \<lparr>fdb_rows = rows @ [r], fdb_seq = n\<rparr> k =
     (case get_by_trace_id \<lparr>fdb_rows = rows, fdb_seq = m\<rparr> k of
        Some x \<Rightarrow> Some x | None \<Rightarrow> if fb_trace_id r = k then Some r else None)"
  by (induction rows) (auto simp: get_by_trace_id_def)

lemma get_by_trace_id_rows: "get_by_trace_id \<lparr>fdb_rows = fdb_rows db, fdb_seq = m\<rparr> k = get_by_trace_id db k"
  by (simp add: get_by_trace_id_def)

lemma insert_row_laws:
  "insert_row s k a = (Inl e, s') \<Longrightarrow> s' = s"
  "insert_row s k a = (Inr i, s') \<Longrightarrow> j \<noteq> k \<Longrightarrow> get_by_trace_id s' j = get_by_trace_id s j"
  "get_by_trace_id s k \<noteq> None \<Longrightarrow> \<exists>e. fst (insert_row s k a) = Inl e"
  "insert_row s k a = (Inr i, s') \<Longrightarrow> get_by_trace_id s' k \<noteq> None"
proof -
  obtain reviewer decision reason out ts now where a: "a = (reviewer, decision, reason, out, ts, now)"
    by (metis prod.exhaust)
  note c = insert_feedback_cases [of decision s k reviewer reason out ts now]
  show "insert_row s k a = (Inl e, s') \<Longrightarrow> s' = s"
    by (cases rule: c) (auto simp: insert_row_def a)
  show "insert_row s k a = (Inr i, s') \<Longrightarrow> j \<noteq> k \<Longrightarrow> get_by_trace_id s' j = get_by_trace_id s j"
    by (cases rule: c)
       (auto simp: insert_row_def a get_by_trace_id_append [where m = "fdb_seq s"] get_by_trace_id_rows split: option.split)
  show "get_by_trace_id s k \<noteq> None \<Longrightarrow> \<exists>e. fst (insert_row s k a) = Inl e"
    by (cases rule: c) (auto simp: insert_row_def a)
  show "insert_row s k a = (Inr i, s') \<Longrightarrow> get_by_trace_id s' k \<noteq> None"
    by (cases rule: c)
       (auto simp: insert_row_def a get_by_trace_id_append [where m = "fdb_seq s"] get_by_trace_id_rows split: option.split)
qed

interpretation feedback: audit_log insert_row get_by_trace_id
  by unfold_locales (fact insert_row_laws)+

text \<open>
  A decision is final: once a record is stored for a trace, no sequence of later insertions
  changes or removes it, and every further insertion for the trace raises and leaves the table
  alone, so a second verdict for the same run is never recorded.
\<close>

theorem decision_is_final:
  assumes "get_by_trace_id db trace_id = Some r"
  shows "let db' = fold (\<lambda>(k, a) s. snd (insert_row s k a)) rows db
    in get_by_trace_id db' trace_id = Some r \<and>
       (\<exists>e. insert_feedback db' trace_id reviewer decision reason out ts now = (Inl e, db'))"
proof -
  have many: "fold (\<lambda>(k, a) s. snd (insert_row s k a)) rows s = feedback.ins_many s rows" for s
    by (induction rows arbitrary: s) auto
  have kept: "get_by_trace_id (feedback.ins_many db rows) trace_id = Some r"
    by (rule feedback.records_are_final [OF assms])
  let ?a = "(reviewer, decision, reason, out, ts, now)"
  have "\<exists>e. fst (insert_row (feedback.ins_many db rows) trace_id ?a) = Inl e"
    using feedback.ins_present kept by (metis option.distinct(1))
  then have "\<exists>e. insert_row (feedback.ins_many db rows) trace_id ?a = (Inl e, feedback.ins_many db rows)"
    using feedback.ins_failed by (metis prod.collapse)
  then show ?thesis unfolding Let_def many using kept by (simp add: insert_row_def)
qed

theorem decision_is_final_witness:
  "let db = snd (insert_feedback new_FeedbackDB ''t1'' ''ou_1'' ''REJECTED'' None None None ''2026-01-01'')
   in \<exists>e. insert_feedback db ''t1'' ''ou_2'' ''APPROVED'' None None None ''2026-01-02'' = (Inl e, db)"
proof -
  let ?db = "snd (insert_feedback new_FeedbackDB ''t1'' ''ou_1'' ''REJECTED'' None None None ''2026-01-01'')"
  have "\<exists>r. get_by_trace_id ?db ''t1'' = Some r"
    by (simp add: insert_feedback_def new_FeedbackDB_def get_by_trace_id_def)
  then show ?thesis using decision_is_final [of ?db "''t1''" _ "[]"] by fastforce
qed

text \<open>
  The table of verdicts: an insertion is refused for a decision other than \<open>APPROVED\<close> and
  \<open>REJECTED\<close> and for a trace that has one, with the table unchanged; otherwise it adds exactly
  one row with the arguments and a fresh id, the count of its decision goes up by one and the
  other count stays, and the listing gains exactly that row.
\<close>

theorem insert_feedback_outcome:
  "case insert_feedback db trace_id reviewer decision reason out ts now of
     (Inl e, db') \<Rightarrow> db' = db \<and> (decision \<notin> {''APPROVED'', ''REJECTED''} \<or> get_by_trace_id db trace_id \<noteq> None)
   | (Inr i, db') \<Rightarrow> i = fdb_seq db + 1 \<and> get_by_trace_id db trace_id = None \<and>
       (\<exists>r. get_by_trace_id db' trace_id = Some r \<and> fb_id r = i \<and> fb_reviewer r = reviewer \<and>
          fb_decision r = decision \<and> fb_reason r = reason \<and> fb_original_agent_output r = out \<and>
          set (list_all_feedback db') = insert r (set (list_all_feedback db))) \<and>
       length (list_all_feedback db') = length (list_all_feedback db) + 1 \<and>
       count_by_decision db' d = count_by_decision db d + (if d = decision then 1 else 0)"
  by (cases rule: insert_feedback_cases [of decision db trace_id reviewer reason out ts now])
     (auto simp: list_all_feedback_def count_by_decision_def get_by_trace_id_append [where m = "fdb_seq db"]
        get_by_trace_id_rows)

subsection \<open>state_store.py\<close>

text \<open>
  The context is stored as the JSON text pydantic makes of it; the table keeps the text and the
  columns beside it.
\<close>

record sop_state_row =
  row_run_id :: string
  row_sop_id :: string
  row_state :: string
  row_context_json :: string
  row_updated_at :: string

type_synonym state_store = "sop_state_row list"

definition upsert_row :: "state_store \<Rightarrow> string \<Rightarrow> string \<Rightarrow> string \<Rightarrow> string \<Rightarrow> string \<Rightarrow> state_store" where
  "upsert_row st run_id sop_id state context_json now =
     (if \<exists>r\<in>set st. row_run_id r = run_id
      then map (\<lambda>r. if row_run_id r = run_id
                    then r\<lparr>row_state := state, row_context_json := context_json, row_updated_at := now\<rparr> else r) st
      else st @ [\<lparr>row_run_id = run_id, row_sop_id = sop_id, row_state = state,
                  row_context_json = context_json, row_updated_at = now\<rparr>])"

definition find_row :: "state_store \<Rightarrow> string \<Rightarrow> sop_state_row option" where
  "find_row st run_id = find (\<lambda>r. row_run_id r = run_id) st"

definition count_by_state :: "state_store \<Rightarrow> string \<Rightarrow> int" where
  "count_by_state st state = int (length (filter (\<lambda>r. row_state r = state) st))"

definition row_dict :: "sop_state_row \<Rightarrow> (string \<times> pyval) list" where
  "row_dict r = [(''run_id'', PStr (row_run_id r)), (''sop_id'', PStr (row_sop_id r)),
                 (''state'', PStr (row_state r)), (''updated_at'', PStr (row_updated_at r))]"

text \<open>SQLite: a negative limit means none, a negative offset means zero.\<close>

definition list_runs :: "state_store \<Rightarrow> int \<Rightarrow> int \<Rightarrow> (string \<times> pyval) list list" where
  "list_runs st limit offset =
     (let rows = drop (nat offset) (order_desc row_updated_at st)
      in map row_dict (if limit < 0 then rows else take (nat limit) rows))"

lemma find_row_upsert:
  "find_row (upsert_row st run_id sop_id state json now) k =
     (if k = run_id
      then Some (case find_row st run_id of
          Some r \<Rightarrow> r\<lparr>row_state := state, row_context_json := json, row_updated_at := now\<rparr>
        | None \<Rightarrow> \<lparr>row_run_id = run_id, row_sop_id = sop_id, row_state = state, row_context_json = json, row_updated_at = now\<rparr>)
      else find_row st k)"
proof -
  let ?u = "\<lambda>r. if row_run_id r = run_id
                then r\<lparr>row_state := state, row_context_json := json, row_updated_at := now\<rparr> else r"
  have m: "find (\<lambda>r. row_run_id r = k) (map ?u st) = map_option ?u (find (\<lambda>r. row_run_id r = k) st)"
    by (induction st) auto
  have a: "find (\<lambda>r. row_run_id r = k) (st @ [x]) =
    (case find (\<lambda>r. row_run_id r = k) st of Some r \<Rightarrow> Some r | None \<Rightarrow> if row_run_id x = k then Some x else None)" for x
    by (induction st) auto
  have f: "(\<exists>r\<in>set st. row_run_id r = run_id) \<longleftrightarrow> find (\<lambda>r. row_run_id r = run_id) st \<noteq> None"
    by (auto simp: find_None_iff)
  have k: "find (\<lambda>r. row_run_id r = j) st = Some r \<Longrightarrow> row_run_id r = j" for j r
    by (auto simp: find_Some_iff)
  show ?thesis
  proof (cases "find (\<lambda>r. row_run_id r = run_id) st")
    case None
    then show ?thesis using f a by (auto simp: upsert_row_def find_row_def split: option.split)
  next
    case found: (Some r)
    then have u: "find_row (upsert_row st run_id sop_id state json now) k = map_option ?u (find_row st k)"
      using f m by (simp add: upsert_row_def find_row_def)
    show ?thesis
    proof (cases "k = run_id")
      case True
      have "row_run_id r = run_id" by (rule k [OF found])
      then show ?thesis unfolding u unfolding find_row_def True found by simp
    next
      case False
      have "map_option ?u (find_row st k) = find_row st k"
      proof (cases "find_row st k")
        case None
        then show ?thesis by simp
      next
        case (Some x)
        then have "row_run_id x = k" unfolding find_row_def by (rule k)
        with False Some show ?thesis by simp
      qed
      with u False show ?thesis by simp
    qed
  qed
qed

lemma upsert_keys:
  "map row_run_id (upsert_row st run_id sop_id state json now) =
     (if run_id \<in> set (map row_run_id st) then map row_run_id st else map row_run_id st @ [run_id])"
proof -
  have "map row_run_id (map (\<lambda>r. if row_run_id r = run_id
      then r\<lparr>row_state := state, row_context_json := json, row_updated_at := now\<rparr> else r) st) = map row_run_id st"
    by (induction st) auto
  moreover have "(\<exists>r\<in>set st. row_run_id r = run_id) \<longleftrightarrow> run_id \<in> set (map row_run_id st)" by auto
  ultimately show ?thesis by (simp only: upsert_row_def if_distrib [of "map row_run_id"]) simp
qed

theorem insert_feedback_outcome_witness:
  "\<exists>db'. insert_feedback new_FeedbackDB ''t1'' ''ou_1'' ''APPROVED'' None None None ''2026-01-01'' = (Inr 1, db') \<and>
     count_by_decision db' ''APPROVED'' = 1 \<and> count_by_decision db' ''REJECTED'' = 0"
proof -
  obtain r db' where r: "insert_feedback new_FeedbackDB ''t1'' ''ou_1'' ''APPROVED'' None None None ''2026-01-01'' = (r, db')"
    by force
  have n: "get_by_trace_id new_FeedbackDB ''t1'' = None" "fdb_seq new_FeedbackDB = 0"
    "count_by_decision new_FeedbackDB d = 0" for d
    by (simp_all add: new_FeedbackDB_def get_by_trace_id_def count_by_decision_def)
  note f = insert_feedback_outcome [where db = new_FeedbackDB and trace_id = "''t1''" and reviewer = "''ou_1''" and
    decision = "''APPROVED''" and reason = None and out = None and ts = None and now = "''2026-01-01''"]
  have "r = Inr 1" using f [where d = "[]"] by (simp add: r n split: sum.splits)
  then show ?thesis using f [where d = "''APPROVED''"] f [where d = "''REJECTED''"] by (simp add: r n)
qed

end
