(* ===== verification/Api.thy ===== *)
theory Api
  imports Database Billing_Fuse Ui_Correct
begin

text \<open>
  The REST API of \<^verbatim>\<open>src/agentos/api/\<close> (\<^verbatim>\<open>governance.py\<close>, \<^verbatim>\<open>metrics.py\<close>, \<^verbatim>\<open>workflows.py\<close>), and
  the whole way from the tables and the fuse through the API's JSON to what the dashboard
  shows.

  An endpoint reads the objects of the service, which are absent before start-up. Its
  dictionary is sent as JSON and parsed by the page: text, booleans, \<open>null\<close>, arrays and
  objects arrive as they are, an integer as the nearest double.
\<close>

record bootstrap =
  bs_fuse :: "billing_fuse option"
  bs_feedback_db :: "feedback_db option"
  bs_state_store :: "state_store option"

fun json_js :: "pyval \<Rightarrow> jsval" where
  "json_js PNone = JNull"
| "json_js (PBool b) = JBool b"
| "json_js (PInt n) = JNum (fl (of_int n))"
| "json_js (PFloat x) = JNum x"
| "json_js (PStr s) = JStr s"
| "json_js (PList xs) = JArr (map json_js xs)"
| "json_js (PDict d) = JObj (map (\<lambda>(k, v). (k, json_js v)) d)"

subsection \<open>The endpoints\<close>

definition audit_dict :: "feedback_record \<Rightarrow> pyval" where
  "audit_dict r = PDict
     [(''id'', PInt (fb_id r)), (''trace_id'', PStr (fb_trace_id r)), (''reviewer'', PStr (fb_reviewer r)),
      (''decision'', PStr (fb_decision r)), (''reason'', py_opt_str (fb_reason r)),
      (''original_agent_output'', py_opt_str (fb_original_agent_output r)), (''timestamp'', PStr (fb_timestamp r))]"

definition list_audits :: "bootstrap \<Rightarrow> pyval" where
  "list_audits b = (case bs_feedback_db b of
     None \<Rightarrow> PDict [(''audits'', PList [])]
   | Some db \<Rightarrow> PDict [(''audits'', PList (map audit_dict (list_all_feedback db)))])"

text \<open>\<open>round(x, d)\<close> of a float: the nearest multiple of \<open>10\<^sup>-\<^sup>d\<close>, ties to even, as a double.\<close>

definition py_round :: "nat \<Rightarrow> pyfloat \<Rightarrow> pyfloat" where
  "py_round d x = fl (of_int (round_even (x * 10 ^ d)) / 10 ^ d)"

definition get_overview :: "bootstrap \<Rightarrow> pyval" where
  "get_overview b =
     (let spend = (case bs_fuse b of None \<Rightarrow> 0 | Some f \<Rightarrow> cumulative_spend f);
          intercepts = (case bs_feedback_db b of None \<Rightarrow> 0 | Some db \<Rightarrow> count_by_decision db ''REJECTED'');
          successful_runs = (case bs_state_store b of None \<Rightarrow> 0 | Some st \<Rightarrow> count_by_state st ''COMPLETED'')
      in PDict [(''total_spend_usd'', PFloat (py_round 4 spend)), (''total_intercepts'', PInt intercepts),
                (''successful_workflows'', PInt successful_runs)])"

text \<open>The bounds of the query parameters; a request outside them is answered by an error.\<close>

definition api_list_runs :: "bootstrap \<Rightarrow> int \<Rightarrow> int \<Rightarrow> exn + pyval" where
  "api_list_runs b limit offset =
     (if limit < 1 \<or> 100 < limit \<or> offset < 0 then Inl (OtherException ''RequestValidationError'' [])
      else let runs = (case bs_state_store b of None \<Rightarrow> [] | Some st \<Rightarrow> list_runs st limit offset)
           in Inr (PDict [(''runs'', PList (map PDict runs)), (''limit'', PInt limit), (''offset'', PInt offset)]))"

subsection \<open>Rounding twice\<close>

text \<open>
  The page prints the four decimals the API rounded to: the double nearest to a multiple of
  \<open>10\<^sup>-\<^sup>4\<close> is printed as that multiple.
\<close>

lemma units_of_near: "0 \<le> a \<Longrightarrow> \<bar>a - of_int n / 10 ^ 4\<bar> \<le> 1 / 32768 \<Longrightarrow> \<lfloor>\<bar>a\<bar> * 10 ^ 4 + 1 / 2\<rfloor> = n"
  for a :: rat
  by (rule floor_unique) (auto simp: abs_if field_simps split: if_splits)

lemma fixed_units_round:
  assumes "0 \<le> x" and "x < 2 ^ 38"
  shows "fixed_units 4 (py_round 4 x) = nat (round_even (x * 10 ^ 4))"
proof -
  let ?n = "round_even (x * 10 ^ 4)" and ?q = "of_int (round_even (x * 10 ^ 4)) / 10 ^ 4 :: rat"
  have n0: "0 \<le> ?n" using assms(1) round_even_ge [of 0 "x * 10 ^ 4"] by simp
  show ?thesis
  proof (cases "?n = 0")
    case True
    then show ?thesis by (simp add: fixed_units_def py_round_def)
  next
    case False
    then have q0: "0 < ?q" using n0 by simp
    have "of_int ?n \<le> x * 10 ^ 4 + 1 / 2" using round_even_near [of "x * 10 ^ 4"] by linarith
    then have "?q < 549755813888" using assms(2) by simp
    then have q39: "?q < 2 powi 39" by simp
    have "(2::rat) powi (39 - 54) = 1 / 32768" by simp
    with fl_near [OF q0 q39] have near: "\<bar>fl ?q - ?q\<bar> \<le> 1 / 32768" by simp
    have "0 \<le> fl ?q" using q0 by (simp add: fl_nonneg)
    then have "\<lfloor>\<bar>fl ?q\<bar> * 10 ^ 4 + 1 / 2\<rfloor> = ?n" using near by (rule units_of_near)
    then show ?thesis by (simp only: fixed_units_def py_round_def)
  qed
qed

lemma py_round_nonneg: "0 \<le> x \<Longrightarrow> 0 \<le> py_round d x"
  using round_even_ge [of 0 "x * 10 ^ d"] by (simp add: py_round_def fl_nonneg)

lemma shown_amount:
  assumes "0 \<le> x" and "x < 2 ^ 38"
  shows "to_fixed 4 (py_round 4 x) =
    nat_digits (nat (round_even (x * 10 ^ 4)) div 10 ^ 4) @ ''.'' @ pad_digits 4 (nat (round_even (x * 10 ^ 4)) mod 10 ^ 4)"
  using py_round_nonneg [OF assms(1), of 4] by (simp add: to_fixed_def fixed_units_round [OF assms] Let_def)

subsection \<open>From the service to the screen\<close>

text \<open>
  C14. The overview shows the state of the service: the fuse's spend rounded to four decimals
  (half to even, digit for digit, although it is rounded twice, by the API in binary and by
  the page in decimal), the number of rejections in the feedback table and of completed runs.
\<close>

theorem overview_end_to_end:
  assumes "bs_fuse b = Some f" and "0 \<le> cumulative_spend f" and "cumulative_spend f < 2 ^ 38"
    and "bs_feedback_db b = Some db" and "length (fdb_rows db) \<le> 2 ^ 53"
    and "bs_state_store b = Some st" and "length st \<le> 2 ^ 53"
  shows "\<exists>v. Dashboard L (fst (Dashboard_effect (JsonBody (json_js (get_overview b))) Dashboard_init)) = Inr v \<and>
     (let n = nat (round_even (cumulative_spend f * 10 ^ 4)) in
      texts v = [JStr ''Dashboard Overview'', JStr ''Total Spend'', JStr ''$'',
                 JStr (nat_digits (n div 10 ^ 4) @ ''.'' @ pad_digits 4 (n mod 10 ^ 4)),
                 JStr ''Intercepts'', JNum (of_nat (length (filter (\<lambda>r. fb_decision r = ''REJECTED'') (fdb_rows db)))),
                 JStr ''Successful Runs'', JNum (of_nat (length (filter (\<lambda>r. row_state r = ''COMPLETED'') st))),
                 JStr ''System Status'', JStr ''Healthy''])"
proof -
  let ?m = "JObj [(''total_spend_usd'', JNum (py_round 4 (cumulative_spend f))),
    (''total_intercepts'', JNum (of_nat (length (filter (\<lambda>r. fb_decision r = ''REJECTED'') (fdb_rows db))))),
    (''successful_workflows'', JNum (of_nat (length (filter (\<lambda>r. row_state r = ''COMPLETED'') st))))]"
  have exact: "fl (of_nat (length (filter P xs))) = of_nat (length (filter P xs))" if "length xs \<le> 2 ^ 53"
    for P and xs :: "'x list"
    using fl_of_int [of "int (length (filter P xs))"] le_trans [OF length_filter_le that, of P]
    by (simp add: of_nat_le_iff [of _ "2 ^ 53", symmetric, where 'a = int] del: of_nat_le_iff)
  have "json_js (get_overview b) = ?m"
    using exact [OF assms(5)] exact [OF assms(7)]
    by (simp add: get_overview_def assms(1,4,6) count_by_decision_def count_by_state_def)
  then have st: "fst (Dashboard_effect (JsonBody (json_js (get_overview b))) Dashboard_init) = ?m"
    by (simp add: Dashboard_effect_def settle_def)
  have s: "Dashboard_spend ?m = Inr (JStr (to_fixed 4 (py_round 4 (cumulative_spend f))))"
    by (simp add: Dashboard_spend_def js_or_def)
  have c: "Dashboard_count ?m ''total_intercepts'' =
      Inr (JNum (of_nat (length (filter (\<lambda>r. fb_decision r = ''REJECTED'') (fdb_rows db)))))"
    "Dashboard_count ?m ''successful_workflows'' =
      Inr (JNum (of_nat (length (filter (\<lambda>r. row_state r = ''COMPLETED'') st))))"
    by (simp_all add: Dashboard_count_def js_or_def)
  show ?thesis unfolding st Let_def using Dashboard_eq [OF s c] shown_amount [OF assms(2,3)] by simp
qed

text \<open>A row of the audit page that shows a stored verdict, and one of the runs page that shows a run.\<close>

definition shows_verdict :: "ui_lib \<Rightarrow> feedback_record \<Rightarrow> nat \<Rightarrow> vnode \<Rightarrow> bool" where
  "shows_verdict L r i v \<longleftrightarrow>
     (let cells = root_children v in
      v = VKeyed (JNum (of_nat i)) (TableRow L [(''className'', JStr ''hover:bg-zinc-900 border-zinc-800'')] cells) \<and>
      length cells = 5 \<and> texts (cells ! 0) = [JStr (fb_trace_id r)] \<and>
      root_children (cells ! 1) = [Badge L [(''variant'', JStr ''outline''),
        (''className'', JStr (if fb_decision r = ''REJECTED''
           then ''border-rose-500 text-rose-500'' else ''border-emerald-500 text-emerald-500''))]
        [VVal (JStr (fb_decision r))]] \<and>
      texts (cells ! 2) = [JStr (fb_reviewer r)] \<and>
      texts (cells ! 3) = [JStr (case fb_reason r of Some (c # cs) \<Rightarrow> c # cs | _ \<Rightarrow> ''-'')] \<and>
      texts (cells ! 4) = [JStr (fb_timestamp r)])"

lemma audit_json: "\<exists>ps. json_js (audit_dict r) = JObj ps"
  by (simp add: audit_dict_def)

lemma audit_row_shows_verdict: "audit_row_shows L (json_js (audit_dict r)) i v \<Longrightarrow> shows_verdict L r i v"
  by (simp add: audit_row_shows_def shows_verdict_def audit_dict_def py_opt_str_def Let_def
        split: option.splits list.splits)

text \<open>
  C2. The audit page shows the feedback table: one row per verdict, the latest first, with the
  trace, the verdict (red for a rejection, green for an approval), the reviewer, the reason or
  a dash, and the time; the placeholder for an empty or missing table.
\<close>

theorem audits_end_to_end:
  "\<exists>v. Audits L (fst (Audits_effect (JsonBody (json_js (list_audits b))) Audits_init)) = Inr v \<and>
     (let rs = (case bs_feedback_db b of None \<Rightarrow> [] | Some db \<Rightarrow> list_all_feedback db) in
      if rs = [] then snd (page_table v) = [Audits_empty L]
      else length (snd (page_table v)) = length rs \<and>
        list_all2 (\<lambda>(r, i) w. shows_verdict L r i w) (zip rs [0..<length rs]) (snd (page_table v)))"
proof -
  let ?rs = "case bs_feedback_db b of None \<Rightarrow> [] | Some db \<Rightarrow> list_all_feedback db"
  let ?xs = "map (json_js \<circ> audit_dict) ?rs"
  have "json_js (list_audits b) = JObj [(''audits'', JArr ?xs)]"
    by (simp add: list_audits_def split: option.split)
  then have st: "fst (Audits_effect (JsonBody (json_js (list_audits b))) Audits_init) = JArr ?xs"
    by (simp only: Audits_effect_list)
  show ?thesis
  proof (cases "?rs = []")
    case True
    then show ?thesis unfolding st Let_def using Audits_no_records [of L] by simp
  next
    case False
    have obj: "\<forall>x\<in>set ?xs. \<exists>ps. x = JObj ps" "?xs \<noteq> []" using audit_json False by auto
    then obtain v where v: "Audits L (JArr ?xs) = Inr v" "length (snd (page_table v)) = length ?xs"
      "\<forall>i<length ?xs. audit_row_shows L (?xs ! i) i (snd (page_table v) ! i)"
      using Audits_objects by blast
    have "shows_verdict L (?rs ! i) i (snd (page_table v) ! i)" if "i < length ?rs" for i
      using v(3) that audit_row_shows_verdict by simp
    then show ?thesis unfolding st Let_def using v(1,2) False by (auto simp: list_all2_conv_all_nth)
  qed
qed



definition shows_run :: "ui_lib \<Rightarrow> sop_state_row \<Rightarrow> nat \<Rightarrow> vnode \<Rightarrow> bool" where
  "shows_run L r i v \<longleftrightarrow>
     (let cells = root_children v; finished = (row_state r = ''COMPLETED'') in
      v = VKeyed (JNum (of_nat i)) (TableRow L [(''className'', JStr ''hover:bg-zinc-900 border-zinc-800'')] cells) \<and>
      length cells = 4 \<and> texts (cells ! 0) = [JStr (row_run_id r)] \<and> texts (cells ! 1) = [JStr (row_sop_id r)] \<and>
      root_children (cells ! 2) = [Badge L
        [(''variant'', JStr (if finished then ''default'' else ''secondary'')),
         (''className'', JStr (if finished then ''bg-emerald-500/10 text-emerald-500'' else ''''))]
        [VVal (JStr (row_state r))]] \<and>
      texts (cells ! 3) = [JStr (row_updated_at r)])"

lemma run_row_shows_run: "run_row_shows L (json_js (PDict (row_dict r))) i v \<Longrightarrow> shows_run L r i v"
  by (simp add: run_row_shows_def shows_run_def row_dict_def Let_def)

text \<open>
  C13. The runs page shows the latest fifty runs of the state store, the last updated first: the
  run, its workflow, its state in a badge that is filled exactly for a completed run, and the
  time of its last change.
\<close>

theorem runs_end_to_end:
  assumes "api_list_runs b 50 0 = Inr resp"
  shows "\<exists>v. Workflows L (fst (Workflows_effect (JsonBody (json_js resp)) Workflows_init)) = Inr v \<and>
     (let rs = (case bs_state_store b of None \<Rightarrow> [] | Some st \<Rightarrow> take 50 (order_desc row_updated_at st)) in
      if rs = [] then snd (page_table v) = [Workflows_empty L]
      else list_all2 (\<lambda>(r, i) w. shows_run L r i w) (zip rs [0..<length rs]) (snd (page_table v)))"
proof -
  let ?rs = "case bs_state_store b of None \<Rightarrow> [] | Some st \<Rightarrow> take 50 (order_desc row_updated_at st)"
  let ?xs = "map (\<lambda>r. json_js (PDict (row_dict r))) ?rs"
  have resp: "json_js resp = JObj [(''runs'', JArr ?xs), (''limit'', JNum (fl 50)), (''offset'', JNum (fl 0))]"
    using assms by (auto simp: api_list_runs_def list_runs_def split: option.splits)
  have st: "fst (Workflows_effect (JsonBody (json_js resp)) Workflows_init) = JArr ?xs"
    unfolding resp by (rule Workflows_effect_list)
  show ?thesis
  proof (cases "?rs = []")
    case True
    then show ?thesis unfolding st Let_def using Workflows_no_records [of L] by simp
  next
    case False
    have obj: "\<forall>x\<in>set ?xs. \<exists>ps. x = JObj ps" "?xs \<noteq> []" using False by auto
    then obtain v where v: "Workflows L (JArr ?xs) = Inr v" "length (snd (page_table v)) = length ?xs"
      "\<forall>i<length ?xs. run_row_shows L (?xs ! i) i (snd (page_table v) ! i)"
      using Workflows_objects by blast
    have "shows_run L (?rs ! i) i (snd (page_table v) ! i)" if "i < length ?rs" for i
      using v(3) that run_row_shows_run by simp
    then show ?thesis unfolding st Let_def using v(1,2) False by (auto simp: list_all2_conv_all_nth)
  qed
qed

text \<open>A service with one rejection, one completed run and an eighth of a dollar spent.\<close>

definition demo_bootstrap :: bootstrap where
  "demo_bootstrap =
     \<lparr>bs_fuse = Some (new_BillingFuse default_billing_fuse_config False\<lparr>bf_spend_usd := 1 / 8\<rparr>),
      bs_feedback_db = Some (snd (insert_feedback new_FeedbackDB ''t1'' ''ou_1'' ''REJECTED'' None None None ''2026-01-01'')),
      bs_state_store = Some (upsert_row [] ''r1'' ''s1'' ''COMPLETED'' ''{}'' ''2026-01-01'')\<rparr>"

theorem overview_end_to_end_witness:
  "\<exists>v. Dashboard plain_ui_lib (fst (Dashboard_effect (JsonBody (json_js (get_overview demo_bootstrap))) Dashboard_init)) = Inr v \<and>
     texts v = [JStr ''Dashboard Overview'', JStr ''Total Spend'', JStr ''$'', JStr ''0.1250'', JStr ''Intercepts'', JNum 1,
                JStr ''Successful Runs'', JNum 1, JStr ''System Status'', JStr ''Healthy'']"
proof -
  let ?f = "new_BillingFuse default_billing_fuse_config False\<lparr>bf_spend_usd := 1 / 8\<rparr>"
  let ?db = "snd (insert_feedback new_FeedbackDB ''t1'' ''ou_1'' ''REJECTED'' None None None ''2026-01-01'')"
  let ?st = "upsert_row [] ''r1'' ''s1'' ''COMPLETED'' ''{}'' ''2026-01-01''"
  have b: "bs_fuse demo_bootstrap = Some ?f" "bs_feedback_db demo_bootstrap = Some ?db" "bs_state_store demo_bootstrap = Some ?st"
    by (simp_all add: demo_bootstrap_def)
  have sp: "cumulative_spend ?f = 1 / 8" by (simp add: cumulative_spend_def)
  have rows: "length (fdb_rows ?db) = 1" "length (filter (\<lambda>r. fb_decision r = ''REJECTED'') (fdb_rows ?db)) = 1"
    by (simp_all add: insert_feedback_def new_FeedbackDB_def get_by_trace_id_def)
  have runs: "length ?st = 1" "length (filter (\<lambda>r. row_state r = ''COMPLETED'') ?st) = 1"
    by (simp_all add: upsert_row_def)
  have n: "round_even (1 / 8 * 10 ^ 4) = 1250" using round_even_of_int [of 1250] by simp
  have "nat_digits (nat 1250 div 10 ^ 4) @ ''.'' @ pad_digits 4 (nat 1250 mod 10 ^ 4) = ''0.1250''" by code_simp
  then show ?thesis
    using overview_end_to_end [OF b(1) _ _ b(2) _ b(3), of plain_ui_lib] unfolding sp rows runs n Let_def by simp
qed

theorem runs_end_to_end_witness:
  "\<exists>resp v. api_list_runs demo_bootstrap 50 0 = Inr resp \<and>
     Workflows plain_ui_lib (fst (Workflows_effect (JsonBody (json_js resp)) Workflows_init)) = Inr v \<and>
     list_all2 (\<lambda>(r, i) w. shows_run plain_ui_lib r i w)
       [(\<lparr>row_run_id = ''r1'', row_sop_id = ''s1'', row_state = ''COMPLETED'', row_context_json = ''{}'',
          row_updated_at = ''2026-01-01''\<rparr>, 0)] (snd (page_table v))"
proof -
  obtain resp where r: "api_list_runs demo_bootstrap 50 0 = Inr resp" by (simp add: api_list_runs_def)
  have "bs_state_store demo_bootstrap =
      Some [\<lparr>row_run_id = ''r1'', row_sop_id = ''s1'', row_state = ''COMPLETED'', row_context_json = ''{}'',
             row_updated_at = ''2026-01-01''\<rparr>]"
    by (simp add: demo_bootstrap_def upsert_row_def)
  then have "(case bs_state_store demo_bootstrap of None \<Rightarrow> [] | Some st \<Rightarrow> take 50 (order_desc row_updated_at st)) =
      [\<lparr>row_run_id = ''r1'', row_sop_id = ''s1'', row_state = ''COMPLETED'', row_context_json = ''{}'',
        row_updated_at = ''2026-01-01''\<rparr>]"
    by (simp add: order_desc_def)
  with runs_end_to_end [OF r, of plain_ui_lib] r show ?thesis by (auto simp: Let_def)
qed

end
