(* ===== verification/Py_Format.thy ===== *)
theory Py_Format
  imports Py_Json
begin

text \<open>
  \<open>str.format_map\<close>, with which the workflow steps fill their message templates: \<open>{{\<close> and
  \<open>}}\<close> stand for braces, \<open>{name}\<close> for the text of a value of the dictionary. A field with an
  attribute, an index, a conversion or a format specification is formatted by a parameter,
  which gives its text and the number of bytes it takes after the opening brace.
\<close>

type_synonym py_dict = "(string \<times> pyval) list"
type_synonym field_formatter = "py_dict \<Rightarrow> string \<Rightarrow> exn + (string \<times> nat)"

definition value_error :: "string \<Rightarrow> exn" where
  "value_error m = OtherException ''ValueError'' m"

definition key_error :: "string \<Rightarrow> exn" where
  "key_error k = OtherException ''KeyError'' (repr_str k)"

definition is_name_char :: "char \<Rightarrow> bool" where
  "is_name_char c = (c \<notin> set ''{}[.:!'')"

definition format_name :: "py_dict \<Rightarrow> string \<Rightarrow> exn + string" where
  "format_name d name =
     (if name = [] \<or> list_all is_digit name then Inl (value_error ''Format string contains positional fields'')
      else (case map_of d name of None \<Rightarrow> Inl (key_error name) | Some v \<Rightarrow> Inr (py_str v)))"

function (sequential) format_map :: "field_formatter \<Rightarrow> py_dict \<Rightarrow> string \<Rightarrow> exn + string" where
  "format_map ff d [] = Inr []"
| "format_map ff d (c # cs) =
     (if c = CHR ''{'' then
        (if cs = [] then
           Inl (value_error (''Single '' @ [CHR 0x27] @ ''{'' @ [CHR 0x27] @ '' encountered in format string''))
         else if hd cs = CHR ''{'' then bindE (format_map ff d (tl cs)) (\<lambda>s. Inr (CHR ''{'' # s))
         else if dropWhile is_name_char cs = [] then
           Inl (value_error (''expected '' @ [CHR 0x27] @ ''}'' @ [CHR 0x27] @ '' before end of string''))
         else if hd (dropWhile is_name_char cs) = CHR ''}'' then
           bindE (format_name d (takeWhile is_name_char cs)) (\<lambda>t.
           bindE (format_map ff d (tl (dropWhile is_name_char cs))) (\<lambda>s. Inr (t @ s)))
         else bindE (ff d cs) (\<lambda>(t, n). bindE (format_map ff d (drop n cs)) (\<lambda>s. Inr (t @ s))))
      else if c = CHR ''}'' then
        (if cs \<noteq> [] \<and> hd cs = CHR ''}'' then bindE (format_map ff d (tl cs)) (\<lambda>s. Inr (CHR ''}'' # s))
         else Inl (value_error (''Single '' @ [CHR 0x27] @ ''}'' @ [CHR 0x27] @ '' encountered in format string'')))
      else bindE (format_map ff d cs) (\<lambda>s. Inr (c # s)))"
  by pat_completeness auto

termination
proof (relation "measure (\<lambda>(ff, d, s). length s)")
  fix cs :: string
  have "length (dropWhile is_name_char cs) \<le> length cs" by (rule length_dropWhile_le)
  then show "((ff, d, tl (dropWhile is_name_char cs)), (ff :: field_formatter), (d :: py_dict), c # cs)
      \<in> measure (\<lambda>(ff, d, s). length s)" for ff d c
    by simp
qed auto

declare format_map.simps(2) [simp del]

lemma format_map_char [simp]:
  "c \<noteq> CHR ''{'' \<Longrightarrow> c \<noteq> CHR ''}'' \<Longrightarrow> format_map ff d (c # cs) = bindE (format_map ff d cs) (\<lambda>s. Inr (c # s))"
  by (simp add: format_map.simps(2))

lemma format_map_plain_field:
  assumes "list_all is_name_char name" and "name \<noteq> []"
  shows "format_map ff d (CHR ''{'' # name @ CHR ''}'' # r) =
    bindE (format_name d name) (\<lambda>t. bindE (format_map ff d r) (\<lambda>s. Inr (t @ s)))"
proof -
  have b: "\<not> is_name_char (CHR ''}'')" "\<not> is_name_char (CHR ''{'')" by (simp_all add: is_name_char_def)
  have "takeWhile is_name_char (name @ CHR ''}'' # r) = name" "dropWhile is_name_char (name @ CHR ''}'' # r) = CHR ''}'' # r"
    using assms(1) b(1) by (simp_all add: list_all_iff takeWhile_append2 dropWhile_append2)
  moreover have "hd (name @ CHR ''}'' # r) \<noteq> CHR ''{''"
    using assms b(2) by (cases name) (auto simp: list_all_iff)
  ultimately show ?thesis by (simp add: format_map.simps(2))
qed

text \<open>Text without braces stands for itself, and doubling the braces escapes any text.\<close>

fun brace_escape :: "string \<Rightarrow> string" where
  "brace_escape [] = []"
| "brace_escape (c # cs) = (if c \<in> {CHR ''{'', CHR ''}''} then [c, c] else [c]) @ brace_escape cs"

lemma format_map_escape: "format_map ff d (brace_escape s) = Inr s"
  by (induction s) (auto simp: format_map.simps(2))

lemma format_map_literal: "set s \<inter> {CHR ''{'', CHR ''}''} = {} \<Longrightarrow> format_map ff d s = Inr s"
  by (induction s) auto

text \<open>A substituted value is not looked at again: its braces do not open fields.\<close>

lemma format_map_value:
  assumes "list_all is_name_char k" and "k \<noteq> []" and "\<not> list_all is_digit k"
    and "map_of d k = Some v" and "set r \<inter> {CHR ''{'', CHR ''}''} = {}"
  shows "format_map ff d (brace_escape pre @ CHR ''{'' # k @ CHR ''}'' # r) = Inr (pre @ py_str v @ r)"
proof (induction pre)
  case Nil
  show ?case
    using assms by (simp add: format_map_plain_field format_name_def format_map_literal)
qed (auto simp: format_map.simps(2))

end
