(* ===== verification/Sop_Schema.thy ===== *)
theory Sop_Schema
  imports Py_Format
begin

text \<open>
  The data of the workflow engine, \<^verbatim>\<open>src/agentos/workflow/sop_schema.py\<close>, and the workflow the
  repository ships, \<^verbatim>\<open>sop_examples/it-onboarding.sop.yaml\<close>. The fields are the models' fields
  with pydantic's types; the index of the current step is a natural number, since it starts
  at zero and only grows.
\<close>

datatype step_type = VALIDATE | HUMAN_APPROVAL | ACTION | NOTIFY

datatype action_type = GOVERNED_WRITE | NOTIFY_IM

fun step_type_value :: "step_type \<Rightarrow> string" where
  "step_type_value VALIDATE = ''validate''"
| "step_type_value HUMAN_APPROVAL = ''human_approval''"
| "step_type_value ACTION = ''action''"
| "step_type_value NOTIFY = ''notify''"

record sop_step =
  st_id :: string
  st_type :: step_type
  st_description :: string
  st_domain :: "string option"
  st_data_ref :: "string option"
  st_condition :: "string option"
  st_card_title :: "string option"
  st_card_message :: "string option"
  st_timeout_seconds :: int
  st_approver_id :: "string option"
  st_action_type :: "action_type option"
  st_notify_message :: "string option"
  st_extra :: py_dict

text \<open>A step with the defaults of the model.\<close>

definition new_SOPStep :: "string \<Rightarrow> step_type \<Rightarrow> sop_step" where
  "new_SOPStep i t =
     \<lparr>st_id = i, st_type = t, st_description = [], st_domain = None, st_data_ref = None, st_condition = None,
      st_card_title = None, st_card_message = None, st_timeout_seconds = 3600, st_approver_id = None,
      st_action_type = None, st_notify_message = None, st_extra = []\<rparr>"

record sop_definition =
  sd_sop_id :: string
  sd_name :: string
  sd_version :: string
  sd_description :: string
  sd_steps :: "sop_step list"
  sd_metadata :: py_dict

datatype sop_run_state = PENDING | RUNNING | SUSPENDED | APPROVED | REJECTED | COMPLETED | FAILED

fun state_value :: "sop_run_state \<Rightarrow> string" where
  "state_value PENDING = ''PENDING''"
| "state_value RUNNING = ''RUNNING''"
| "state_value SUSPENDED = ''SUSPENDED''"
| "state_value APPROVED = ''APPROVED''"
| "state_value REJECTED = ''REJECTED''"
| "state_value COMPLETED = ''COMPLETED''"
| "state_value FAILED = ''FAILED''"

record sop_run_context =
  rc_run_id :: string
  rc_sop_id :: string
  rc_state :: sop_run_state
  rc_current_step_index :: nat
  rc_data :: py_dict
  rc_suspended_step_id :: "string option"
  rc_approval_result :: "string option"
  rc_approval_reason :: "string option"
  rc_approver_id :: "string option"
  rc_errors :: "string list"
  rc_step_results :: "py_dict list"

lemma state_value_inject [simp]: "state_value a = state_value b \<longleftrightarrow> a = b"
  by (cases a; cases b) simp_all

subsection \<open>The shipped workflow\<close>

definition it_onboarding_steps :: "sop_step list" where
  "it_onboarding_steps =
    [(new_SOPStep ''validate_employee'' VALIDATE)
       \<lparr>st_description := (u8 [0xE6, 0xA0, 0xA1, 0xE9, 0xAA, 0x8C, 0xE6, 0x96, 0xB0, 0xE5, 0x91, 0x98, 0xE5, 0xB7, 0xA5, 0xE4, 0xBF, 0xA1, 0xE6, 0x81, 0xAF, 0xE6, 0x98, 0xAF, 0xE5, 0x90, 0xA6, 0xE7, 0xAC, 0xA6, 0xE5, 0x90, 0x88] @ '' SHACL '' @ u8 [0xE7, 0xBA, 0xA6, 0xE6, 0x9D, 0x9F]),
        st_domain := Some ''it-asset-mgmt'', st_data_ref := Some ''employee_ttl''\<rparr>,
     (new_SOPStep ''validate_asset'' VALIDATE)
       \<lparr>st_description := (u8 [0xE6, 0xA0, 0xA1, 0xE9, 0xAA, 0x8C, 0xE5, 0xBE, 0x85, 0xE5, 0x88, 0x86, 0xE9, 0x85, 0x8D, 0xE7, 0xA1, 0xAC, 0xE4, 0xBB, 0xB6, 0xE8, 0xB5, 0x84, 0xE4, 0xBA, 0xA7, 0xE6, 0x98, 0xAF, 0xE5, 0x90, 0xA6, 0xE7, 0xAC, 0xA6, 0xE5, 0x90, 0x88] @ '' SHACL '' @ u8 [0xE7, 0xBA, 0xA6, 0xE6, 0x9D, 0x9F]),
        st_domain := Some ''it-asset-mgmt'', st_data_ref := Some ''asset_ttl''\<rparr>,
     (new_SOPStep ''approve_sensitive_asset'' HUMAN_APPROVAL)
       \<lparr>st_description := (''HIGH/CRITICAL '' @ u8 [0xE6, 0x95, 0x8F, 0xE6, 0x84, 0x9F, 0xE8, 0xB5, 0x84, 0xE4, 0xBA, 0xA7, 0xE5, 0x88, 0x86, 0xE9, 0x85, 0x8D, 0xE9, 0x9C, 0x80, 0xE4, 0xB8, 0xBB, 0xE7, 0xAE, 0xA1, 0xE5, 0xAE, 0xA1, 0xE6, 0x89, 0xB9]),
        st_condition := Some (''sensitivity_level in ['' @ [CHR 0x27] @ ''HIGH'' @ [CHR 0x27] @ '', '' @ [CHR 0x27] @ ''CRITICAL'' @ [CHR 0x27] @ '']''),
        st_card_title := Some (u8 [0xF0, 0x9F, 0x94, 0x90] @ '' '' @ u8 [0xE6, 0x95, 0x8F, 0xE6, 0x84, 0x9F, 0xE8, 0xAE, 0xBE, 0xE5, 0xA4, 0x87, 0xE5, 0x88, 0x86, 0xE9, 0x85, 0x8D] @ '' '' @ u8 [0xE2, 0x80, 0x94] @ '' '' @ u8 [0xE9, 0x9C, 0x80, 0xE8, 0xA6, 0x81, 0xE6, 0x82, 0xA8, 0xE7, 0x9A, 0x84, 0xE5, 0xAE, 0xA1, 0xE6, 0x89, 0xB9]),
        st_card_message := Some (''**Agent OS** '' @ u8 [0xE5, 0x87, 0x86, 0xE5, 0xA4, 0x87, 0xE6, 0x89, 0xA7, 0xE8, 0xA1, 0x8C, 0xE4, 0xBB, 0xA5, 0xE4, 0xB8, 0x8B, 0xE6, 0x93, 0x8D, 0xE4, 0xBD, 0x9C, 0xEF, 0xBC, 0x8C, 0xE8, 0xAF, 0xB7, 0xE7, 0xA1, 0xAE, 0xE8, 0xAE, 0xA4, 0xEF, 0xBC, 0x9A] @ [CHR 0x0A] @ [CHR 0x0A] @ u8 [0xF0, 0x9F, 0x91, 0xA4] @ '' **'' @ u8 [0xE6, 0x96, 0xB0, 0xE5, 0x91, 0x98, 0xE5, 0xB7, 0xA5] @ ''**: {employee_name} ('' @ ''`'' @ ''{employee_id}'' @ ''`'' @ '')'' @ [CHR 0x0A] @ u8 [0xF0, 0x9F, 0x92, 0xBB] @ '' **'' @ u8 [0xE8, 0xAE, 0xBE, 0xE5, 0xA4, 0x87] @ ''**: {asset_model} ('' @ ''`'' @ ''{asset_id}'' @ ''`'' @ '')'' @ [CHR 0x0A] @ u8 [0xF0, 0x9F, 0x94, 0xB4] @ '' **'' @ u8 [0xE6, 0x95, 0x8F, 0xE6, 0x84, 0x9F, 0xE7, 0xAD, 0x89, 0xE7, 0xBA, 0xA7] @ ''**: '' @ ''`'' @ ''{sensitivity_level}'' @ ''`'' @ [CHR 0x0A] @ [CHR 0x0A] @ u8 [0xE8, 0xAF, 0xB7, 0xE4, 0xBB, 0x94, 0xE7, 0xBB, 0x86, 0xE6, 0xA0, 0xB8, 0xE5, 0xAF, 0xB9, 0xE5, 0x90, 0x8E, 0xE7, 0x82, 0xB9, 0xE5, 0x87, 0xBB, 0xE6, 0x89, 0xB9, 0xE5, 0x87, 0x86, 0xE6, 0x88, 0x96, 0xE9, 0xA9, 0xB3, 0xE5, 0x9B, 0x9E, 0xE3, 0x80, 0x82] @ [CHR 0x0A]),
        st_timeout_seconds := 3600, st_extra := [(''chat_id'', PStr [])]\<rparr>,
     (new_SOPStep ''execute_assignment'' ACTION)
       \<lparr>st_description := (u8 [0xE6, 0x89, 0xA7, 0xE8, 0xA1, 0x8C, 0xE5, 0x8F, 0x97, 0xE6, 0xB2, 0xBB, 0xE7, 0x90, 0x86, 0xE7, 0x9A, 0x84, 0xE8, 0xB5, 0x84, 0xE4, 0xBA, 0xA7, 0xE5, 0x88, 0x86, 0xE9, 0x85, 0x8D, 0xE5, 0x86, 0x99, 0xE5, 0x85, 0xA5, 0xEF, 0xBC, 0x88] @ ''Neo4j'' @ u8 [0xEF, 0xBC, 0x89]),
        st_action_type := Some GOVERNED_WRITE,
        st_domain := Some ''it-asset-mgmt'', st_data_ref := Some ''assignment_ttl''\<rparr>,
     (new_SOPStep ''notify_completion'' NOTIFY)
       \<lparr>st_description := (u8 [0xE9, 0x80, 0x9A, 0xE7, 0x9F, 0xA5, 0xE5, 0x91, 0x98, 0xE5, 0xB7, 0xA5, 0xE5, 0x92, 0x8C] @ '' IT '' @ u8 [0xE7, 0xAE, 0xA1, 0xE7, 0x90, 0x86, 0xE5, 0x91, 0x98, 0xE8, 0xAE, 0xBE, 0xE5, 0xA4, 0x87, 0xE5, 0xB7, 0xB2, 0xE5, 0xB0, 0xB1, 0xE7, 0xBB, 0xAA]),
        st_notify_message := Some (u8 [0xE2, 0x9C, 0x85] @ '' '' @ u8 [0xE6, 0x96, 0xB0, 0xE5, 0x91, 0x98, 0xE5, 0xB7, 0xA5] @ '' {employee_name} '' @ u8 [0xE7, 0x9A, 0x84, 0xE8, 0xAE, 0xBE, 0xE5, 0xA4, 0x87] @ '' {asset_model} '' @ u8 [0xE5, 0xB7, 0xB2, 0xE6, 0x88, 0x90, 0xE5, 0x8A, 0x9F, 0xE5, 0x88, 0x86, 0xE9, 0x85, 0x8D, 0xEF, 0xBC, 0x8C, 0xE5, 0x85, 0xA5, 0xE8, 0x81, 0x8C, 0xE6, 0xB5, 0x81, 0xE7, 0xA8, 0x8B, 0xE5, 0xAE, 0x8C, 0xE6, 0x88, 0x90, 0xEF, 0xBC, 0x81])\<rparr>]"

definition it_onboarding_sop :: sop_definition where
  "it_onboarding_sop =
     \<lparr>sd_sop_id = ''it-onboarding-v1'', sd_name = (u8 [0xE6, 0x96, 0xB0, 0xE5, 0x91, 0x98, 0xE5, 0xB7, 0xA5, 0xE5, 0x85, 0xA5, 0xE8, 0x81, 0x8C] @ '' IT '' @ u8 [0xE8, 0xAE, 0xBE, 0xE5, 0xA4, 0x87, 0xE5, 0x88, 0x86, 0xE9, 0x85, 0x8D]), sd_version = ''1.0'',
      sd_description = (u8 [0xE5, 0xBD, 0x93, 0xE6, 0x96, 0xB0, 0xE5, 0x91, 0x98, 0xE5, 0xB7, 0xA5, 0xE5, 0x85, 0xA5, 0xE8, 0x81, 0x8C, 0xE6, 0x97, 0xB6, 0xEF, 0xBC, 0x8C] @ ''Agent '' @ u8 [0xE8, 0x87, 0xAA, 0xE5, 0x8A, 0xA8, 0xE6, 0x89, 0xA7, 0xE8, 0xA1, 0x8C] @ '' IT '' @ u8 [0xE8, 0xB5, 0x84, 0xE4, 0xBA, 0xA7, 0xE5, 0x88, 0x86, 0xE9, 0x85, 0x8D, 0xEF, 0xBC, 0x9A] @ '' 1. '' @ u8 [0xE6, 0xA0, 0xA1, 0xE9, 0xAA, 0x8C, 0xE5, 0x91, 0x98, 0xE5, 0xB7, 0xA5, 0xE4, 0xBF, 0xA1, 0xE6, 0x81, 0xAF, 0xE6, 0x98, 0xAF, 0xE5, 0x90, 0xA6, 0xE7, 0xAC, 0xA6, 0xE5, 0x90, 0x88] @ '' SHACL '' @ u8 [0xE8, 0xA7, 0x84, 0xE8, 0x8C, 0x83, 0xEF, 0xBC, 0x9B] @ '' 2. '' @ u8 [0xE6, 0xA0, 0xA1, 0xE9, 0xAA, 0x8C, 0xE5, 0xBE, 0x85, 0xE5, 0x88, 0x86, 0xE9, 0x85, 0x8D, 0xE8, 0xB5, 0x84, 0xE4, 0xBA, 0xA7, 0xE6, 0x98, 0xAF, 0xE5, 0x90, 0xA6, 0xE7, 0xAC, 0xA6, 0xE5, 0x90, 0x88, 0xE8, 0xA7, 0x84, 0xE8, 0x8C, 0x83, 0xEF, 0xBC, 0x9B] @ '' 3. '' @ u8 [0xE8, 0x8B, 0xA5, 0xE8, 0xB5, 0x84, 0xE4, 0xBA, 0xA7, 0xE6, 0x95, 0x8F, 0xE6, 0x84, 0x9F, 0xE7, 0xAD, 0x89, 0xE7, 0xBA, 0xA7, 0xE4, 0xB8, 0xBA] @ '' HIGH '' @ u8 [0xE6, 0x88, 0x96] @ '' CRITICAL'' @ u8 [0xEF, 0xBC, 0x8C, 0xE8, 0xA7, 0xA6, 0xE5, 0x8F, 0x91, 0xE4, 0xBA, 0xBA, 0xE5, 0xB7, 0xA5, 0xE5, 0xAE, 0xA1, 0xE6, 0x89, 0xB9, 0xEF, 0xBC, 0x9B] @ '' 4. '' @ u8 [0xE6, 0x89, 0xB9, 0xE5, 0x87, 0x86, 0xE5, 0x90, 0x8E, 0xE6, 0x89, 0xA7, 0xE8, 0xA1, 0x8C, 0xE8, 0xB5, 0x84, 0xE4, 0xBA, 0xA7, 0xE5, 0x88, 0x86, 0xE9, 0x85, 0x8D, 0xE5, 0x86, 0x99, 0xE5, 0x85, 0xA5, 0xEF, 0xBC, 0x8C, 0xE5, 0xB9, 0xB6, 0xE5, 0x8F, 0x91, 0xE9, 0x80, 0x81, 0xE5, 0x85, 0xA5, 0xE8, 0x81, 0x8C, 0xE9, 0x80, 0x9A, 0xE7, 0x9F, 0xA5, 0xE3, 0x80, 0x82] @ [CHR 0x0A]),
      sd_steps = it_onboarding_steps,
      sd_metadata = [(''domain'', PStr ''it-asset-mgmt''), (''owner'', PStr (''IT'' @ u8 [0xE9, 0x83, 0xA8, 0xE9, 0x97, 0xA8])), (''sla_minutes'', PInt 30)]\<rparr>"

end
