(* ===== verification/Sop_Engine.thy ===== *)
theory Sop_Engine
  imports Sop_Schema Write_Gate Database
begin

text \<open>
  The workflow engine, \<^verbatim>\<open>src/agentos/workflow/sop_engine.py\<close>, with the part of
  \<^verbatim>\<open>database/state_store.py\<close> that stores its contexts. The engine works on the run's context
  (returned updated, also when an exception leaves a method, since the code mutates the object)
  and on a world: the write gate with its database, the two tables, and what was sent out.
  Each of the gate, the tables and the card sender may be absent, as in the constructor.

  Parameters: the environment of the gate; \<open>simpleeval\<close>; the text of template fields beyond
  plain names; the card sender; pydantic's \<open>model_dump_json\<close> and \<open>model_validate_json\<close>; what the
  RDF parser makes of data that is no text; and the clocks, one set per step of the workflow.
  Console output is left out, except the notifications.
\<close>

record sop_card =
  card_chat_id :: pyval
  card_title :: string
  card_message :: string
  card_run_id :: string
  card_payload :: pyval

record ('db, 'tx) sop_env =
  se_gate_env :: "('db, 'tx) gate_env"
  se_parse_value :: "pyval \<Rightarrow> exn + graph"
  se_eval :: "py_dict \<Rightarrow> string \<Rightarrow> exn + pyval"
  se_format :: field_formatter
  se_sender :: "(sop_card \<Rightarrow> exn + unit) option"
  se_default_chat_id :: string
  se_dump :: "sop_run_context \<Rightarrow> string"
  se_load :: "string \<Rightarrow> sop_run_context option"
  se_clock :: "nat \<Rightarrow> gate_clock"
  se_stamp :: "nat \<Rightarrow> string"

record 'db sop_world =
  sw_gate :: "'db gate_world option"
  sw_feedback :: "feedback_db option"
  sw_store :: "state_store option"
  sw_cards :: "sop_card list"
  sw_notices :: "string list"

definition sop_error :: "string \<Rightarrow> exn" where
  "sop_error m = OtherException ''SOPExecutionError'' m"

fun is_SOPExecutionError :: "exn \<Rightarrow> bool" where
  "is_SOPExecutionError (OtherException c m) = (c = ''SOPExecutionError'')"
| "is_SOPExecutionError _ = False"

subsection \<open>The state store\<close>

definition save_state :: "('db, 'tx) sop_env \<Rightarrow> string \<Rightarrow> sop_run_context \<Rightarrow> 'db sop_world \<Rightarrow> 'db sop_world" where
  "save_state env now ctx w =
     (case sw_store w of
        None \<Rightarrow> w
      | Some st \<Rightarrow> w\<lparr>sw_store := Some (upsert_row st (rc_run_id ctx) (rc_sop_id ctx) (state_value (rc_state ctx))
                                        (se_dump env ctx) now)\<rparr>)"

definition load_state :: "('db, 'tx) sop_env \<Rightarrow> state_store \<Rightarrow> string \<Rightarrow> sop_run_context option" where
  "load_state env st run_id =
     (case find_row st run_id of None \<Rightarrow> None | Some row \<Rightarrow> se_load env (row_context_json row))"

definition load_run :: "('db, 'tx) sop_env \<Rightarrow> 'db sop_world \<Rightarrow> string \<Rightarrow> exn + sop_run_context option" where
  "load_run env w run_id =
     (case sw_store w of
        None \<Rightarrow> Inl (sop_error (u8 [0xE6, 0x9C, 0xAA, 0xE9, 0x85, 0x8D, 0xE7, 0xBD, 0xAE] @ '' state_store'' @ u8 [0xEF, 0xBC, 0x8C, 0xE6, 0x97, 0xA0, 0xE6, 0xB3, 0x95, 0xE5, 0x8A, 0xA0, 0xE8, 0xBD, 0xBD, 0xE7, 0x8A, 0xB6, 0xE6, 0x80, 0x81, 0xE3, 0x80, 0x82]))
      | Some st \<Rightarrow> Inr (load_state env st run_id))"

text \<open>\<open>run_id or str(uuid.uuid4())\<close>: the fresh identifier is an argument.\<close>

definition create_run ::
  "('db, 'tx) sop_env \<Rightarrow> 'db sop_world \<Rightarrow> sop_definition \<Rightarrow> py_dict \<Rightarrow> string option \<Rightarrow> string \<Rightarrow> string \<Rightarrow>
     sop_run_context \<times> 'db sop_world" where
  "create_run env w sop data run_id fresh now =
     (let ctx = \<lparr>rc_run_id = (case run_id of Some (c # cs) \<Rightarrow> c # cs | _ \<Rightarrow> fresh),
                 rc_sop_id = sd_sop_id sop, rc_state = PENDING, rc_current_step_index = 0, rc_data = data,
                 rc_suspended_step_id = None, rc_approval_result = None, rc_approval_reason = None,
                 rc_approver_id = None, rc_errors = [], rc_step_results = []\<rparr>
      in (ctx, save_state env now ctx w))"

subsection \<open>The gate, called with a value of the context\<close>

text \<open>
  \<open>verify_shacl_compliance(domain, data)\<close>. Data that is no text fails in the parser, or else
  when its digest is taken.
\<close>

definition gate_verify ::
  "('db, 'tx) sop_env \<Rightarrow> 'db gate_world \<Rightarrow> string \<Rightarrow> pyval \<Rightarrow> pyfloat \<Rightarrow>
     (exn + shacl_report \<times> string option) \<times> 'db gate_world" where
  "gate_verify env gw domain_name v now =
     (case v of
        PStr data \<Rightarrow>
          (case verify_shacl_compliance (se_gate_env env) (gw_gate gw) domain_name data ''turtle'' now of
             (r, g, spans) \<Rightarrow> (r, gw\<lparr>gw_gate := g, gw_spans := gw_spans gw @ spans\<rparr>))
      | _ \<Rightarrow>
          (case get_validator (se_gate_env env) (gw_gate gw) domain_name of
             (Inl e, g) \<Rightarrow> (Inl e, gw\<lparr>gw_gate := g\<rparr>)
           | (Inr validator, g) \<Rightarrow>
               (case se_parse_value env v of
                  Inl exc \<Rightarrow> (Inl (rdf_failure exc ''turtle''), gw\<lparr>gw_gate := g\<rparr>)
                | Inr data_graph \<Rightarrow>
                    (case validate (ge_engine (se_gate_env env)) validator data_graph of
                       (r, spans) \<Rightarrow>
                         ((case r of
                             Inl e \<Rightarrow> Inl e
                           | Inr report \<Rightarrow> if is_valid report then Inl (no_attribute v ''encode'') else Inr (report, None)),
                          gw\<lparr>gw_gate := g, gw_spans := gw_spans gw @ spans\<rparr>)))))"

text \<open>
  \<open>execute_governed_write(domain, data, validation_nonce=nonce)\<close>. A nonce that is no text
  fails at once, data that is no text when its digest is compared, both as a \<open>WriteGateError\<close>.
\<close>

definition gate_write ::
  "('db, 'tx) sop_env \<Rightarrow> 'db gate_world \<Rightarrow> string \<Rightarrow> pyval \<Rightarrow> pyval \<Rightarrow> gate_clock \<Rightarrow>
     (exn + py_dict) \<times> 'db gate_world" where
  "gate_write env gw domain_name v nonce clk =
     (case (nonce, v) of
        (PStr n, PStr data) \<Rightarrow> execute_governed_write (se_gate_env env) gw domain_name data n ''turtle'' clk
      | _ \<Rightarrow>
          (case check_quota gw domain_name (gc_quota clk) of
             (Inl e, gw1) \<Rightarrow> (Inl e, gw1)
           | (Inr _, gw1) \<Rightarrow>
               (case nonce of
                  PStr n \<Rightarrow>
                    (case verify_nonce (se_gate_env env) (gw_gate gw1) domain_name [] n (gc_ttl clk) (gc_cleanup clk) of
                       (r, g) \<Rightarrow>
                         (Inl (case r of
                                 Inl e \<Rightarrow> if e = nonce_mismatch then nonce_failure (no_attribute v ''encode'') else e
                               | Inr _ \<Rightarrow> nonce_failure (no_attribute v ''encode'')),
                          gw1\<lparr>gw_gate := g\<rparr>))
                | _ \<Rightarrow> (Inl (nonce_failure (no_attribute nonce ''split'')), gw1))))"

subsection \<open>The steps\<close>

type_synonym 'db step_outcome = "(exn + py_dict) \<times> sop_run_context \<times> 'db sop_world"

definition opt_text :: "string option \<Rightarrow> string" where
  "opt_text s = (case s of None \<Rightarrow> [] | Some t \<Rightarrow> t)"

definition text_or :: "string option \<Rightarrow> string \<Rightarrow> string" where
  "text_or s t = (case s of Some (c # cs) \<Rightarrow> c # cs | _ \<Rightarrow> t)"

definition nonce_key :: "string \<Rightarrow> string" where
  "nonce_key data_key = ''_nonce_'' @ data_key"

definition result_message :: "py_dict \<Rightarrow> string" where
  "result_message v = py_str (py_get v ''resultMessage'' (PStr []))"

definition step_validate ::
  "('db, 'tx) sop_env \<Rightarrow> nat \<Rightarrow> sop_step \<Rightarrow> sop_run_context \<Rightarrow> 'db sop_world \<Rightarrow> 'db step_outcome" where
  "step_validate env idx step ctx w =
     (case (sw_gate w, st_domain step) of
        (Some gw, Some domain) \<Rightarrow>
          (let data_key = opt_text (st_data_ref step);
               ttl_data = py_get (rc_data ctx) data_key (PStr [])
           in if \<not> py_truth ttl_data
              then (Inl (sop_error ((u8 [0xE6, 0xAD, 0xA5, 0xE9, 0xAA, 0xA4] @ '' '') @ st_id step @ ('' '' @ u8 [0xE9, 0x9C, 0x80, 0xE8, 0xA6, 0x81] @ '' data['' @ [CHR 0x27]) @ data_key @ ([CHR 0x27] @ '']'' @ u8 [0xEF, 0xBC, 0x8C, 0xE4, 0xBD, 0x86, 0xE4, 0xB8, 0x8A, 0xE4, 0xB8, 0x8B, 0xE6, 0x96, 0x87, 0xE4, 0xB8, 0xAD, 0xE4, 0xB8, 0x8D, 0xE5, 0xAD, 0x98, 0xE5, 0x9C, 0xA8]))), ctx, w)
              else (case gate_verify env gw domain ttl_data (gc_revalidate (se_clock env idx)) of
                  (Inl e, gw1) \<Rightarrow> (Inl e, ctx, w\<lparr>sw_gate := Some gw1\<rparr>)
                | (Inr (report, nonce), gw1) \<Rightarrow>
                    if \<not> is_valid report
                    then (Inl (sop_error ((''SHACL '' @ u8 [0xE6, 0xA0, 0xA1, 0xE9, 0xAA, 0x8C, 0xE5, 0xA4, 0xB1, 0xE8, 0xB4, 0xA5] @ '' (step='') @ st_id step @ '', domain='' @ domain @ ''): '' @
                            py_join ''; '' (map result_message (rep_results report)))), ctx, w\<lparr>sw_gate := Some gw1\<rparr>)
                    else (Inr [(''valid'', PBool True), (''domain'', PStr domain), (''data_ref'', PStr data_key)],
                          ctx\<lparr>rc_data := AList.update (nonce_key data_key) (py_opt_str nonce) (rc_data ctx)\<rparr>,
                          w\<lparr>sw_gate := Some gw1\<rparr>)))
      | _ \<Rightarrow> (Inr [(''skipped'', PBool True), (''reason'', PStr ''write_gate or domain not configured'')], ctx, w))"

definition text_block :: "string \<Rightarrow> string \<Rightarrow> pyval" where
  "text_block tag content = PDict [(''tag'', PStr tag), (''content'', PStr content)]"

definition card_button :: "string \<Rightarrow> string \<Rightarrow> string \<Rightarrow> string \<Rightarrow> string \<Rightarrow> pyval" where
  "card_button label kind action run_id step_id = PDict
     [(''tag'', PStr ''button''), (''text'', text_block ''plain_text'' label), (''type'', PStr kind),
      (''value'', PDict [(''action'', PStr action), (''run_id'', PStr run_id), (''step_id'', PStr step_id)])]"

definition build_approval_card :: "string \<Rightarrow> string \<Rightarrow> string \<Rightarrow> string \<Rightarrow> pyval" where
  "build_approval_card title message run_id step_id = PDict
     [(''config'', PDict [(''wide_screen_mode'', PBool True)]),
      (''header'', PDict [(''title'', text_block ''plain_text'' title), (''template'', PStr ''orange'')]),
      (''elements'', PList
        [PDict [(''tag'', PStr ''div''), (''text'', text_block ''lark_md'' message)],
         PDict [(''tag'', PStr ''hr'')],
         PDict [(''tag'', PStr ''div''),
                (''text'', text_block ''lark_md'' ((''**Run ID**: '' @ ''`'') @ run_id @ (''`'' @ [CHR 0x0A] @ ''**Step**: '' @ ''`'') @ step_id @ ''`''))],
         PDict [(''tag'', PStr ''action''),
                (''actions'', PList
                  [card_button (u8 [0xE2, 0x9C, 0x85] @ '' '' @ u8 [0xE6, 0x89, 0xB9, 0xE5, 0x87, 0x86]) ''primary'' ''APPROVED'' run_id step_id,
                   card_button (u8 [0xE2, 0x9D, 0x8C] @ '' '' @ u8 [0xE9, 0xA9, 0xB3, 0xE5, 0x9B, 0x9E]) ''danger'' ''REJECTED'' run_id step_id])],
         PDict [(''tag'', PStr ''note''),
                (''elements'', PList
                  [text_block ''plain_text'' (u8 [0xE2, 0x9A, 0xA0, 0xEF, 0xB8, 0x8F] @ '' '' @ u8 [0xE6, 0xAD, 0xA4, 0xE5, 0x8D, 0xA1, 0xE7, 0x89, 0x87, 0xE7, 0x94, 0xB1] @ '' Agent OS '' @ u8 [0xE8, 0x87, 0xAA, 0xE5, 0x8A, 0xA8, 0xE7, 0x94, 0x9F, 0xE6, 0x88, 0x90, 0xEF, 0xBC, 0x8C, 0xE8, 0xAF, 0xB7, 0xE4, 0xBB, 0x94, 0xE7, 0xBB, 0x86, 0xE6, 0xA0, 0xB8, 0xE5, 0xAF, 0xB9, 0xE5, 0x90, 0x8E, 0xE5, 0x86, 0x8D, 0xE5, 0x81, 0x9A, 0xE5, 0x86, 0xB3, 0xE5, 0xAE, 0x9A, 0xE3, 0x80, 0x82])])]])]"

text \<open>The condition of an approval step; a condition that fails to evaluate triggers.\<close>

definition should_trigger :: "('db, 'tx) sop_env \<Rightarrow> sop_step \<Rightarrow> sop_run_context \<Rightarrow> bool" where
  "should_trigger env step ctx =
     (case st_condition step of
        Some (c # cs) \<Rightarrow> (case se_eval env (rc_data ctx) (c # cs) of Inl _ \<Rightarrow> True | Inr v \<Rightarrow> py_truth v)
      | _ \<Rightarrow> True)"

definition step_human_approval ::
  "('db, 'tx) sop_env \<Rightarrow> sop_step \<Rightarrow> sop_run_context \<Rightarrow> 'db sop_world \<Rightarrow> 'db step_outcome" where
  "step_human_approval env step ctx w =
     (if \<not> should_trigger env step ctx
      then (Inr [(''auto_approved'', PBool True), (''condition'', py_opt_str (st_condition step))], ctx, w)
      else case format_map (se_format env) (rc_data ctx) (text_or (st_card_message step) (u8 [0xE8, 0xAF, 0xB7, 0xE5, 0xAE, 0xA1, 0xE6, 0x89, 0xB9, 0xE6, 0xAD, 0xA4, 0xE6, 0x93, 0x8D, 0xE4, 0xBD, 0x9C])) of
        Inl e \<Rightarrow> (Inl e, ctx, w)
      | Inr card_msg \<Rightarrow>
          (let title = text_or (st_card_title step) (u8 [0xF0, 0x9F, 0xA4, 0x96] @ '' Agent OS '' @ u8 [0xE2, 0x80, 0x94] @ '' '' @ u8 [0xE9, 0x9C, 0x80, 0xE8, 0xA6, 0x81, 0xE6, 0x82, 0xA8, 0xE7, 0x9A, 0x84, 0xE5, 0xAE, 0xA1, 0xE6, 0x89, 0xB9]);
               payload = build_approval_card title card_msg (rc_run_id ctx) (st_id step);
               ctx1 = ctx\<lparr>rc_data := AList.update ''_pending_card'' payload (rc_data ctx)\<rparr>;
               chat = py_get (st_extra step) ''chat_id'' PNone;
               card = \<lparr>card_chat_id = (if py_truth chat then chat else PStr (se_default_chat_id env)),
                       card_title = title, card_message = card_msg, card_run_id = rc_run_id ctx, card_payload = payload\<rparr>
           in case (case se_sender env of None \<Rightarrow> (Inr (), w) | Some send \<Rightarrow> (send card, w\<lparr>sw_cards := sw_cards w @ [card]\<rparr>)) of
                (Inl e, w1) \<Rightarrow> (Inl e, ctx1, w1)
              | (Inr _, w1) \<Rightarrow>
                  (Inr [(''suspended'', PBool True), (''step_id'', PStr (st_id step)), (''run_id'', PStr (rc_run_id ctx)),
                        (''card_title'', PStr title)],
                   ctx1\<lparr>rc_state := SUSPENDED, rc_suspended_step_id := Some (st_id step)\<rparr>, w1)))"

definition action_governed_write ::
  "('db, 'tx) sop_env \<Rightarrow> nat \<Rightarrow> sop_step \<Rightarrow> sop_run_context \<Rightarrow> 'db sop_world \<Rightarrow> 'db step_outcome" where
  "action_governed_write env idx step ctx w =
     (case sw_gate w of
        None \<Rightarrow> (Inr [(''simulated'', PBool True)], ctx, w)
      | Some gw \<Rightarrow>
          (let data_key = opt_text (st_data_ref step);
               ttl_data = py_get (rc_data ctx) data_key (PStr []);
               nonce = py_get (rc_data ctx) (nonce_key data_key) (PStr [])
           in if \<not> py_truth ttl_data \<or> \<not> py_truth nonce
              then (Inl (sop_error ((''governed_write '' @ u8 [0xE6, 0xAD, 0xA5, 0xE9, 0xAA, 0xA4] @ '' '') @ st_id step @ ('' '' @ u8 [0xE7, 0xBC, 0xBA, 0xE5, 0xB0, 0x91, 0xE6, 0x95, 0xB0, 0xE6, 0x8D, 0xAE, 0xE6, 0x88, 0x96] @ '' nonce (data_key='' @ [CHR 0x27]) @ data_key @ ([CHR 0x27] @ '')''))), ctx, w)
              else (case gate_write env gw (opt_text (st_domain step)) ttl_data nonce (se_clock env idx) of
                  (Inl exc, gw1) \<Rightarrow>
                    (Inl (sop_error ((''governed_write '' @ u8 [0xE6, 0xAD, 0xA5, 0xE9, 0xAA, 0xA4] @ '' '') @ st_id step @ ('' '' @ u8 [0xE6, 0x89, 0xA7, 0xE8, 0xA1, 0x8C, 0xE5, 0xA4, 0xB1, 0xE8, 0xB4, 0xA5] @ '': '') @ exn_str exc)), ctx,
                     w\<lparr>sw_gate := Some gw1\<rparr>)
                | (Inr result, gw1) \<Rightarrow>
                    (Inr [(''written'', PBool True), (''result'', PStr (py_str (PDict result)))], ctx,
                     w\<lparr>sw_gate := Some gw1\<rparr>))))"

definition step_action ::
  "('db, 'tx) sop_env \<Rightarrow> nat \<Rightarrow> sop_step \<Rightarrow> sop_run_context \<Rightarrow> 'db sop_world \<Rightarrow> 'db step_outcome" where
  "step_action env idx step ctx w =
     (if st_action_type step = Some GOVERNED_WRITE then action_governed_write env idx step ctx w
      else (Inr [(''skipped'', PBool True)], ctx, w))"

definition step_notify ::
  "('db, 'tx) sop_env \<Rightarrow> sop_step \<Rightarrow> sop_run_context \<Rightarrow> 'db sop_world \<Rightarrow> 'db step_outcome" where
  "step_notify env step ctx w =
     (case format_map (se_format env) (rc_data ctx) (text_or (st_notify_message step) (st_description step)) of
        Inl e \<Rightarrow> (Inl e, ctx, w)
      | Inr msg \<Rightarrow> (Inr [(''notified'', PBool True), (''message'', PStr msg)], ctx, w\<lparr>sw_notices := sw_notices w @ [msg]\<rparr>))"

definition execute_step ::
  "('db, 'tx) sop_env \<Rightarrow> nat \<Rightarrow> sop_step \<Rightarrow> sop_run_context \<Rightarrow> 'db sop_world \<Rightarrow> 'db step_outcome" where
  "execute_step env idx step ctx w =
     (case st_type step of
        VALIDATE \<Rightarrow> step_validate env idx step ctx w
      | HUMAN_APPROVAL \<Rightarrow> step_human_approval env step ctx w
      | ACTION \<Rightarrow> step_action env idx step ctx w
      | NOTIFY \<Rightarrow> step_notify env step ctx w)"

subsection \<open>Running and resuming\<close>

definition step_record :: "sop_step \<Rightarrow> py_dict \<Rightarrow> py_dict" where
  "step_record step result =
     [(''step_id'', PStr (st_id step)), (''type'', PStr (step_type_value (st_type step))), (''status'', PStr ''ok''),
      (''result'', PDict result)]"

text \<open>The loop of \<open>run\<close> from step \<open>idx\<close> on, with the steps that are left.\<close>

fun run_steps ::
  "('db, 'tx) sop_env \<Rightarrow> nat \<Rightarrow> sop_step list \<Rightarrow> sop_run_context \<Rightarrow> 'db sop_world \<Rightarrow>
     (exn + unit) \<times> sop_run_context \<times> 'db sop_world" where
  "run_steps env idx [] ctx w =
     (let ctx1 = ctx\<lparr>rc_state := COMPLETED\<rparr> in (Inr (), ctx1, save_state env (se_stamp env idx) ctx1 w))"
| "run_steps env idx (step # steps) ctx w =
     (case execute_step env idx step (ctx\<lparr>rc_current_step_index := idx\<rparr>) w of
        (Inl e, ctx1, w1) \<Rightarrow>
          if is_SOPExecutionError e
          then (let ctx2 = ctx1\<lparr>rc_errors := rc_errors ctx1 @ [exn_str e], rc_state := FAILED\<rparr>
                in (Inr (), ctx2, save_state env (se_stamp env idx) ctx2 w1))
          else (Inl e, ctx1, w1)
      | (Inr result, ctx1, w1) \<Rightarrow>
          (let ctx2 = ctx1\<lparr>rc_step_results := rc_step_results ctx1 @ [step_record step result]\<rparr>;
               w2 = save_state env (se_stamp env idx) ctx2 w1
           in if rc_state ctx2 = SUSPENDED then (Inr (), ctx2, w2)
              else run_steps env (Suc idx) steps ctx2 w2))"

definition sop_run ::
  "('db, 'tx) sop_env \<Rightarrow> sop_definition \<Rightarrow> sop_run_context \<Rightarrow> 'db sop_world \<Rightarrow>
     (exn + unit) \<times> sop_run_context \<times> 'db sop_world" where
  "sop_run env sop ctx w =
     run_steps env (rc_current_step_index ctx) (drop (rc_current_step_index ctx) (sd_steps sop))
       (ctx\<lparr>rc_state := RUNNING\<rparr>) w"

definition original_output :: "sop_run_context \<Rightarrow> string" where
  "original_output ctx =
     (case rc_step_results ctx of
        [] \<Rightarrow> []
      | r # rs \<Rightarrow> json_dumps False '', '' '': '' (py_get (last (r # rs)) ''result'' (PDict [])))"

definition sop_resume ::
  "('db, 'tx) sop_env \<Rightarrow> sop_definition \<Rightarrow> sop_run_context \<Rightarrow> 'db sop_world \<Rightarrow> string \<Rightarrow> string option \<Rightarrow> string \<Rightarrow>
     string \<Rightarrow> (exn + unit) \<times> sop_run_context \<times> 'db sop_world" where
  "sop_resume env sop ctx w decision reason approver_id now =
     (if rc_state ctx \<noteq> SUSPENDED
      then (Inl (sop_error ((''resume() '' @ u8 [0xE5, 0x8F, 0xAA, 0xE8, 0x83, 0xBD, 0xE5, 0x9C, 0xA8] @ '' SUSPENDED '' @ u8 [0xE7, 0x8A, 0xB6, 0xE6, 0x80, 0x81, 0xE4, 0xB8, 0x8B, 0xE8, 0xB0, 0x83, 0xE7, 0x94, 0xA8, 0xEF, 0xBC, 0x8C, 0xE5, 0xBD, 0x93, 0xE5, 0x89, 0x8D, 0xE7, 0x8A, 0xB6, 0xE6, 0x80, 0x81] @ '': SOPRunState.'') @ state_value (rc_state ctx))), ctx, w)
      else let ctx1 = ctx\<lparr>rc_approval_result := Some decision, rc_approval_reason := reason,
                          rc_approver_id := Some approver_id\<rparr>
           in case (case sw_feedback w of
                      None \<Rightarrow> (Inr 0, w)
                    | Some db \<Rightarrow>
                        (case insert_feedback db (rc_run_id ctx) approver_id decision reason
                                (Some (original_output ctx1)) None now of
                           (r, db1) \<Rightarrow> (r, w\<lparr>sw_feedback := Some db1\<rparr>))) of
                (Inl e, w1) \<Rightarrow> (Inl e, ctx1, w1)
              | (Inr _, w1) \<Rightarrow>
                  if decision = ''REJECTED''
                  then (let ctx2 = ctx1\<lparr>rc_state := REJECTED\<rparr>
                        in (Inr (), ctx2, save_state env (se_stamp env (rc_current_step_index ctx)) ctx2 w1))
                  else sop_run env sop (ctx1\<lparr>rc_state := APPROVED, rc_current_step_index := rc_current_step_index ctx + 1\<rparr>) w1)"

end
