(* ===== verification/Sop_Correct.thy ===== *)
theory Sop_Correct
  imports Sop_Engine
begin

text \<open>
  What the workflow engine guarantees: the states a run ends in, the barrier an approval step
  is, what is persisted, that a run moves the write gate only by the gate's own steps, and
  where a workflow cannot go on.
\<close>

subsection \<open>Frames of the steps\<close>

named_theorems step_defs \<open>the step handlers\<close>

declare step_validate_def [step_defs] step_human_approval_def [step_defs] step_action_def [step_defs]
  action_governed_write_def [step_defs] step_notify_def [step_defs]

lemma save_state_frame [simp]:
  "sw_gate (save_state env now ctx w) = sw_gate w" "sw_feedback (save_state env now ctx w) = sw_feedback w"
  "sw_cards (save_state env now ctx w) = sw_cards w" "sw_notices (save_state env now ctx w) = sw_notices w"
  by (simp_all add: save_state_def split: option.split)

lemma step_validate_frame:
  "step_validate env idx step ctx w = (r, ctx', w') \<Longrightarrow>
   rc_state ctx' = rc_state ctx \<and> rc_current_step_index ctx' = rc_current_step_index ctx \<and>
   rc_run_id ctx' = rc_run_id ctx \<and> rc_sop_id ctx' = rc_sop_id ctx \<and> rc_errors ctx' = rc_errors ctx \<and>
   rc_step_results ctx' = rc_step_results ctx \<and> sw_feedback w' = sw_feedback w \<and> sw_store w' = sw_store w"
  by (auto simp: step_validate_def Let_def split: option.splits if_splits prod.splits sum.splits)

lemma action_governed_write_frame:
  "action_governed_write env idx step ctx w = (r, ctx', w') \<Longrightarrow>
   ctx' = ctx \<and> sw_feedback w' = sw_feedback w \<and> sw_store w' = sw_store w"
  by (auto simp: action_governed_write_def Let_def split: option.splits if_splits prod.splits sum.splits)

lemma step_notify_frame:
  "step_notify env step ctx w = (r, ctx', w') \<Longrightarrow>
   ctx' = ctx \<and> sw_gate w' = sw_gate w \<and> sw_feedback w' = sw_feedback w \<and> sw_store w' = sw_store w"
  by (auto simp: step_notify_def split: sum.splits)

lemma step_human_approval_frame:
  "step_human_approval env step ctx w = (r, ctx', w') \<Longrightarrow>
   (if is_ok r \<and> should_trigger env step ctx
    then rc_state ctx' = SUSPENDED \<and> rc_suspended_step_id ctx' = Some (st_id step)
    else rc_state ctx' = rc_state ctx) \<and>
   rc_current_step_index ctx' = rc_current_step_index ctx \<and>
   rc_run_id ctx' = rc_run_id ctx \<and> rc_sop_id ctx' = rc_sop_id ctx \<and> rc_errors ctx' = rc_errors ctx \<and>
   rc_step_results ctx' = rc_step_results ctx \<and>
   sw_gate w' = sw_gate w \<and> sw_feedback w' = sw_feedback w \<and> sw_store w' = sw_store w"
  by (auto simp: step_human_approval_def Let_def split: if_splits sum.splits option.splits prod.splits)

text \<open>A step suspends exactly when it is an approval that triggers and raises nothing.\<close>

definition suspends :: "('db, 'tx) sop_env \<Rightarrow> sop_step \<Rightarrow> sop_run_context \<Rightarrow> exn + py_dict \<Rightarrow> bool" where
  "suspends env step ctx r \<longleftrightarrow> st_type step = HUMAN_APPROVAL \<and> should_trigger env step ctx \<and> is_ok r"

lemma execute_step_frame:
  assumes "execute_step env idx step ctx w = (r, ctx', w')"
  shows "rc_current_step_index ctx' = rc_current_step_index ctx \<and>
   rc_run_id ctx' = rc_run_id ctx \<and> rc_sop_id ctx' = rc_sop_id ctx \<and> rc_errors ctx' = rc_errors ctx \<and>
   rc_step_results ctx' = rc_step_results ctx \<and> sw_feedback w' = sw_feedback w \<and> sw_store w' = sw_store w \<and>
   (if suspends env step ctx r then rc_state ctx' = SUSPENDED \<and> rc_suspended_step_id ctx' = Some (st_id step)
    else rc_state ctx' = rc_state ctx)"
proof (cases "st_type step")
  case VALIDATE
  then show ?thesis using assms by (auto simp: execute_step_def suspends_def dest: step_validate_frame)
next
  case HUMAN_APPROVAL
  then have "step_human_approval env step ctx w = (r, ctx', w')" using assms by (simp add: execute_step_def)
  from step_human_approval_frame [OF this] show ?thesis
    by (auto simp: suspends_def HUMAN_APPROVAL split: if_splits)
next
  case ACTION
  then show ?thesis using assms
    by (auto simp: execute_step_def suspends_def step_action_def dest: action_governed_write_frame split: if_splits)
next
  case NOTIFY
  then show ?thesis using assms by (auto simp: execute_step_def suspends_def dest: step_notify_frame)
qed

text \<open>The four ways a step of the loop goes, for a context that is running.\<close>

lemma run_steps_cases [consumes 2, case_names failed raised suspended continued]:
  assumes "run_steps env idx (step # steps) ctx w = (r, ctx', w')" and "rc_state ctx = RUNNING"
  obtains (failed) e ctx1 w1 where "execute_step env idx step (ctx\<lparr>rc_current_step_index := idx\<rparr>) w = (Inl e, ctx1, w1)"
      "is_SOPExecutionError e" "r = Inr ()"
      "ctx' = ctx1\<lparr>rc_errors := rc_errors ctx1 @ [exn_str e], rc_state := FAILED\<rparr>"
      "w' = save_state env (se_stamp env idx) ctx' w1"
  | (raised) e ctx1 w1 where "execute_step env idx step (ctx\<lparr>rc_current_step_index := idx\<rparr>) w = (Inl e, ctx1, w1)"
      "\<not> is_SOPExecutionError e" "r = Inl e" "ctx' = ctx1" "w' = w1" "rc_state ctx1 = RUNNING"
  | (suspended) result ctx1 w1 where
      "execute_step env idx step (ctx\<lparr>rc_current_step_index := idx\<rparr>) w = (Inr result, ctx1, w1)"
      "suspends env step (ctx\<lparr>rc_current_step_index := idx\<rparr>) (Inr result)" "r = Inr ()"
      "ctx' = ctx1\<lparr>rc_step_results := rc_step_results ctx1 @ [step_record step result]\<rparr>"
      "w' = save_state env (se_stamp env idx) ctx' w1" "rc_state ctx1 = SUSPENDED"
      "rc_suspended_step_id ctx1 = Some (st_id step)"
  | (continued) result ctx1 w1 ctx2 where
      "execute_step env idx step (ctx\<lparr>rc_current_step_index := idx\<rparr>) w = (Inr result, ctx1, w1)"
      "ctx2 = ctx1\<lparr>rc_step_results := rc_step_results ctx1 @ [step_record step result]\<rparr>" "rc_state ctx2 = RUNNING"
      "\<not> suspends env step (ctx\<lparr>rc_current_step_index := idx\<rparr>) (Inr result)"
      "run_steps env (Suc idx) steps ctx2 (save_state env (se_stamp env idx) ctx2 w1) = (r, ctx', w')"
proof -
  let ?ctx = "ctx\<lparr>rc_current_step_index := idx\<rparr>"
  obtain r1 ctx1 w1 where x: "execute_step env idx step ?ctx w = (r1, ctx1, w1)" by (metis prod.exhaust)
  note f = execute_step_frame [OF x]
  show ?thesis
  proof (cases r1)
    case (Inl e)
    have run: "rc_state ctx1 = RUNNING" using f assms(2) Inl by (simp add: suspends_def)
    show ?thesis
    proof (cases "is_SOPExecutionError e")
      case True
      then show ?thesis using assms(1) x Inl by (intro failed [of e ctx1 w1]) (auto simp: Let_def)
    next
      case False
      then show ?thesis using assms(1) x Inl run by (intro raised [of e ctx1 w1]) auto
    qed
  next
    case (Inr result)
    show ?thesis
    proof (cases "suspends env step ?ctx r1")
      case True
      then show ?thesis using assms(1) x Inr f by (intro suspended [of result ctx1 w1]) (auto simp: Let_def)
    next
      case False
      then show ?thesis using assms x Inr f
        by (intro continued [of result ctx1 w1 "ctx1\<lparr>rc_step_results := rc_step_results ctx1 @ [step_record step result]\<rparr>"])
           (auto simp: Let_def)
    qed
  qed
qed

subsection \<open>How a run ends\<close>

lemma run_steps_end:
  "run_steps env idx steps ctx w = (r, ctx', w') \<Longrightarrow> rc_state ctx = RUNNING \<Longrightarrow>
   rc_run_id ctx' = rc_run_id ctx \<and> sw_feedback w' = sw_feedback w \<and>
   (case r of Inl e \<Rightarrow> rc_state ctx' = RUNNING \<and> \<not> is_SOPExecutionError e
    | Inr _ \<Rightarrow> rc_state ctx' \<in> {SUSPENDED, COMPLETED, FAILED})"
proof (induction steps arbitrary: idx ctx w)
  case Nil
  then show ?case by (auto simp: Let_def)
next
  case (Cons step steps)
  from Cons.prems show ?case
  proof (cases rule: run_steps_cases)
    case (continued result ctx1 w1 ctx2)
    then show ?thesis using Cons.IH [OF continued(5,3)] execute_step_frame [OF continued(1)] by simp
  qed (auto dest: execute_step_frame)
qed

text \<open>
  C16. A run that returns leaves its context suspended, completed or failed, and never pending,
  running or approved; one that raises leaves it running, and what it raises is not a
  \<open>SOPExecutionError\<close>, since those become the state \<open>FAILED\<close>.
\<close>

theorem run_end_states:
  assumes "sop_run env sop ctx w = (r, ctx', w')"
  shows "rc_run_id ctx' = rc_run_id ctx \<and> sw_feedback w' = sw_feedback w \<and>
    (case r of Inl e \<Rightarrow> rc_state ctx' = RUNNING \<and> \<not> is_SOPExecutionError e
     | Inr _ \<Rightarrow> rc_state ctx' \<in> {SUSPENDED, COMPLETED, FAILED})"
  using run_steps_end [OF assms [unfolded sop_run_def]] by simp

subsection \<open>What a completed and a suspended run have done\<close>

lemma run_steps_progress:
  "run_steps env idx steps ctx w = (r, ctx', w') \<Longrightarrow> rc_state ctx = RUNNING \<Longrightarrow>
   (rc_state ctx' = COMPLETED \<longrightarrow>
      (\<exists>rs. length rs = length steps \<and> rc_step_results ctx' = rc_step_results ctx @ map2 step_record steps rs)) \<and>
   (rc_state ctx' = SUSPENDED \<longrightarrow>
      (\<exists>i<length steps. rc_current_step_index ctx' = idx + i \<and> st_type (steps ! i) = HUMAN_APPROVAL \<and>
         rc_suspended_step_id ctx' = Some (st_id (steps ! i)) \<and>
         (\<exists>rs. length rs = Suc i \<and>
            rc_step_results ctx' = rc_step_results ctx @ map2 step_record (take (Suc i) steps) rs)))"
proof (induction steps arbitrary: idx ctx w)
  case Nil
  then show ?case by (auto simp: Let_def)
next
  case (Cons step steps)
  from Cons.prems show ?case
  proof (cases rule: run_steps_cases)
    case (suspended result ctx1 w1)
    have "rc_step_results ctx' = rc_step_results ctx @ map2 step_record (take (Suc 0) (step # steps)) [result]"
      "rc_current_step_index ctx' = idx + 0"
      using execute_step_frame [OF suspended(1)] suspended(4) by simp_all
    moreover have "st_type step = HUMAN_APPROVAL" using suspended(2) by (simp add: suspends_def)
    ultimately show ?thesis using suspended(4,6,7)
      by (intro conjI impI exI [of _ "0 :: nat"]) (simp_all, intro exI [of _ "[result]"], simp)
  next
    case (continued result ctx1 w1 ctx2)
    note IH = Cons.IH [OF continued(5,3)]
    have res: "rc_step_results ctx2 = rc_step_results ctx @ [step_record step result]"
      using execute_step_frame [OF continued(1)] continued(2) by simp
    show ?thesis
    proof (intro conjI impI)
      assume "rc_state ctx' = COMPLETED"
      then obtain rs where "length rs = length steps" "rc_step_results ctx' = rc_step_results ctx2 @ map2 step_record steps rs"
        using IH by blast
      then show "\<exists>rs. length rs = length (step # steps) \<and>
          rc_step_results ctx' = rc_step_results ctx @ map2 step_record (step # steps) rs"
        by (intro exI [of _ "result # rs"]) (simp add: res)
    next
      assume "rc_state ctx' = SUSPENDED"
      then obtain i rs where i: "i < length steps" "rc_current_step_index ctx' = Suc idx + i"
        "st_type (steps ! i) = HUMAN_APPROVAL" "rc_suspended_step_id ctx' = Some (st_id (steps ! i))"
        and rs: "length rs = Suc i" "rc_step_results ctx' = rc_step_results ctx2 @ map2 step_record (take (Suc i) steps) rs"
        using IH by blast
      then show "\<exists>i<length (step # steps). rc_current_step_index ctx' = idx + i \<and>
          st_type ((step # steps) ! i) = HUMAN_APPROVAL \<and>
          rc_suspended_step_id ctx' = Some (st_id ((step # steps) ! i)) \<and>
          (\<exists>rs. length rs = Suc i \<and>
            rc_step_results ctx' = rc_step_results ctx @ map2 step_record (take (Suc i) (step # steps)) rs)"
        by (intro exI [of _ "Suc i"]) (simp add: res, intro exI [of _ "result # rs"], simp)
    qed
  qed (auto dest: execute_step_frame)
qed

text \<open>
  C15. A run that completes has executed every step from the current one on, once, in order, and
  has logged an \<open>ok\<close> entry for each; one that suspends has done so up to an approval step, which
  is the current step and the one it waits for.
\<close>

theorem run_executes_in_order:
  assumes "sop_run env sop ctx w = (Inr (), ctx', w')" and "rc_current_step_index ctx \<le> length (sd_steps sop)"
  shows "(rc_state ctx' = COMPLETED \<longrightarrow>
      (\<exists>rs. rc_step_results ctx' = rc_step_results ctx @ map2 step_record (drop (rc_current_step_index ctx) (sd_steps sop)) rs \<and>
         length rs = length (sd_steps sop) - rc_current_step_index ctx)) \<and>
    (rc_state ctx' = SUSPENDED \<longrightarrow>
      (let k = rc_current_step_index ctx' in
       rc_current_step_index ctx \<le> k \<and> k < length (sd_steps sop) \<and> st_type (sd_steps sop ! k) = HUMAN_APPROVAL \<and>
       rc_suspended_step_id ctx' = Some (st_id (sd_steps sop ! k)) \<and>
       length (rc_step_results ctx') = length (rc_step_results ctx) + (k + 1 - rc_current_step_index ctx)))"
proof -
  let ?i = "rc_current_step_index ctx"
  note p = run_steps_progress [OF assms(1) [unfolded sop_run_def]]
  have nth: "drop ?i (sd_steps sop) ! j = sd_steps sop ! (?i + j)" for j using assms(2) by simp
  show ?thesis
  proof (intro conjI impI)
    assume "rc_state ctx' = COMPLETED"
    then show "\<exists>rs. rc_step_results ctx' = rc_step_results ctx @ map2 step_record (drop ?i (sd_steps sop)) rs \<and>
         length rs = length (sd_steps sop) - ?i"
      using p by auto
  next
    assume "rc_state ctx' = SUSPENDED"
    then obtain j rs where j: "j < length (drop ?i (sd_steps sop))" "rc_current_step_index ctx' = ?i + j"
      "st_type (drop ?i (sd_steps sop) ! j) = HUMAN_APPROVAL"
      "rc_suspended_step_id ctx' = Some (st_id (drop ?i (sd_steps sop) ! j))"
      and rs: "length rs = Suc j" "rc_step_results ctx' = rc_step_results ctx @ map2 step_record (take (Suc j) (drop ?i (sd_steps sop))) rs"
      using p by auto
    have "length (rc_step_results ctx') = length (rc_step_results ctx) + (j + 1)" using rs j(1) by simp
    then show "let k = rc_current_step_index ctx' in
       ?i \<le> k \<and> k < length (sd_steps sop) \<and> st_type (sd_steps sop ! k) = HUMAN_APPROVAL \<and>
       rc_suspended_step_id ctx' = Some (st_id (sd_steps sop ! k)) \<and>
       length (rc_step_results ctx') = length (rc_step_results ctx) + (k + 1 - ?i)"
      using j unfolding nth by (simp add: Let_def)
  qed
qed

subsection \<open>Nothing behind an approval\<close>

lemma run_steps_barrier:
  assumes "st_type ap = HUMAN_APPROVAL" and "\<And>c. should_trigger env ap c"
  shows "rc_state ctx = RUNNING \<Longrightarrow>
    run_steps env idx (pre @ ap # post) ctx w = run_steps env idx (pre @ ap # post') ctx w"
proof (induction pre arbitrary: idx ctx w)
  case Nil
  obtain r ctx' w' where x: "execute_step env idx ap (ctx\<lparr>rc_current_step_index := idx\<rparr>) w = (r, ctx', w')"
    by (metis prod.exhaust)
  have "rc_state ctx' = SUSPENDED" if "r = Inr v" for v
    using execute_step_frame [OF x] that assms by (simp add: suspends_def)
  then show ?case using x by (cases r) (auto simp: Let_def)
next
  case (Cons s pre)
  obtain r ctx' w' where x: "execute_step env idx s (ctx\<lparr>rc_current_step_index := idx\<rparr>) w = (r, ctx', w')"
    by (metis prod.exhaust)
  show ?case
  proof (cases r)
    case (Inl e)
    then show ?thesis using x by simp
  next
    case (Inr v)
    have "rc_state ctx' = SUSPENDED \<or> rc_state ctx' = RUNNING"
      using execute_step_frame [OF x] Cons.prems by (auto split: if_splits)
    then show ?thesis using x Inr Cons.IH by (auto simp: Let_def)
  qed
qed

text \<open>
  C6. An approval is a barrier: as long as it has not been given, a run that has to pass a step
  of human approval behaves the same whatever the steps behind it are. None of them has run,
  been validated or written anything.
\<close>

theorem approval_is_a_barrier:
  assumes "sd_steps sop = pre @ ap # post" and "st_type ap = HUMAN_APPROVAL" and "\<forall>c. should_trigger env ap c"
    and "rc_current_step_index ctx \<le> length pre"
  shows "sop_run env sop ctx w = sop_run env (sop\<lparr>sd_steps := pre @ ap # post'\<rparr>) ctx w"
  using run_steps_barrier [of ap env "ctx\<lparr>rc_state := RUNNING\<rparr>" "rc_current_step_index ctx"
      "drop (rc_current_step_index ctx) pre" post w post'] assms
  by (simp add: sop_run_def)

subsection \<open>Persistence\<close>

text \<open>A store that holds the context of a run, and the rows of the other runs.\<close>

definition stored :: "('db, 'tx) sop_env \<Rightarrow> 'db sop_world \<Rightarrow> sop_run_context \<Rightarrow> bool" where
  "stored env w ctx \<longleftrightarrow> (case sw_store w of None \<Rightarrow> True | Some st \<Rightarrow>
     (case find_row st (rc_run_id ctx) of None \<Rightarrow> False
      | Some row \<Rightarrow> row_state row = state_value (rc_state ctx) \<and> row_context_json row = se_dump env ctx))"

definition same_rows :: "'db sop_world \<Rightarrow> 'db sop_world \<Rightarrow> string \<Rightarrow> bool" where
  "same_rows w w' run_id \<longleftrightarrow> (case (sw_store w, sw_store w') of
     (Some st, Some st') \<Rightarrow> (\<forall>k. k \<noteq> run_id \<longrightarrow> find_row st' k = find_row st k)
   | (None, None) \<Rightarrow> True | _ \<Rightarrow> False)"

lemma same_rows_refl [simp]: "same_rows w w k"
  by (simp add: same_rows_def split: option.split)

lemma same_rows_trans: "same_rows w w1 k \<Longrightarrow> same_rows w1 w2 k \<Longrightarrow> same_rows w w2 k"
  by (auto simp: same_rows_def split: option.splits)

lemma same_rows_store: "sw_store w' = sw_store w \<Longrightarrow> same_rows w w' k"
  by (simp add: same_rows_def split: option.split)

lemma save_state_stored [simp]: "stored env (save_state env now ctx w) ctx"
  by (simp add: stored_def save_state_def find_row_upsert split: option.split)

lemma save_state_rows: "rc_run_id ctx = k \<Longrightarrow> same_rows w (save_state env now ctx w) k"
  by (simp add: same_rows_def save_state_def find_row_upsert split: option.split)

lemma run_steps_stored:
  "run_steps env idx steps ctx w = (r, ctx', w') \<Longrightarrow> rc_state ctx = RUNNING \<Longrightarrow>
   (is_ok r \<longrightarrow> stored env w' ctx') \<and> same_rows w w' (rc_run_id ctx)"
proof (induction steps arbitrary: idx ctx w)
  case Nil
  then show ?case by (auto simp: Let_def intro!: save_state_rows)
next
  case (Cons step steps)
  from Cons.prems show ?case
  proof (cases rule: run_steps_cases)
    case (failed e ctx1 w1)
    then show ?thesis using execute_step_frame [OF failed(1)]
      by (auto intro: same_rows_trans [OF same_rows_store save_state_rows])
  next
    case (raised e ctx1 w1)
    then show ?thesis using execute_step_frame [OF raised(1)] by (auto intro: same_rows_store)
  next
    case (suspended result ctx1 w1)
    then show ?thesis using execute_step_frame [OF suspended(1)]
      by (auto intro: same_rows_trans [OF same_rows_store save_state_rows])
  next
    case (continued result ctx1 w1 ctx2)
    have id: "rc_run_id ctx2 = rc_run_id ctx" using execute_step_frame [OF continued(1)] continued(2) by simp
    have "same_rows w (save_state env (se_stamp env idx) ctx2 w1) (rc_run_id ctx)"
      using execute_step_frame [OF continued(1)] id by (auto intro: same_rows_trans [OF same_rows_store save_state_rows])
    then show ?thesis using Cons.IH [OF continued(5,3)] id by (auto intro: same_rows_trans)
  qed
qed

text \<open>
  What a run returns is what the store holds: after a run that returns, loading it by its
  identifier gives exactly the returned context (for a serialisation that reads back what it
  writes), its state column is the context's state, and the rows of all other runs are as
  before.
\<close>

theorem run_is_persisted:
  assumes "sop_run env sop ctx w = (Inr (), ctx', w')" and "sw_store w = Some st"
    and "se_load env (se_dump env ctx') = Some ctx'"
  shows "load_run env w' (rc_run_id ctx) = Inr (Some ctx') \<and>
    (\<exists>st' row. sw_store w' = Some st' \<and> find_row st' (rc_run_id ctx) = Some row \<and>
       row_state row = state_value (rc_state ctx') \<and> (\<forall>k. k \<noteq> rc_run_id ctx \<longrightarrow> find_row st' k = find_row st k))"
proof -
  have id: "rc_run_id ctx' = rc_run_id ctx"
    using run_steps_end [OF assms(1) [unfolded sop_run_def]] by simp
  have s: "stored env w' ctx'" "same_rows w w' (rc_run_id ctx)"
    using run_steps_stored [OF assms(1) [unfolded sop_run_def]] by simp_all
  then obtain st' where st': "sw_store w' = Some st'" "\<forall>k. k \<noteq> rc_run_id ctx \<longrightarrow> find_row st' k = find_row st k"
    using assms(2) by (auto simp: same_rows_def split: option.splits)
  with s(1) show ?thesis
    using id assms(3) by (auto simp: stored_def load_run_def load_state_def split: option.splits)
qed

end
