(* ===== verification/Sop_Verdict.thy ===== *)
theory Sop_Verdict
  imports Sop_Correct
begin

text \<open>
  Resuming a suspended workflow: who may, what a verdict leaves, and that a run has one verdict.
\<close>

subsection \<open>Verdicts\<close>

text \<open>
  Only a suspended run can be resumed: in every other state \<open>resume\<close> raises a
  \<open>SOPExecutionError\<close> and changes neither the context nor anything else.
\<close>

theorem resume_guard:
  assumes "rc_state ctx \<noteq> SUSPENDED"
  shows "\<exists>m. sop_resume env sop ctx w decision reason who now = (Inl (sop_error m), ctx, w)"
  unfolding sop_resume_def if_P [OF assms] by blast

lemma sop_run_feedback: "sop_run env sop ctx w = (r, ctx', w') \<Longrightarrow> sw_feedback w' = sw_feedback w"
  using run_steps_end [of env "rc_current_step_index ctx" _ "ctx\<lparr>rc_state := RUNNING\<rparr>" w r ctx' w'] by (simp add: sop_run_def)

text \<open>What the feedback table says of a run after its verdict.\<close>

definition verdict_recorded :: "'db sop_world \<Rightarrow> string \<Rightarrow> string \<Rightarrow> string option \<Rightarrow> string \<Rightarrow> bool" where
  "verdict_recorded w run_id decision reason who \<longleftrightarrow> (case sw_feedback w of None \<Rightarrow> True | Some db \<Rightarrow>
     (case get_by_trace_id db run_id of None \<Rightarrow> False
      | Some r \<Rightarrow> fb_decision r = decision \<and> fb_reason r = reason \<and> fb_reviewer r = who))"

lemma insert_feedback_get:
  assumes "insert_feedback db t who d reason out ts now = (Inr i, db')"
  shows "\<exists>r. get_by_trace_id db' t = Some r \<and> fb_decision r = d \<and> fb_reason r = reason \<and> fb_reviewer r = who"
  using assms
  by (cases rule: insert_feedback_cases [of d db t who reason out ts now])
     (auto simp: get_by_trace_id_append [where m = "fdb_seq db"] get_by_trace_id_rows)

lemma resume_cases:
  assumes "sop_resume env sop ctx w decision reason who now = (Inr (), ctx', w')"
  obtains w1 where "rc_state ctx = SUSPENDED" "sw_gate w1 = sw_gate w" "sw_store w1 = sw_store w"
    "sw_cards w1 = sw_cards w" "sw_notices w1 = sw_notices w"
    "verdict_recorded w1 (rc_run_id ctx) decision reason who" "(sw_feedback w1 = None) = (sw_feedback w = None)"
    "let ctx1 = ctx\<lparr>rc_approval_result := Some decision, rc_approval_reason := reason, rc_approver_id := Some who\<rparr> in
     if decision = ''REJECTED''
     then ctx' = ctx1\<lparr>rc_state := REJECTED\<rparr> \<and> w' = save_state env (se_stamp env (rc_current_step_index ctx)) ctx' w1
     else sop_run env sop (ctx1\<lparr>rc_state := APPROVED, rc_current_step_index := rc_current_step_index ctx + 1\<rparr>) w1 =
       (Inr (), ctx', w')"
proof -
  have s: "rc_state ctx = SUSPENDED" using assms by (auto simp: sop_resume_def split: if_splits)
  let ?out = "Some (original_output (ctx\<lparr>rc_approval_result := Some decision, rc_approval_reason := reason, rc_approver_id := Some who\<rparr>))"
  show ?thesis
  proof (cases "sw_feedback w")
    case None
    then show ?thesis using assms s that [of w]
      by (auto simp: sop_resume_def verdict_recorded_def Let_def split: if_splits)
  next
    case (Some db)
    obtain r db1 where i: "insert_feedback db (rc_run_id ctx) who decision reason ?out None now = (r, db1)" by force
    then obtain n where n: "r = Inr n" using assms s Some
      by (cases r) (auto simp: sop_resume_def Let_def split: if_splits prod.splits)
    have "verdict_recorded (w\<lparr>sw_feedback := Some db1\<rparr>) (rc_run_id ctx) decision reason who"
      using insert_feedback_get [OF i [unfolded n]] by (auto simp: verdict_recorded_def)
    then show ?thesis using assms s Some i n that [of "w\<lparr>sw_feedback := Some db1\<rparr>"]
      by (auto simp: sop_resume_def Let_def split: if_splits)
  qed
qed

lemma verdict_recorded_save [simp]: "verdict_recorded (save_state env n c w) k d r p = verdict_recorded w k d r p"
  by (simp add: verdict_recorded_def)

text \<open>
  C7. A rejection ends the run and does nothing else: no further step runs, the gate and its
  database are untouched, nothing is sent; the verdict is in the feedback table with its reason
  and reviewer, the store holds the rejected context, and the run can never be resumed again.
\<close>

theorem rejection_is_terminal:
  assumes "sop_resume env sop ctx w ''REJECTED'' reason who now = (Inr (), ctx', w')"
  shows "rc_state ctx = SUSPENDED \<and> rc_state ctx' = REJECTED \<and> rc_data ctx' = rc_data ctx \<and>
    rc_step_results ctx' = rc_step_results ctx \<and>
    sw_gate w' = sw_gate w \<and> sw_cards w' = sw_cards w \<and> sw_notices w' = sw_notices w \<and>
    verdict_recorded w' (rc_run_id ctx) ''REJECTED'' reason who \<and> stored env w' ctx' \<and>
    fst (sop_resume env sop ctx' w2 decision2 reason2 who2 now2) \<noteq> Inr ()"
proof -
  have "fst (sop_resume env sop ctx' w2 decision2 reason2 who2 now2) \<noteq> Inr ()" if "rc_state ctx' = REJECTED"
    using that by (simp add: sop_resume_def)
  then show ?thesis
    by (cases rule: resume_cases [OF assms]) (auto simp: Let_def)
qed

text \<open>
  C8. One verdict per run: once a verdict of a run has been recorded, every later attempt to
  resume that run raises and changes nothing in the world, whatever verdicts of other runs have
  come in between. So an approval cannot be played twice; and a workflow that asks for approval a
  second time can never go on.
\<close>

theorem one_verdict_per_run:
  assumes "sop_resume env sop ctx w decision reason who now = (Inr (), ctx1, w1)" and "sw_feedback w1 = Some db"
    and "sw_feedback w2 = Some (fold (\<lambda>(k, a) s. snd (insert_row s k a)) rows db)" and "rc_run_id ctx2 = rc_run_id ctx"
  shows "\<exists>e ctx2'. sop_resume env2 sop2 ctx2 w2 decision2 reason2 who2 now2 = (Inl e, ctx2', w2)"
proof -
  let ?db2 = "fold (\<lambda>(k, a) s. snd (insert_row s k a)) rows db"
  have "verdict_recorded w1 (rc_run_id ctx) decision reason who"
  proof (cases rule: resume_cases [OF assms(1)])
    case (1 w0)
    have "sw_feedback w1 = sw_feedback w0"
      using 1(8) by (cases "decision = ''REJECTED''") (auto simp: Let_def dest: sop_run_feedback)
    then show ?thesis using 1(6) by (simp add: verdict_recorded_def)
  qed
  then obtain r where "get_by_trace_id db (rc_run_id ctx) = Some r"
    using assms(2) by (auto simp: verdict_recorded_def split: option.splits)
  moreover have "fold (\<lambda>(k, a) s. snd (insert_row s k a)) rows s = feedback.ins_many s rows" for s
    by (induction rows arbitrary: s) auto
  ultimately have kept: "get_by_trace_id ?db2 (rc_run_id ctx) = Some r"
    using feedback.records_are_final by metis
  have again: "\<exists>e. insert_feedback ?db2 (rc_run_id ctx) who2 decision2 reason2 out None now2 = (Inl e, ?db2)" for out
    by (cases rule: insert_feedback_cases [of decision2 ?db2 "rc_run_id ctx" who2 reason2 out None now2])
       (simp_all add: kept)
  show ?thesis
  proof (cases "rc_state ctx2 = SUSPENDED")
    case False
    then show ?thesis by (simp add: sop_resume_def)
  next
    case True
    obtain e where "insert_feedback ?db2 (rc_run_id ctx) who2 decision2 reason2
        (Some (original_output (ctx2\<lparr>rc_approval_result := Some decision2, rc_approval_reason := reason2,
           rc_approver_id := Some who2\<rparr>))) None now2 = (Inl e, ?db2)"
      using again by blast
    then show ?thesis using True assms(3,4) by (simp add: sop_resume_def)
  qed
qed

subsection \<open>A run comes to its end\<close>

text \<open>One verdict the engine takes on a context of a workflow, in whatever world and at whatever time.\<close>

definition judged :: "sop_definition \<Rightarrow> ('db, 'tx) sop_env \<Rightarrow> 'db sop_world \<Rightarrow> sop_run_context \<Rightarrow> sop_run_context \<Rightarrow> bool" where
  "judged sop env w ctx ctx' \<longleftrightarrow>
     (\<exists>decision reason who now w'. sop_resume env sop ctx w decision reason who now = (Inr (), ctx', w'))"

lemma judged_progress:
  assumes "judged sop env w ctx ctx'"
  shows "rc_state ctx = SUSPENDED" "rc_state ctx' = SUSPENDED \<Longrightarrow>
    rc_current_step_index ctx < rc_current_step_index ctx' \<and> rc_current_step_index ctx' < length (sd_steps sop) \<and>
    st_type (sd_steps sop ! rc_current_step_index ctx') = HUMAN_APPROVAL"
proof -
  obtain decision reason who now w' where r: "sop_resume env sop ctx w decision reason who now = (Inr (), ctx', w')"
    using assms by (auto simp: judged_def)
  have both: "rc_state ctx = SUSPENDED \<and> (rc_state ctx' = SUSPENDED \<longrightarrow>
    rc_current_step_index ctx < rc_current_step_index ctx' \<and> rc_current_step_index ctx' < length (sd_steps sop) \<and>
    st_type (sd_steps sop ! rc_current_step_index ctx') = HUMAN_APPROVAL)"
  proof (cases rule: resume_cases [OF r])
    case (1 w1)
    let ?k = "rc_current_step_index ctx"
    have "\<exists>c. run_steps env (?k + 1) (drop (?k + 1) (sd_steps sop)) c w1 = (Inr (), ctx', w') \<and> rc_state c = RUNNING"
      if "decision \<noteq> ''REJECTED''" using 1(8) that by (auto simp: Let_def sop_run_def)
    moreover have "rc_state ctx' = REJECTED" if "decision = ''REJECTED''" using 1(8) that by (auto simp: Let_def)
    ultimately consider "rc_state ctx' = REJECTED"
      | c where "run_steps env (?k + 1) (drop (?k + 1) (sd_steps sop)) c w1 = (Inr (), ctx', w')" "rc_state c = RUNNING" by blast
    then show ?thesis
    proof cases
      case 1
      then show ?thesis using \<open>rc_state ctx = SUSPENDED\<close> by simp
    next
      case 2
      then show ?thesis using conjunct2 [OF run_steps_progress [OF 2]] \<open>rc_state ctx = SUSPENDED\<close> by auto
    qed
  qed
  then show "rc_state ctx = SUSPENDED" by simp
  show "rc_state ctx' = SUSPENDED \<Longrightarrow>
    rc_current_step_index ctx < rc_current_step_index ctx' \<and> rc_current_step_index ctx' < length (sd_steps sop) \<and>
    st_type (sd_steps sop ! rc_current_step_index ctx') = HUMAN_APPROVAL" using both by simp
qed

text \<open>A sequence of verdicts, each in a world and with an engine of its own.\<close>

inductive verdicts ::
  "sop_definition \<Rightarrow> (('db, 'tx) sop_env \<times> 'db sop_world) list \<Rightarrow> sop_run_context \<Rightarrow> sop_run_context \<Rightarrow> bool" for sop where
  none: "verdicts sop [] ctx ctx"
| more: "judged sop env w ctx ctx1 \<Longrightarrow> verdicts sop rest ctx1 ctx2 \<Longrightarrow> verdicts sop ((env, w) # rest) ctx ctx2"

inductive_cases verdicts_ConsE: "verdicts sop (ew # rest) ctx ctx'"

text \<open>The approval steps behind a step.\<close>

definition approvals_after :: "sop_definition \<Rightarrow> nat \<Rightarrow> nat" where
  "approvals_after sop k = length (filter (\<lambda>i. st_type (sd_steps sop ! i) = HUMAN_APPROVAL) [Suc k..<length (sd_steps sop)])"

lemma approvals_after_less:
  assumes "k < j" and "j < length (sd_steps sop)" and "st_type (sd_steps sop ! j) = HUMAN_APPROVAL"
  shows "Suc (approvals_after sop j) \<le> approvals_after sop k"
proof -
  have "[Suc k..<length (sd_steps sop)] = [Suc k..<j] @ j # [Suc j..<length (sd_steps sop)]"
    using assms(1,2) upt_add_eq_append [of "Suc k" j "length (sd_steps sop) - j"] upt_conv_Cons [of j "length (sd_steps sop)"] by simp
  then show ?thesis using assms(3) by (simp add: approvals_after_def)
qed

text \<open>The verdicts a context can still take.\<close>

definition verdicts_left :: "sop_definition \<Rightarrow> sop_run_context \<Rightarrow> nat" where
  "verdicts_left sop ctx = (if rc_state ctx = SUSPENDED then Suc (approvals_after sop (rc_current_step_index ctx)) else 0)"

lemma judged_decreases: "judged sop env w ctx ctx' \<Longrightarrow> verdicts_left sop ctx' < verdicts_left sop ctx"
  using judged_progress [of sop env w ctx ctx'] approvals_after_less [of "rc_current_step_index ctx" "rc_current_step_index ctx'" sop]
  by (auto simp: verdicts_left_def)

lemma verdicts_bounded: "verdicts sop ews ctx ctx' \<Longrightarrow> length ews + verdicts_left sop ctx' \<le> verdicts_left sop ctx"
proof (induction rule: verdicts.induct)
  case (more env w ctx ctx1 rest ctx2)
  then show ?case using judged_decreases [OF more(1)] by simp
qed simp

text \<open>
  C40. A workflow comes to its end: however the worlds, the clocks and the decisions vary, no run is
  judged for ever, since each verdict ends the run or takes it to a later approval step. A run
  takes at most one verdict more than there are approval steps behind its current one, and none
  once it is not suspended.
\<close>

theorem verdicts_terminate:
  fixes ews :: "(('db, 'tx) sop_env \<times> 'db sop_world) list"
  assumes "verdicts sop ews ctx ctx'"
  shows "length ews \<le> Suc (approvals_after sop (rc_current_step_index ctx)) \<and> (rc_state ctx \<noteq> SUSPENDED \<longrightarrow> ews = []) \<and>
    wf {(c', c). \<exists>(env :: ('db, 'tx) sop_env) w. judged sop env w c c'}"
proof (intro conjI)
  have "{(c', c). \<exists>(env :: ('db, 'tx) sop_env) w. judged sop env w c c'} \<subseteq> measure (verdicts_left sop)"
    by (auto dest: judged_decreases)
  then show "wf {(c', c). \<exists>(env :: ('db, 'tx) sop_env) w. judged sop env w c c'}" by (rule wf_subset [OF wf_measure])
  show "length ews \<le> Suc (approvals_after sop (rc_current_step_index ctx))" "rc_state ctx \<noteq> SUSPENDED \<longrightarrow> ews = []"
    using verdicts_bounded [OF assms] by (auto simp: verdicts_left_def split: if_splits)
qed

end
