(* ===== verification/Sop_Gate.thy ===== *)
theory Sop_Gate
  imports Sop_Verdict
begin

text \<open>
  Workflows as clients of the write gate: a run refines the gate's steps, and writes only what
  the gate authorised.
\<close>

subsection \<open>A run and the write gate\<close>

lemma gate_verify_other:
  assumes "\<And>data. v \<noteq> PStr data"
  obtains sp where "snd (gate_verify env gw dm v now) =
    gw\<lparr>gw_gate := snd (get_validator (se_gate_env env) (gw_gate gw) dm), gw_spans := sp\<rparr>"
proof -
  obtain va g where gv: "get_validator (se_gate_env env) (gw_gate gw) dm = (va, g)" by force
  have "gate_verify env gw dm v now =
     (case va of
        Inl e \<Rightarrow> (Inl e, gw\<lparr>gw_gate := g\<rparr>)
      | Inr validator \<Rightarrow>
          (case se_parse_value env v of
             Inl exc \<Rightarrow> (Inl (rdf_failure exc ''turtle''), gw\<lparr>gw_gate := g\<rparr>)
           | Inr data_graph \<Rightarrow>
               (case validate (ge_engine (se_gate_env env)) validator data_graph of
                  (r, spans) \<Rightarrow>
                    ((case r of
                        Inl e \<Rightarrow> Inl e
                      | Inr report \<Rightarrow> if is_valid report then Inl (no_attribute v ''encode'') else Inr (report, None)),
                     gw\<lparr>gw_gate := g, gw_spans := gw_spans gw @ spans\<rparr>))))"
    using assms gv by (cases v) (auto simp: gate_verify_def split: sum.split)
  then have "\<exists>sp. snd (gate_verify env gw dm v now) = gw\<lparr>gw_gate := g, gw_spans := sp\<rparr>"
    by (auto split: sum.split prod.split intro: exI [of _ "gw_spans gw"])
  then show ?thesis using that gv by auto
qed

lemma gate_verify_step: "gate_step (se_gate_env env) t gw (snd (gate_verify env gw dm v now))"
proof (cases "\<exists>data. v = PStr data")
  case True
  then obtain data where "v = PStr data" by blast
  then show ?thesis
    using gate_step.verify [where env = "se_gate_env env" and t = t and w = gw and dm = dm and data = data and
        fmt = "''turtle''" and now = now]
    by (auto simp: gate_verify_def split: prod.split)
next
  case False
  then obtain sp where "snd (gate_verify env gw dm v now) =
      gw\<lparr>gw_gate := snd (get_validator (se_gate_env env) (gw_gate gw) dm), gw_spans := sp\<rparr>"
    using gate_verify_other by blast
  then show ?thesis
    using gate_step.verify [where env = "se_gate_env env" and t = t and w = gw and dm = dm and spans = sp]
    by (simp add: verify_shacl_gate)
qed

lemma gate_verify_db: "gw_db (snd (gate_verify env gw dm v now)) = gw_db gw"
  by (auto simp: gate_verify_def split: pyval.split prod.split sum.split)

lemma gate_write_step: "gate_step (se_gate_env env) (gc_cleanup clk) gw (snd (gate_write env gw dm v nonce clk))"
proof -
  let ?q = "snd (check_quota gw dm (gc_quota clk))"
  have same: "?q\<lparr>gw_gate := gw_gate gw\<rparr> = ?q" using check_quota_frame(1) [of gw dm "gc_quota clk"] by (metis gate_world.surjective gate_world.update_convs(1))
  have charged: "gate_step (se_gate_env env) (gc_cleanup clk) gw ?q"
    using gate_step.refused [of "gw_gate gw" gw "gc_cleanup clk" "se_gate_env env" dm "gc_quota clk"] same by simp
  have refused: "gate_step (se_gate_env env) (gc_cleanup clk) gw (?q\<lparr>gw_gate := snd (verify_nonce (se_gate_env env) (gw_gate ?q) dm [] n (gc_ttl clk) (gc_cleanup clk))\<rparr>)" for n
    by (cases rule: verify_nonce_cases [of "se_gate_env env" "gw_gate ?q" dm "[]" n "gc_ttl clk" "gc_cleanup clk"])
       (auto simp: check_quota_frame intro!: gate_step.refused)
  show ?thesis
    using gate_step.execute [of "se_gate_env env" clk gw dm _ _ "''turtle''"] charged refused
    by (auto simp: gate_write_def split: pyval.split prod.split sum.split) (metis snd_conv)+
qed

lemma gate_write_db:
  assumes "gate_write env gw dm v nonce clk = (r, gw')" and "gw_db gw' \<noteq> gw_db gw"
  shows "\<exists>data n. v = PStr data \<and> nonce = PStr n \<and> write_authorised (se_gate_env env) gw (dm, data, n, ''turtle'', clk)"
proof (cases "\<exists>data n. v = PStr data \<and> nonce = PStr n")
  case True
  then obtain data n where t: "v = PStr data" "nonce = PStr n" by blast
  then have "snd (governed_write (se_gate_env env) gw (dm, data, n, ''turtle'', clk)) = gw'"
    using assms(1) by (simp add: gate_write_def governed_write_def)
  then show ?thesis using gate.changed_authorised assms(2) t by metis
next
  case False
  then have "gw_db gw' = gw_db (snd (check_quota gw dm (gc_quota clk)))"
    using assms(1) by (auto simp: gate_write_def split: pyval.splits prod.splits sum.splits)
  then show ?thesis using assms(2) by (simp add: check_quota_frame)
qed

lemma gate_write_data:
  assumes "gate_write env gw dm v nonce clk = (r, gw')" and "gw_db gw' \<noteq> gw_db gw"
  obtains data n where "v = PStr data" "nonce = PStr n"
    "write_authorised (se_gate_env env) gw (dm, data, n, ''turtle'', clk)"
    "writes_data (se_gate_env env) data ''turtle'' (gw_db gw) (gw_db gw')"
proof -
  obtain data n where t: "v = PStr data" "nonce = PStr n" "write_authorised (se_gate_env env) gw (dm, data, n, ''turtle'', clk)"
    using gate_write_db [OF assms] by blast
  have "gw' = snd (execute_governed_write (se_gate_env env) gw dm data n ''turtle'' clk)"
    using assms(1) t(1,2) by (simp add: gate_write_def)
  then have "writes_data (se_gate_env env) data ''turtle'' (gw_db gw) (gw_db gw')"
    using governed_write_data [of "se_gate_env env" gw dm data n "''turtle''" clk] assms(2) by simp
  then show ?thesis by (rule that [OF t])
qed

subsection \<open>What the gate allows a workflow\<close>

text \<open>
  A step that writes: a governed write of the data its reference names in the context, with the
  nonce the context holds for that reference, which the gate authorises as it then is, and whose
  statements are what the database takes on.
\<close>

definition step_writes ::
  "('db, 'tx) sop_env \<Rightarrow> nat \<Rightarrow> sop_step \<Rightarrow> sop_run_context \<Rightarrow> 'db gate_world \<Rightarrow> 'db gate_world \<Rightarrow> bool" where
  "step_writes env idx step ctx gw gw' \<longleftrightarrow> st_type step = ACTION \<and> st_action_type step = Some GOVERNED_WRITE \<and>
     (\<exists>data n. py_get (rc_data ctx) (opt_text (st_data_ref step)) (PStr []) = PStr data \<and>
        py_get (rc_data ctx) (nonce_key (opt_text (st_data_ref step))) (PStr []) = PStr n \<and>
        write_authorised (se_gate_env env) gw (opt_text (st_domain step), data, n, ''turtle'', se_clock env idx) \<and>
        writes_data (se_gate_env env) data ''turtle'' (gw_db gw) (gw_db gw'))"

text \<open>The steps a run executes, each with its index and the context it starts in.\<close>

type_synonym executed = "(nat \<times> sop_step \<times> sop_run_context) list"

fun run_trace ::
  "('db, 'tx) sop_env \<Rightarrow> nat \<Rightarrow> sop_step list \<Rightarrow> sop_run_context \<Rightarrow> 'db sop_world \<Rightarrow> executed" where
  "run_trace env idx [] ctx w = []"
| "run_trace env idx (step # steps) ctx w =
     (idx, step, ctx\<lparr>rc_current_step_index := idx\<rparr>) #
     (case execute_step env idx step (ctx\<lparr>rc_current_step_index := idx\<rparr>) w of
        (Inl e, ctx1, w1) \<Rightarrow> []
      | (Inr result, ctx1, w1) \<Rightarrow>
          (let ctx2 = ctx1\<lparr>rc_step_results := rc_step_results ctx1 @ [step_record step result]\<rparr>
           in if rc_state ctx2 = SUSPENDED then []
              else run_trace env (Suc idx) steps ctx2 (save_state env (se_stamp env idx) ctx2 w1)))"

definition sop_trace :: "('db, 'tx) sop_env \<Rightarrow> sop_definition \<Rightarrow> sop_run_context \<Rightarrow> 'db sop_world \<Rightarrow> executed" where
  "sop_trace env sop ctx w =
     run_trace env (rc_current_step_index ctx) (drop (rc_current_step_index ctx) (sd_steps sop)) (ctx\<lparr>rc_state := RUNNING\<rparr>) w"

text \<open>A verdict executes steps only when it is an approval that could be recorded.\<close>

definition resume_trace ::
  "('db, 'tx) sop_env \<Rightarrow> sop_definition \<Rightarrow> sop_run_context \<Rightarrow> 'db sop_world \<Rightarrow> string \<Rightarrow> string option \<Rightarrow> string \<Rightarrow>
     string \<Rightarrow> executed" where
  "resume_trace env sop ctx w decision reason who now =
     (if rc_state ctx \<noteq> SUSPENDED \<or> decision = ''REJECTED'' then []
      else let ctx1 = ctx\<lparr>rc_approval_result := Some decision, rc_approval_reason := reason, rc_approver_id := Some who\<rparr>;
               ctx2 = ctx1\<lparr>rc_state := APPROVED, rc_current_step_index := rc_current_step_index ctx + 1\<rparr>
           in case sw_feedback w of
                None \<Rightarrow> sop_trace env sop ctx2 w
              | Some db \<Rightarrow>
                  (case insert_feedback db (rc_run_id ctx) who decision reason (Some (original_output ctx1)) None now of
                     (Inl e, db1) \<Rightarrow> []
                   | (Inr n, db1) \<Rightarrow> sop_trace env sop ctx2 (w\<lparr>sw_feedback := Some db1\<rparr>)))"

text \<open>
  The abstract workflow: step by step the gate stays, makes a step of its own that keeps the
  database, or makes the step of an authorised write.
\<close>

inductive workflow_gate :: "('db, 'tx) sop_env \<Rightarrow> executed \<Rightarrow> 'db gate_world \<Rightarrow> 'db gate_world \<Rightarrow> bool" for env where
  ended: "workflow_gate env [] gw gw"
| kept: "gw1 = gw \<or> gate_step (se_gate_env env) (gc_cleanup (se_clock env idx)) gw gw1 \<Longrightarrow> gw_db gw1 = gw_db gw \<Longrightarrow>
    workflow_gate env es gw1 gw2 \<Longrightarrow> workflow_gate env ((idx, step, ctx) # es) gw gw2"
| wrote: "step_writes env idx step ctx gw gw1 \<Longrightarrow> gate_step (se_gate_env env) (gc_cleanup (se_clock env idx)) gw gw1 \<Longrightarrow>
    workflow_gate env es gw1 gw2 \<Longrightarrow> workflow_gate env ((idx, step, ctx) # es) gw gw2"

inductive_simps workflow_gate_Nil [simp]: "workflow_gate env [] gw gw'"
inductive_cases workflow_gate_ConsE: "workflow_gate env ((idx, step, ctx) # es) gw gw'"

lemma workflow_gate_runs:
  "workflow_gate env es gw gw' \<Longrightarrow> \<forall>i. gc_cleanup (se_clock env i) < T \<Longrightarrow> runs_before (gate_step (se_gate_env env)) T gw gw'"
  by (induction rule: workflow_gate.induct) (auto intro: runs_before.intros)

text \<open>Where the database changed, one of the steps wrote.\<close>

lemma workflow_gate_changed:
  "workflow_gate env es gw gw' \<Longrightarrow> gw_db gw' \<noteq> gw_db gw \<Longrightarrow>
   \<exists>(idx, step, ctx)\<in>set es. \<exists>gw1 gw2. step_writes env idx step ctx gw1 gw2"
proof (induction rule: workflow_gate.induct)
  case (kept gw1 gw idx es gw2 step ctx)
  then show ?case by auto
next
  case (wrote idx step ctx gw gw1 es gw2)
  then show ?case by auto
qed simp

subsection \<open>The engine refines the abstract workflow\<close>

text \<open>What one step of a workflow does to the gate.\<close>

lemma execute_step_gate:
  assumes "execute_step env idx step ctx w = (r, ctx', w')" and "sw_gate w = Some gw"
  shows "\<exists>gw'. sw_gate w' = Some gw' \<and>
    (gw' = gw \<or> gate_step (se_gate_env env) (gc_cleanup (se_clock env idx)) gw gw') \<and>
    (gw_db gw' \<noteq> gw_db gw \<longrightarrow> step_writes env idx step ctx gw gw')"
proof (cases "st_type step")
  case VALIDATE
  let ?v = "\<lambda>dm v. gate_verify env gw dm v (gc_revalidate (se_clock env idx))"
  have "gate_step (se_gate_env env) (gc_cleanup (se_clock env idx)) gw g \<and> gw_db g = gw_db gw"
    if "?v dm v = (x, g)" for dm v x g
    using gate_verify_step [of env "gc_cleanup (se_clock env idx)" gw dm v] gate_verify_db [of env gw dm v] that by (metis snd_conv)
  then show ?thesis using assms VALIDATE
    by (auto simp: execute_step_def step_validate_def Let_def split: option.splits if_splits prod.splits sum.splits)
next
  case ACTION
  let ?key = "opt_text (st_data_ref step)"
  let ?w = "gate_write env gw (opt_text (st_domain step)) (py_get (rc_data ctx) ?key (PStr [])) (py_get (rc_data ctx) (nonce_key ?key) (PStr []))
     (se_clock env idx)"
  have "gate_step (se_gate_env env) (gc_cleanup (se_clock env idx)) gw g \<and>
      (gw_db g \<noteq> gw_db gw \<longrightarrow> st_action_type step = Some GOVERNED_WRITE \<longrightarrow> step_writes env idx step ctx gw g)"
    if x: "?w = (x, g)" for x g
  proof -
    have "step_writes env idx step ctx gw g" if "gw_db g \<noteq> gw_db gw" "st_action_type step = Some GOVERNED_WRITE"
      by (rule gate_write_data [OF x that(1)]) (use ACTION that(2) in \<open>auto simp: step_writes_def\<close>)
    then show ?thesis using x gate_write_step by (metis snd_conv)
  qed
  then show ?thesis using assms ACTION
    by (auto simp: execute_step_def step_action_def action_governed_write_def Let_def split: option.splits if_splits prod.splits sum.splits)
next
  case HUMAN_APPROVAL
  then show ?thesis using assms step_human_approval_frame by (fastforce simp: execute_step_def)
next
  case NOTIFY
  then show ?thesis using assms step_notify_frame by (fastforce simp: execute_step_def)
qed

lemma execute_step_workflow:
  assumes "execute_step env idx step ctx w = (r, ctx', w')" and "sw_gate w = Some gw"
  obtains gw1 where "sw_gate w' = Some gw1" "\<And>es gw2. workflow_gate env es gw1 gw2 \<Longrightarrow> workflow_gate env ((idx, step, ctx) # es) gw gw2"
proof -
  obtain gw1 where g: "sw_gate w' = Some gw1" "gw1 = gw \<or> gate_step (se_gate_env env) (gc_cleanup (se_clock env idx)) gw gw1"
    "gw_db gw1 \<noteq> gw_db gw \<longrightarrow> step_writes env idx step ctx gw gw1"
    using execute_step_gate [OF assms] by blast
  have "workflow_gate env ((idx, step, ctx) # es) gw gw2" if "workflow_gate env es gw1 gw2" for es gw2
    using g(2,3) that by (cases "gw_db gw1 = gw_db gw") (auto intro: workflow_gate.intros)
  then show ?thesis using that g(1) by blast
qed

lemma run_steps_gate:
  "run_steps env idx steps ctx w = (r, ctx', w') \<Longrightarrow> rc_state ctx = RUNNING \<Longrightarrow> sw_gate w = Some gw \<Longrightarrow>
   \<exists>gw'. sw_gate w' = Some gw' \<and> workflow_gate env (run_trace env idx steps ctx w) gw gw'"
proof (induction steps arbitrary: idx ctx w gw)
  case Nil
  then show ?case by (auto simp: Let_def)
next
  case (Cons step steps)
  from Cons.prems(1,2) show ?case
  proof (cases rule: run_steps_cases)
    case (continued result ctx1 w1 ctx2)
    obtain gw1 where g: "sw_gate w1 = Some gw1" "\<And>es gw2. workflow_gate env es gw1 gw2 \<Longrightarrow>
        workflow_gate env ((idx, step, ctx\<lparr>rc_current_step_index := idx\<rparr>) # es) gw gw2"
      using execute_step_workflow [OF continued(1) Cons.prems(3)] by blast
    obtain gw' where "sw_gate w' = Some gw'"
      "workflow_gate env (run_trace env (Suc idx) steps ctx2 (save_state env (se_stamp env idx) ctx2 w1)) gw1 gw'"
      using Cons.IH [OF continued(5,3), of gw1] g(1) by auto
    then show ?thesis using g(2) continued(1,2,3) by (auto simp: Let_def)
  next
    case (failed e ctx1 w1)
    then show ?thesis by (auto intro: execute_step_workflow [OF failed(1) Cons.prems(3)])
  next
    case (raised e ctx1 w1)
    then show ?thesis by (auto intro: execute_step_workflow [OF raised(1) Cons.prems(3)])
  next
    case (suspended result ctx1 w1)
    then show ?thesis by (auto simp: Let_def intro: execute_step_workflow [OF suspended(1) Cons.prems(3)])
  qed
qed

lemma sop_run_gate:
  assumes "sop_run env sop ctx w = (r, ctx', w')" and "sw_gate w = Some gw"
  obtains gw' where "sw_gate w' = Some gw'" "workflow_gate env (sop_trace env sop ctx w) gw gw'"
  using run_steps_gate [OF assms(1) [unfolded sop_run_def] _ assms(2)] by (auto simp: sop_trace_def)

lemma sop_resume_gate:
  assumes "sop_resume env sop ctx w decision reason who now = (r, ctx', w')" and "sw_gate w = Some gw"
  obtains gw' where "sw_gate w' = Some gw'" "workflow_gate env (resume_trace env sop ctx w decision reason who now) gw gw'"
proof -
  note fin = that
  have go: thesis if run: "sop_run env sop c w1 = (r, ctx', w')" and gw: "sw_gate w1 = Some gw"
      and t: "resume_trace env sop ctx w decision reason who now = sop_trace env sop c w1" for c w1
    by (rule sop_run_gate [OF run gw]) (use fin t in auto)
  have stay: thesis if "sw_gate w' = Some gw" "resume_trace env sop ctx w decision reason who now = []"
    by (rule fin [of gw]) (use that in simp_all)
  show thesis
  proof (cases "rc_state ctx \<noteq> SUSPENDED")
    case True
    then show thesis using assms stay by (simp add: sop_resume_def resume_trace_def)
  next
    case susp: False
    show thesis
    proof (cases "sw_feedback w")
      case None
      then show thesis using assms susp stay go [of _ w]
        by (cases "decision = ''REJECTED''") (auto simp: sop_resume_def resume_trace_def Let_def)
    next
      case (Some db)
      let ?c1 = "ctx\<lparr>rc_approval_result := Some decision, rc_approval_reason := reason, rc_approver_id := Some who\<rparr>"
      obtain x db1 where "insert_feedback db (rc_run_id ctx) who decision reason (Some (original_output ?c1)) None now = (x, db1)"
        by force
      then show thesis using assms susp stay Some go [of _ "w\<lparr>sw_feedback := Some db1\<rparr>"]
        by (cases "decision = ''REJECTED''"; cases x) (auto simp: sop_resume_def resume_trace_def Let_def)
    qed
  qed
qed

text \<open>The steps a run executes are those of its workflow from the current one on.\<close>

lemma run_trace_steps:
  "(i, step, c) \<in> set (run_trace env idx steps ctx w) \<Longrightarrow> idx \<le> i \<and> i < idx + length steps \<and> step = steps ! (i - idx)"
proof (induction env idx steps ctx w rule: run_trace.induct)
  case (2 env idx s steps ctx w)
  let ?x = "execute_step env idx s (ctx\<lparr>rc_current_step_index := idx\<rparr>) w"
  obtain r ctx1 w1 where x: "?x = (r, ctx1, w1)" by (metis prod.exhaust)
  show ?case
  proof (cases "(i, step, c) = (idx, s, ctx\<lparr>rc_current_step_index := idx\<rparr>)")
    case False
    then obtain result where res: "r = Inr result"
      and later: "(i, step, c) \<in> set (run_trace env (Suc idx) steps
        (ctx1\<lparr>rc_step_results := rc_step_results ctx1 @ [step_record s result]\<rparr>)
        (save_state env (se_stamp env idx) (ctx1\<lparr>rc_step_results := rc_step_results ctx1 @ [step_record s result]\<rparr>) w1))"
      and go: "rc_state ctx1 \<noteq> SUSPENDED"
      using 2(2) x by (auto simp: Let_def split: sum.splits if_splits)
    then have IH: "Suc idx \<le> i \<and> i < Suc idx + length steps \<and> step = steps ! (i - Suc idx)"
      using 2(1) [OF x [symmetric] res HOL.refl HOL.refl] by simp
    then have "i - idx = Suc (i - Suc idx)" using Suc_diff_Suc [of idx i] by (simp add: Suc_le_eq)
    then show ?thesis using IH by simp
  qed auto
qed simp

lemma sop_trace_steps:
  assumes "(i, step, c) \<in> set (sop_trace env sop ctx w)"
  shows "rc_current_step_index ctx \<le> i \<and> i < length (sd_steps sop) \<and> step = sd_steps sop ! i"
  using run_trace_steps [OF assms [unfolded sop_trace_def]] by auto

lemma resume_trace_steps:
  assumes "(i, step, c) \<in> set (resume_trace env sop ctx w decision reason who now)"
  shows "rc_state ctx = SUSPENDED \<and> decision \<noteq> ''REJECTED'' \<and>
    rc_current_step_index ctx < i \<and> i < length (sd_steps sop) \<and> step = sd_steps sop ! i"
  using assms by (auto simp: resume_trace_def Let_def Suc_le_eq dest!: sop_trace_steps split: if_splits option.splits prod.splits sum.splits)

text \<open>
  C5. A workflow is a client of the write gate like any other: whatever its steps and data, every
  run and every resume moves the gate as the abstract workflow does along the steps it executes,
  which are those of the workflow from the current one on, behind the approval for a resume. So
  all it does to the gate are the gate's own steps (what is proved of those, such as that a spent
  nonce stays spent, holds through every run), and a step changes the database only if it is a
  governed write, of the data its reference names in the context of that step, with the nonce the
  context holds for it, which the gate as it then was had issued for exactly that domain and data;
  and what it writes are the statements of that data.
\<close>

theorem run_refines_gate:
  assumes "sw_gate w = Some gw" and "\<forall>i. gc_cleanup (se_clock env i) < T"
  shows "(\<exists>gw'. sw_gate (snd (snd (sop_run env sop ctx w))) = Some gw' \<and>
      workflow_gate env (sop_trace env sop ctx w) gw gw' \<and> runs_before (gate_step (se_gate_env env)) T gw gw') \<and>
    (\<forall>(i, step, c)\<in>set (sop_trace env sop ctx w).
      rc_current_step_index ctx \<le> i \<and> i < length (sd_steps sop) \<and> step = sd_steps sop ! i) \<and>
    (\<exists>gw'. sw_gate (snd (snd (sop_resume env sop ctx w decision reason who now))) = Some gw' \<and>
      workflow_gate env (resume_trace env sop ctx w decision reason who now) gw gw' \<and>
      runs_before (gate_step (se_gate_env env)) T gw gw') \<and>
    (\<forall>(i, step, c)\<in>set (resume_trace env sop ctx w decision reason who now). rc_state ctx = SUSPENDED \<and>
      decision \<noteq> ''REJECTED'' \<and> rc_current_step_index ctx < i \<and> i < length (sd_steps sop) \<and> step = sd_steps sop ! i)"
proof (intro conjI)
  obtain r ctx' w' where x: "sop_run env sop ctx w = (r, ctx', w')" by (metis prod.exhaust)
  show "\<exists>gw'. sw_gate (snd (snd (sop_run env sop ctx w))) = Some gw' \<and>
      workflow_gate env (sop_trace env sop ctx w) gw gw' \<and> runs_before (gate_step (se_gate_env env)) T gw gw'"
    by (rule sop_run_gate [OF x assms(1)]) (use x workflow_gate_runs assms(2) in auto)
  obtain r ctx' w' where y: "sop_resume env sop ctx w decision reason who now = (r, ctx', w')" by (metis prod.exhaust)
  show "\<exists>gw'. sw_gate (snd (snd (sop_resume env sop ctx w decision reason who now))) = Some gw' \<and>
      workflow_gate env (resume_trace env sop ctx w decision reason who now) gw gw' \<and>
      runs_before (gate_step (se_gate_env env)) T gw gw'"
    by (rule sop_resume_gate [OF y assms(1)]) (use y workflow_gate_runs assms(2) in auto)
qed (auto dest: sop_trace_steps resume_trace_steps)

end
