(* ===== verification/Sop_Limits.thy ===== *)
theory Sop_Limits
  imports Sop_Gate
begin

text \<open>
  Where a workflow cannot go on: the shipped one lacks a nonce, a late approval finds its nonce
  expired, and a completed run repeats its last step.
\<close>

subsection \<open>Where a workflow cannot go on\<close>

text \<open>What a step does to the data of the context.\<close>

lemma execute_step_data:
  assumes "execute_step env idx step ctx w = (r, ctx', w')"
    and "k \<noteq> nonce_key (opt_text (st_data_ref step)) \<or> st_type step \<noteq> VALIDATE" and "k \<noteq> ''_pending_card''"
  shows "map_of (rc_data ctx') k = map_of (rc_data ctx) k"
proof (cases "st_type step")
  case VALIDATE
  then show ?thesis using assms
    by (auto simp: execute_step_def step_validate_def Let_def map_of_update_eq split: option.splits if_splits prod.splits sum.splits)
next
  case HUMAN_APPROVAL
  then show ?thesis using assms
    by (auto simp: execute_step_def step_human_approval_def Let_def map_of_update_eq split: option.splits if_splits prod.splits sum.splits)
next
  case ACTION
  then show ?thesis using assms
    by (auto simp: execute_step_def step_action_def dest: action_governed_write_frame split: if_splits)
next
  case NOTIFY
  then show ?thesis using assms by (auto simp: execute_step_def dest: step_notify_frame)
qed

lemma execute_step_gate_kept:
  "execute_step env idx step ctx w = (r, ctx', w') \<Longrightarrow> sw_gate w \<noteq> None \<Longrightarrow> sw_gate w' \<noteq> None"
  using execute_step_gate by fastforce

text \<open>A governed write whose nonce is missing fails the run.\<close>

lemma write_without_nonce:
  assumes "st_type step = ACTION" "st_action_type step = Some GOVERNED_WRITE" "sw_gate w \<noteq> None"
    and "\<not> py_truth (py_get (rc_data ctx) (nonce_key (opt_text (st_data_ref step))) (PStr []))"
  shows "\<exists>m. execute_step env idx step ctx w = (Inl (sop_error m), ctx, w)"
  using assms by (auto simp: execute_step_def step_action_def action_governed_write_def Let_def)

lemma run_steps_blocked:
  assumes "st_type wr = ACTION" "st_action_type wr = Some GOVERNED_WRITE"
    and "k = nonce_key (opt_text (st_data_ref wr))" and "k \<noteq> ''_pending_card''"
    and "list_all (\<lambda>s. st_type s = VALIDATE \<longrightarrow> nonce_key (opt_text (st_data_ref s)) \<noteq> k) pre"
  shows "run_steps env idx (pre @ wr # post) ctx w = (r, ctx', w') \<Longrightarrow> rc_state ctx = RUNNING \<Longrightarrow>
    sw_gate w \<noteq> None \<Longrightarrow> \<not> py_truth (py_get (rc_data ctx) k (PStr [])) \<Longrightarrow> rc_state ctx' \<noteq> COMPLETED"
  using assms(5)
proof (induction pre arbitrary: idx ctx w)
  case Nil
  let ?c = "ctx\<lparr>rc_current_step_index := idx\<rparr>"
  obtain m where "execute_step env idx wr ?c w = (Inl (sop_error m), ?c, w)"
    using write_without_nonce [of wr w ?c env idx] assms(1-3) Nil by auto
  then show ?case using Nil.prems(1) by (auto simp: sop_error_def Let_def)
next
  case (Cons s pre)
  have "run_steps env idx (s # (pre @ wr # post)) ctx w = (r, ctx', w')" using Cons.prems(1) by simp
  from this Cons.prems(2) show ?case
  proof (cases rule: run_steps_cases)
    case (continued result ctx1 w1 ctx2)
    have "map_of (rc_data ctx1) k = map_of (rc_data ctx) k"
      using execute_step_data [OF continued(1), of k] Cons.prems(5) assms(4) by auto
    then have "\<not> py_truth (py_get (rc_data ctx2) k (PStr []))"
      using Cons.prems(4) continued(2) by (simp add: py_get_def)
    moreover have "sw_gate (save_state env (se_stamp env idx) ctx2 w1) \<noteq> None"
      using execute_step_gate_kept [OF continued(1)] Cons.prems(3) by simp
    ultimately show ?thesis using Cons.IH [OF continued(5,3)] Cons.prems(5) by simp
  qed auto
qed

text \<open>
  C20. The shipped onboarding workflow cannot complete by itself: it validates the employee and the
  asset, but writes the assignment, for which no step obtains a nonce. Unless the caller has put
  one into the data, no run of it that starts at the write step or before, be it from the start or
  from the approval on, completes once a write gate is configured.
\<close>

theorem shipped_workflow_needs_nonce:
  assumes "sop_run env it_onboarding_sop ctx w = (r, ctx', w')" and "sw_gate w \<noteq> None"
    and "rc_current_step_index ctx \<le> 3"
    and "\<not> py_truth (py_get (rc_data ctx) ''_nonce_assignment_ttl'' (PStr []))"
  shows "rc_state ctx' \<noteq> COMPLETED"
proof -
  let ?k = "rc_current_step_index ctx" and ?ss = "it_onboarding_steps"
  have steps: "?ss = take 3 ?ss @ ?ss ! 3 # drop 4 ?ss"
    by (simp add: it_onboarding_steps_def)
  have len: "length (take 3 ?ss) = 3" by (simp add: it_onboarding_steps_def)
  have wr: "st_type (?ss ! 3) = ACTION" "st_action_type (?ss ! 3) = Some GOVERNED_WRITE"
    "''_nonce_assignment_ttl'' = nonce_key (opt_text (st_data_ref (?ss ! 3)))"
    by (simp_all add: it_onboarding_steps_def new_SOPStep_def nonce_key_def opt_text_def)
  have "list_all (\<lambda>s. st_type s = VALIDATE \<longrightarrow> nonce_key (opt_text (st_data_ref s)) \<noteq> ''_nonce_assignment_ttl'') (take 3 ?ss)"
    by (simp add: it_onboarding_steps_def new_SOPStep_def nonce_key_def opt_text_def)
  then have pre: "list_all (\<lambda>s. st_type s = VALIDATE \<longrightarrow> nonce_key (opt_text (st_data_ref s)) \<noteq> ''_nonce_assignment_ttl'')
      (drop ?k (take 3 ?ss))"
    by (auto simp: list_all_iff dest: in_set_dropD)
  have "drop ?k ?ss = drop ?k (take 3 ?ss) @ ?ss ! 3 # drop 4 ?ss"
    using steps len assms(3) by (metis diff_is_0_eq drop0 drop_append)
  then have run: "run_steps env ?k (drop ?k (take 3 ?ss) @ ?ss ! 3 # drop 4 ?ss) (ctx\<lparr>rc_state := RUNNING\<rparr>) w = (r, ctx', w')"
    using assms(1) by (simp add: sop_run_def it_onboarding_sop_def)
  have "''_nonce_assignment_ttl'' \<noteq> ''_pending_card''" by simp
  from run_steps_blocked [OF wr this pre run] assms(2,4) show ?thesis by simp
qed

text \<open>
  An approval that comes too late fails the run: the nonce is taken at validation, before the
  workflow waits, and is never renewed. When the approved step is followed by the governed write
  and the nonce has outlived the gate's TTL by then, resuming the run ends it as \<open>FAILED\<close>, with
  the database unchanged, although the approval has been recorded.
\<close>

theorem late_approval_fails:
  assumes "sop_resume env sop ctx w ''APPROVED'' reason who now = (Inr (), ctx', w')"
    and "sw_gate w = Some gw" and "k = rc_current_step_index ctx + 1" and "k < length (sd_steps sop)"
    and "st_type (sd_steps sop ! k) = ACTION" and "st_action_type (sd_steps sop ! k) = Some GOVERNED_WRITE"
    and "py_get (rc_data ctx) (nonce_key (opt_text (st_data_ref (sd_steps sop ! k)))) (PStr []) = PStr nonce"
    and "py_split (CHR '':'') nonce = [ts, digest, signature]" and "py_int ts = Some t" and "int_to_float t = Inr tf"
    and "fsub (gc_ttl (se_clock env k)) tf > of_int (wg_nonce_ttl (gw_gate gw))"
  shows "rc_state ctx' = FAILED \<and> verdict_recorded w' (rc_run_id ctx) ''APPROVED'' reason who \<and>
    (\<exists>gw'. sw_gate w' = Some gw' \<and> gw_db gw' = gw_db gw)"
proof (cases rule: resume_cases [OF assms(1)])
  case (1 w1)
  let ?step = "sd_steps sop ! k"
  let ?v = "py_get (rc_data ctx) (opt_text (st_data_ref ?step)) (PStr [])"
  define c0 where "c0 = ctx\<lparr>rc_approval_result := Some ''APPROVED'', rc_approval_reason := reason, rc_approver_id := Some who,
      rc_state := APPROVED, rc_current_step_index := rc_current_step_index ctx + 1\<rparr>"
  define c1 where "c1 = c0\<lparr>rc_state := RUNNING\<rparr>"
  have c1: "c1\<lparr>rc_current_step_index := k\<rparr> = c1" "rc_data c1 = rc_data ctx" "rc_state c1 = RUNNING"
    by (simp_all add: c1_def c0_def assms(3))
  have "sop_run env sop c0 w1 = (Inr (), ctx', w')" using 1(8) by (simp add: Let_def c0_def)
  moreover have "rc_current_step_index c0 = k" by (simp add: c0_def assms(3))
  ultimately have run: "run_steps env k (drop k (sd_steps sop)) c1 w1 = (Inr (), ctx', w')"
    by (simp add: sop_run_def c1_def)
  have gate1: "sw_gate w1 = Some gw" using 1(2) assms(2) by simp
  have expired: "\<not> nonce_valid (se_gate_env env) gw' dm data nonce s (gc_ttl (se_clock env k))"
    if "wg_nonce_ttl gw' = wg_nonce_ttl (gw_gate gw)" for gw' dm data s
    using assms(8-11) that by (auto simp: nonce_valid_def)
  obtain r1 gw1 where gwr: "gate_write env gw (opt_text (st_domain ?step)) ?v (PStr nonce) (se_clock env k) = (r1, gw1)" by force
  have refused: "(\<exists>e. r1 = Inl e) \<and> gw_db gw1 = gw_db gw"
  proof (cases "\<exists>data. ?v = PStr data")
    case True
    then obtain data where "execute_governed_write (se_gate_env env) gw (opt_text (st_domain ?step)) data nonce ''turtle'' (se_clock env k) = (r1, gw1)"
      using gwr by (auto simp: gate_write_def)
    then show ?thesis
      using expired
      by (cases rule: governed_write_cases [of gw "opt_text (st_domain ?step)" "se_clock env k" "se_gate_env env" data nonce "''turtle''"])
         (auto simp: check_quota_frame)
  next
    case False
    then show ?thesis using gwr gate_write_db [OF gwr]
      by (auto simp: gate_write_def split: pyval.splits prod.splits sum.splits)
  qed
  obtain m gw' where step: "execute_step env k ?step c1 w1 = (Inl (sop_error m), c1, w1\<lparr>sw_gate := Some gw'\<rparr>)" "gw_db gw' = gw_db gw"
  proof (cases "py_truth ?v \<and> nonce \<noteq> []")
    case True
    obtain e where "r1 = Inl e" using refused by blast
    then show ?thesis
      using True assms(5-7) gate1 gwr refused c1(2) that
      by (simp add: execute_step_def step_action_def action_governed_write_def)
  next
    case False
    moreover have "w1\<lparr>sw_gate := Some gw\<rparr> = w1" using gate1 by simp
    ultimately show ?thesis
      using assms(5-7) gate1 c1(2) that [of _ gw]
      by (simp add: execute_step_def step_action_def action_governed_write_def)
  qed
  have "drop k (sd_steps sop) = ?step # drop (Suc k) (sd_steps sop)" using assms(4) by (simp add: Cons_nth_drop_Suc)
  then show ?thesis using run step c1(1) 1(6) by (auto simp: sop_error_def Let_def verdict_recorded_def)
qed

text \<open>
  The engine does not remember which steps are done: running a completed run again executes
  its last step again, for instance sends its notification a second time.
\<close>

theorem rerun_repeats_last_step:
  assumes "rc_state ctx = COMPLETED" and "sd_steps sop = steps @ [step]" and "rc_current_step_index ctx = length steps"
    and "st_type step = NOTIFY"
    and "format_map (se_format env) (rc_data ctx) (text_or (st_notify_message step) (st_description step)) = Inr msg"
  shows "\<exists>ctx' w'. sop_run env sop ctx w = (Inr (), ctx', w') \<and> rc_state ctx' = COMPLETED \<and>
    sw_notices w' = sw_notices w @ [msg] \<and> length (rc_step_results ctx') = length (rc_step_results ctx) + 1"
  using assms(2-5) by (simp add: sop_run_def execute_step_def step_notify_def Let_def)

end
