(* ===== verification/Sop_Examples.thy ===== *)
theory Sop_Examples
  imports Sop_Limits
begin

text \<open>
  Concrete workflows at which the properties of the engine are applied.
\<close>

subsection \<open>Witnesses\<close>

text \<open>A workflow that asks for approval and then sends a notice, and the context of one of its runs.\<close>

definition demo_ctx :: "sop_run_state \<Rightarrow> nat \<Rightarrow> sop_run_context" where
  "demo_ctx s i = \<lparr>rc_run_id = ''r1'', rc_sop_id = ''s1'', rc_state = s, rc_current_step_index = i, rc_data = [],
     rc_suspended_step_id = None, rc_approval_result = None, rc_approval_reason = None, rc_approver_id = None,
     rc_errors = [], rc_step_results = []\<rparr>"

definition demo_approval :: sop_step where
  "demo_approval = (new_SOPStep ''ask'' HUMAN_APPROVAL)\<lparr>st_card_message := Some ''go?''\<rparr>"

definition demo_notice :: sop_step where
  "demo_notice = (new_SOPStep ''tell'' NOTIFY)\<lparr>st_notify_message := Some ''done''\<rparr>"

definition demo_write_step :: sop_step where
  "demo_write_step = (new_SOPStep ''write'' ACTION)\<lparr>st_action_type := Some GOVERNED_WRITE, st_domain := Some ''hr'', st_data_ref := Some ''d''\<rparr>"

definition demo_sop :: "sop_step list \<Rightarrow> sop_definition" where
  "demo_sop ss = \<lparr>sd_sop_id = ''s1'', sd_name = [], sd_version = ''1.0'', sd_description = [], sd_steps = ss, sd_metadata = []\<rparr>"

definition demo_sop_env :: "(string list, string list) sop_env" where
  "demo_sop_env = \<lparr>se_gate_env = demo_env, se_parse_value = (\<lambda>_. Inr []), se_eval = (\<lambda>_ _. Inr (PBool True)),
     se_format = (\<lambda>_ _. Inr ([], 0)), se_sender = None, se_default_chat_id = [], se_dump = rc_run_id,
     se_load = (\<lambda>s. Some ((demo_ctx COMPLETED 1)\<lparr>rc_step_results :=
        [step_record demo_notice [(''notified'', PBool True), (''message'', PStr ''done'')]]\<rparr>)),
     se_clock = (\<lambda>_. clk_all 100), se_stamp = (\<lambda>_. ''2026-01-01'')\<rparr>"

definition demo_sop_world :: "string list sop_world" where
  "demo_sop_world = \<lparr>sw_gate = Some demo_world, sw_feedback = Some new_FeedbackDB, sw_store = Some [], sw_cards = [], sw_notices = []\<rparr>"

lemmas demo_sop_defs = demo_ctx_def demo_approval_def demo_notice_def demo_write_step_def demo_sop_def demo_sop_env_def
  demo_sop_world_def new_SOPStep_def

lemma demo_ctx_sel [simp]:
  "rc_run_id (demo_ctx s i) = ''r1''" "rc_state (demo_ctx s i) = s" "rc_current_step_index (demo_ctx s i) = i"
  "rc_data (demo_ctx s i) = []" "rc_step_results (demo_ctx s i) = []"
  by (simp_all add: demo_ctx_def)

lemma demo_run_notice:
  "sop_run demo_sop_env (demo_sop [demo_approval, demo_notice]) (demo_ctx PENDING 1) demo_sop_world =
    (Inr (), (demo_ctx COMPLETED 1)\<lparr>rc_step_results :=
        [step_record demo_notice [(''notified'', PBool True), (''message'', PStr ''done'')]]\<rparr>,
     snd (snd (sop_run demo_sop_env (demo_sop [demo_approval, demo_notice]) (demo_ctx PENDING 1) demo_sop_world)))"
  by (simp add: sop_run_def demo_sop_defs execute_step_def step_notify_def text_or_def Let_def)

theorem run_end_states_witness:
  "\<exists>ctx' w'. sop_run demo_sop_env (demo_sop [demo_approval, demo_notice]) (demo_ctx PENDING 1) demo_sop_world = (Inr (), ctx', w') \<and>
     rc_state ctx' \<in> {SUSPENDED, COMPLETED, FAILED}"
  using run_end_states [OF demo_run_notice] demo_run_notice by auto

theorem run_executes_in_order_witness:
  "\<exists>ctx' w' rs. sop_run demo_sop_env (demo_sop [demo_approval, demo_notice]) (demo_ctx PENDING 1) demo_sop_world = (Inr (), ctx', w') \<and>
     rc_step_results ctx' = map2 step_record [demo_notice] rs"
proof -
  have d: "sd_steps (demo_sop [demo_approval, demo_notice]) = [demo_approval, demo_notice]" by (simp add: demo_sop_def)
  have c: "rc_state ((demo_ctx COMPLETED 1)\<lparr>rc_step_results := x\<rparr>) = COMPLETED" for x by simp
  have "rc_current_step_index (demo_ctx PENDING 1) \<le> length (sd_steps (demo_sop [demo_approval, demo_notice]))" by (simp add: d)
  from conjunct1 [OF run_executes_in_order [OF demo_run_notice this], rule_format, OF c]
  obtain rs where "rc_step_results ((demo_ctx COMPLETED 1)\<lparr>rc_step_results :=
        [step_record demo_notice [(''notified'', PBool True), (''message'', PStr ''done'')]]\<rparr>) = map2 step_record [demo_notice] rs"
    by (auto simp only: d demo_ctx_sel append_Nil drop_Suc_Cons drop0 One_nat_def)
  then show ?thesis using demo_run_notice by blast
qed

theorem run_is_persisted_witness:
  "load_run demo_sop_env (snd (snd (sop_run demo_sop_env (demo_sop [demo_approval, demo_notice]) (demo_ctx PENDING 1) demo_sop_world))) ''r1''
    = Inr (Some ((demo_ctx COMPLETED 1)\<lparr>rc_step_results :=
        [step_record demo_notice [(''notified'', PBool True), (''message'', PStr ''done'')]]\<rparr>))"
proof -
  have s: "sw_store demo_sop_world = Some []" by (simp add: demo_sop_world_def)
  have l: "se_load demo_sop_env (se_dump demo_sop_env c) = Some ((demo_ctx COMPLETED 1)\<lparr>rc_step_results :=
        [step_record demo_notice [(''notified'', PBool True), (''message'', PStr ''done'')]]\<rparr>)" for c
    by (simp add: demo_sop_env_def)
  from conjunct1 [OF run_is_persisted [OF demo_run_notice s l]] show ?thesis by (simp only: demo_ctx_sel)
qed

theorem approval_is_a_barrier_witness:
  "sop_run demo_sop_env (demo_sop [demo_approval, demo_notice]) (demo_ctx PENDING 0) demo_sop_world =
   sop_run demo_sop_env (demo_sop [demo_approval, demo_write_step, demo_notice]) (demo_ctx PENDING 0) demo_sop_world"
proof -
  have "sd_steps (demo_sop [demo_approval, demo_notice]) = [] @ demo_approval # [demo_notice]"
    "st_type demo_approval = HUMAN_APPROVAL" "\<forall>c. should_trigger demo_sop_env demo_approval c"
    "rc_current_step_index (demo_ctx PENDING 0) \<le> length []"
    by (simp_all add: demo_sop_defs should_trigger_def)
  from approval_is_a_barrier [OF this, of demo_sop_world "[demo_write_step, demo_notice]"] show ?thesis
    by (simp add: demo_sop_def)
qed

theorem resume_guard_witness:
  "\<exists>m. sop_resume demo_sop_env (demo_sop []) (demo_ctx COMPLETED 1) demo_sop_world ''APPROVED'' None ''ou_1'' ''now'' =
     (Inl (sop_error m), demo_ctx COMPLETED 1, demo_sop_world)"
  by (rule resume_guard) (simp add: demo_ctx_def)

lemma demo_insert: "insert_feedback new_FeedbackDB ''r1'' ''ou_1'' d None (Some []) None ''now'' =
    (Inr 1, \<lparr>fdb_rows = [\<lparr>fb_id = 1, fb_trace_id = ''r1'', fb_reviewer = ''ou_1'', fb_decision = d, fb_reason = None,
       fb_original_agent_output = Some [], fb_timestamp = ''now''\<rparr>], fdb_seq = 1\<rparr>)" if "d \<in> {''APPROVED'', ''REJECTED''}"
  using that by (simp add: insert_feedback_def new_FeedbackDB_def get_by_trace_id_def)

lemma demo_reject:
  "fst (sop_resume demo_sop_env (demo_sop []) (demo_ctx SUSPENDED 0) demo_sop_world ''REJECTED'' None ''ou_1'' ''now'') = Inr ()"
proof -
  have "sw_feedback demo_sop_world = Some new_FeedbackDB" "rc_run_id (demo_ctx SUSPENDED 0) = ''r1''"
    "rc_state (demo_ctx SUSPENDED 0) = SUSPENDED" "rc_step_results (demo_ctx SUSPENDED 0) = []"
    by (simp_all add: demo_sop_defs)
  then show ?thesis using demo_insert [of "''REJECTED''"] by (simp add: sop_resume_def original_output_def Let_def)
qed

theorem rejection_is_terminal_witness:
  "\<exists>ctx' w'. sop_resume demo_sop_env (demo_sop []) (demo_ctx SUSPENDED 0) demo_sop_world ''REJECTED'' None ''ou_1'' ''now'' =
     (Inr (), ctx', w') \<and> rc_state ctx' = REJECTED \<and> sw_gate w' = Some demo_world"
proof -
  obtain ctx' w' where r: "sop_resume demo_sop_env (demo_sop []) (demo_ctx SUSPENDED 0) demo_sop_world ''REJECTED'' None ''ou_1'' ''now'' =
     (Inr (), ctx', w')" using demo_reject by (metis prod.collapse)
  have "sw_gate demo_sop_world = Some demo_world" by (simp add: demo_sop_world_def)
  with rejection_is_terminal [OF r] r show ?thesis by auto
qed

theorem one_verdict_per_run_witness:
  "let w1 = snd (snd (sop_resume demo_sop_env (demo_sop []) (demo_ctx SUSPENDED 0) demo_sop_world ''REJECTED'' None ''ou_1'' ''now''))
   in \<exists>e ctx2. sop_resume demo_sop_env (demo_sop []) (demo_ctx SUSPENDED 0) w1 ''APPROVED'' None ''ou_2'' ''later'' = (Inl e, ctx2, w1)"
proof -
  obtain ctx1 w1 where r: "sop_resume demo_sop_env (demo_sop []) (demo_ctx SUSPENDED 0) demo_sop_world ''REJECTED'' None ''ou_1'' ''now'' =
     (Inr (), ctx1, w1)" using demo_reject by (metis prod.collapse)
  have "sw_feedback w1 \<noteq> None"
    by (cases rule: resume_cases [OF r]) (auto simp: demo_sop_world_def)
  then obtain db where "sw_feedback w1 = Some db" by blast
  from one_verdict_per_run [OF r this, of w1 "[]" "demo_ctx SUSPENDED 0"] this r show ?thesis by (simp add: Let_def)
qed

text \<open>A run behind an approval that writes what its data holds, with the nonce the data holds.\<close>

definition demo_write_ctx :: sop_run_context where
  "demo_write_ctx = (demo_ctx APPROVED 1)\<lparr>rc_data := [(''d'', PStr ''data''), (''_nonce_d'', PStr ''100:aa:bb'')]\<rparr>"

lemma demo_run_writes:
  "\<exists>gw'. sw_gate (snd (snd (sop_run demo_sop_env (demo_sop [demo_approval, demo_write_step]) demo_write_ctx demo_sop_world))) = Some gw' \<and>
     gw_db gw' = rdf_to_cypher_statements demo_graph"
proof -
  obtain r gw' where g: "execute_governed_write demo_env demo_world ''hr'' ''data'' ''100:aa:bb'' ''turtle'' (clk_all 100) = (Inr r, gw')"
    "gw_db gw' = rdf_to_cypher_statements demo_graph" using demo_write by blast
  have "gate_write demo_sop_env demo_world ''hr'' (PStr ''data'') (PStr ''100:aa:bb'') (se_clock demo_sop_env (Suc 0)) = (Inr r, gw')"
    using g(1) by (simp add: gate_write_def demo_sop_env_def)
  then have "sw_gate (snd (snd (sop_run demo_sop_env (demo_sop [demo_approval, demo_write_step]) demo_write_ctx demo_sop_world))) = Some gw'"
    by (simp add: sop_run_def execute_step_def step_action_def action_governed_write_def demo_write_ctx_def
        demo_ctx_def demo_sop_def demo_approval_def demo_write_step_def new_SOPStep_def demo_sop_world_def opt_text_def nonce_key_def
        py_get_def Let_def)
  then show ?thesis using g(2) by blast
qed

theorem run_refines_gate_witness:
  "\<exists>gw'. sw_gate (snd (snd (sop_run demo_sop_env (demo_sop [demo_approval, demo_write_step]) demo_write_ctx demo_sop_world))) = Some gw' \<and>
     gw_db gw' = rdf_to_cypher_statements demo_graph \<and> gw_db gw' \<noteq> gw_db demo_world \<and>
     workflow_gate demo_sop_env (sop_trace demo_sop_env (demo_sop [demo_approval, demo_write_step]) demo_write_ctx demo_sop_world)
       demo_world gw' \<and>
     runs_before (gate_step demo_env) 101 demo_world gw'"
proof -
  have d: "sw_gate demo_sop_world = Some demo_world" "\<forall>i. gc_cleanup (se_clock demo_sop_env i) < 101" "se_gate_env demo_sop_env = demo_env"
    by (simp_all add: demo_sop_world_def demo_sop_env_def)
  have "rdf_to_cypher_statements demo_graph \<noteq> gw_db demo_world"
    by (simp add: demo_graph_def rdf_to_cypher_statements_def)
  then show ?thesis
    using demo_run_writes conjunct1 [OF run_refines_gate [OF d(1,2), of "demo_sop [demo_approval, demo_write_step]" demo_write_ctx]]
    unfolding d(3) by force
qed

theorem shipped_workflow_needs_nonce_witness:
  "rc_state (fst (snd (sop_run demo_sop_env it_onboarding_sop (demo_ctx APPROVED 3) demo_sop_world))) \<noteq> COMPLETED"
proof -
  obtain r ctx' w' where run: "sop_run demo_sop_env it_onboarding_sop (demo_ctx APPROVED 3) demo_sop_world = (r, ctx', w')"
    by (metis prod.exhaust)
  have "sw_gate demo_sop_world \<noteq> None" "rc_current_step_index (demo_ctx APPROVED 3) \<le> 3"
    "\<not> py_truth (py_get (rc_data (demo_ctx APPROVED 3)) ''_nonce_assignment_ttl'' (PStr []))"
    by (simp_all add: demo_sop_world_def demo_ctx_def py_get_def)
  from shipped_workflow_needs_nonce [OF run this] show ?thesis by (simp add: run)
qed

theorem rerun_repeats_last_step_witness:
  "\<exists>ctx' w'. sop_run demo_sop_env (demo_sop [demo_approval, demo_notice]) (demo_ctx COMPLETED 1) demo_sop_world = (Inr (), ctx', w') \<and>
     sw_notices w' = [''done'']"
proof -
  have "rc_state (demo_ctx COMPLETED 1) = COMPLETED" "sd_steps (demo_sop [demo_approval, demo_notice]) = [demo_approval] @ [demo_notice]"
    "rc_current_step_index (demo_ctx COMPLETED 1) = length [demo_approval]" "st_type demo_notice = NOTIFY"
    "format_map (se_format demo_sop_env) (rc_data (demo_ctx COMPLETED 1)) (text_or (st_notify_message demo_notice) (st_description demo_notice)) = Inr ''done''"
    "sw_notices demo_sop_world = []"
    by (simp_all add: demo_sop_defs text_or_def)
  then show ?thesis
    using rerun_repeats_last_step [of "demo_ctx COMPLETED 1" "demo_sop [demo_approval, demo_notice]" "[demo_approval]" demo_notice
        demo_sop_env "''done''" demo_sop_world] by auto
qed

lemma demo_late_write:
  "\<exists>e. gate_write (demo_sop_env\<lparr>se_clock := (\<lambda>_. clk_all 1000)\<rparr>) demo_world ''hr'' (PStr ''x'') (PStr ''100:aa:bb'') (clk_all 1000) =
     (Inl e, demo_world)"
proof -
  have n: "py_int ''100'' = Some 100" "int_to_float 100 = Inr 100" "fsub 1000 100 = 900"
    using py_int_small [of 100] int_to_float_small [of 100] by (simp_all add: demo_100 fsub_def fl_numeral)
  have "verify_nonce demo_env demo_gate ''hr'' ''x'' ''100:aa:bb'' 1000 1000 = (Inl (nonce_expired 300), demo_gate)"
    by (simp add: verify_nonce_def demo_split n)
  moreover have "demo_world\<lparr>gw_gate := demo_gate\<rparr> = demo_world" by (simp add: demo_world_def)
  ultimately show ?thesis
    by (simp add: gate_write_def execute_governed_write_def demo_quota) (simp add: demo_sop_env_def)
qed

theorem late_approval_fails_witness:
  "\<exists>ctx' w'. sop_resume (demo_sop_env\<lparr>se_clock := (\<lambda>_. clk_all 1000)\<rparr>) (demo_sop [demo_approval, demo_write_step])
      ((demo_ctx SUSPENDED 0)\<lparr>rc_data := [(''d'', PStr ''x''), (''_nonce_d'', PStr ''100:aa:bb'')]\<rparr>)
      demo_sop_world ''APPROVED'' None ''ou_1'' ''now'' = (Inr (), ctx', w') \<and> rc_state ctx' = FAILED"
proof -
  let ?env = "demo_sop_env\<lparr>se_clock := (\<lambda>_. clk_all 1000)\<rparr>" and ?sop = "demo_sop [demo_approval, demo_write_step]"
  let ?ctx = "(demo_ctx SUSPENDED 0)\<lparr>rc_data := [(''d'', PStr ''x''), (''_nonce_d'', PStr ''100:aa:bb'')]\<rparr>"
  obtain e where late: "gate_write ?env demo_world ''hr'' (PStr ''x'') (PStr ''100:aa:bb'') (clk_all 1000) = (Inl e, demo_world)"
    using demo_late_write by blast
  have "fst (sop_resume ?env ?sop ?ctx demo_sop_world ''APPROVED'' None ''ou_1'' ''now'') = Inr ()"
    using demo_insert [of "''APPROVED''"] late
    by (simp add: sop_resume_def original_output_def sop_run_def execute_step_def step_action_def action_governed_write_def
        demo_ctx_def demo_sop_def demo_write_step_def new_SOPStep_def demo_sop_world_def opt_text_def nonce_key_def py_get_def
        sop_error_def Let_def)
  then obtain ctx' w' where r: "sop_resume ?env ?sop ?ctx demo_sop_world ''APPROVED'' None ''ou_1'' ''now'' = (Inr (), ctx', w')"
    by (metis prod.collapse)
  have d: "sw_gate demo_sop_world = Some demo_world" "(1::nat) = rc_current_step_index ?ctx + 1" "1 < length (sd_steps ?sop)"
    "st_type (sd_steps ?sop ! 1) = ACTION" "st_action_type (sd_steps ?sop ! 1) = Some GOVERNED_WRITE"
    "py_get (rc_data ?ctx) (nonce_key (opt_text (st_data_ref (sd_steps ?sop ! 1)))) (PStr []) = PStr ''100:aa:bb''"
    by (simp_all add: demo_sop_world_def demo_ctx_def demo_sop_def demo_write_step_def new_SOPStep_def opt_text_def nonce_key_def py_get_def)
  have n: "py_int ''100'' = Some 100" "int_to_float 100 = Inr 100"
    using py_int_small [of 100] int_to_float_small [of 100] by (simp_all add: demo_100)
  have t: "fsub (gc_ttl (se_clock ?env 1)) 100 > of_int (wg_nonce_ttl (gw_gate demo_world))"
    by (simp add: fsub_def fl_numeral)
  show ?thesis using late_approval_fails [OF r d demo_split n t] r by blast
qed

theorem verdicts_terminate_witness:
  "\<exists>ctx'. verdicts (demo_sop []) [(demo_sop_env, demo_sop_world)] (demo_ctx SUSPENDED 0) ctx' \<and>
    length [(demo_sop_env, demo_sop_world)] \<le> Suc (approvals_after (demo_sop []) 0)"
proof -
  obtain ctx' w' where "sop_resume demo_sop_env (demo_sop []) (demo_ctx SUSPENDED 0) demo_sop_world ''REJECTED'' None ''ou_1'' ''now'' =
     (Inr (), ctx', w')" using demo_reject by (metis prod.collapse)
  then have "judged (demo_sop []) demo_sop_env demo_sop_world (demo_ctx SUSPENDED 0) ctx'" unfolding judged_def by blast
  then have v: "verdicts (demo_sop []) [(demo_sop_env, demo_sop_world)] (demo_ctx SUSPENDED 0) ctx'"
    by (rule verdicts.more) (rule verdicts.none)
  then show ?thesis using verdicts_terminate [OF v] by auto
qed

end
