(* ===== verification/Kernel.thy ===== *)
theory Kernel
  imports Firewall Circuit_Breaker Billing_Fuse Write_Gate
begin

text \<open>
  The kernel, \<^verbatim>\<open>src/agentos/kernel/kernel.py\<close>: it takes a message of a channel through the
  guards, interprets it, charges it, and answers it.

  The state is the object's: the write gate with its database (absent without a gateway), the
  policy, the guards, the number of sessions. The policy may be the same object as the gate's;
  the kernel reads only its configuration and its start time, which no write changes, so that
  the two are kept apart here. Besides, the spans of the firewall and the number of calls of
  the fuse's revocation are recorded. The clock is read in the order of \<open>kernel_clock\<close>.
\<close>

record channel_message =
  cm_text :: string
  cm_sender_id :: string
  cm_sender_name :: string
  cm_channel :: string
  cm_message_id :: string
  cm_metadata :: "(string \<times> pyval) list"

record channel_response =
  cr_text :: string
  cr_channel :: string
  cr_metadata :: "(string \<times> pyval) list"
  cr_error :: "string option"

record 'db kernel =
  k_version :: string
  k_domains :: "domain_config list"
  k_gate :: "'db gate_world option"
  k_policy :: "autonomy_policy option"
  k_firewall :: semantic_firewall
  k_breaker :: circuit_breaker
  k_fuse :: billing_fuse
  k_session_count :: int
  k_spans :: "span list"
  k_revoked :: nat

record ('db, 'tx, 'r) kernel_env =
  ke_gate_env :: "('db, 'tx) gate_env"
  ke_cb_lib :: "'r cb_lib"

record kernel_clock =
  kc_open :: pyfloat
  kc_session :: pyfloat
  kc_gate :: gate_clock
  kc_usage :: pyfloat
  kc_failure :: clock3

text \<open>
  The constructor: guards that are not given are created, and a gate without a policy or a
  tracer gets the kernel's.
\<close>

definition new_Kernel ::
  "string \<Rightarrow> domain_config list \<Rightarrow> 'db gate_world option \<Rightarrow> autonomy_policy option \<Rightarrow> semantic_firewall option \<Rightarrow>
     circuit_breaker option \<Rightarrow> billing_fuse option \<Rightarrow> tracer \<Rightarrow> 'db kernel" where
  "new_Kernel version domains gate policy firewall breaker fuse tracer =
     \<lparr>k_version = version, k_domains = domains,
      k_gate = map_option (\<lambda>gw.
        let gw1 = (if gw_policy gw = None then gw\<lparr>gw_policy := policy\<rparr> else gw)
        in if wg_tracer (gw_gate gw1) = None then gw1\<lparr>gw_gate := (gw_gate gw1)\<lparr>wg_tracer := Some tracer\<rparr>\<rparr> else gw1) gate,
      k_policy = policy,
      k_firewall = (case firewall of Some f \<Rightarrow> f | None \<Rightarrow> new_SemanticFirewall [] None (Some tracer)),
      k_breaker = (case breaker of Some b \<Rightarrow> b | None \<Rightarrow> new_CircuitBreaker default_circuit_breaker_config),
      k_fuse = (case fuse of Some f \<Rightarrow> f | None \<Rightarrow> new_BillingFuse default_billing_fuse_config False),
      k_session_count = 0, k_spans = [], k_revoked = 0\<rparr>"

subsection \<open>The policy\<close>

text \<open>\<open>_looks_like_command\<close>, on text without white space at its ends.\<close>

definition looks_like_command :: "string \<Rightarrow> bool" where
  "looks_like_command txt =
     (case py_words txt of
        [] \<Rightarrow> False
      | first_token # _ \<Rightarrow>
          (let rest = py_strip (drop (length first_token) txt)
           in if first_token = ''execute_governed_write'' then False
              else if prefix ''/'' first_token \<or> prefix ''./'' first_token then True
              else if \<not> (py_len first_token \<ge> 2 \<and> py_islower first_token) then False
              else if rest \<noteq> [] \<and> (py_in ''--'' rest \<or> (prefix ''-'' rest \<and> py_len rest \<ge> 3)) then True
              else if rest \<noteq> [] \<and> list_ex (\<lambda>p. py_in p rest) [''/'', ''|'', ''>'', ''<'', ''&''] then True
              else False))"

definition enforce_policy :: "autonomy_policy \<Rightarrow> string \<Rightarrow> pyfloat \<Rightarrow> exn + unit" where
  "enforce_policy policy raw_text now =
     bindE (check_session_alive policy now) (\<lambda>_.
       let txt = py_strip raw_text
       in if looks_like_command txt then check_command policy txt else Inr ())"

subsection \<open>The answer to a question for the schema\<close>

text \<open>The lists of a schema; a value of another kind is a \<open>TypeError\<close>.\<close>

definition schema_list :: "(string \<times> pyval) list \<Rightarrow> string \<Rightarrow> exn + pyval list" where
  "schema_list d k = (case py_get d k (PList []) of
       PList xs \<Rightarrow> Inr xs
     | v \<Rightarrow> Inl (OtherException ''TypeError'' (py_type_name v @ '' is not a list'')))"

definition class_line :: "pyval \<Rightarrow> exn + string" where
  "class_line v = (case v of
       PDict cls \<Rightarrow>
         (let label = py_get cls ''label'' PNone;
              label = (if py_truth label then label else py_get cls ''iri'' (PStr ''?''));
              comment = py_get cls ''comment'' (PStr [])
          in Inr (''  - '' @ py_str label @ (if py_truth comment then ('' '' @ u8 [0xE2, 0x80, 0x94] @ '' '') @ py_str comment else [])))
     | _ \<Rightarrow> Inl (no_attribute v ''get''))"

definition shape_line :: "pyval \<Rightarrow> exn + string" where
  "shape_line v = (case v of
       PDict shape \<Rightarrow>
         (case py_get shape ''target_class'' (PStr ''?'') of
            PStr t \<Rightarrow> bindE (schema_list shape ''properties'') (\<lambda>props.
              Inr (''  - '' @ last (py_split (CHR ''#'') t) @ '': '' @ py_str_int (int (length props)) @ '' required fields''))
          | t \<Rightarrow> Inl (no_attribute t ''split''))
     | _ \<Rightarrow> Inl (no_attribute v ''get''))"

definition format_schema_response :: "(string \<times> pyval) list \<Rightarrow> exn + string" where
  "format_schema_response schema =
     bindE (schema_list schema ''classes'') (\<lambda>classes.
     bindE (mapE class_line (take 10 classes)) (\<lambda>class_lines.
     bindE (schema_list schema ''shacl_shapes'') (\<lambda>shapes.
     bindE (mapE shape_line (take 5 shapes)) (\<lambda>shape_lines.
       Inr (py_join nl
         ([(u8 [0xF0, 0x9F, 0x93, 0x8B] @ '' Schema for domain: '') @ py_str (py_get schema ''domain'' (PStr ''?''))] @
          (if classes \<noteq> [] then (([CHR 0x0A] @ u8 [0xF0, 0x9F, 0x8F, 0xB7, 0xEF, 0xB8, 0x8F] @ '' Classes:'')) # class_lines else []) @
          (if shapes \<noteq> [] then (([CHR 0x0A] @ u8 [0xE2, 0x9C, 0x85] @ '' SHACL Constraints:'')) # shape_lines else [])))))))"

definition domain_names :: "domain_config list \<Rightarrow> string" where
  "domain_names domains = (if domains = [] then ''none configured'' else py_join '', '' (map dc_name domains))"

subsection \<open>The message\<close>

text \<open>The command line of a write: the domain, the nonce and the data after the first line.\<close>

definition write_command :: "string \<Rightarrow> (string \<times> string \<times> string) option" where
  "write_command raw_text =
     (let lines = py_split1 (CHR 0x0A) raw_text
      in case py_words (hd lines) of
           _ # domain # nonce # _ \<Rightarrow> Some (domain, nonce, if length lines > 1 then lines ! 1 else [])
         | _ \<Rightarrow> None)"

definition process_message ::
  "('db, 'tx, 'r) kernel_env \<Rightarrow> 'db kernel \<Rightarrow> channel_message \<Rightarrow> gate_clock \<Rightarrow> (exn + string) \<times> 'db kernel" where
  "process_message env k message clk =
     (let raw_text = cm_text message;
          text_stripped = py_strip raw_text;
          text_lower = py_lower text_stripped
      in if py_in ''schema'' text_lower \<and> py_in ''it-asset'' text_lower then
           (case k_gate k of
              Some gw \<Rightarrow>
                (case get_domain_schema (ke_gate_env env) (gw_gate gw) ''it-asset-mgmt'' of
                   (r, g) \<Rightarrow> (bindE r format_schema_response, k\<lparr>k_gate := Some (gw\<lparr>gw_gate := g\<rparr>)\<rparr>))
            | None \<Rightarrow> (Inr ((''Governance gateway not configured '' @ u8 [0xE2, 0x80, 0x94] @ '' cannot retrieve schema.'')), k))
         else if py_in ''validate'' text_lower \<or> py_in ''verify'' text_lower then
           (Inr ((''To validate data, use the MCP tool '' @ ''`'' @ ''verify_shacl_compliance'' @ ''`'' @ '' with your RDF data in Turtle format.'')), k)
         else if prefix ''execute_governed_write '' text_stripped then
           (case write_command raw_text of
              Some (domain, nonce, rdf_data) \<Rightarrow>
                (case k_gate k of
                   Some gw \<Rightarrow>
                     (case execute_governed_write (ke_gate_env env) gw domain rdf_data nonce ''turtle'' clk of
                        (r, gw1) \<Rightarrow> (bindE r (\<lambda>result. Inr (''Write successful: '' @ py_str (PDict result))),
                                      k\<lparr>k_gate := Some gw1\<rparr>))
                 | None \<Rightarrow> (Inr ''Governance gateway not configured.'', k))
            | None \<Rightarrow> (Inr ''Invalid execute_governed_write format. Expected: execute_governed_write <domain> <nonce>'', k))
         else if py_in ''write'' text_lower \<or> py_in ''execute'' text_lower then
           (Inr ((''To execute a governed write, first call '' @ ''`'' @ ''verify_shacl_compliance'' @ ''`'' @ '' to get a validation nonce, then call '' @ ''`'' @ ''execute_governed_write'' @ ''`'' @ '' with the nonce.'')), k)
         else
           (Inr ((u8 [0xF0, 0x9F, 0x91, 0x8B] @ '' Hello '') @ cm_sender_name message @ ((''! I'' @ [CHR 0x27] @ ''m ZeroClaw v'')) @ k_version k @ ''. Available domains: '' @
              domain_names (k_domains k) @ ''. Try asking for a schema, validating data, or executing a write.''), k))"

subsection \<open>From a message to its response\<close>

text \<open>The keywords of the messages that are charged, and the flat charge.\<close>

definition is_charged :: "string \<Rightarrow> bool" where
  "is_charged txt = list_ex (\<lambda>keyword. py_in keyword (py_lower txt)) [''validate'', ''verify'', ''write'', ''execute'']"

definition message_usage :: "pyfloat \<Rightarrow> token_usage" where
  "message_usage now =
     \<lparr>tu_prompt_tokens = 800, tu_completion_tokens = 400, tu_model = ''claude-sonnet-4'', tu_timestamp = now\<rparr>"

definition charge :: "'db kernel \<Rightarrow> string \<Rightarrow> pyfloat \<Rightarrow> (exn + unit) \<times> 'db kernel" where
  "charge k txt now =
     (if is_charged txt then
        (case record_usage (k_fuse k) (message_usage now) of
           (r, fuse, revoked) \<Rightarrow>
             (bindE r (\<lambda>_. Inr ()), k\<lparr>k_fuse := fuse, k_revoked := k_revoked k + (if revoked then 1 else 0)\<rparr>))
      else (Inr (), k))"

text \<open>The body of the \<open>try\<close>: the three checks, the message, the charge.\<close>

definition dispatch ::
  "('db, 'tx, 'r) kernel_env \<Rightarrow> 'db kernel \<Rightarrow> channel_message \<Rightarrow> kernel_clock \<Rightarrow> (exn + string) \<times> 'db kernel" where
  "dispatch env k message clk =
     (let txt = py_strip (cm_text message)
      in case scan (k_firewall k) txt ''user_prompt'' of
           (Inl e, spans) \<Rightarrow> (Inl e, k\<lparr>k_spans := k_spans k @ spans\<rparr>)
         | (Inr _, spans) \<Rightarrow>
             (let k1 = k\<lparr>k_spans := k_spans k @ spans\<rparr>
              in case is_open (k_breaker k1) txt (kc_open clk) of
                   (True, cb) \<Rightarrow>
                     (Inl (CircuitBreakerOpenError ''Circuit is open for input pattern due to repeated failures.'' (Some txt)),
                      k1\<lparr>k_breaker := cb\<rparr>)
                 | (False, cb) \<Rightarrow>
                     (let k2 = k1\<lparr>k_breaker := cb\<rparr>
                      in case (case k_policy k2 of None \<Rightarrow> Inr () | Some ap \<Rightarrow> enforce_policy ap (cm_text message) (kc_session clk)) of
                           Inl e \<Rightarrow> (Inl e, k2)
                         | Inr _ \<Rightarrow>
                             (case process_message env k2 message (kc_gate clk) of
                                (Inl e, k3) \<Rightarrow> (Inl e, k3)
                              | (Inr result, k3) \<Rightarrow>
                                  (case charge k3 txt (kc_usage clk) of
                                     (Inl e, k4) \<Rightarrow> (Inl e, k4)
                                   | (Inr _, k4) \<Rightarrow> (Inr result, k4))))))"

text \<open>The handlers, in their order: the prefix of the text and the status of the response.\<close>

definition error_answer :: "exn \<Rightarrow> string \<times> string" where
  "error_answer exc =
     (case exc of
        PolicyViolationError _ \<Rightarrow> ((u8 [0xE2, 0x9B, 0x94] @ '' Operation blocked by autonomy policy: ''), ''blocked'')
      | CircuitBreakerOpenError _ _ \<Rightarrow> ((u8 [0xF0, 0x9F, 0x94, 0x8C] @ '' Circuit breaker active: ''), ''tripped'')
      | SecurityInterceptError _ _ _ \<Rightarrow> ((u8 [0xF0, 0x9F, 0x9B, 0xA1, 0xEF, 0xB8, 0x8F] @ '' Security intercept: ''), ''intercepted'')
      | BillingFuseTrippedError _ _ _ \<Rightarrow> ((u8 [0xF0, 0x9F, 0x92, 0xB8] @ '' Billing limit reached: ''), ''exhausted'')
      | OtherException _ _ \<Rightarrow> ((u8 [0xF0, 0x9F, 0x92, 0xA5] @ '' Unexpected error: ''), ''error'')
      | _ \<Rightarrow> ((u8 [0xE2, 0x9D, 0x8C] @ '' Agent OS error: ''), ''error''))"

definition recorded :: "exn \<Rightarrow> bool" where
  "recorded exc = (snd (error_answer exc) = ''error'')"

definition respond :: "channel_message \<Rightarrow> int \<Rightarrow> string \<Rightarrow> string \<Rightarrow> string option \<Rightarrow> channel_response" where
  "respond message session_id txt status err =
     \<lparr>cr_text = txt, cr_channel = cm_channel message,
      cr_metadata = [(''session_id'', PInt session_id), (''status'', PStr status)], cr_error = err\<rparr>"

definition wake_up ::
  "('db, 'tx, 'r) kernel_env \<Rightarrow> 'db kernel \<Rightarrow> channel_message \<Rightarrow> kernel_clock \<Rightarrow> channel_response \<times> 'db kernel" where
  "wake_up env k message clk =
     (let k1 = k\<lparr>k_session_count := k_session_count k + 1\<rparr>;
          session_id = k_session_count k1;
          txt = py_strip (cm_text message)
      in case dispatch env k1 message clk of
           (Inr result, k2) \<Rightarrow> (respond message session_id result ''ok'' None, k2)
         | (Inl exc, k2) \<Rightarrow>
             (respond message session_id (fst (error_answer exc) @ exn_str exc) (snd (error_answer exc)) (Some (exn_str exc)),
              if recorded exc
              then k2\<lparr>k_breaker := snd (record_failure (ke_cb_lib env) (k_breaker k2) txt [(''input'', Some txt)]
                                         (class_name exc) (kc_failure clk))\<rparr>
              else k2))"

end
