(* ===== verification/Kernel_Correct.thy ===== *)
theory Kernel_Correct
  imports Kernel
begin

text \<open>
  What the kernel does with a message: every message is answered, a refused one has no effect,
  the database changes only by an authorised command, and a message that keeps failing is
  stopped by the circuit breaker.
\<close>

subsection \<open>The stages of a message\<close>

definition policy_verdict :: "'db kernel \<Rightarrow> channel_message \<Rightarrow> kernel_clock \<Rightarrow> exn + unit" where
  "policy_verdict k message clk =
     (case k_policy k of None \<Rightarrow> Inr () | Some ap \<Rightarrow> enforce_policy ap (cm_text message) (kc_session clk))"

lemma dispatch_cases:
  obtains (intercepted) e spans where "scan (k_firewall k) (py_strip (cm_text message)) ''user_prompt'' = (Inl e, spans)"
      "dispatch env k message clk = (Inl e, k\<lparr>k_spans := k_spans k @ spans\<rparr>)"
  | (tripped) r spans m where "scan (k_firewall k) (py_strip (cm_text message)) ''user_prompt'' = (Inr r, spans)"
      "fst (is_open (k_breaker k) (py_strip (cm_text message)) (kc_open clk))"
      "dispatch env k message clk =
         (Inl (CircuitBreakerOpenError m (Some (py_strip (cm_text message)))), k\<lparr>k_spans := k_spans k @ spans\<rparr>)"
  | (denied) r spans e where "scan (k_firewall k) (py_strip (cm_text message)) ''user_prompt'' = (Inr r, spans)"
      "\<not> fst (is_open (k_breaker k) (py_strip (cm_text message)) (kc_open clk))" "policy_verdict k message clk = Inl e"
      "dispatch env k message clk = (Inl e, k\<lparr>k_spans := k_spans k @ spans,
         k_breaker := snd (is_open (k_breaker k) (py_strip (cm_text message)) (kc_open clk))\<rparr>)"
  | (processed) r spans where "scan (k_firewall k) (py_strip (cm_text message)) ''user_prompt'' = (Inr r, spans)"
      "\<not> fst (is_open (k_breaker k) (py_strip (cm_text message)) (kc_open clk))" "policy_verdict k message clk = Inr ()"
      "dispatch env k message clk =
        (case process_message env (k\<lparr>k_spans := k_spans k @ spans,
           k_breaker := snd (is_open (k_breaker k) (py_strip (cm_text message)) (kc_open clk))\<rparr>) message (kc_gate clk) of
           (Inl e, k3) \<Rightarrow> (Inl e, k3)
         | (Inr result, k3) \<Rightarrow>
             (case charge k3 (py_strip (cm_text message)) (kc_usage clk) of
                (Inl e, k4) \<Rightarrow> (Inl e, k4)
              | (Inr _, k4) \<Rightarrow> (Inr result, k4)))"
proof -
  let ?t = "py_strip (cm_text message)"
  obtain x spans where s: "scan (k_firewall k) ?t ''user_prompt'' = (x, spans)" by force
  obtain b cb where o: "is_open (k_breaker k) ?t (kc_open clk) = (b, cb)" by force
  have same: "cb = k_breaker k" if b
    using o that by (simp add: is_open_def Let_def split: if_splits)
  show ?thesis
  proof (cases x)
    case (Inl e)
    then show ?thesis using s by (intro intercepted [of e spans]) (simp_all add: dispatch_def Let_def)
  next
    case (Inr r)
    show ?thesis
    proof (cases b)
      case True
      then show ?thesis using s o Inr same by (intro tripped [of r spans]) (simp_all add: dispatch_def Let_def)
    next
      case False
      show ?thesis
      proof (cases "policy_verdict k message clk")
        case (Inl e)
        then show ?thesis using s o Inr False
          by (intro denied [of r spans e]) (simp_all add: dispatch_def policy_verdict_def Let_def)
      next
        case u: (Inr u)
        then show ?thesis using s o Inr False
          by (intro processed [of r spans]) (simp_all add: dispatch_def policy_verdict_def Let_def)
      qed
    qed
  qed
qed

lemma process_frame:
  assumes "process_message env k message clk = (r, k')"
  shows "k_version k' = k_version k" "k_domains k' = k_domains k" "k_policy k' = k_policy k"
    "k_firewall k' = k_firewall k" "k_breaker k' = k_breaker k" "k_fuse k' = k_fuse k"
    "k_session_count k' = k_session_count k" "k_spans k' = k_spans k" "k_revoked k' = k_revoked k"
  using assms by (auto simp: process_message_def Let_def split: if_splits option.splits prod.splits)

lemma charge_frame:
  assumes "charge k txt now = (r, k')"
  shows "k_version k' = k_version k" "k_domains k' = k_domains k" "k_policy k' = k_policy k"
    "k_firewall k' = k_firewall k" "k_breaker k' = k_breaker k" "k_gate k' = k_gate k"
    "k_session_count k' = k_session_count k" "k_spans k' = k_spans k"
  using assms by (auto simp: charge_def split: if_splits prod.splits)

lemma scan_error: "scan fw txt it = (Inl e, spans) \<Longrightarrow> \<exists>m t s. e = SecurityInterceptError m t s"
  by (auto simp: scan_def Let_def split: if_splits)

lemma scan_passed: "scan fw txt it = (Inr r, spans) \<Longrightarrow> spans = []"
  by (auto simp: scan_def Let_def split: if_splits)

lemma charge_error: "charge k txt now = (Inl e, k') \<Longrightarrow> \<exists>m b s. e = BillingFuseTrippedError m b s"
  by (auto simp: charge_def bindE_def record_usage_def Let_def split: if_splits prod.splits sum.splits)

text \<open>The whole of a message, in the terms of its stages.\<close>

lemma dispatch_frame:
  assumes "dispatch env k message clk = (r, k')"
  shows "k_version k' = k_version k \<and> k_domains k' = k_domains k \<and> k_policy k' = k_policy k \<and>
    k_firewall k' = k_firewall k \<and> k_session_count k' = k_session_count k \<and>
    (k_breaker k' = k_breaker k \<or>
     k_breaker k' = snd (is_open (k_breaker k) (py_strip (cm_text message)) (kc_open clk)))"
proof (cases rule: dispatch_cases [of k message env clk])
  case (processed r' spans)
  obtain x k3 where p: "process_message env (k\<lparr>k_spans := k_spans k @ spans,
           k_breaker := snd (is_open (k_breaker k) (py_strip (cm_text message)) (kc_open clk))\<rparr>) message (kc_gate clk) = (x, k3)" by force
  obtain y k4 where c: "charge k3 (py_strip (cm_text message)) (kc_usage clk) = (y, k4)" by force
  have "k' = k3 \<or> k' = k4" using assms processed(4) p c by (auto split: sum.splits)
  then show ?thesis using process_frame [OF p] charge_frame [OF c] by auto
qed (use assms in auto)

text \<open>The status of a response.\<close>

definition has_status :: "channel_response \<Rightarrow> string \<Rightarrow> bool" where
  "has_status resp s \<longleftrightarrow> map_of (cr_metadata resp) ''status'' = Some (PStr s)"

lemma has_status_respond [simp]: "has_status (respond message i txt s err) s' \<longleftrightarrow> s = s'"
  by (simp add: has_status_def respond_def)

lemma respond_sel [simp]:
  "cr_channel (respond message i txt s err) = cm_channel message" "cr_error (respond message i txt s err) = err"
  "map_of (cr_metadata (respond message i txt s err)) ''session_id'' = Some (PInt i)"
  by (simp_all add: respond_def)

definition statuses :: "string list" where
  "statuses = [''ok'', ''blocked'', ''tripped'', ''intercepted'', ''exhausted'', ''error'']"

lemma error_answer_status: "snd (error_answer e) \<in> set statuses - {''ok''}"
  by (cases e) (simp_all add: error_answer_def statuses_def)

text \<open>
  Every message is answered, on the channel it came from and under a session number of its
  own: exactly one of the six statuses is given, \<open>ok\<close> exactly when there is no error. The
  versions, the domains, the policy and the firewall of the kernel never change.
\<close>

theorem kernel_answers:
  assumes "wake_up env k message clk = (resp, k')"
  shows "cr_channel resp = cm_channel message \<and> k_session_count k' = k_session_count k + 1 \<and>
    map_of (cr_metadata resp) ''session_id'' = Some (PInt (k_session_count k + 1)) \<and>
    (\<exists>!s. s \<in> set statuses \<and> has_status resp s) \<and> (cr_error resp = None \<longleftrightarrow> has_status resp ''ok'') \<and>
    k_version k' = k_version k \<and> k_domains k' = k_domains k \<and> k_policy k' = k_policy k \<and> k_firewall k' = k_firewall k"
proof -
  obtain r k2 where d: "dispatch env (k\<lparr>k_session_count := k_session_count k + 1\<rparr>) message clk = (r, k2)" by force
  obtain body s err where resp: "resp = respond message (k_session_count k + 1) body s err"
    and s: "s \<in> set statuses" "err = None \<longleftrightarrow> s = ''ok''"
  proof (cases r)
    case (Inl e)
    then show ?thesis using assms d error_answer_status [of e] that by (auto simp: wake_up_def Let_def)
  next
    case (Inr result)
    then have "resp = respond message (k_session_count k + 1) result ''ok'' None" using assms d by (simp add: wake_up_def Let_def)
    then show ?thesis using that by (simp add: statuses_def)
  qed
  have "k' = k2 \<or> (\<exists>b. k' = k2\<lparr>k_breaker := b\<rparr>)"
    using assms d by (auto simp: wake_up_def Let_def split: sum.splits if_splits)
  then have "k_session_count k' = k_session_count k + 1 \<and>
    k_version k' = k_version k \<and> k_domains k' = k_domains k \<and> k_policy k' = k_policy k \<and> k_firewall k' = k_firewall k"
    using dispatch_frame [OF d] by auto
  moreover have "\<exists>!x. x \<in> set statuses \<and> has_status resp x" using s(1) by (simp add: resp) blast
  ultimately show ?thesis using s(2) by (simp add: resp)
qed

text \<open>What is left of a message the firewall refuses.\<close>

lemma wake_up_intercepted:
  assumes "scan (k_firewall k) (py_strip (cm_text message)) ''user_prompt'' = (Inl (SecurityInterceptError m t s), spans)"
  shows "\<exists>txt. wake_up env k message clk =
    (respond message (k_session_count k + 1) txt ''intercepted'' (Some m),
     k\<lparr>k_session_count := k_session_count k + 1, k_spans := k_spans k @ spans\<rparr>)"
  by (rule exI [of _ "fst (error_answer (SecurityInterceptError m t s)) @ m"])
     (simp add: assms wake_up_def dispatch_def Let_def error_answer_def recorded_def)

text \<open>
  C11. A message that carries an instruction-override phrase or an assignment of a credential is
  stopped before anything else happens: with the default firewall it is answered
  \<open>intercepted\<close>, and only the session counter and the security spans change, whatever the
  state of the circuits, the policy, the gate and the budget.
\<close>

theorem injection_has_no_effect:
  assumes "k_firewall k = new_SemanticFirewall extra None tracer" and "txt = py_strip (cm_text message)"
    and "(\<exists>ph\<in>set injection_phrases. py_in ph (py_lower txt)) \<or>
    (\<exists>w s1 c s2 d. py_in (w @ s1 @ [c] @ s2 @ [d]) txt \<and>
       py_lower w \<in> {''password'', ''secret'', ''token'', ''credential''} \<and>
       list_all is_space s1 \<and> c \<in> {CHR ''='', CHR '':''} \<and> list_all is_space s2 \<and> \<not> is_space d)"
  shows "\<exists>resp spans. wake_up env k message clk =
      (resp, k\<lparr>k_session_count := k_session_count k + 1, k_spans := k_spans k @ spans\<rparr>) \<and>
    has_status resp ''intercepted''"
proof -
  obtain m t spans where "scan (k_firewall k) txt ''user_prompt'' = (Inl (SecurityInterceptError m (Some t) ''critical''), spans)"
    using default_scan_refuses [OF assms(3), of extra tracer "''user_prompt''"] assms(1) by (metis prod.collapse)
  then show ?thesis using wake_up_intercepted assms(2) by (metis has_status_respond)
qed

subsection \<open>The database\<close>

text \<open>The messages that reach the gate as a write.\<close>

definition write_routed :: "string \<Rightarrow> string \<times> string \<times> string \<Rightarrow> bool" where
  "write_routed raw_text cmd \<longleftrightarrow>
     (let lower = py_lower (py_strip raw_text)
      in \<not> (py_in ''schema'' lower \<and> py_in ''it-asset'' lower) \<and> \<not> py_in ''validate'' lower \<and> \<not> py_in ''verify'' lower) \<and>
     prefix ''execute_governed_write '' (py_strip raw_text) \<and> write_command raw_text = Some cmd"

text \<open>What one message does to the gate.\<close>

lemma process_gate:
  assumes "process_message env k message clk = (r, k')" and "k_gate k = Some gw"
  obtains gw' where "k_gate k' = Some gw'"
    "gw' = gw \<or> gate_step (ke_gate_env env) (gc_cleanup clk) gw gw'"
    "gw_db gw' \<noteq> gw_db gw \<longrightarrow> (\<exists>dm nonce data. write_routed (cm_text message) (dm, nonce, data) \<and>
       write_authorised (ke_gate_env env) gw (dm, data, nonce, ''turtle'', clk) \<and>
       writes_data (ke_gate_env env) data ''turtle'' (gw_db gw) (gw_db gw'))"
proof -
  consider (asked) "k_gate k' = Some (gw\<lparr>gw_gate := snd (get_domain_schema (ke_gate_env env) (gw_gate gw) ''it-asset-mgmt'')\<rparr>)"
    | (wrote) dm nonce data where "write_routed (cm_text message) (dm, nonce, data)"
      "k_gate k' = Some (snd (execute_governed_write (ke_gate_env env) gw dm data nonce ''turtle'' clk))"
    | (left) "k_gate k' = Some gw"
    using assms by (auto simp: process_message_def write_routed_def Let_def split: if_splits option.splits prod.splits)
  then show ?thesis
  proof cases
    case asked
    then show ?thesis using gate_step.schema by (intro that) auto
  next
    case (wrote dm nonce data)
    moreover have "write_authorised (ke_gate_env env) gw (dm, data, nonce, ''turtle'', clk) \<and> writes_data (ke_gate_env env) data ''turtle''
        (gw_db gw) (gw_db (snd (execute_governed_write (ke_gate_env env) gw dm data nonce ''turtle'' clk)))"
      if "gw_db (snd (execute_governed_write (ke_gate_env env) gw dm data nonce ''turtle'' clk)) \<noteq> gw_db gw"
      using that gate.changed_authorised [of "ke_gate_env env" gw "(dm, data, nonce, ''turtle'', clk)"] governed_write_data [OF that]
      by (simp add: governed_write_def)
    ultimately show ?thesis using gate_step.execute by (intro that) blast+
  next
    case left
    then show ?thesis by (intro that) auto
  qed
qed

lemma wake_up_gate: "k_gate (snd (wake_up env k message clk)) =
    k_gate (snd (dispatch env (k\<lparr>k_session_count := k_session_count k + 1\<rparr>) message clk))"
  by (simp add: wake_up_def Let_def split: prod.split sum.split)

lemma policy_verdict_sessions [simp]: "policy_verdict (k\<lparr>k_session_count := n\<rparr>) message clk = policy_verdict k message clk"
  by (simp add: policy_verdict_def)

text \<open>
  A message that writes passed the guards and was routed as a write command, which the gate
  authorised as it was, and whose data are what the database takes on.
\<close>

definition message_writes ::
  "('db, 'tx, 'r) kernel_env \<Rightarrow> 'db kernel \<Rightarrow> channel_message \<Rightarrow> kernel_clock \<Rightarrow> 'db gate_world \<Rightarrow> 'db gate_world \<Rightarrow> bool" where
  "message_writes env k message clk gw gw' \<longleftrightarrow>
     is_ok (fst (scan (k_firewall k) (py_strip (cm_text message)) ''user_prompt'')) \<and>
     \<not> fst (is_open (k_breaker k) (py_strip (cm_text message)) (kc_open clk)) \<and>
     policy_verdict k message clk = Inr () \<and>
     (\<exists>dm nonce data. write_routed (cm_text message) (dm, nonce, data) \<and>
        write_authorised (ke_gate_env env) gw (dm, data, nonce, ''turtle'', kc_gate clk) \<and>
        writes_data (ke_gate_env env) data ''turtle'' (gw_db gw) (gw_db gw'))"

text \<open>What one message does to the gate.\<close>

lemma wake_up_writes:
  assumes "wake_up env k message clk = (resp, k')" and "k_gate k = Some gw"
  shows "\<exists>gw'. k_gate k' = Some gw' \<and>
    (gw' = gw \<or> gate_step (ke_gate_env env) (gc_cleanup (kc_gate clk)) gw gw') \<and>
    (gw_db gw' \<noteq> gw_db gw \<longrightarrow> message_writes env k message clk gw gw')"
proof -
  let ?k = "k\<lparr>k_session_count := k_session_count k + 1\<rparr>"
  obtain r k2 where d: "dispatch env ?k message clk = (r, k2)" by force
  have gate: "k_gate k' = k_gate k2" using wake_up_gate [of env k message clk] assms(1) d by simp
  show ?thesis
  proof (cases rule: dispatch_cases [of ?k message env clk])
    case (processed r' spans)
    define kp where "kp = ?k\<lparr>k_spans := k_spans ?k @ spans,
           k_breaker := snd (is_open (k_breaker ?k) (py_strip (cm_text message)) (kc_open clk))\<rparr>"
    obtain x k3 where p: "process_message env kp message (kc_gate clk) = (x, k3)" by force
    obtain y k4 where c: "charge k3 (py_strip (cm_text message)) (kc_usage clk) = (y, k4)" by force
    have "k2 = k3 \<or> k2 = k4" using d processed(4) [folded kp_def] p c by (auto split: sum.splits)
    then have gate3: "k_gate k' = k_gate k3" using charge_frame(6) [OF c] gate by auto
    have "k_gate kp = Some gw" by (simp add: kp_def assms(2))
    from process_gate [OF p this] obtain gw' where
      "k_gate k3 = Some gw'"
      "gw' = gw \<or> gate_step (ke_gate_env env) (gc_cleanup (kc_gate clk)) gw gw'"
      "gw_db gw' \<noteq> gw_db gw \<longrightarrow> (\<exists>dm nonce data. write_routed (cm_text message) (dm, nonce, data) \<and>
         write_authorised (ke_gate_env env) gw (dm, data, nonce, ''turtle'', kc_gate clk) \<and>
         writes_data (ke_gate_env env) data ''turtle'' (gw_db gw) (gw_db gw'))" by blast
    then show ?thesis using gate3 processed(1-3) by (intro exI [of _ gw']) (auto simp: is_ok_def message_writes_def)
  qed (use d gate assms(2) in auto)
qed

text \<open>
  C9. Through the kernel, the graph database changes only by an authorised command: a message acts
  on the gate by at most one of the gate's own steps, and if the database is different
  afterwards, then the message passed the firewall, its circuit was not open, the policy
  allowed it, it was routed as a write command, and the gate authorised exactly its domain, data and
  nonce.
\<close>

theorem kernel_writes_only_authorised:
  assumes "wake_up env k message clk = (resp, k')" and "k_gate k = Some gw"
  shows "\<exists>gw'. k_gate k' = Some gw' \<and>
    (gw' = gw \<or> gate_step (ke_gate_env env) (gc_cleanup (kc_gate clk)) gw gw') \<and>
    (gw_db gw' \<noteq> gw_db gw \<longrightarrow>
       is_ok (fst (scan (k_firewall k) (py_strip (cm_text message)) ''user_prompt'')) \<and>
       \<not> fst (is_open (k_breaker k) (py_strip (cm_text message)) (kc_open clk)) \<and>
       policy_verdict k message clk = Inr () \<and>
       (\<exists>dm nonce data. write_routed (cm_text message) (dm, nonce, data) \<and>
          write_authorised (ke_gate_env env) gw (dm, data, nonce, ''turtle'', kc_gate clk)))"
  using wake_up_writes [OF assms] unfolding message_writes_def by blast

subsection \<open>A message that keeps failing\<close>

text \<open>The kernel on a sequence of messages, with the responses.\<close>

fun wake_ups ::
  "('db, 'tx, 'r) kernel_env \<Rightarrow> 'db kernel \<Rightarrow> (channel_message \<times> kernel_clock) list \<Rightarrow> channel_response list \<times> 'db kernel" where
  "wake_ups env k [] = ([], k)"
| "wake_ups env k ((message, clk) # rest) =
     (case wake_up env k message clk of
        (resp, k1) \<Rightarrow> (case wake_ups env k1 rest of (resps, k2) \<Rightarrow> (resp # resps, k2)))"

definition text_params :: "string \<Rightarrow> cb_params" where
  "text_params t = [(''input'', Some t)]"

text \<open>A response with the status \<open>error\<close> leaves a failure behind.\<close>

lemma error_is_recorded:
  assumes "wake_up env k message clk = (resp, k')" and "has_status resp ''error''" and "t = py_strip (cm_text message)"
  obtains err where "\<not> fst (is_open (k_breaker k) t (kc_open clk))"
    "k_breaker k' = snd (record_failure (ke_cb_lib env) (snd (is_open (k_breaker k) t (kc_open clk))) t (text_params t) err (kc_failure clk))"
    "is_ok (fst (scan (k_firewall k) t ''user_prompt''))"
proof -
  let ?k = "k\<lparr>k_session_count := k_session_count k + 1\<rparr>"
  obtain r k2 where d: "dispatch env ?k message clk = (r, k2)" by force
  have "\<exists>e. r = Inl e \<and> recorded e \<and> k_breaker k' = snd (record_failure (ke_cb_lib env) (k_breaker k2) t (text_params t) (class_name e) (kc_failure clk))"
    using assms d by (auto simp: wake_up_def Let_def text_params_def recorded_def split: sum.splits)
  then obtain e where e: "r = Inl e" "recorded e"
    "k_breaker k' = snd (record_failure (ke_cb_lib env) (k_breaker k2) t (text_params t) (class_name e) (kc_failure clk))" by blast
  show ?thesis
  proof (cases rule: dispatch_cases [of ?k message env clk])
    case (intercepted e' spans)
    then have "e' = e" using d e(1) by simp
    then have False using scan_error [OF intercepted(1)] e(2) by (auto simp: recorded_def error_answer_def)
    then show ?thesis ..
  next
    case (tripped r' spans m)
    then have False using d e(1,2) by (auto simp: recorded_def error_answer_def)
    then show ?thesis ..
  next
    case (denied r' spans e')
    then show ?thesis using d e that assms(3) by (auto simp: is_ok_def)
  next
    case (processed r' spans)
    then obtain b where "k_breaker k2 = b" "b = k_breaker (?k\<lparr>k_breaker := snd (is_open (k_breaker k) t (kc_open clk))\<rparr>)"
      using d process_frame(5) charge_frame(5) assms(3) by (fastforce split: prod.splits sum.splits)
    then show ?thesis using processed e that assms(3) by (auto simp: is_ok_def)
  qed
qed

lemma wake_up_tripped:
  assumes "fst (is_open (k_breaker k) (py_strip (cm_text message)) (kc_open clk))"
    and "is_ok (fst (scan (k_firewall k) (py_strip (cm_text message)) ''user_prompt''))"
  shows "has_status (fst (wake_up env k message clk)) ''tripped'' \<and>
    snd (wake_up env k message clk) = k\<lparr>k_session_count := k_session_count k + 1\<rparr>"
proof (cases rule: dispatch_cases [of "k\<lparr>k_session_count := k_session_count k + 1\<rparr>" message env clk])
  case (tripped r spans m)
  moreover have "spans = []" using scan_passed tripped(1) by blast
  ultimately show ?thesis by (simp add: wake_up_def Let_def error_answer_def recorded_def)
qed (use assms in \<open>auto simp: is_ok_def\<close>)

lemma wake_up_firewall: "k_firewall (snd (wake_up env k message clk)) = k_firewall k"
proof -
  obtain r k2 where d: "dispatch env (k\<lparr>k_session_count := k_session_count k + 1\<rparr>) message clk = (r, k2)" by force
  then show ?thesis using dispatch_frame [OF d] by (auto simp: wake_up_def Let_def split: sum.split)
qed

lemma wake_ups_firewall: "wake_ups env k calls = (resps, k') \<Longrightarrow> k_firewall k' = k_firewall k"
proof (induction calls arbitrary: k resps)
  case (Cons call calls)
  obtain m clk where call: "call = (m, clk)" by force
  obtain r1 k1 where one: "wake_up env k m clk = (r1, k1)" by force
  obtain rs k2 where rest: "wake_ups env k1 calls = (rs, k2)" by force
  have "wake_ups env k1 calls = (rs, k')" using Cons.prems call one rest by simp
  from Cons.IH [OF this] show ?case using one wake_up_firewall [of env k m clk] by simp
qed simp

lemma wake_ups_passed:
  assumes "wake_ups env k calls = (resps, k')" and "\<forall>r\<in>set resps. has_status r ''error''" and "call \<in> set calls"
  shows "is_ok (fst (scan (k_firewall k) (py_strip (cm_text (fst call))) ''user_prompt''))"
  using assms
proof (induction calls arbitrary: k resps)
  case (Cons c calls)
  obtain m clk where c: "c = (m, clk)" by force
  obtain r1 k1 where one: "wake_up env k m clk = (r1, k1)" by force
  obtain rs k2 where rest: "wake_ups env k1 calls = (rs, k2)" by force
  have resps: "resps = r1 # rs" "k2 = k'" using Cons.prems(1) c one rest by simp_all
  show ?case
  proof (cases "call = c")
    case True
    then show ?thesis using error_is_recorded [OF one _ HOL.refl] Cons.prems(2) resps(1) c by (metis fst_conv list.set_intros(1))
  next
    case False
    then have "is_ok (fst (scan (k_firewall k1) (py_strip (cm_text (fst call))) ''user_prompt''))"
      using Cons.IH [of k1 rs] Cons.prems(2,3) rest resps by simp
    then show ?thesis using wake_up_firewall [of env k m clk] one by simp
  qed
qed simp

lemma fail_run_Cons: "fail_run lib tool params ((err, clk) # calls) (b, cb) =
    fail_run lib tool params calls (record_failure lib cb tool params err clk)"
  by (simp add: fail_run_def)

lemma fail_run_config [simp]: "cb_config (snd (fail_run lib tool params calls (b, cb))) = cb_config cb"
proof (induction calls arbitrary: b cb rule: rev_induct)
  case (snoc call calls)
  then show ?case by (simp add: fail_run_def split: prod.split) (metis snd_conv record_failure_config)
qed (simp add: fail_run_def)

lemma fail_run_snoc: "fail_run lib tool params (calls @ [(err, clk)]) (b, cb) =
    record_failure lib (snd (fail_run lib tool params calls (b, cb))) tool params err clk"
  by (simp add: fail_run_def split: prod.split)

text \<open>
  The messages of one text, close enough to each other for the window \<open>cfg\<close> and recorded after
  the cut-off \<open>c\<close>.
\<close>

definition same_message :: "circuit_breaker_config \<Rightarrow> pyfloat \<Rightarrow> string \<Rightarrow> (channel_message \<times> kernel_clock) list \<Rightarrow> bool" where
  "same_message cfg c t calls \<longleftrightarrow>
     (\<forall>(m, clk)\<in>set calls. py_strip (cm_text m) = t \<and> cb_cutoff cfg (clk_cleanup (kc_failure clk)) \<le> c \<and>
        c < clk_record (kc_failure clk) \<and>
        (\<forall>(m', clk')\<in>set calls. fsub (kc_open clk') (clk_record (kc_failure clk)) \<le> of_int (window_seconds cfg)))"

lemma same_message_at:
  "same_message cfg c t calls \<Longrightarrow> (m, clk) \<in> set calls \<Longrightarrow>
   py_strip (cm_text m) = t \<and> cb_cutoff cfg (clk_cleanup (kc_failure clk)) \<le> c \<and> c < clk_record (kc_failure clk)"
  by (auto simp: same_message_def)

lemma same_message_pair:
  "same_message cfg c t calls \<Longrightarrow> (m, clk) \<in> set calls \<Longrightarrow> (m', clk') \<in> set calls \<Longrightarrow>
   fsub (kc_open clk') (clk_record (kc_failure clk)) \<le> of_int (window_seconds cfg)"
  by (auto simp: same_message_def)

lemma same_message_Cons: "same_message cfg c t (x # calls) \<Longrightarrow> same_message cfg c t calls"
  by (fastforce simp: same_message_def)

lemma wake_ups_failures:
  assumes "wake_ups env k calls = (resps, k')" and "\<forall>r\<in>set resps. has_status r ''error''"
    and "same_message (cb_config (k_breaker k)) c t calls"
    and "map_of (cb_open_circuits (k_breaker k)) t = None"
  shows "\<exists>errs. length errs = length calls \<and> k_breaker k' =
    snd (fail_run (ke_cb_lib env) t (text_params t) (zip errs (map (kc_failure \<circ> snd) calls)) (b, k_breaker k))"
  using assms
proof (induction calls arbitrary: k resps b)
  case Nil
  then show ?case by (simp add: fail_run_def)
next
  case (Cons call calls)
  obtain m clk where call: "call = (m, clk)" by force
  obtain r1 k1 where one: "wake_up env k m clk = (r1, k1)" by force
  obtain rs k2 where rest: "wake_ups env k1 calls = (rs, k2)" by force
  have resps: "resps = r1 # rs" "k2 = k'" using Cons.prems(1) call one rest by simp_all
  have clk: "py_strip (cm_text m) = t" "cb_cutoff (cb_config (k_breaker k)) (clk_cleanup (kc_failure clk)) < clk_record (kc_failure clk)"
    using same_message_at [OF Cons.prems(3), of m clk] call by auto
  have closed: "is_open (k_breaker k) t (kc_open clk) = (False, k_breaker k)" using Cons.prems(4) by (simp add: is_open_def)
  obtain err where err: "k_breaker k1 = snd (record_failure (ke_cb_lib env) (k_breaker k) t (text_params t) err (kc_failure clk))"
    using error_is_recorded [OF one] Cons.prems(2) resps(1) clk(1) closed by (metis list.set_intros(1) snd_conv)
  have cfg: "cb_config (k_breaker k1) = cb_config (k_breaker k)" using err by simp
  have "map_of (cb_open_circuits (k_breaker k1)) t = None" if ne: "calls \<noteq> []"
  proof -
    obtain m2 clk2 calls2 where calls: "calls = (m2, clk2) # calls2" using ne by (metis list.exhaust prod.exhaust)
    obtain r2 k3 where two: "wake_up env k1 m2 clk2 = (r2, k3)" by force
    have "has_status r2 ''error''" using Cons.prems(2) resps(1) rest two calls by (auto split: prod.splits)
    moreover have "py_strip (cm_text m2) = t" using same_message_at [OF Cons.prems(3), of m2 clk2] calls by simp
    ultimately have "\<not> fst (is_open (k_breaker k1) t (kc_open clk2))" using error_is_recorded [OF two] by metis
    moreover have "fsub (kc_open clk2) (clk_record (kc_failure clk)) \<le> of_int (window_seconds (cb_config (k_breaker k)))"
      using same_message_pair [OF Cons.prems(3), of m clk m2 clk2] call calls by simp
    ultimately have "\<not> fst (record_failure (ke_cb_lib env) (k_breaker k) t (text_params t) err (kc_failure clk))"
      using open_after_failure clk(2) err by metis
    then show ?thesis using err Cons.prems(4) by (simp add: record_failure_open)
  qed
  moreover have "same_message (cb_config (k_breaker k1)) c t calls"
    using same_message_Cons Cons.prems(3) cfg by metis
  ultimately have "\<exists>errs. length errs = length calls \<and> k_breaker k' =
    snd (fail_run (ke_cb_lib env) t (text_params t) (zip errs (map (kc_failure \<circ> snd) calls)) (b', k_breaker k1))" for b'
    using Cons.IH [of k1 rs b'] Cons.prems(2) rest resps by (cases "calls = []") (auto simp del: o_apply simp: fail_run_def [of _ _ _ "[]"])
  then obtain errs where "length errs = length calls" "k_breaker k' =
    snd (fail_run (ke_cb_lib env) t (text_params t) (zip errs (map (kc_failure \<circ> snd) calls))
      (record_failure (ke_cb_lib env) (k_breaker k) t (text_params t) err (kc_failure clk)))"
    using err by (metis prod.collapse)
  then show ?case by (intro exI [of _ "err # errs"]) (simp add: call fail_run_Cons o_def)
qed

text \<open>
  C10. A message that keeps failing is stopped: if \<open>failure_threshold\<close> messages with the same text,
  within a window of each other, are all answered \<open>error\<close>, and its circuit was closed before
  them, then the next one with that text is answered \<open>tripped\<close>, without any effect but on the
  session counter, whatever SHA-256 and numpy compute.
\<close>

theorem repeated_message_trips:
  assumes "wake_ups env k calls = (resps, k')" and "\<forall>r\<in>set resps. has_status r ''error''"
    and "same_message (cb_config (k_breaker k)) c t (calls @ [(message, clk)])"
    and "map_of (cb_open_circuits (k_breaker k)) t = None"
    and "calls \<noteq> []" and "failure_threshold (cb_config (k_breaker k)) \<le> int (length calls)"
  shows "\<exists>resp. wake_up env k' message clk = (resp, k'\<lparr>k_session_count := k_session_count k' + 1\<rparr>) \<and>
    has_status resp ''tripped''"
proof -
  let ?cfg = "cb_config (k_breaker k)"
  obtain pre m2 clk2 where calls: "calls = pre @ [(m2, clk2)]" using assms(5) by (metis rev_exhaust prod.exhaust)
  have sm: "same_message ?cfg c t calls" using assms(3) by (fastforce simp: same_message_def)
  have same: "py_strip (cm_text message) = t" "py_strip (cm_text m2) = t"
    and clk2: "cb_cutoff ?cfg (clk_cleanup (kc_failure clk2)) < clk_record (kc_failure clk2)"
    using same_message_at [OF assms(3), of message clk] same_message_at [OF assms(3), of m2 clk2] calls by auto
  have win: "fsub (kc_open clk) (clk_record (kc_failure clk2)) \<le> of_int (window_seconds ?cfg)"
    using same_message_pair [OF assms(3), of m2 clk2 message clk] calls by simp
  obtain errs where errs: "length errs = length calls" "k_breaker k' =
    snd (fail_run (ke_cb_lib env) t (text_params t) (zip errs (map (kc_failure \<circ> snd) calls)) (False, k_breaker k))"
    using wake_ups_failures [OF assms(1,2) sm assms(4)] by blast
  let ?run = "zip errs (map (kc_failure \<circ> snd) calls)"
  have "\<forall>(err, ck)\<in>set ?run. cb_cutoff ?cfg (clk_cleanup ck) \<le> c \<and> c < clk_record ck"
    using sm by (fastforce simp: same_message_def dest: set_zip_rightD)
  moreover obtain opened cb' where run: "fail_run (ke_cb_lib env) t (text_params t) ?run (False, k_breaker k) = (opened, cb')" by force
  moreover have "?run \<noteq> []" "failure_threshold ?cfg \<le> int (length ?run)" using assms(5,6) errs(1) by (auto simp: zip_eq_Nil_iff)
  ultimately have opened: "opened" using fail_run_opens by blast
  obtain es err where es: "errs = es @ [err]" "length es = length pre"
    using errs(1) calls by (cases errs rule: rev_cases) auto
  define cb1 where "cb1 = snd (fail_run (ke_cb_lib env) t (text_params t) (zip es (map (kc_failure \<circ> snd) pre)) (False, k_breaker k))"
  have last: "fail_run (ke_cb_lib env) t (text_params t) ?run (False, k_breaker k) =
     record_failure (ke_cb_lib env) cb1 t (text_params t) err (kc_failure clk2)"
    using es(2) by (simp add: calls es(1) fail_run_snoc cb1_def)
  have cfg: "cb_config cb1 = ?cfg" by (simp add: cb1_def)
  have "fst (record_failure (ke_cb_lib env) cb1 t (text_params t) err (kc_failure clk2))" using last run opened by (metis fst_conv)
  then have "fst (is_open (k_breaker k') t (kc_open clk))"
    using open_after_failure [of "ke_cb_lib env" cb1 t "text_params t" err "kc_failure clk2" "kc_open clk"]
      last errs(2) cfg win clk2 by simp
  moreover have "is_ok (fst (scan (k_firewall k') t ''user_prompt''))"
    using wake_ups_passed [OF assms(1,2), of "(m2, clk2)"] same(2) wake_ups_firewall [OF assms(1)] calls by simp
  ultimately show ?thesis
    using wake_up_tripped [of k' message clk env] same(1) by (metis prod.collapse)
qed

end
