(* ===== verification/Kernel_Limits.thy ===== *)
theory Kernel_Limits
  imports Kernel_Correct
begin

text \<open>
  What becomes of a write command, how far the default budget reaches, and two places where
  the kernel falls short: the budget is consulted only after the write, and a question for the
  schema is recognised inside the data of a write.
\<close>

subsection \<open>A write command\<close>

lemma process_write:
  assumes "write_routed (cm_text message) (dm, nonce, data)" and "k_gate k = Some gw"
    and "execute_governed_write (ke_gate_env env) gw dm data nonce ''turtle'' clk = (r, gw')"
  shows "process_message env k message clk =
    (bindE r (\<lambda>result. Inr (''Write successful: '' @ py_str (PDict result))), k\<lparr>k_gate := Some gw'\<rparr>)"
  using assms by (auto simp: process_message_def write_routed_def Let_def)

lemma routed_is_charged: "write_routed raw_text cmd \<Longrightarrow> is_charged (py_strip raw_text)"
proof -
  assume "write_routed raw_text cmd"
  then obtain r where "py_strip raw_text = ''execute'' @ ''_governed_write '' @ r"
    by (auto simp: write_routed_def prefix_def)
  then have "py_lower (py_strip raw_text) = py_lower ''execute'' @ py_lower (''_governed_write '' @ r)"
    by (simp only: py_lower_append)
  moreover have "py_lower ''execute'' = ''execute''" by code_simp
  ultimately have "py_in ''execute'' (py_lower (py_strip raw_text))" using py_in_append [of _ "[]"] by simp
  then show ?thesis by (simp add: is_charged_def)
qed

text \<open>A message that passes the guards.\<close>

definition passes_guards :: "'db kernel \<Rightarrow> channel_message \<Rightarrow> kernel_clock \<Rightarrow> bool" where
  "passes_guards k message clk \<longleftrightarrow>
     is_ok (fst (scan (k_firewall k) (py_strip (cm_text message)) ''user_prompt'')) \<and>
     \<not> fst (is_open (k_breaker k) (py_strip (cm_text message)) (kc_open clk)) \<and>
     policy_verdict k message clk = Inr ()"

lemma dispatch_passed:
  assumes "passes_guards k message clk"
  shows "\<exists>cb. dispatch env k message clk =
        (case process_message env (k\<lparr>k_breaker := cb\<rparr>) message (kc_gate clk) of
           (Inl e, k3) \<Rightarrow> (Inl e, k3)
         | (Inr result, k3) \<Rightarrow>
             (case charge k3 (py_strip (cm_text message)) (kc_usage clk) of
                (Inl e, k4) \<Rightarrow> (Inl e, k4)
              | (Inr _, k4) \<Rightarrow> (Inr result, k4)))"
proof (cases rule: dispatch_cases [of k message env clk])
  case (processed r spans)
  then show ?thesis using scan_passed [OF processed(1)] by auto
qed (use assms in \<open>auto simp: passes_guards_def is_ok_def\<close>)

lemma wake_up_write:
  assumes "write_routed (cm_text message) (dm, nonce, data)" and "k_gate k = Some gw" and "passes_guards k message clk"
    and "execute_governed_write (ke_gate_env env) gw dm data nonce ''turtle'' (kc_gate clk) = (r, gw')"
  shows "\<exists>resp k'. wake_up env k message clk = (resp, k') \<and> k_gate k' = Some gw' \<and>
    (case r of
       Inl e \<Rightarrow> has_status resp (snd (error_answer e)) \<and> cr_error resp = Some (exn_str e) \<and> k_fuse k' = k_fuse k
     | Inr result \<Rightarrow>
         k_fuse k' = fst (snd (record_usage (k_fuse k) (message_usage (kc_usage clk)))) \<and>
         has_status resp (if is_ok (fst (record_usage (k_fuse k) (message_usage (kc_usage clk)))) then ''ok'' else ''exhausted''))"
proof -
  let ?k = "k\<lparr>k_session_count := k_session_count k + 1\<rparr>"
  have "passes_guards ?k message clk" using assms(3) by (simp add: passes_guards_def)
  from dispatch_passed [OF this, of env] obtain cb where d: "dispatch env ?k message clk =
        (case process_message env (?k\<lparr>k_breaker := cb\<rparr>) message (kc_gate clk) of
           (Inl e, k3) \<Rightarrow> (Inl e, k3)
         | (Inr result, k3) \<Rightarrow>
             (case charge k3 (py_strip (cm_text message)) (kc_usage clk) of
                (Inl e, k4) \<Rightarrow> (Inl e, k4)
              | (Inr _, k4) \<Rightarrow> (Inr result, k4)))" by blast
  have p: "process_message env (?k\<lparr>k_breaker := cb\<rparr>) message (kc_gate clk) =
    (bindE r (\<lambda>result. Inr (''Write successful: '' @ py_str (PDict result))), ?k\<lparr>k_breaker := cb, k_gate := Some gw'\<rparr>)"
    using process_write [OF assms(1), of "?k\<lparr>k_breaker := cb\<rparr>" gw env] assms(2,4) by simp
  obtain u fuse b where u: "record_usage (k_fuse k) (message_usage (kc_usage clk)) = (u, fuse, b)" by (metis prod.exhaust)
  show ?thesis
  proof (cases r)
    case (Inl e)
    then show ?thesis using d p by (simp add: wake_up_def Let_def)
  next
    case (Inr result)
    show ?thesis
    proof (cases u)
      case uerr: (Inl e)
      then obtain m x y where "e = BillingFuseTrippedError m x y"
        using u by (auto simp: record_usage_def Let_def split: if_splits)
      then show ?thesis using d p Inr u uerr routed_is_charged [OF assms(1)]
        by (simp add: wake_up_def Let_def charge_def error_answer_def recorded_def is_ok_def)
    next
      case (Inr s)
      then show ?thesis using d p u routed_is_charged [OF assms(1)] \<open>r = Inr result\<close>
        by (simp add: wake_up_def Let_def charge_def is_ok_def)
    qed
  qed
qed

text \<open>
  C12. The budget is consulted only after a write. A write command that passes the guards is
  always executed; what the gate did to the database and to the nonce stays, and only then
  the message is charged: the answer is \<open>ok\<close> if the fuse accepts the charge and \<open>exhausted\<close> if
  not, even when the fuse had tripped long before. A write the gate refuses is not charged.
\<close>

theorem write_before_charge:
  assumes "write_routed (cm_text message) (dm, nonce, data)" and "k_gate k = Some gw" and "passes_guards k message clk"
    and "execute_governed_write (ke_gate_env env) gw dm data nonce ''turtle'' (kc_gate clk) = (r, gw')"
  shows "\<exists>resp k'. wake_up env k message clk = (resp, k') \<and> k_gate k' = Some gw' \<and>
    (case r of
       Inl e \<Rightarrow> has_status resp (snd (error_answer e)) \<and> cr_error resp = Some (exn_str e) \<and> k_fuse k' = k_fuse k
     | Inr result \<Rightarrow>
         k_fuse k' = fst (snd (record_usage (k_fuse k) (message_usage (kc_usage clk)))) \<and>
         has_status resp (if is_ok (fst (record_usage (k_fuse k) (message_usage (kc_usage clk)))) then ''ok'' else ''exhausted''))"
  using assms by (rule wake_up_write)

subsection \<open>A question for the schema inside the data\<close>

lemma dropWhile_stop: "zs \<noteq> [] \<Longrightarrow> \<not> P (hd zs) \<Longrightarrow> dropWhile P (xs @ zs) = dropWhile P xs @ zs"
  by (induction xs) (cases zs; simp)+

lemma strip_keeps:
  assumes "py_in sub s" and "sub \<noteq> []" and "\<not> is_space (hd sub)" and "\<not> is_space (last sub)"
  shows "py_in sub (py_strip s)"
proof -
  obtain a b where s: "s = a @ sub @ b" using assms(1) by (auto simp: py_in_iff_sublist sublist_def)
  have "dropWhile is_space s = dropWhile is_space a @ sub @ b"
    unfolding s using assms(2,3) by (intro dropWhile_stop) auto
  moreover have "dropWhile is_space (rev b @ rev sub @ rev c) = dropWhile is_space (rev b) @ rev sub @ rev c" for c
    using assms(2,4) by (intro dropWhile_stop) (auto simp: hd_rev hd_append)
  ultimately have "py_strip s = dropWhile is_space a @ sub @ rstrip_when is_space b"
    by (simp add: py_strip_def rstrip_when_def)
  then show ?thesis using py_in_append by metis
qed

lemma space_lower: "is_space c \<Longrightarrow> ascii_lower c = c"
  by (auto simp: is_space_def ascii_lower_def Let_def)

text \<open>A word of the text is one of the stripped text, in any mix of cases.\<close>

lemma lower_strip_keeps:
  assumes "py_in word (py_lower s)" and "word \<noteq> []" and "\<not> is_space (hd word)" and "\<not> is_space (last word)"
  shows "py_in word (py_lower (py_strip s))"
proof -
  obtain w where w: "py_in w s" "py_lower w = word" using py_in_py_lower assms(1) by blast
  then have ne: "w \<noteq> []" using assms(2) by auto
  then have "hd word = ascii_lower (hd w)" "last word = ascii_lower (last w)"
    using w(2) by (auto simp: py_lower_def hd_map last_map)
  then have "\<not> is_space (hd w)" "\<not> is_space (last w)" using space_lower assms(3,4) by metis+
  then have "py_in w (py_strip s)" using strip_keeps w(1) ne by blast
  then obtain a b where "py_strip s = a @ w @ b" by (auto simp: py_in_iff_sublist sublist_def)
  then have "py_lower (py_strip s) = py_lower a @ word @ py_lower b" using w(2) by simp
  then show ?thesis using py_in_append by metis
qed

lemma no_W: "CHR ''W'' \<noteq> char_of (0xE2 :: nat)" "CHR ''W'' \<noteq> char_of (0xF0 :: nat)"
  by code_simp+

lemma error_text: "\<not> prefix (CHR ''W'' # w) (fst (error_answer e) @ x)"
  by (cases e) (simp_all add: error_answer_def u8_def no_W)

lemma schema_text: "format_schema_response d = Inr s \<Longrightarrow> \<not> prefix (CHR ''W'' # w) s"
proof -
  assume "format_schema_response d = Inr s"
  then obtain h t where "s = py_join nl ((u8 [0xF0, 0x9F, 0x93, 0x8B] @ h) # t)"
    by (auto simp: format_schema_response_def bindE_Inr_iff)
  then show ?thesis by (cases t) (simp_all add: u8_def no_W)
qed

text \<open>
  A write to the shipped domain can be taken for a question: when the data of a write command
  for \<open>it-asset-mgmt\<close> mentions \<open>schema\<close> in any form, for instance through the prefix of RDF
  Schema, the kernel answers with the schema of the domain. The database and the spent nonces
  stay as they were and the answer reports no write.
\<close>

theorem schema_hides_write:
  assumes "cm_text message = ''execute_governed_write it-asset-mgmt '' @ nonce @ nl @ data"
    and "py_in ''schema'' (py_lower data)" and "k_gate k = Some gw"
    and "wake_up env k message clk = (resp, k')"
  shows "\<exists>gw'. k_gate k' = Some gw' \<and> gw_db gw' = gw_db gw \<and>
    wg_consumed_nonces (gw_gate gw') = wg_consumed_nonces (gw_gate gw) \<and>
    \<not> prefix ''Write successful'' (cr_text resp)"
proof -
  let ?k = "k\<lparr>k_session_count := k_session_count k + 1\<rparr>" and ?low = "py_lower (py_strip (cm_text message))"
  have lower: "py_lower ''execute_governed_write it-asset-mgmt '' = ''execute_governed_write it-asset-mgmt ''" by code_simp
  then have eq: "py_lower (cm_text message) = ''execute_governed_write '' @ ''it-asset'' @ ''-mgmt '' @ py_lower (nonce @ nl @ data)"
    by (simp only: assms(1) py_lower_append) simp
  have "py_in ''it-asset'' (py_lower (cm_text message))" unfolding eq by (rule py_in_append)
  moreover obtain a b where "py_lower data = a @ ''schema'' @ b" using assms(2) by (auto simp: py_in_iff_sublist sublist_def)
  then have "py_in ''schema'' (py_lower (cm_text message))"
    using py_in_append [of "''schema''" "''execute_governed_write '' @ ''it-asset'' @ ''-mgmt '' @ py_lower nonce @ py_lower nl @ a" b]
    unfolding eq by (simp only: py_lower_append append_assoc)
  ultimately have q: "py_in ''schema'' ?low" "py_in ''it-asset'' ?low"
    by (intro lower_strip_keeps; simp add: is_space_def)+
  have ask: "process_message env k0 message c = (bindE r format_schema_response, k0\<lparr>k_gate := Some (gw\<lparr>gw_gate := g\<rparr>)\<rparr>)"
    if "k_gate k0 = Some gw" "get_domain_schema (ke_gate_env env) (gw_gate gw) ''it-asset-mgmt'' = (r, g)" for k0 c r g
    using q that by (simp add: process_message_def Let_def)
  obtain r g where rg: "get_domain_schema (ke_gate_env env) (gw_gate gw) ''it-asset-mgmt'' = (r, g)" by force
  have kept: "wg_consumed_nonces g = wg_consumed_nonces (gw_gate gw)"
    using get_domain_schema_frame(1) [of "ke_gate_env env" "gw_gate gw" "''it-asset-mgmt''"] rg by simp
  obtain x k2 where d: "dispatch env ?k message clk = (x, k2)" by force
  have "k_gate k2 \<in> {Some gw, Some (gw\<lparr>gw_gate := g\<rparr>)} \<and> (\<forall>s. x = Inr s \<longrightarrow> bindE r format_schema_response = Inr s)"
  proof (cases rule: dispatch_cases [of ?k message env clk])
    case (processed r' spans)
    then show ?thesis using d ask [OF _ rg] assms(3)
      by (auto simp: split: sum.splits prod.splits dest: charge_frame(6))
  qed (use d assms(3) in auto)
  moreover have "k_gate k' = k_gate k2" using wake_up_gate [of env k message clk] assms(4) d by simp
  moreover have "\<not> prefix ''Write successful'' (cr_text resp)" if "\<forall>s. x = Inr s \<longrightarrow> bindE r format_schema_response = Inr s"
    using assms(4) d that error_text schema_text
    by (auto simp: wake_up_def Let_def respond_def bindE_Inr_iff split: sum.splits)
  ultimately show ?thesis using kept by auto
qed

subsection \<open>The default budget\<close>

text \<open>
  A charge of the kernel costs 0.0084 dollars; a sum of such costs below one dollar is off by at
  most \<open>2\<^sup>-\<^sup>5\<^sup>4\<close> per addition.
\<close>

definition message_cost :: rat where
  "message_cost = calculate_cost default_billing_fuse_config (message_usage 0)"

lemma message_cost_value: "message_cost = 2421135159674379 / 288230376151711744"
  by (simp only: message_cost_def) code_simp

lemma message_cost: "calculate_cost default_billing_fuse_config (message_usage t) = message_cost"
  by (simp add: message_cost_def calculate_cost_def message_usage_def Let_def)

lemma charge_adds:
  assumes "bf_config fuse = default_billing_fuse_config" and "0 \<le> bf_spend_usd fuse"
    and "record_usage fuse (message_usage t) = (Inr s, fuse', b)"
  shows "bf_config fuse' = default_billing_fuse_config" "\<not> bf_tripped fuse" "\<not> bf_tripped fuse'"
    "bf_spend_usd fuse' = s" "s \<le> 1 / 2" "bf_spend_usd fuse + message_cost - 1 / 2 ^ 54 \<le> s" "0 \<le> s"
proof -
  have cap: "budget_cap_usd default_billing_fuse_config = 1 / 2" by (simp add: default_billing_fuse_config_def)
  have s: "s = fadd (bf_spend_usd fuse) message_cost" and half: "s \<le> 1 / 2"
    and rest: "\<not> bf_tripped fuse" "fuse' = fuse\<lparr>bf_spend_usd := s, bf_usage_history := bf_usage_history fuse @ [message_usage t]\<rparr>"
    using assms message_cost [of t] cap by (auto simp: record_usage_def Let_def split: if_splits)
  show "bf_config fuse' = default_billing_fuse_config" "\<not> bf_tripped fuse" "\<not> bf_tripped fuse'" "bf_spend_usd fuse' = s" "s \<le> 1 / 2"
    using rest half assms(1) by simp_all
  let ?q = "bf_spend_usd fuse + message_cost"
  have q0: "0 < ?q" using assms(2) by (simp add: message_cost_value)
  then show "0 \<le> s" by (simp add: s fadd_def fl_nonneg)
  have "?q < 1"
  proof (rule ccontr)
    assume "\<not> ?q < 1"
    then have "fl 1 \<le> fl ?q" by (intro fl_mono) simp
    then show False using half fl_of_int [of 1] by (simp add: s fadd_def)
  qed
  then have "?q < 2 powi 0" by simp
  then have "\<bar>fl ?q - ?q\<bar> \<le> 2 powi (0 - 54)" by (rule fl_near [OF q0]) simp
  moreover have "(2::rat) powi (0 - 54) = 1 / 2 ^ 54" by (simp add: power_int_def power_one_over)
  ultimately have "\<bar>fl ?q - ?q\<bar> \<le> 1 / 2 ^ 54" by (simp only:)
  then show "?q - 1 / 2 ^ 54 \<le> s" unfolding s fadd_def by linarith
qed

lemma record_usage_spend:
  assumes "bf_config fuse = default_billing_fuse_config" and "0 \<le> bf_spend_usd fuse"
  shows "bf_config (fst (snd (record_usage fuse (message_usage t)))) = default_billing_fuse_config"
    "0 \<le> bf_spend_usd (fst (snd (record_usage fuse (message_usage t))))"
    "fst (record_usage fuse (message_usage t)) = Inl e \<Longrightarrow> bf_tripped (fst (snd (record_usage fuse (message_usage t))))"
proof -
  have cost: "0 \<le> message_cost" by (simp add: message_cost_value)
  show "bf_config (fst (snd (record_usage fuse (message_usage t)))) = default_billing_fuse_config"
    "0 \<le> bf_spend_usd (fst (snd (record_usage fuse (message_usage t))))"
    "fst (record_usage fuse (message_usage t)) = Inl e \<Longrightarrow> bf_tripped (fst (snd (record_usage fuse (message_usage t))))"
    using assms cost
    by (cases rule: record_usage_cases [of fuse "message_usage t"]; simp add: message_cost fadd_def fl_nonneg)+
qed

text \<open>What one message does to the fuse.\<close>

lemma wake_up_fuse:
  assumes "wake_up env k message clk = (resp, k')"
  shows "k_fuse k' = k_fuse k \<and> \<not> (is_charged (py_strip (cm_text message)) \<and> has_status resp ''ok'') \<or>
    k_fuse k' = fst (snd (record_usage (k_fuse k) (message_usage (kc_usage clk)))) \<and>
      (has_status resp ''ok'' \<longrightarrow> is_ok (fst (record_usage (k_fuse k) (message_usage (kc_usage clk)))))"
proof -
  let ?k = "k\<lparr>k_session_count := k_session_count k + 1\<rparr>" and ?t = "py_strip (cm_text message)"
  obtain r k2 where d: "dispatch env ?k message clk = (r, k2)" by force
  have fuse: "k_fuse k' = k_fuse k2" using assms d by (auto simp: wake_up_def Let_def split: sum.splits if_splits)
  have ok: "has_status resp ''ok'' \<longleftrightarrow> is_ok r"
    using assms d error_answer_status by (fastforce simp: wake_up_def Let_def is_ok_def split: sum.splits)
  have "k_fuse k2 = k_fuse k \<and> \<not> (is_charged ?t \<and> is_ok r) \<or>
    k_fuse k2 = fst (snd (record_usage (k_fuse k) (message_usage (kc_usage clk)))) \<and>
      (is_ok r \<longrightarrow> is_ok (fst (record_usage (k_fuse k) (message_usage (kc_usage clk)))))"
  proof (cases rule: dispatch_cases [of ?k message env clk])
    case (processed r' spans)
    obtain x k3 where p: "process_message env (?k\<lparr>k_spans := k_spans ?k @ spans,
           k_breaker := snd (is_open (k_breaker ?k) ?t (kc_open clk))\<rparr>) message (kc_gate clk) = (x, k3)" by force
    obtain y k4 where c: "charge k3 ?t (kc_usage clk) = (y, k4)" by force
    have f3: "k_fuse k3 = k_fuse k" using process_frame(6) [OF p] by simp
    have "r = (case x of Inl e \<Rightarrow> Inl e | Inr s \<Rightarrow> bindE y (\<lambda>_. Inr s))" "k2 = (case x of Inl _ \<Rightarrow> k3 | Inr _ \<Rightarrow> k4)"
      using d processed(4) p c by (auto split: sum.splits)
    then show ?thesis using c f3
      by (cases x; cases y) (auto simp: charge_def is_ok_def bindE_def split: if_splits prod.splits sum.splits)
  qed (use d in \<open>auto simp: is_ok_def\<close>)
  then show ?thesis using fuse ok by simp
qed

definition paid :: "(channel_message \<times> kernel_clock) \<times> channel_response \<Rightarrow> bool" where
  "paid = (\<lambda>((message, _), resp). is_charged (py_strip (cm_text message)) \<and> has_status resp ''ok'')"

lemma paid_bound:
  assumes "wake_ups env k calls = (resps, k')" and "bf_config (k_fuse k) = default_billing_fuse_config"
    and "0 \<le> bf_spend_usd (k_fuse k)" and "n \<le> 59"
    and "\<not> bf_tripped (k_fuse k) \<longrightarrow> of_nat n * (message_cost - 1 / 2 ^ 54) \<le> bf_spend_usd (k_fuse k)"
  shows "n + length (filter paid (zip calls resps)) \<le> 59"
  using assms
proof (induction calls arbitrary: k n resps)
  case (Cons call calls)
  obtain m clk where call: "call = (m, clk)" by force
  obtain r1 k1 where one: "wake_up env k m clk = (r1, k1)" by force
  obtain rs k2 where rest: "wake_ups env k1 calls = (rs, k2)" by force
  have resps: "resps = r1 # rs" "k2 = k'" using Cons.prems(1) call one rest by simp_all
  let ?u = "record_usage (k_fuse k) (message_usage (kc_usage clk))"
  have cfg: "bf_config (k_fuse k1) = default_billing_fuse_config" "0 \<le> bf_spend_usd (k_fuse k1)"
    using wake_up_fuse [OF one] Cons.prems(2,3) record_usage_spend by (metis, metis)
  show ?case
  proof (cases "k_fuse k1 = fst (snd ?u) \<and> is_ok (fst ?u)")
    case True
    then obtain s b where u: "?u = (Inr s, k_fuse k1, b)" by (cases ?u) (auto simp: is_ok_def split: sum.splits)
    note a = charge_adds [OF Cons.prems(2,3) u]
    have "of_nat n * (message_cost - 1 / 2 ^ 54) \<le> bf_spend_usd (k_fuse k)" using Cons.prems(5) a(2) by simp
    moreover have "(of_nat n + 1) * x = of_nat n * x + x" for x :: rat by (simp add: distrib_right)
    ultimately have up: "(of_nat n + 1) * (message_cost - 1 / 2 ^ 54) \<le> s" using a(6) by simp
    have pos: "0 < message_cost - 1 / 2 ^ 54" "1 / 2 < 60 * (message_cost - 1 / 2 ^ 54)" by (simp_all add: message_cost_value)
    have n: "Suc n \<le> 59"
    proof (rule ccontr)
      assume "\<not> Suc n \<le> 59"
      then have "60 \<le> (of_nat (Suc n) :: rat)" by (metis not_less_eq_eq of_nat_le_iff of_nat_numeral numeral_Bit0_eq_double Suc_numeral semiring_norm(5) semiring_norm(8))
      then have "60 * (message_cost - 1 / 2 ^ 54) \<le> (of_nat n + 1) * (message_cost - 1 / 2 ^ 54)"
        using pos(1) by (intro mult_right_mono) simp_all
      then show False using up a(5) pos(2) by linarith
    qed
    have "Suc n + length (filter paid (zip calls rs)) \<le> 59"
      using Cons.IH [of k1 rs "Suc n"] rest resps cfg n up a(4) by (simp add: add.commute)
    then show ?thesis using resps call by simp
  next
    case False
    then have "\<not> paid (call, r1)" using wake_up_fuse [OF one] call by (auto simp: paid_def)
    moreover have "\<not> bf_tripped (k_fuse k1) \<longrightarrow> of_nat n * (message_cost - 1 / 2 ^ 54) \<le> bf_spend_usd (k_fuse k1)"
    proof (cases "k_fuse k1 = k_fuse k")
      case True
      then show ?thesis using Cons.prems(5) by simp
    next
      case changed: False
      then have "k_fuse k1 = fst (snd ?u)" using wake_up_fuse [OF one] by blast
      moreover obtain e where "fst ?u = Inl e" using False calculation by (cases "fst ?u") (auto simp: is_ok_def)
      ultimately show ?thesis using record_usage_spend(3) [OF Cons.prems(2,3)] by metis
    qed
    ultimately show ?thesis using Cons.IH [of k1 rs n] rest resps cfg Cons.prems(4) by simp
  qed
qed simp

text \<open>
  The default budget lasts for 59 messages: however many messages the kernel gets, with the
  default fuse at most 59 of those that are charged are answered \<open>ok\<close>, rounding of the
  additions included.
\<close>

theorem default_budget:
  assumes "k_fuse k = new_BillingFuse default_billing_fuse_config callback"
    and "wake_ups env k calls = (resps, k')"
  shows "length (filter (\<lambda>((message, _), resp). is_charged (py_strip (cm_text message)) \<and> has_status resp ''ok'')
      (zip calls resps)) \<le> 59"
  using paid_bound [OF assms(2), of 0] assms(1) by (simp add: new_BillingFuse_def paid_def)

end
