(* ===== verification/Config.thy ===== *)
theory Config
  imports Schema_Provider
begin

text \<open>
  The configuration of the service, \<^verbatim>\<open>src/agentos/kernel/config.py\<close>: the substitution of
  environment variables in the strings of the file, and the loader. YAML and the pydantic models
  are parameters of the loader; the models the loader fills are records, with their defaults.

  The pattern of the source has two alternatives. At \<open>${\<close>, with the characters up to the next
  \<open>}\<close> as the body, the first one matches a body that does not start with a colon: the name is
  what stands before the first colon, the default what stands after it. The second one matches
  the other bodies, unless a backslash stands before.
\<close>

type_synonym environment = "string \<Rightarrow> string option"

definition missing_variable :: "string \<Rightarrow> exn" where
  "missing_variable name = ConfigError (''Missing required environment variable: '' @ name)"

text \<open>The replacement of a variable, with the text after the colon if there is one.\<close>

definition variable_value :: "environment \<Rightarrow> string \<Rightarrow> string option \<Rightarrow> exn + string" where
  "variable_value env name dflt =
     (case env name of
        Some v \<Rightarrow> Inr v
      | None \<Rightarrow>
          (case dflt of
             Some d \<Rightarrow> Inr (if prefix ''-'' d then tl d else d)
           | None \<Rightarrow> Inl (missing_variable name)))"

definition replacement :: "environment \<Rightarrow> string \<Rightarrow> exn + string" where
  "replacement env body =
     (if hd body = CHR '':'' then variable_value env body None
      else if CHR '':'' \<in> set body
           then variable_value env (takeWhile (\<lambda>c. c \<noteq> CHR '':'') body) (Some (tl (dropWhile (\<lambda>c. c \<noteq> CHR '':'') body)))
           else variable_value env body None)"

text \<open>A match at the front of the text: its body and the text after it.\<close>

definition match_variable :: "bool \<Rightarrow> string \<Rightarrow> (string \<times> string) option" where
  "match_variable escaped s =
     (if prefix ''${'' s \<and> CHR ''}'' \<in> set s then
        (let body = takeWhile (\<lambda>c. c \<noteq> CHR ''}'') (drop 2 s)
         in if body \<noteq> [] \<and> (hd body \<noteq> CHR '':'' \<or> \<not> escaped)
            then Some (body, tl (dropWhile (\<lambda>c. c \<noteq> CHR ''}'') (drop 2 s))) else None)
      else None)"

lemma match_variable_shorter:
  assumes "match_variable e s = Some (body, rest)"
  shows "length rest < length s"
proof -
  have s: "prefix ''${'' s" "rest = tl (dropWhile (\<lambda>c. c \<noteq> CHR ''}'') (drop 2 s))"
    using assms by (auto simp: match_variable_def Let_def split: if_splits)
  have "length rest \<le> length (drop 2 s)"
    unfolding s(2) using length_dropWhile_le [of "\<lambda>c. c \<noteq> CHR ''}''" "drop 2 s"] by simp
  moreover have "2 \<le> length s" using s(1) prefix_length_le by force
  ultimately show ?thesis by simp
qed

text \<open>
  \<open>_ENV_VAR_RE.sub\<close>: the matches from left to right; the flag says whether the character before
  is a backslash.
\<close>

function resolve_from :: "environment \<Rightarrow> bool \<Rightarrow> string \<Rightarrow> exn + string" where
  "resolve_from env escaped s =
     (case match_variable escaped s of
        Some (body, rest) \<Rightarrow>
          bindE (replacement env body) (\<lambda>v. bindE (resolve_from env False rest) (\<lambda>t. Inr (v @ t)))
      | None \<Rightarrow>
          (case s of
             [] \<Rightarrow> Inr []
           | c # cs \<Rightarrow> bindE (resolve_from env (c = CHR 0x5C) cs) (\<lambda>t. Inr (c # t))))"
  by pat_completeness auto

termination
  by (relation "measure (\<lambda>(_, _, s). length s)") (auto dest: match_variable_shorter)

declare resolve_from.simps [simp del]

definition resolve_env_vars :: "environment \<Rightarrow> string \<Rightarrow> exn + string" where
  "resolve_env_vars env value = resolve_from env False value"

text \<open>\<open>_resolve_dict\<close>: strings and dictionaries, and the dictionaries that are items of a list.\<close>

fun resolve_dict :: "environment \<Rightarrow> (string \<times> pyval) list \<Rightarrow> exn + (string \<times> pyval) list"
  and resolve_value :: "environment \<Rightarrow> pyval \<Rightarrow> exn + pyval"
  and resolve_items :: "environment \<Rightarrow> pyval list \<Rightarrow> exn + pyval list" where
  "resolve_dict env [] = Inr []"
| "resolve_dict env ((key, value) # data) =
     bindE (resolve_value env value) (\<lambda>v. bindE (resolve_dict env data) (\<lambda>d. Inr ((key, v) # d)))"
| "resolve_value env (PStr s) = bindE (resolve_env_vars env s) (\<lambda>t. Inr (PStr t))"
| "resolve_value env (PDict d) = bindE (resolve_dict env d) (\<lambda>e. Inr (PDict e))"
| "resolve_value env (PList items) = bindE (resolve_items env items) (\<lambda>xs. Inr (PList xs))"
| "resolve_value env v = Inr v"
| "resolve_items env [] = Inr []"
| "resolve_items env (PDict d # items) =
     bindE (resolve_dict env d) (\<lambda>e. bindE (resolve_items env items) (\<lambda>xs. Inr (PDict e # xs)))"
| "resolve_items env (item # items) = bindE (resolve_items env items) (\<lambda>xs. Inr (item # xs))"

subsection \<open>The text of a value\<close>

text \<open>
  What the text of a value is meant to be: literal text and variables, with an optional
  default. The reference expands each part on its own.
\<close>

datatype config_part = Lit string | Variable string "string option"

fun part_text :: "config_part \<Rightarrow> string" where
  "part_text (Lit s) = s"
| "part_text (Variable name None) = ''${'' @ name @ ''}''"
| "part_text (Variable name (Some d)) = ''${'' @ name @ '':'' @ d @ ''}''"

fun part_ok :: "config_part \<Rightarrow> bool" where
  "part_ok (Lit s) = (CHR ''$'' \<notin> set s)"
| "part_ok (Variable name d) =
     (name \<noteq> [] \<and> CHR '':'' \<notin> set name \<and> CHR ''}'' \<notin> set name \<and>
      (case d of None \<Rightarrow> True | Some d \<Rightarrow> CHR ''}'' \<notin> set d))"

fun expand :: "environment \<Rightarrow> config_part \<Rightarrow> exn + string" where
  "expand env (Lit s) = Inr s"
| "expand env (Variable name d) = variable_value env name d"

lemma resolve_from_Nil [simp]: "resolve_from env e [] = Inr []"
  by (subst resolve_from.simps) (simp add: match_variable_def)

lemma resolve_from_char:
  "CHR ''$'' \<noteq> c \<Longrightarrow> resolve_from env e (c # s) = bindE (resolve_from env (c = CHR 0x5C) s) (\<lambda>t. Inr (c # t))"
  by (subst resolve_from.simps) (auto simp: match_variable_def)

text \<open>The text inside the braces, and its replacement.\<close>

fun part_body :: "string \<Rightarrow> string option \<Rightarrow> string" where
  "part_body name None = name"
| "part_body name (Some d) = name @ '':'' @ d"

lemma takeWhile_until: "x \<notin> set ys \<Longrightarrow> takeWhile (\<lambda>c. c \<noteq> x) (ys @ x # zs) = ys \<and> dropWhile (\<lambda>c. c \<noteq> x) (ys @ x # zs) = x # zs"
  by (induction ys) auto

lemma replacement_part:
  assumes "part_ok (Variable name d)"
  shows "replacement env (part_body name d) = variable_value env name d" "hd (part_body name d) \<noteq> CHR '':''"
    "part_body name d \<noteq> []" "CHR ''}'' \<notin> set (part_body name d)"
  using assms takeWhile_until [of "CHR '':''" name]
  by (cases d; cases name; auto simp: replacement_def)+

lemma resolve_from_variable:
  assumes "part_ok (Variable name d)"
  shows "resolve_from env e (part_text (Variable name d) @ s) =
    bindE (variable_value env name d) (\<lambda>v. bindE (resolve_from env False s) (\<lambda>t. Inr (v @ t)))"
proof -
  have t: "part_text (Variable name d) @ s = ''${'' @ part_body name d @ CHR ''}'' # s" by (cases d) simp_all
  have "match_variable e (part_text (Variable name d) @ s) = Some (part_body name d, s)"
    using replacement_part(2-4) [OF assms] takeWhile_until [of "CHR ''}''" "part_body name d" s]
    unfolding t by (simp add: match_variable_def)
  then show ?thesis using replacement_part(1) [OF assms] by (subst resolve_from.simps) simp
qed

lemma resolve_from_parts:
  assumes "\<forall>p\<in>set parts. part_ok p"
  shows "resolve_from env e (concat (map part_text parts)) = bindE (mapE (expand env) parts) (\<lambda>vs. Inr (concat vs))"
  using assms
proof (induction parts arbitrary: e)
  case (Cons p parts)
  let ?r = "bindE (mapE (expand env) parts) (\<lambda>vs. Inr (concat vs))"
  have IH: "resolve_from env e (concat (map part_text parts)) = ?r" for e using Cons by simp
  show ?case
  proof (cases p)
    case (Lit s)
    then have "CHR ''$'' \<notin> set s" using Cons.prems by simp
    then have "resolve_from env e (s @ concat (map part_text parts)) = bindE ?r (\<lambda>t. Inr (s @ t))" for e
    proof (induction s arbitrary: e)
      case Nil
      then show ?case by (simp add: IH bindE_def split: sum.split)
    next
      case (Cons c s)
      then show ?case by (simp add: resolve_from_char bindE_def split: sum.split)
    qed
    then show ?thesis by (simp add: Lit bindE_def split: sum.split)
  next
    case (Variable name d)
    then have "resolve_from env e (part_text p @ concat (map part_text parts)) =
      bindE (variable_value env name d) (\<lambda>v. bindE ?r (\<lambda>t. Inr (v @ t)))"
      using Cons.prems resolve_from_variable [of name d] IH by simp
    then show ?thesis by (simp add: Variable bindE_def split: sum.split)
  qed
qed simp

text \<open>
  C22. The substitution does to every value what its parts say: a text made of literal parts
  without a dollar sign and of variables \<open>${NAME}\<close>, \<open>${NAME:default}\<close> and \<open>${NAME:-default}\<close> is
  replaced part by part, from left to right. A variable that is set gives its value, one that
  is not set its default without the leading dash, and the first one without either makes the
  whole value fail with a \<open>ConfigError\<close> that names it. A backslash before a variable is an
  ordinary character and does not protect it.
\<close>

theorem resolve_reference:
  assumes "\<forall>p\<in>set parts. part_ok p"
  shows "resolve_env_vars env (concat (map part_text parts)) = bindE (mapE (expand env) parts) (\<lambda>vs. Inr (concat vs))"
  using resolve_from_parts [OF assms] by (simp add: resolve_env_vars_def)

theorem resolve_reference_witness:
  "resolve_env_vars [''USER'' \<mapsto> ''ada''] ([CHR 0x5C] @ ''${USER}@${HOST:-localhost}:${PORT:80}'') =
     Inr ([CHR 0x5C] @ ''ada@localhost:80'')"
  using resolve_reference [of "[Lit [CHR 0x5C], Variable ''USER'' None, Lit ''@'', Variable ''HOST'' (Some ''-localhost''), Lit '':'',
      Variable ''PORT'' (Some ''80'')]" "[''USER'' \<mapsto> ''ada'']"]
  by (simp add: variable_value_def)

subsection \<open>The models\<close>

record kernel_config =
  kn_name :: string
  kn_version :: string
  kn_log_level :: string
  kn_session_ttl_seconds :: int

record feishu_adapter_config =
  fc_enabled :: bool
  fc_app_id :: string
  fc_app_secret :: string
  fc_verification_token :: string
  fc_encrypt_key :: string
  fc_webhook_path :: string
  fc_listen_host :: string
  fc_listen_port :: int

record neo4j_config =
  nc_uri :: string
  nc_user :: string
  nc_password :: string
  nc_database :: string
  nc_n10s_enabled :: bool
  nc_rdf_format :: string

record mcp_config =
  mc_server_name :: string
  mc_transport :: string
  mc_host :: string
  mc_port :: int
  mc_nonce_secret :: string
  mc_nonce_ttl_seconds :: int

record ontology_config =
  oc_owl_dir :: string
  oc_shacl_dir :: string
  oc_domains :: "domain_config list"

record app_config =
  ac_kernel :: kernel_config
  ac_feishu :: feishu_adapter_config
  ac_cli_enabled :: bool
  ac_neo4j :: neo4j_config
  ac_mcp :: mcp_config
  ac_policy_file :: string
  ac_ontology :: ontology_config

definition default_app_config :: app_config where
  "default_app_config =
     \<lparr>ac_kernel = \<lparr>kn_name = ''ZeroClaw'', kn_version = ''0.1.2'', kn_log_level = ''INFO'', kn_session_ttl_seconds = 300\<rparr>,
      ac_feishu = \<lparr>fc_enabled = False, fc_app_id = [], fc_app_secret = [], fc_verification_token = [], fc_encrypt_key = [],
        fc_webhook_path = ''/webhook/feishu'', fc_listen_host = ''0.0.0.0'', fc_listen_port = 8000\<rparr>,
      ac_cli_enabled = True,
      ac_neo4j = \<lparr>nc_uri = ''bolt://localhost:7687'', nc_user = ''neo4j'', nc_password = ''agentos123'', nc_database = ''neo4j'',
        nc_n10s_enabled = True, nc_rdf_format = ''Turtle''\<rparr>,
      ac_mcp = \<lparr>mc_server_name = ''agent-os-governance'', mc_transport = ''streamable-http'', mc_host = ''0.0.0.0'', mc_port = 8100,
        mc_nonce_secret = ''dev-nonce-secret-change-in-prod'', mc_nonce_ttl_seconds = 300\<rparr>,
      ac_policy_file = ''src/policies/policy_config.yaml'',
      ac_ontology = \<lparr>oc_owl_dir = ''docker/ontology'', oc_shacl_dir = ''docker/ontology'', oc_domains = []\<rparr>\<rparr>"

subsection \<open>The loader\<close>

text \<open>
  The file system, YAML and pydantic are parameters: whether the path exists, the value of the
  document, and the models built from the dictionary.
\<close>

definition load_config :: "environment \<Rightarrow> (string \<Rightarrow> (exn + pyval) option) \<Rightarrow> ((string \<times> pyval) list \<Rightarrow> exn + 'c) \<Rightarrow> string \<Rightarrow> exn + 'c" where
  "load_config env read_yaml AppConfig path =
     (case read_yaml path of
        None \<Rightarrow> Inl (OtherException ''FileNotFoundError'' (''Config file not found: '' @ path))
      | Some document \<Rightarrow>
          bindE document (\<lambda>raw. case raw of
             PDict d \<Rightarrow> bindE (resolve_dict env d) AppConfig
           | _ \<Rightarrow> Inl (OtherException ''ValueError'' ''Config file must contain a YAML mapping'')))"

text \<open>\<open>ConfigLoader(config_path)\<close>: the path it reads.\<close>

definition config_path :: "environment \<Rightarrow> string option \<Rightarrow> string" where
  "config_path env path =
     (case path of Some p \<Rightarrow> p
      | None \<Rightarrow> (case env ''AGENT_OS_CONFIG'' of Some p \<Rightarrow> p | None \<Rightarrow> ''config.yaml''))"

text \<open>The configuration the repository ships, \<^verbatim>\<open>config.yaml\<close>.\<close>

definition shipped_config :: "(string \<times> pyval) list" where
  "shipped_config =
    [(''kernel'', PDict
      [(''name'', PStr ''ZeroClaw''),
       (''version'', PStr ''0.1.2''),
       (''log_level'', PStr ''INFO''),
       (''session_ttl_seconds'', PInt 300)]),
     (''adapters'', PDict
      [(''feishu'', PDict
        [(''enabled'', PBool False),
         (''app_id'', PStr ''${FEISHU_APP_ID}''),
         (''app_secret'', PStr ''${FEISHU_APP_SECRET}''),
         (''verification_token'', PStr ''${FEISHU_VERIFICATION_TOKEN}''),
         (''encrypt_key'', PStr ''${FEISHU_ENCRYPT_KEY}''),
         (''webhook_path'', PStr ''/webhook/feishu''),
         (''listen_host'', PStr ''0.0.0.0''),
         (''listen_port'', PInt 8000)]),
       (''cli'', PDict
        [(''enabled'', PBool True)])]),
     (''neo4j'', PDict
      [(''uri'', PStr ''bolt://localhost:7687''),
       (''user'', PStr ''neo4j''),
       (''password'', PStr ''${NEO4J_PASSWORD:-agentos123}''),
       (''database'', PStr ''neo4j''),
       (''n10s'', PDict
        [(''enabled'', PBool True),
         (''rdf_format'', PStr ''Turtle'')])]),
     (''mcp'', PDict
      [(''server_name'', PStr ''agent-os-governance''),
       (''transport'', PStr ''streamable-http''),
       (''host'', PStr ''0.0.0.0''),
       (''port'', PInt 8100),
       (''validation'', PDict
        [(''nonce_secret'', PStr ''${MCP_NONCE_SECRET:-dev-nonce-secret-change-in-prod}''),
         (''nonce_ttl_seconds'', PInt 300)])]),
     (''autonomy'', PDict
      [(''policy_file'', PStr ''src/agentos/policies/policy_config.yaml'')]),
     (''ontology'', PDict
      [(''owl_dir'', PStr ''docker/ontology''),
       (''shacl_dir'', PStr ''docker/ontology''),
       (''domains'', PList [PDict [(''name'', PStr ''it-asset-mgmt''), (''owl_file'', PStr ''it-asset-mgmt.owl''), (''shacl_file'', PStr ''it-asset-mgmt.shacl.ttl'')]])]),
     (''observability'', PDict
      [(''enabled'', PBool True),
       (''service_name'', PStr ''agent-os-poc''),
       (''otlp_endpoint'', PStr ''http://localhost:4317''),
       (''sample_rate'', PFloat 1)]),
     (''langfuse'', PDict
      [(''enabled'', PBool True),
       (''public_key'', PStr ''${LANGFUSE_PUBLIC_KEY:-}''),
       (''secret_key'', PStr ''${LANGFUSE_SECRET_KEY:-}''),
       (''host'', PStr ''http://localhost:3000'')])]"

fun config_get :: "string list \<Rightarrow> (string \<times> pyval) list \<Rightarrow> pyval option" where
  "config_get [] d = Some (PDict d)"
| "config_get [k] d = map_of d k"
| "config_get (k # ks) d = (case map_of d k of Some (PDict e) \<Rightarrow> config_get ks e | _ \<Rightarrow> None)"

lemma resolve_plain: "CHR ''$'' \<notin> set s \<Longrightarrow> resolve_env_vars env s = Inr s"
  using resolve_from_parts [of "[Lit s]" env False] by (simp add: resolve_env_vars_def)

lemma resolve_variable: "part_ok (Variable name d) \<Longrightarrow> resolve_env_vars env (part_text (Variable name d)) = variable_value env name d"
  using resolve_from_parts [of "[Variable name d]" env False]
  by (simp add: resolve_env_vars_def bindE_def split: sum.split)

definition feishu_variables :: "string list" where
  "feishu_variables = [''FEISHU_APP_ID'', ''FEISHU_APP_SECRET'', ''FEISHU_VERIFICATION_TOKEN'', ''FEISHU_ENCRYPT_KEY'']"

lemma shipped_variables:
  "resolve_env_vars env ''${FEISHU_APP_ID}'' = variable_value env ''FEISHU_APP_ID'' None"
  "resolve_env_vars env ''${FEISHU_APP_SECRET}'' = variable_value env ''FEISHU_APP_SECRET'' None"
  "resolve_env_vars env ''${FEISHU_VERIFICATION_TOKEN}'' = variable_value env ''FEISHU_VERIFICATION_TOKEN'' None"
  "resolve_env_vars env ''${FEISHU_ENCRYPT_KEY}'' = variable_value env ''FEISHU_ENCRYPT_KEY'' None"
  "resolve_env_vars env ''${NEO4J_PASSWORD:-agentos123}'' = variable_value env ''NEO4J_PASSWORD'' (Some ''-agentos123'')"
  "resolve_env_vars env ''${MCP_NONCE_SECRET:-dev-nonce-secret-change-in-prod}'' =
     variable_value env ''MCP_NONCE_SECRET'' (Some ''-dev-nonce-secret-change-in-prod'')"
  "resolve_env_vars env ''${LANGFUSE_PUBLIC_KEY:-}'' = variable_value env ''LANGFUSE_PUBLIC_KEY'' (Some ''-'')"
  "resolve_env_vars env ''${LANGFUSE_SECRET_KEY:-}'' = variable_value env ''LANGFUSE_SECRET_KEY'' (Some ''-'')"
  using resolve_variable [of "''FEISHU_APP_ID''" None env] resolve_variable [of "''FEISHU_APP_SECRET''" None env]
    resolve_variable [of "''FEISHU_VERIFICATION_TOKEN''" None env] resolve_variable [of "''FEISHU_ENCRYPT_KEY''" None env]
    resolve_variable [of "''NEO4J_PASSWORD''" "Some ''-agentos123''" env]
    resolve_variable [of "''MCP_NONCE_SECRET''" "Some ''-dev-nonce-secret-change-in-prod''" env]
    resolve_variable [of "''LANGFUSE_PUBLIC_KEY''" "Some ''-''" env] resolve_variable [of "''LANGFUSE_SECRET_KEY''" "Some ''-''" env]
  by simp_all

text \<open>
  C23. The shipped configuration disables the Feishu adapter, but cannot be loaded without its
  four variables: the first one that is not set makes the loader fail. When they are set, the
  configuration loads, and without further variables the service runs with the nonce secret
  and the database password that stand in the repository.
\<close>

theorem shipped_config_outcome:
  "case find (\<lambda>name. env name = None) feishu_variables of
     Some name \<Rightarrow> resolve_dict env shipped_config = Inl (missing_variable name)
   | None \<Rightarrow> (\<exists>config. resolve_dict env shipped_config = Inr config \<and>
       config_get [''adapters'', ''feishu'', ''enabled''] config = Some (PBool False) \<and>
       config_get [''mcp'', ''validation'', ''nonce_secret''] config =
         Some (PStr (case env ''MCP_NONCE_SECRET'' of Some v \<Rightarrow> v | None \<Rightarrow> ''dev-nonce-secret-change-in-prod'')) \<and>
       config_get [''neo4j'', ''password''] config =
         Some (PStr (case env ''NEO4J_PASSWORD'' of Some v \<Rightarrow> v | None \<Rightarrow> ''agentos123'')))"
proof -
  have dflt: "variable_value env name (Some (CHR ''-'' # d)) = Inr (case env name of Some v \<Rightarrow> v | None \<Rightarrow> d)" for name d
    by (simp add: variable_value_def split: option.split)
  have req: "variable_value env name None = (case env name of Some v \<Rightarrow> Inr v | None \<Rightarrow> Inl (missing_variable name))" for name
    by (simp add: variable_value_def split: option.split)
  show ?thesis
    by (simp add: feishu_variables_def shipped_config_def resolve_plain shipped_variables dflt req split: option.split)
qed

end
