(* ===== verification/Wasm_Sandbox.thy ===== *)
theory Wasm_Sandbox
  imports Py_Json
begin

text \<open>
  The sandbox for untrusted WebAssembly, \<^verbatim>\<open>src/agentos/sandbox/wasm_executor.py\<close>, and the
  base64 decoder of Python's library that the tool in front of it uses. The wasmtime runtime
  is a parameter: what it compiles, instantiates and calls, and the fuel that is left. A module
  is its bytes. The clean-up of the native objects has no effect on the result.
\<close>

record sandbox_config =
  sc_memory_limit_bytes :: int
  sc_fuel_limit :: int
  sc_gc_allow :: bool
  sc_debug_name :: string
  sc_sensitive_paths :: "string list"

definition default_sandbox_config :: sandbox_config where
  "default_sandbox_config =
     \<lparr>sc_memory_limit_bytes = 16 * 1024 * 1024, sc_fuel_limit = 1000000000, sc_gc_allow = False,
      sc_debug_name = ''zeroclaw-sandbox'',
      sc_sensitive_paths = [''/etc/passwd'', ''/etc/shadow'', ''/etc/sudoers'', ''/etc/ssh'', ''/proc'', ''/sys'', ''/dev'']\<rparr>"

record wasm_execution_result =
  wr_return_values :: "pyval list"
  wr_fuel_consumed :: "int option"
  wr_memory_peak :: "int option"
  wr_execution_time_ms :: pyfloat
  wr_trapped :: bool
  wr_trap_reason :: "string option"

subsection \<open>The runtime\<close>

text \<open>What a call gives, and how it ends: with the fuel that is left, which may be unreadable after a trap.\<close>

datatype wasm_value = No_Value | Tuple "pyval list" | Single pyval

datatype wasm_outcome =
    Returned wasm_value int
  | Trapped string "int option"
  | Out_Of_Memory
  | Failed exn

record ('m, 'i) wasmtime =
  wt_available :: bool
  wt_set_fuel :: "int \<Rightarrow> exn + int"
  wt_module :: "string \<Rightarrow> exn + 'm"
  wt_imports :: "'m \<Rightarrow> string list"
  wt_instantiate :: "'m \<Rightarrow> int \<Rightarrow> exn + ('i \<times> int)"
  wt_exports :: "'i \<Rightarrow> (string \<times> bool) list"
  wt_call :: "'i \<Rightarrow> string \<Rightarrow> pyval list \<Rightarrow> int \<Rightarrow> wasm_outcome"

subsection \<open>The sandbox\<close>

definition new_WasmSandbox :: "('m, 'i) wasmtime \<Rightarrow> sandbox_config option \<Rightarrow> exn + sandbox_config" where
  "new_WasmSandbox wt config =
     (if \<not> wt_available wt
      then Inl (SandboxError ''wasmtime is not installed. Install it: pip install wasmtime>=23.0'' None)
      else Inr (case config of Some c \<Rightarrow> c | None \<Rightarrow> default_sandbox_config))"

definition check_sensitive_path_grep :: "sandbox_config \<Rightarrow> string \<Rightarrow> exn + unit" where
  "check_sensitive_path_grep cfg code =
     (case find (\<lambda>path. py_in (py_lower path) (py_lower code)) (sc_sensitive_paths cfg) of
        None \<Rightarrow> Inr ()
      | Some path \<Rightarrow> Inl (SandboxError
          ((''Sandbox trap: code references sensitive path '' @ [CHR 0x22]) @ path @ ([CHR 0x22] @ ''. Execution aborted BEFORE instantiation.''))
          (Some (''sensitive_path:'' @ path))))"

definition unresolved_imports :: "string list \<Rightarrow> exn" where
  "unresolved_imports imports = SandboxError
     (''Sandbox: module requires '' @ py_str_int (int (length imports)) @ '' unresolved import(s): '' @
      py_join '', '' (take 5 imports) @ ''. All host-side imports are disabled for untrusted code.'')
     (Some ''unresolved_import'')"

definition no_entrypoint :: "string \<Rightarrow> (string \<times> bool) list \<Rightarrow> exn" where
  "no_entrypoint entrypoint exports = SandboxError
     ((''Sandbox: entrypoint '' @ [CHR 0x22]) @ entrypoint @ ([CHR 0x22] @ '' not found in WASM exports. Available: '') @
      py_repr (PList (map (PStr \<circ> fst) exports))) None"

definition trap_error :: "sandbox_config \<Rightarrow> string \<Rightarrow> int option \<Rightarrow> exn" where
  "trap_error cfg reason fuel_remaining =
     (if fuel_remaining = Some 0
      then SandboxError (''WASM fuel exhausted (instruction budget: '' @ py_str_int (sc_fuel_limit cfg) @ '' instructions).'')
             (Some ''fuel_exhausted'')
      else SandboxError (''WASM Trap: '' @ reason) (Some reason))"

definition execute_untrusted_code ::
  "('m, 'i) wasmtime \<Rightarrow> sandbox_config \<Rightarrow> string \<Rightarrow> string \<Rightarrow> pyval list \<Rightarrow> pyfloat \<Rightarrow> pyfloat \<Rightarrow>
     exn + wasm_execution_result" where
  "execute_untrusted_code wt cfg wasm_module entrypoint args start stop =
     bindE (check_sensitive_path_grep cfg wasm_module) (\<lambda>_.
     bindE (wt_set_fuel wt (sc_fuel_limit cfg)) (\<lambda>fuel_before.
       case wt_module wt wasm_module of
         Inl exc \<Rightarrow> Inl (SandboxError (''WASM module compilation failed: '' @ exn_str exc) None)
       | Inr m \<Rightarrow>
           (if wt_imports wt m \<noteq> [] then Inl (unresolved_imports (wt_imports wt m))
            else bindE (wt_instantiate wt m fuel_before) (\<lambda>(instance, fuel).
              if map_of (wt_exports wt instance) entrypoint \<noteq> Some True
              then Inl (no_entrypoint entrypoint (wt_exports wt instance))
              else case wt_call wt instance entrypoint args fuel of
                     Trapped reason fuel_remaining \<Rightarrow> Inl (trap_error cfg reason fuel_remaining)
                   | Out_Of_Memory \<Rightarrow>
                       Inl (SandboxError ''WASM memory limit exceeded (16 MB hard limit).'' (Some ''memory_limit_exceeded''))
                   | Failed exc \<Rightarrow> Inl (SandboxError (''WASM execution failed: '' @ exn_str exc) (Some (exn_str exc)))
                   | Returned raw_result fuel_after \<Rightarrow>
                       Inr \<lparr>wr_return_values =
                              (case raw_result of Tuple vs \<Rightarrow> vs | Single PNone \<Rightarrow> [] | Single v \<Rightarrow> [v] | No_Value \<Rightarrow> []),
                            wr_fuel_consumed = (if fuel_before \<noteq> 0 then Some (fuel_before - fuel_after) else None),
                            wr_memory_peak = None,
                            wr_execution_time_ms = fmul (fsub stop start) 1000,
                            wr_trapped = False, wr_trap_reason = None\<rparr>))))"

subsection \<open>base64\<close>

text \<open>The value of a character of the alphabet.\<close>

definition b64_value :: "char \<Rightarrow> nat option" where
  "b64_value c =
     (let n = of_char c :: nat in
      if 65 \<le> n \<and> n \<le> 90 then Some (n - 65)
      else if 97 \<le> n \<and> n \<le> 122 then Some (n - 71)
      else if 48 \<le> n \<and> n \<le> 57 then Some (n + 4)
      else if n = 43 then Some 62 else if n = 47 then Some 63 else None)"

text \<open>
  \<open>binascii.a2b_base64\<close> without its strict mode: characters outside the alphabet are skipped,
  and the padding ends the input. The arguments are the position in the group of four, the
  paddings seen, the bits left over, and the bytes so far in reverse.
\<close>

fun a2b_base64 :: "nat \<Rightarrow> nat \<Rightarrow> nat \<Rightarrow> nat list \<Rightarrow> string \<Rightarrow> exn + nat list" where
  "a2b_base64 quad pads left out [] =
     (if quad = 0 then Inr (rev out)
      else if quad = 1
      then Inl (OtherException ''Error'' (''Invalid base64-encoded string: number of data characters ('' @
             py_str_int (int (length out div 3 * 4 + 1)) @ '') cannot be 1 more than a multiple of 4''))
      else Inl (OtherException ''Error'' ''Incorrect padding''))"
| "a2b_base64 quad pads left out (c # cs) =
     (if c = CHR ''='' then
        (if 2 \<le> quad \<and> 4 \<le> quad + (pads + 1) then Inr (rev out)
         else a2b_base64 quad (if 2 \<le> quad then pads + 1 else pads) left out cs)
      else case b64_value c of
             None \<Rightarrow> a2b_base64 quad pads left out cs
           | Some v \<Rightarrow>
               (if quad = 0 then a2b_base64 1 0 v out cs
                else if quad = 1 then a2b_base64 2 0 (v mod 16) ((left * 4 + v div 16) # out) cs
                else if quad = 2 then a2b_base64 3 0 (v mod 4) ((left * 16 + v div 4) # out) cs
                else a2b_base64 0 0 0 ((left * 64 + v) # out) cs))"

definition b64decode :: "string \<Rightarrow> exn + string" where
  "b64decode s =
     (if list_ex (\<lambda>c. 128 \<le> (of_char c :: nat)) s
      then Inl (OtherException ''ValueError'' ''string argument should contain only ASCII characters'')
      else bindE (a2b_base64 0 0 0 [] s) (\<lambda>bytes. Inr (map char_of bytes)))"

subsection \<open>What the sandbox guarantees\<close>

lemma preflight_refuses:
  assumes "path \<in> set (sc_sensitive_paths cfg)" and "py_in w code" and "py_lower w = py_lower path"
  shows "\<exists>p\<in>set (sc_sensitive_paths cfg). \<exists>m. check_sensitive_path_grep cfg code = Inl (SandboxError m (Some (''sensitive_path:'' @ p)))"
proof -
  obtain a b where "code = a @ w @ b" using assms(2) by (auto simp: py_in_iff_sublist sublist_def)
  then have "py_lower code = py_lower a @ py_lower path @ py_lower b" using assms(3) by (simp add: py_lower_def)
  then have "py_in (py_lower path) (py_lower code)" using py_in_append by metis
  then have "find (\<lambda>path. py_in (py_lower path) (py_lower code)) (sc_sensitive_paths cfg) \<noteq> None"
    using assms(1) by (auto simp: find_None_iff)
  then obtain p where p: "find (\<lambda>path. py_in (py_lower path) (py_lower code)) (sc_sensitive_paths cfg) = Some p" by blast
  then have "p \<in> set (sc_sensitive_paths cfg)" by (auto simp: find_Some_iff)
  then show ?thesis using p by (auto simp: check_sensitive_path_grep_def)
qed

text \<open>
  Untrusted code runs only if it names no sensitive path and asks for nothing of the host: a
  module whose bytes contain one of the configured paths, in any mix of cases, and one that
  imports anything are refused with a \<open>SandboxError\<close> before they are instantiated, whatever the
  runtime would make of them.
\<close>

theorem sandbox_refuses:
  assumes "(\<exists>path\<in>set (sc_sensitive_paths cfg). \<exists>w. py_in w code \<and> py_lower w = py_lower path) \<or>
    (\<exists>m fuel. wt_set_fuel wt (sc_fuel_limit cfg) = Inr fuel \<and> wt_module wt code = Inr m \<and> wt_imports wt m \<noteq> [])"
  shows "\<exists>m r. \<forall>instantiate call. execute_untrusted_code (wt\<lparr>wt_instantiate := instantiate, wt_call := call\<rparr>) cfg code entry args t0 t1 =
    Inl (SandboxError m (Some r))"
proof (cases "check_sensitive_path_grep cfg code")
  case (Inl e)
  then have "\<exists>m r. e = SandboxError m (Some r)" by (auto simp: check_sensitive_path_grep_def split: option.splits)
  then show ?thesis using Inl by (auto simp: execute_untrusted_code_def)
next
  case (Inr u)
  then show ?thesis using assms preflight_refuses by (fastforce simp: execute_untrusted_code_def unresolved_imports_def)
qed

text \<open>The runtime's contract on fuel: what is left is between zero and what there was.\<close>

definition meters_fuel :: "('m, 'i) wasmtime \<Rightarrow> bool" where
  "meters_fuel wt \<longleftrightarrow>
     (\<forall>n m. wt_set_fuel wt n = Inr m \<longrightarrow> 0 \<le> n \<and> m = n) \<and>
     (\<forall>m f i g. 0 \<le> f \<longrightarrow> wt_instantiate wt m f = Inr (i, g) \<longrightarrow> 0 \<le> g \<and> g \<le> f) \<and>
     (\<forall>i e args f v g. 0 \<le> f \<longrightarrow> wt_call wt i e args f = Returned v g \<longrightarrow> 0 \<le> g \<and> g \<le> f)"

text \<open>
  C28. Of the two limits of the configuration one is enforced: code that returns has used at most
  \<open>fuel_limit\<close> instructions. The memory limit is never handed to the runtime: with any other
  value the code runs to the same result.
\<close>

theorem sandbox_limits:
  assumes "meters_fuel wt" and "execute_untrusted_code wt cfg code entry args t0 t1 = Inr r"
  shows "(case wr_fuel_consumed r of Some n \<Rightarrow> 0 \<le> n \<and> n \<le> sc_fuel_limit cfg | None \<Rightarrow> sc_fuel_limit cfg = 0) \<and>
    execute_untrusted_code wt (cfg\<lparr>sc_memory_limit_bytes := n\<rparr>) code entry args t0 t1 = Inr r"
proof -
  have same: "execute_untrusted_code wt (cfg\<lparr>sc_memory_limit_bytes := n\<rparr>) code entry args t0 t1 =
      execute_untrusted_code wt cfg code entry args t0 t1"
  proof -
    have eqs: "check_sensitive_path_grep (cfg\<lparr>sc_memory_limit_bytes := n\<rparr>) = check_sensitive_path_grep cfg"
      "trap_error (cfg\<lparr>sc_memory_limit_bytes := n\<rparr>) = trap_error cfg"
      by (simp_all add: check_sensitive_path_grep_def trap_error_def fun_eq_iff)
    show ?thesis unfolding execute_untrusted_code_def eqs by simp
  qed
  obtain fuel where f: "wt_set_fuel wt (sc_fuel_limit cfg) = Inr fuel"
    using assms(2) by (auto simp: execute_untrusted_code_def bindE_Inr_iff)
  then have fuel: "0 \<le> sc_fuel_limit cfg" "fuel = sc_fuel_limit cfg" using assms(1) f unfolding meters_fuel_def by blast+
  obtain m i g v a where w: "wt_instantiate wt m fuel = Inr (i, g)" "wt_call wt i entry args g = Returned v a"
    "wr_fuel_consumed r = (if fuel \<noteq> 0 then Some (fuel - a) else None)"
    using assms(2) f
    by (auto simp: execute_untrusted_code_def bindE_Inr_iff split: sum.splits if_splits prod.splits wasm_outcome.splits)
  have "0 \<le> g \<and> g \<le> fuel" using assms(1) w(1) fuel unfolding meters_fuel_def by blast
  moreover from this have "0 \<le> a \<and> a \<le> g" using assms(1) w(2) unfolding meters_fuel_def by blast
  ultimately have "0 \<le> a \<and> a \<le> fuel" by linarith
  then show ?thesis using w(3) fuel same assms(2) by (auto split: option.split)
qed

subsection \<open>The encoding of a module\<close>

definition b64_char :: "nat \<Rightarrow> char" where
  "b64_char v = (if v < 26 then char_of (v + 65) else if v < 52 then char_of (v + 71) else if v < 62 then char_of (v - 4)
     else if v = 62 then CHR ''+'' else CHR ''/'')"

text \<open>The standard encoding, as a reference.\<close>

fun b64encode :: "nat list \<Rightarrow> string" where
  "b64encode [] = []"
| "b64encode [a] = [b64_char (a div 4), b64_char (a mod 4 * 16), CHR ''='', CHR ''='']"
| "b64encode [a, b] = [b64_char (a div 4), b64_char (a mod 4 * 16 + b div 16), b64_char (b mod 16 * 4), CHR ''='']"
| "b64encode (a # b # c # r) =
     b64_char (a div 4) # b64_char (a mod 4 * 16 + b div 16) # b64_char (b mod 16 * 4 + c div 64) # b64_char (c mod 64) #
     b64encode r"

lemma b64_char_ok:
  assumes "v < 64"
  shows "b64_value (b64_char v) = Some v" "b64_char v \<noteq> CHR ''=''" "(of_char (b64_char v) :: nat) < 128"
proof -
  define n :: nat where "n = of_char (b64_char v)"
  have n: "n = (if v < 26 then v + 65 else if v < 52 then v + 71 else if v < 62 then v - 4 else if v = 62 then 43 else 47)"
    using assms by (auto simp: n_def b64_char_def)
  have "n \<noteq> 61" "n < 128" using n assms by (auto split: if_splits)
  then show "b64_char v \<noteq> CHR ''=''" "(of_char (b64_char v) :: nat) < 128" unfolding n_def by auto
  show "b64_value (b64_char v) = Some v" unfolding b64_value_def Let_def n_def [symmetric] using n assms by (auto split: if_splits)
qed

lemma b64_group:
  assumes "a < 256" "b < 256" "c < (256 :: nat)"
  shows "b div 16 < 16" "c div 64 < 4" "a div 4 < 64" "a mod 4 * 16 + b div 16 < 64" "b mod 16 * 4 + c div 64 < 64"
proof -
  show q: "b div 16 < 16" "c div 64 < 4" "a div 4 < 64" using assms by (simp_all add: less_mult_imp_div_less)
  have "a mod 4 \<le> 3" "b mod 16 \<le> 15" by simp_all
  then show "a mod 4 * 16 + b div 16 < 64" "b mod 16 * 4 + c div 64 < 64" using q by linarith+
qed

lemma a2b_encode:
  "list_all (\<lambda>b. b < 256) bytes \<Longrightarrow> a2b_base64 0 0 0 out (b64encode bytes) = Inr (rev out @ bytes)"
proof (induction bytes arbitrary: out rule: b64encode.induct)
  case (2 a)
  then show ?case using b64_group [of a 0 0] by (simp add: b64_char_ok)
next
  case (3 a b)
  then show ?case using b64_group [of a b 0] by (simp add: b64_char_ok)
next
  case (4 a b c r)
  then show ?case using b64_group [of a b c] by (simp add: b64_char_ok)
qed simp

lemma b64encode_ascii: "list_all (\<lambda>b. b < 256) bytes \<Longrightarrow> list_all (\<lambda>c. (of_char c :: nat) < 128) (b64encode bytes)"
proof (induction bytes rule: b64encode.induct)
  case (2 a)
  then show ?case using b64_group [of a 0 0] by (simp add: b64_char_ok)
next
  case (3 a b)
  then show ?case using b64_group [of a b 0] by (simp add: b64_char_ok)
next
  case (4 a b c r)
  then show ?case using b64_group [of a b c] by (simp add: b64_char_ok)
qed simp

text \<open>
  What the sandbox gets is what was sent: decoding the standard base64 encoding of a module
  gives back its bytes, for every length.
\<close>

theorem module_round_trip: "b64decode (b64encode (map of_char code)) = Inr code"
proof -
  let ?bytes = "map of_char code :: nat list"
  have bytes: "list_all (\<lambda>b. b < 256) ?bytes" by (simp add: list_all_iff)
  have "\<not> list_ex (\<lambda>c. 128 \<le> (of_char c :: nat)) (b64encode ?bytes)"
    using b64encode_ascii [OF bytes] by (auto simp: list_all_iff list_ex_iff)
  then show ?thesis using a2b_encode [OF bytes, of "[]"] by (simp add: b64decode_def o_def)
qed

subsection \<open>Witnesses\<close>

definition demo_wasmtime :: "(string, string) wasmtime" where
  "demo_wasmtime = \<lparr>wt_available = True, wt_set_fuel = (\<lambda>n. if 0 \<le> n then Inr n else Inl (OtherException ''OverflowError'' [])),
     wt_module = Inr, wt_imports = (\<lambda>_. []), wt_instantiate = (\<lambda>m f. Inr (m, f)), wt_exports = (\<lambda>_. [(''main'', True)]),
     wt_call = (\<lambda>_ _ _ f. if 5 \<le> f then Returned (Single (PInt 7)) (f - 5) else Trapped ''out of fuel'' (Some 0))\<rparr>"

theorem sandbox_refuses_witness:
  "\<exists>m r. execute_untrusted_code demo_wasmtime default_sandbox_config ''open /ETC/Shadow now'' ''main'' [] 0 0 =
    Inl (SandboxError m (Some r))"
proof -
  have "py_in ''/ETC/Shadow'' ''open /ETC/Shadow now''" "py_lower ''/ETC/Shadow'' = py_lower ''/etc/shadow''" by code_simp+
  moreover have "''/etc/shadow'' \<in> set (sc_sensitive_paths default_sandbox_config)" by (simp add: default_sandbox_config_def)
  ultimately obtain m r where "\<forall>i c. execute_untrusted_code (demo_wasmtime\<lparr>wt_instantiate := i, wt_call := c\<rparr>)
      default_sandbox_config ''open /ETC/Shadow now'' ''main'' [] 0 0 = Inl (SandboxError m (Some r))"
    using sandbox_refuses [of default_sandbox_config "''open /ETC/Shadow now''" demo_wasmtime "''main''" "[]" 0 0] by blast
  then have "execute_untrusted_code (demo_wasmtime\<lparr>wt_instantiate := wt_instantiate demo_wasmtime, wt_call := wt_call demo_wasmtime\<rparr>)
      default_sandbox_config ''open /ETC/Shadow now'' ''main'' [] 0 0 = Inl (SandboxError m (Some r))" by blast
  then show ?thesis by simp
qed

theorem sandbox_limits_witness:
  "\<exists>r. execute_untrusted_code demo_wasmtime (default_sandbox_config\<lparr>sc_memory_limit_bytes := 0\<rparr>) ''m'' ''main'' [] 0 0 = Inr r \<and>
    wr_fuel_consumed r = Some 5"
proof -
  have "check_sensitive_path_grep default_sandbox_config ''m'' = Inr ()" by code_simp
  then obtain r where r: "execute_untrusted_code demo_wasmtime default_sandbox_config ''m'' ''main'' [] 0 0 = Inr r"
    "wr_fuel_consumed r = Some 5"
    by (simp add: execute_untrusted_code_def demo_wasmtime_def default_sandbox_config_def)
  have "meters_fuel demo_wasmtime" by (simp add: meters_fuel_def demo_wasmtime_def)
  from sandbox_limits [OF this r(1), of 0] r(2) show ?thesis by blast
qed

end
