(* ===== verification/Gateway.thy ===== *)
theory Gateway
  imports Write_Gate Wasm_Sandbox
begin

text \<open>
  The governance gateway, \<^verbatim>\<open>src/agentos/governance/mcp_server.py\<close>: the tools it registers and
  what each answers. FastMCP, which dispatches the calls and checks the types of their
  arguments, is not modelled; a call arrives with its arguments, the defaults filled in. An
  answer is the JSON text the handler returns.
\<close>

subsection \<open>json.dumps with an indent of two\<close>

definition line_break :: "nat \<Rightarrow> string" where
  "line_break level = nl @ replicate (2 * level) (CHR '' '')"

fun json_indent :: "nat \<Rightarrow> pyval \<Rightarrow> string" where
  "json_indent n (PList xs) =
     (if xs = [] then ''[]''
      else ''['' @ line_break (Suc n) @ py_join ('','' @ line_break (Suc n)) (map (json_indent (Suc n)) xs) @ line_break n @ '']'')"
| "json_indent n (PDict d) =
     (if d = [] then ''{}''
      else ''{'' @ line_break (Suc n) @
        py_join ('','' @ line_break (Suc n)) (map (\<lambda>(k, v). json_string True k @ '': '' @ json_indent (Suc n) v) d) @
        line_break n @ ''}'')"
| "json_indent n v = json_dumps True [] [] v"

definition pretty :: "pyval \<Rightarrow> string" where
  "pretty v = json_indent 0 v"

subsection \<open>The tools\<close>

datatype mcp_tool =
    List_Domains_Tool
  | Untrusted_Code_Tool
  | Schema_Tool string
  | Verify_Tool string
  | Write_Tool string

definition underscored :: "string \<Rightarrow> string" where
  "underscored domain_name = py_replace (CHR ''-'') ''_'' domain_name"

definition domain_tools :: "domain_config \<Rightarrow> (string \<times> mcp_tool) list" where
  "domain_tools d =
     [(''get_'' @ underscored (dc_name d) @ ''_schema'', Schema_Tool (dc_name d)),
      (''verify_shacl_compliance_'' @ underscored (dc_name d), Verify_Tool (dc_name d)),
      (''execute_governed_write_'' @ underscored (dc_name d), Write_Tool (dc_name d))]"

definition registered_tools :: "bool \<Rightarrow> domain_config list \<Rightarrow> (string \<times> mcp_tool) list" where
  "registered_tools has_wasmtime domains =
     [(''list_domains'', List_Domains_Tool)] @
     (if has_wasmtime then [(''execute_untrusted_code'', Untrusted_Code_Tool)] else []) @
     concat (map domain_tools domains)"

subsection \<open>The handlers\<close>

definition list_domains_tool :: "domain_config list \<Rightarrow> string" where
  "list_domains_tool domains = pretty (PDict
     [(''domains'', PList (map (PStr \<circ> dc_name) domains)),
      (''count'', PInt (int (length domains))),
      (''hint'', PStr ''Use get_{domain}_schema to retrieve the schema for a specific domain.'')])"

definition untrusted_code_tool ::
  "('m, 'i) wasmtime \<Rightarrow> string \<Rightarrow> string \<Rightarrow> pyval list \<Rightarrow> int \<Rightarrow> int \<Rightarrow> pyfloat \<Rightarrow> pyfloat \<Rightarrow> string" where
  "untrusted_code_tool wt wasm_base64 entrypoint args memory_limit_mb fuel_limit start stop = pretty
     (case b64decode wasm_base64 of
        Inl exc \<Rightarrow> PDict [(''error'', PBool True), (''message'', PStr (''Base64 decode failed: '' @ exn_str exc))]
      | Inr wasm_bytes \<Rightarrow>
          (case bindE (new_WasmSandbox wt (Some (default_sandbox_config
                   \<lparr>sc_memory_limit_bytes := memory_limit_mb * 1024 * 1024, sc_fuel_limit := fuel_limit\<rparr>)))
                 (\<lambda>cfg. execute_untrusted_code wt cfg wasm_bytes entrypoint args start stop) of
             Inl exc \<Rightarrow> PDict [(''error'', PBool True), (''message'', PStr (exn_str exc))]
           | Inr result \<Rightarrow> PDict
               [(''error'', PBool False),
                (''return_values'', PList (map (PStr \<circ> py_str) (wr_return_values result))),
                (''fuel_consumed'', case wr_fuel_consumed result of Some n \<Rightarrow> PInt n | None \<Rightarrow> PNone),
                (''execution_time_ms'', PFloat (wr_execution_time_ms result)),
                (''trapped'', PBool (wr_trapped result)),
                (''trap_reason'', py_opt_str (wr_trap_reason result))]))"

definition rpc_result :: "pyval \<Rightarrow> pyval" where
  "rpc_result v = PDict [(''jsonrpc'', PStr ''2.0''), (''result'', v)]"

definition rpc_error :: "int \<Rightarrow> string \<Rightarrow> (string \<times> pyval) list \<Rightarrow> pyval" where
  "rpc_error code message extra =
     PDict [(''jsonrpc'', PStr ''2.0''), (''error'', PDict ([(''code'', PInt code), (''message'', PStr message)] @ extra))]"

definition schema_tool :: "('db, 'tx) gate_env \<Rightarrow> string \<Rightarrow> 'db gate_world \<Rightarrow> string \<times> 'db gate_world" where
  "schema_tool env domain_name gw =
     (case get_domain_schema env (gw_gate gw) domain_name of
        (r, g) \<Rightarrow>
          ((case r of
              Inr schema \<Rightarrow> pretty (PDict schema)
            | Inl exc \<Rightarrow> json_dumps True '', '' '': '' (rpc_error (-32603) (exn_str exc) [])),
           gw\<lparr>gw_gate := g\<rparr>))"

text \<open>
  The name \<open>report\<close> is bound only by the call that raised, so that the first alternative of the
  first handler is never taken.
\<close>

definition verify_answer :: "exn + shacl_report \<times> string option \<Rightarrow> pyval" where
  "verify_answer r =
     (case r of
        Inr (report, nonce) \<Rightarrow> rpc_result (PDict
          ((case report_to_dict report of PDict d \<Rightarrow> d | _ \<Rightarrow> []) @
           [(''validation_nonce'', py_opt_str nonce),
            (''next_step'', PStr
              (case nonce of
                 Some (_ # _) \<Rightarrow> ''Use execute_governed_write with this validation_nonce to complete the write.''
               | _ \<Rightarrow> ''Fix the SHACL violations listed above and retry.''))]))
      | Inl (SHACLValidationError m report) \<Rightarrow>
          rpc_error (-32602) m [(''data'', if py_truth report then report else PDict [])]
      | Inl exc \<Rightarrow> rpc_error (-32603) (''Validation error: '' @ exn_str exc) [])"

definition verify_tool ::
  "('db, 'tx) gate_env \<Rightarrow> string \<Rightarrow> string \<Rightarrow> string \<Rightarrow> pyfloat \<Rightarrow> 'db gate_world \<Rightarrow> string \<times> 'db gate_world" where
  "verify_tool env domain_name data_rdf rdf_format now gw =
     (case verify_shacl_compliance env (gw_gate gw) domain_name data_rdf rdf_format now of
        (r, g, spans) \<Rightarrow> (pretty (verify_answer r), gw\<lparr>gw_gate := g, gw_spans := gw_spans gw @ spans\<rparr>))"

definition write_answer :: "exn + (string \<times> pyval) list \<Rightarrow> pyval" where
  "write_answer r =
     (case r of
        Inr result \<Rightarrow> rpc_result (PDict result)
      | Inl (SHACLValidationError m report) \<Rightarrow> rpc_error (-32602) m [(''data'', report)]
      | Inl (WriteGateError m) \<Rightarrow> rpc_error (-32602) m [(''data'', PNone)]
      | Inl exc \<Rightarrow> rpc_error (-32603) (''Write execution error: '' @ exn_str exc) [])"

definition write_tool ::
  "('db, 'tx) gate_env \<Rightarrow> string \<Rightarrow> string \<Rightarrow> string \<Rightarrow> string \<Rightarrow> gate_clock \<Rightarrow> 'db gate_world \<Rightarrow> string \<times> 'db gate_world" where
  "write_tool env domain_name data_rdf validation_nonce rdf_format clk gw =
     (case execute_governed_write env gw domain_name data_rdf validation_nonce rdf_format clk of
        (r, gw1) \<Rightarrow> (pretty (write_answer r), gw1))"

subsection \<open>A call\<close>

record tool_args =
  ta_data_rdf :: string
  ta_validation_nonce :: string
  ta_rdf_format :: string
  ta_wasm_base64 :: string
  ta_entrypoint :: string
  ta_args :: "pyval list"
  ta_memory_limit_mb :: int
  ta_fuel_limit :: int

text \<open>The arguments a call leaves out.\<close>

definition default_tool_args :: tool_args where
  "default_tool_args = \<lparr>ta_data_rdf = [], ta_validation_nonce = [], ta_rdf_format = ''turtle'', ta_wasm_base64 = [],
     ta_entrypoint = ''main'', ta_args = [], ta_memory_limit_mb = 16, ta_fuel_limit = 1000000000\<rparr>"

definition call_tool ::
  "('db, 'tx) gate_env \<Rightarrow> ('m, 'i) wasmtime \<Rightarrow> domain_config list \<Rightarrow> mcp_tool \<Rightarrow> tool_args \<Rightarrow> gate_clock \<Rightarrow>
     'db gate_world \<Rightarrow> string \<times> 'db gate_world" where
  "call_tool env wt domains tool a clk gw =
     (case tool of
        List_Domains_Tool \<Rightarrow> (list_domains_tool domains, gw)
      | Untrusted_Code_Tool \<Rightarrow>
          (untrusted_code_tool wt (ta_wasm_base64 a) (ta_entrypoint a) (ta_args a) (ta_memory_limit_mb a) (ta_fuel_limit a)
             (gc_revalidate clk) (gc_done clk), gw)
      | Schema_Tool dm \<Rightarrow> schema_tool env dm gw
      | Verify_Tool dm \<Rightarrow> verify_tool env dm (ta_data_rdf a) (ta_rdf_format a) (gc_revalidate clk) gw
      | Write_Tool dm \<Rightarrow> write_tool env dm (ta_data_rdf a) (ta_validation_nonce a) (ta_rdf_format a) clk gw)"


subsection \<open>The tools of a domain\<close>

lemma map_of_concat_None: "(\<And>x. x \<in> set xs \<Longrightarrow> map_of (f x) k = None) \<Longrightarrow> map_of (concat (map f xs)) k = None"
  by (induction xs) (simp_all add: map_add_def)

lemma map_of_concat_Some:
  "x \<in> set xs \<Longrightarrow> map_of (f x) k = Some v \<Longrightarrow> (\<And>y u. y \<in> set xs \<Longrightarrow> map_of (f y) k = Some u \<Longrightarrow> u = v) \<Longrightarrow>
   map_of (concat (map f xs)) k = Some v"
proof (induction xs)
  case (Cons y xs)
  show ?case
  proof (cases "map_of (f y) k")
    case None
    then have "x \<in> set xs" using Cons.prems(1,2) by auto
    then have "map_of (concat (map f xs)) k = Some v" by (rule Cons.IH [OF _ Cons.prems(2)]) (metis Cons.prems(3) list.set_intros(2))
    then show ?thesis using None by (simp add: map_add_def)
  next
    case (Some u)
    then show ?thesis using Cons.prems(3) [of y u] by (simp add: map_add_def)
  qed
qed simp

text \<open>
  Every configured domain gets its three tools under its own name, with dashes replaced, as
  long as no other domain has the same name but for dashes. There is no tool with the plain
  names \<open>verify_shacl_compliance\<close> and \<open>execute_governed_write\<close> to which the answers of the
  kernel and of the tools themselves refer.
\<close>

theorem tools_of_a_domain:
  assumes "d \<in> set domains" and "\<forall>e\<in>set domains. underscored (dc_name e) = underscored (dc_name d) \<longrightarrow> dc_name e = dc_name d"
  shows "map_of (registered_tools w domains) (''get_'' @ underscored (dc_name d) @ ''_schema'') = Some (Schema_Tool (dc_name d)) \<and>
    map_of (registered_tools w domains) (''verify_shacl_compliance_'' @ underscored (dc_name d)) = Some (Verify_Tool (dc_name d)) \<and>
    map_of (registered_tools w domains) (''execute_governed_write_'' @ underscored (dc_name d)) = Some (Write_Tool (dc_name d)) \<and>
    map_of (registered_tools w domains) ''verify_shacl_compliance'' = None \<and>
    map_of (registered_tools w domains) ''execute_governed_write'' = None"
proof -
  have some: "map_of (concat (map domain_tools domains)) name = Some t"
    if "map_of (domain_tools d) name = Some t" "\<And>e u. map_of (domain_tools e) name = Some u \<Longrightarrow> dc_name e = dc_name d \<Longrightarrow> u = t"
      "\<And>e u. map_of (domain_tools e) name = Some u \<Longrightarrow> underscored (dc_name e) = underscored (dc_name d)" for name t
    using map_of_concat_Some [where f = domain_tools, OF assms(1) that(1)] that(2,3) assms(2) by blast
  have "map_of (concat (map domain_tools domains)) (''get_'' @ underscored (dc_name d) @ ''_schema'') = Some (Schema_Tool (dc_name d))"
    "map_of (concat (map domain_tools domains)) (''verify_shacl_compliance_'' @ underscored (dc_name d)) = Some (Verify_Tool (dc_name d))"
    "map_of (concat (map domain_tools domains)) (''execute_governed_write_'' @ underscored (dc_name d)) = Some (Write_Tool (dc_name d))"
    by (rule some; auto simp: domain_tools_def split: if_splits)+
  moreover have "map_of (concat (map domain_tools domains)) ''verify_shacl_compliance'' = None"
    "map_of (concat (map domain_tools domains)) ''execute_governed_write'' = None"
    by (rule map_of_concat_None; simp add: domain_tools_def)+
  ultimately show ?thesis by (simp add: registered_tools_def)
qed

theorem tools_of_a_domain_witness:
  "map_of (registered_tools True [\<lparr>dc_name = ''it-asset-mgmt'', dc_owl_file = [], dc_shacl_file = []\<rparr>])
     ''verify_shacl_compliance_it_asset_mgmt'' = Some (Verify_Tool ''it-asset-mgmt'')"
proof -
  let ?d = "\<lparr>dc_name = ''it-asset-mgmt'', dc_owl_file = [], dc_shacl_file = []\<rparr>"
  have "underscored ''it-asset-mgmt'' = ''it_asset_mgmt''" by code_simp
  then show ?thesis using tools_of_a_domain [of ?d "[?d]" True] by simp
qed

subsection \<open>The gateway is a client of the gate\<close>

text \<open>What one call does to the gate.\<close>

lemma call_effect:
  assumes "call_tool env wt domains tool a clk gw = (answer, gw')"
  shows "(gw' = gw \<or> gate_step env (gc_cleanup clk) gw gw') \<and>
    (gw_db gw' \<noteq> gw_db gw \<longrightarrow> (\<exists>dm. tool = Write_Tool dm \<and>
       write_authorised env gw (dm, ta_data_rdf a, ta_validation_nonce a, ta_rdf_format a, clk)))"
proof (cases tool)
  case (Schema_Tool dm)
  have "gw' = gw\<lparr>gw_gate := snd (get_domain_schema env (gw_gate gw) dm)\<rparr>"
    using assms by (auto simp: call_tool_def Schema_Tool schema_tool_def split: prod.splits)
  then show ?thesis by (simp add: gate_step.schema)
next
  case (Verify_Tool dm)
  let ?v = "verify_shacl_compliance env (gw_gate gw) dm (ta_data_rdf a) (ta_rdf_format a) (gc_revalidate clk)"
  obtain spans where "gw' = gw\<lparr>gw_gate := fst (snd ?v), gw_spans := spans\<rparr>"
    using assms by (auto simp: call_tool_def Verify_Tool verify_tool_def split: prod.splits)
  then show ?thesis by (simp add: gate_step.verify)
next
  case (Write_Tool dm)
  let ?a = "(dm, ta_data_rdf a, ta_validation_nonce a, ta_rdf_format a, clk)"
  have "gw' = snd (execute_governed_write env gw dm (ta_data_rdf a) (ta_validation_nonce a) (ta_rdf_format a) clk)"
    using assms by (auto simp: call_tool_def Write_Tool write_tool_def split: prod.splits)
  then show ?thesis using Write_Tool gate.changed_authorised [of env gw ?a] by (simp add: gate_step.execute governed_write_def)
qed (use assms in \<open>auto simp: call_tool_def\<close>)

text \<open>
  C25. A tool call acts on the gate by at most one of the gate's own steps, and it changes the
  database only if it is a call of a domain's write tool and the gate authorised exactly that
  domain, the data and the nonce of the call.
\<close>

theorem call_refines_gate:
  assumes "call_tool env wt domains tool a clk gw = (answer, gw')"
  shows "(gw' = gw \<or> gate_step env (gc_cleanup clk) gw gw') \<and>
    (gw_db gw' \<noteq> gw_db gw \<longrightarrow> (\<exists>dm. tool = Write_Tool dm \<and>
       write_authorised env gw (dm, ta_data_rdf a, ta_validation_nonce a, ta_rdf_format a, clk)))"
  using assms by (rule call_effect)

text \<open>Calls in sequence.\<close>

fun run_calls ::
  "('db, 'tx) gate_env \<Rightarrow> ('m, 'i) wasmtime \<Rightarrow> domain_config list \<Rightarrow> (mcp_tool \<times> tool_args \<times> gate_clock) list \<Rightarrow>
     'db gate_world \<Rightarrow> string list \<times> 'db gate_world" where
  "run_calls env wt domains [] gw = ([], gw)"
| "run_calls env wt domains ((tool, a, clk) # calls) gw =
     (let (answer, gw1) = call_tool env wt domains tool a clk gw;
          (answers, gw2) = run_calls env wt domains calls gw1
      in (answer # answers, gw2))"

lemma call_steps:
  "call_tool env wt domains tool a clk gw = (answer, gw') \<Longrightarrow> gc_cleanup clk < T \<Longrightarrow> runs_before (gate_step env) T gw gw'"
  using call_effect [of env wt domains tool a clk gw answer gw'] by (auto intro: runs_before.intros)

lemma run_calls_steps:
  "run_calls env wt domains calls gw = (answers, gw') \<Longrightarrow> \<forall>(tool, a, clk)\<in>set calls. gc_cleanup clk < T \<Longrightarrow>
   runs_before (gate_step env) T gw gw'"
proof (induction calls arbitrary: gw answers)
  case (Cons call calls)
  obtain tool a clk where c: "call = (tool, a, clk)" by (metis prod.exhaust)
  obtain answer gw1 where one: "call_tool env wt domains tool a clk gw = (answer, gw1)" by force
  obtain rest gw2 where "run_calls env wt domains calls gw1 = (rest, gw2)" by force
  then show ?case using Cons call_steps [OF one, of T] c one by (auto intro: runs_before_trans)
qed (simp add: runs_before.refl)

text \<open>
  In a running gateway a nonce writes at most once: after a write tool has answered with a
  result, whatever tools are called in between, a later call of a write tool with a nonce of
  the same signature is answered with a JSON-RPC error, as long as the calls come before the
  expiry of the spent nonce, and changes nothing in the database.
\<close>

theorem gateway_spends_once:
  assumes "execute_governed_write env gw dm data nonce fmt clk = (Inr r, gw1)" and "gate_wf (gw_gate gw)"
    and "py_split (CHR '':'') nonce = [a, b, signature]"
    and "run_calls env wt domains calls gw1 = (answers, gw2)" and "\<forall>(tool, x, ck)\<in>set calls. gc_cleanup ck < T"
    and "T \<le> fadd (gc_consume clk) (fl (of_int (wg_nonce_ttl (gw_gate gw))))"
    and "py_split (CHR '':'') (ta_validation_nonce args) = [a2, b2, signature]" and "gc_cleanup clk2 < T"
    and "call_tool env wt domains (Write_Tool dm2) args clk2 gw2 = (answer, gw3)"
  shows "gw_db gw3 = gw_db gw2 \<and> (\<exists>code m extra. answer = pretty (rpc_error code m extra))"
proof -
  let ?e = "fadd (gc_consume clk) (fl (of_int (wg_nonce_ttl (gw_gate gw))))"
  let ?x = "execute_governed_write env gw2 dm2 (ta_data_rdf args) (ta_validation_nonce args) (ta_rdf_format args) clk2"
  have "world_expiry gw2 signature = Some ?e"
    using ledger.run_keeps [OF run_calls_steps [OF assms(4,5)] success_burns [OF assms(1-3)] assms(6)] .
  then have burned: "gate_wf (gw_gate gw2)" "burned (gw_gate gw2) signature = Some ?e"
    by (auto simp: world_expiry_def split: if_splits)
  have late: "gc_cleanup clk2 < ?e" using assms(6,8) by simp
  then have spent: "burned (cleanup_expired_nonces (gw_gate gw2) (gc_cleanup clk2)) signature = Some ?e"
    using burned by (simp add: burned_cleanup)
  have no: "\<not> write_authorised env gw2 (dm2, ta_data_rdf args, ta_validation_nonce args, ta_rdf_format args, clk2)"
    using spent assms(7) by (auto simp: write_authorised_def nonce_valid_def)
  then obtain e where e: "?x = (Inl e, gw3)" "answer = pretty (write_answer (Inl e))"
    using assms(9) gate.success_authorised [of env gw2 "(dm2, ta_data_rdf args, ta_validation_nonce args, ta_rdf_format args, clk2)"]
    by (cases "?x"; cases "fst ?x") (auto simp: call_tool_def write_tool_def governed_write_def)
  have "gw_db gw3 = gw_db gw2"
    using gate.unauthorised_keeps [OF no, of "Inl e" gw3] e(1)
    by (simp add: governed_write_def)
  moreover have "\<exists>code m extra. write_answer (Inl e) = rpc_error code m extra" by (cases e) (auto simp: write_answer_def)
  ultimately show ?thesis using e(2) by metis
qed

subsection \<open>A gateway without a database\<close>

lemma has_neo4j_frame:
  "wg_has_neo4j (snd (get_validator env gate dm)) = wg_has_neo4j gate"
  "wg_has_neo4j (snd (get_domain_schema env gate dm)) = wg_has_neo4j gate"
  "wg_has_neo4j (consume_nonce gate nonce now) = wg_has_neo4j gate"
  "wg_has_neo4j (cleanup_expired_nonces gate now) = wg_has_neo4j gate"
  by (auto simp: get_validator_def get_domain_schema_def consume_nonce_def cleanup_expired_nonces_def
      split: option.split sum.split prod.split list.split)

lemma write_graph_offline: "\<not> wg_has_neo4j (gw_gate w) \<Longrightarrow> gw_db (snd (write_graph env w dm data fmt now)) = gw_db w"
  by (simp add: write_graph_def split: sum.split)

lemma execute_offline:
  assumes "\<not> wg_has_neo4j (gw_gate w)"
  shows "\<not> wg_has_neo4j (gw_gate (snd (execute_governed_write env w dm data nonce fmt clk))) \<and>
    gw_db (snd (execute_governed_write env w dm data nonce fmt clk)) = gw_db w"
proof (cases rule: governed_write_cases [of w dm clk env data nonce fmt])
  case (written signature g report n spans)
  have "g = snd (get_validator env (consume_nonce (cleanup_expired_nonces (gw_gate w) (gc_cleanup clk)) nonce (gc_consume clk)) dm)"
    using verify_shacl_gate written(4) by (metis fst_conv snd_conv)
  then have "\<not> wg_has_neo4j g" using assms by (simp add: has_neo4j_frame)
  then show ?thesis using written(6) by (simp add: write_graph_offline check_quota_frame)
qed (use assms in \<open>auto simp: has_neo4j_frame verify_shacl_gate check_quota_frame\<close>)

lemma gate_step_offline:
  "gate_step env t w w' \<Longrightarrow> \<not> wg_has_neo4j (gw_gate w) \<Longrightarrow> \<not> wg_has_neo4j (gw_gate w') \<and> gw_db w' = gw_db w"
proof (induction rule: gate_step.induct)
  case (execute clk w dm data nonce fmt)
  then show ?case using execute_offline by blast
qed (auto simp: has_neo4j_frame verify_shacl_gate check_quota_frame)

lemma run_offline:
  "runs_before (gate_step env) T w w' \<Longrightarrow> \<not> wg_has_neo4j (gw_gate w) \<Longrightarrow> \<not> wg_has_neo4j (gw_gate w') \<and> gw_db w' = gw_db w"
proof (induction rule: runs_before.induct)
  case (step t s s' s'')
  then show ?case using gate_step_offline [OF step(1)] by simp
qed simp

text \<open>
  A gate without a database client reports writes it does not make: whatever tools are called, the
  database stays as it is, and still a call of the write tool that the gate accepts is answered
  with a result whose status is \<open>success\<close> and which carries a transaction id.
\<close>

lemma offline_success:
  assumes "\<not> wg_has_neo4j (gw_gate gw)" and "run_calls env wt domains calls gw = (answers, gw1)"
  shows "gw_db gw1 = gw_db gw \<and>
    (\<forall>dm args clk r gw2.
       execute_governed_write env gw1 dm (ta_data_rdf args) (ta_validation_nonce args) (ta_rdf_format args) clk = (Inr r, gw2) \<longrightarrow>
       gw_db gw2 = gw_db gw \<and>
       call_tool env wt domains (Write_Tool dm) args clk gw1 = (pretty (rpc_result (PDict
         [(''status'', PStr ''success''), (''domain'', PStr dm), (''transaction_id'', PStr (transaction_id env dm (gc_done clk)))])), gw2))"
proof -
  obtain T where "\<forall>(tool, a, clk)\<in>set calls. gc_cleanup clk < T"
  proof
    show "\<forall>(tool, a, clk)\<in>set calls. gc_cleanup clk < sum_list (map (\<lambda>(tool, a, clk). \<bar>gc_cleanup clk\<bar>) calls) + 1"
      using member_le_sum_list [of _ "map (\<lambda>(tool, a, clk). \<bar>gc_cleanup clk\<bar>) calls"] by fastforce
  qed
  then have off: "\<not> wg_has_neo4j (gw_gate gw1)" "gw_db gw1 = gw_db gw"
    using run_offline [OF run_calls_steps [OF assms(2)] assms(1)] by auto
  have "gw_db gw2 = gw_db gw \<and> r = [(''status'', PStr ''success''), (''domain'', PStr dm),
      (''transaction_id'', PStr (transaction_id env dm (gc_done clk)))]"
    if x: "execute_governed_write env gw1 dm data nonce fmt clk = (Inr r, gw2)" for dm data nonce fmt clk r gw2
  proof -
    have "gw_db gw2 = gw_db gw" using execute_offline [OF off(1), of env dm data nonce fmt clk] x off(2) by simp
    moreover have "r = [(''status'', PStr ''success''), (''domain'', PStr dm),
      (''transaction_id'', PStr (transaction_id env dm (gc_done clk)))]"
    proof (cases rule: governed_write_cases [of gw1 dm clk env data nonce fmt])
      case (written signature g report n spans)
      have "g = snd (get_validator env (consume_nonce (cleanup_expired_nonces (gw_gate gw1) (gc_cleanup clk)) nonce (gc_consume clk)) dm)"
        using verify_shacl_gate written(4) by (metis fst_conv snd_conv)
      then have "\<not> wg_has_neo4j g" using off(1) by (simp add: has_neo4j_frame)
      then show ?thesis using written(6) x by (auto simp: write_graph_def split: sum.splits)
    qed (use x in auto)
    ultimately show ?thesis by simp
  qed
  then show ?thesis using off(2) by (auto simp: call_tool_def write_tool_def write_answer_def)
qed

subsection \<open>Witnesses\<close>

definition demo_args :: tool_args where
  "demo_args = default_tool_args\<lparr>ta_data_rdf := ''data'', ta_validation_nonce := ''100:aa:bb''\<rparr>"

lemma demo_args_sel [simp]:
  "ta_data_rdf demo_args = ''data''" "ta_validation_nonce demo_args = ''100:aa:bb''" "ta_rdf_format demo_args = ''turtle''"
  by (simp_all add: demo_args_def default_tool_args_def)

theorem call_refines_gate_witness:
  "\<exists>answer gw'. call_tool demo_env demo_wasmtime [] (Write_Tool ''hr'') demo_args (clk_all 100) demo_world = (answer, gw') \<and>
    gw_db gw' \<noteq> gw_db demo_world \<and> write_authorised demo_env demo_world (''hr'', ''data'', ''100:aa:bb'', ''turtle'', clk_all 100)"
proof -
  obtain r w' where w: "execute_governed_write demo_env demo_world ''hr'' ''data'' ''100:aa:bb'' ''turtle'' (clk_all 100) = (Inr r, w')"
    "gw_db w' = rdf_to_cypher_statements demo_graph" using demo_write by blast
  then have c: "call_tool demo_env demo_wasmtime [] (Write_Tool ''hr'') demo_args (clk_all 100) demo_world = (pretty (write_answer (Inr r)), w')"
    by (simp add: call_tool_def write_tool_def)
  have "gw_db w' \<noteq> gw_db demo_world"
    using w(2) by (simp add: demo_graph_def rdf_to_cypher_statements_def merge_statement_def)
  then show ?thesis using call_refines_gate [OF c] c by auto
qed

theorem gateway_spends_once_witness:
  "\<exists>r gw1 answers gw2 answer gw3.
     execute_governed_write demo_env demo_world ''hr'' ''data'' ''100:aa:bb'' ''turtle'' (clk_all 100) = (Inr r, gw1) \<and>
     run_calls demo_env demo_wasmtime [] [(Verify_Tool ''hr'', demo_args, clk_all 200)] gw1 = (answers, gw2) \<and>
     call_tool demo_env demo_wasmtime [] (Write_Tool ''hr'') demo_args (clk_all 399) gw2 = (answer, gw3) \<and>
     gw_db gw3 = gw_db gw2 \<and> (\<exists>code m extra. answer = pretty (rpc_error code m extra))"
proof -
  obtain r gw1 where w: "execute_governed_write demo_env demo_world ''hr'' ''data'' ''100:aa:bb'' ''turtle'' (clk_all 100) = (Inr r, gw1)"
    using demo_write by blast
  obtain answers gw2 where c: "run_calls demo_env demo_wasmtime [] [(Verify_Tool ''hr'', demo_args, clk_all 200)] gw1 = (answers, gw2)"
    by (metis prod.exhaust)
  obtain answer gw3 where d: "call_tool demo_env demo_wasmtime [] (Write_Tool ''hr'') demo_args (clk_all 399) gw2 = (answer, gw3)"
    by (metis prod.exhaust)
  have wf: "gate_wf (gw_gate demo_world)" by (simp add: demo_wf)
  have s: "py_split (CHR '':'') (ta_validation_nonce demo_args) = [''100'', ''aa'', ''bb'']" by (simp add: demo_split)
  have "gw_db gw3 = gw_db gw2 \<and> (\<exists>code m extra. answer = pretty (rpc_error code m extra))"
    by (rule gateway_spends_once [OF w wf demo_split c _ _ s _ d, of 400]) (simp_all add: demo_expiry)
  then show ?thesis using w c d by blast
qed

end
