(* ===== verification/Cli.thy ===== *)
theory Cli
  imports Config Gateway Kernel_Limits
begin

text \<open>
  The command line, \<^verbatim>\<open>src/agentos/cli/cli.py\<close>. A command ends with an exit code and the lines it
  printed, or with an exception nobody catches. Every command is a process of its own: \<open>validate\<close>
  and \<open>write\<close> build the gate and the kernel from the configuration, and what they keep in memory
  is gone when they end. Click's parsing of the options, and the lazy imports, are left out.
\<close>

datatype cli_result = Exit int "string list" | Crash exn

subsection \<open>init\<close>

definition POLICY_TEMPLATE :: string where
  "POLICY_TEMPLATE =
   (''# '' @ u8 [0xE2, 0x94, 0x80, 0xE2, 0x94, 0x80] @ '' Agent OS '' @ u8 [0xE2, 0x80, 0x94] @ '' Autonomy Policy '' @ u8 [0xE2, 0x94, 0x80, 0xE2, 0x94, 0x80]) @ nl @
   (''# Generated by '' @ ''`'' @ ''agentos init'' @ ''`'' @ ''. Edit to match your deployment constraints.'') @ nl @
   ''# All paths are relative to the workspace root.'' @ nl @
   [] @ nl @
   (''version: '' @ [CHR 0x22] @ ''1.0'' @ [CHR 0x22]) @ nl @
   (''description: '' @ [CHR 0x22] @ ''Default autonomy policy generated by agentos init'' @ [CHR 0x22]) @ nl @
   [] @ nl @
   ''filesystem:'' @ nl @
   ''  allowed_paths:'' @ nl @
   (''    - '' @ [CHR 0x22] @ ''./**'' @ [CHR 0x22]) @ nl @
   (''    - '' @ [CHR 0x22] @ ''/tmp/agentos-poc/**'' @ [CHR 0x22]) @ nl @
   ''  denied_paths:'' @ nl @
   (''    - '' @ [CHR 0x22] @ ''./.env'' @ [CHR 0x22]) @ nl @
   (''    - '' @ [CHR 0x22] @ ''./.env.local'' @ [CHR 0x22]) @ nl @
   (''    - '' @ [CHR 0x22] @ ''/etc/**'' @ [CHR 0x22]) @ nl @
   (''    - '' @ [CHR 0x22] @ ''/var/**'' @ [CHR 0x22]) @ nl @
   [] @ nl @
   ''commands:'' @ nl @
   (''  mode: '' @ [CHR 0x22] @ ''allowlist'' @ [CHR 0x22]) @ nl @
   ''  allowed:'' @ nl @
   (''    - '' @ [CHR 0x22] @ ''ls'' @ [CHR 0x22]) @ nl @
   (''    - '' @ [CHR 0x22] @ ''cat'' @ [CHR 0x22]) @ nl @
   (''    - '' @ [CHR 0x22] @ ''echo'' @ [CHR 0x22]) @ nl @
   (''    - '' @ [CHR 0x22] @ ''pytest'' @ [CHR 0x22]) @ nl @
   (''    - '' @ [CHR 0x22] @ ''python3'' @ [CHR 0x22]) @ nl @
   (''    - '' @ [CHR 0x22] @ ''pip'' @ [CHR 0x22]) @ nl @
   (''    - '' @ [CHR 0x22] @ ''git'' @ [CHR 0x22]) @ nl @
   (''    - '' @ [CHR 0x22] @ ''docker'' @ [CHR 0x22]) @ nl @
   ''  denied: []'' @ nl @
   [] @ nl @
   ''write_quotas:'' @ nl @
   ''  max_operations_per_session: 50'' @ nl @
   ''  max_operations_per_minute: 10'' @ nl @
   ''  shacl_required_domains:'' @ nl @
   (''    - '' @ [CHR 0x22] @ ''it-asset-mgmt'' @ [CHR 0x22]) @ nl @
   [] @ nl @
   ''network:'' @ nl @
   ''  allowed_hosts:'' @ nl @
   (''    - '' @ [CHR 0x22] @ ''localhost:7687'' @ [CHR 0x22]) @ nl @
   (''    - '' @ [CHR 0x22] @ ''localhost:8100'' @ [CHR 0x22]) @ nl @
   (''  default_policy: '' @ [CHR 0x22] @ ''deny'' @ [CHR 0x22]) @ nl @
   [] @ nl @
   ''session:'' @ nl @
   ''  max_duration_seconds: 3600'' @ nl @
   ''  max_token_budget_usd: 0.50'' @ nl"

text \<open>The files of the directory, by name.\<close>

definition cli_init :: "(string \<rightharpoonup> string) \<Rightarrow> string \<Rightarrow> string \<Rightarrow> bool \<Rightarrow> cli_result \<times> (string \<rightharpoonup> string)" where
  "cli_init files cwd output force =
     (let path = path_join cwd output
      in if files path \<noteq> None \<and> \<not> force
         then (Exit 1 [(u8 [0xE2, 0x9D, 0x8C] @ '' '') @ path @ '' already exists. Use --force to overwrite.''], files)
         else (Exit 0 [(u8 [0xE2, 0x9C, 0x85] @ '' Generated default policy config: '') @ path], files(path \<mapsto> POLICY_TEMPLATE)))"

subsection \<open>The gate of a process\<close>

definition config_provider :: "(string \<Rightarrow> bool) \<Rightarrow> app_config \<Rightarrow> schema_provider" where
  "config_provider exists cfg =
     new_SchemaProvider exists (oc_owl_dir (ac_ontology cfg)) (oc_shacl_dir (ac_ontology cfg)) (oc_domains (ac_ontology cfg))"

definition config_gate :: "(string \<Rightarrow> bool) \<Rightarrow> app_config \<Rightarrow> bool \<Rightarrow> write_gate" where
  "config_gate exists cfg has_neo4j =
     new_WriteGate (config_provider exists cfg) has_neo4j (mc_nonce_secret (ac_mcp cfg)) (mc_nonce_ttl_seconds (ac_mcp cfg)) None"

text \<open>\<open>start-mcp\<close>: the gate of the gateway has no database client.\<close>

definition start_mcp_world :: "(string \<Rightarrow> bool) \<Rightarrow> app_config \<Rightarrow> 'db \<Rightarrow> 'db gate_world" where
  "start_mcp_world exists cfg db =
     \<lparr>gw_gate = config_gate exists cfg False, gw_policy = None, gw_db = db, gw_spans = []\<rparr>"

subsection \<open>validate\<close>

definition cli_validate ::
  "('db, 'tx) gate_env \<Rightarrow> (string \<Rightarrow> bool) \<Rightarrow> app_config \<Rightarrow> string \<Rightarrow> string \<Rightarrow> pyfloat \<Rightarrow> cli_result" where
  "cli_validate env exists cfg domain file_text now =
     (case verify_shacl_compliance env (config_gate exists cfg False) domain (py_strip file_text) ''turtle'' now of
        (Inl e, _, _) \<Rightarrow> Crash e
      | (Inr (report, nonce), _, _) \<Rightarrow>
          if is_valid report then Exit 0 [(u8 [0xE2, 0x9C, 0x85] @ '' Validation passed. Nonce: '') @ py_str (py_opt_str nonce)]
          else Exit 1 [(u8 [0xE2, 0x9D, 0x8C] @ '' Validation failed: '') @ py_str (PBool (rep_conforms report))])"

subsection \<open>write\<close>

definition write_text :: "string \<Rightarrow> string \<Rightarrow> string \<Rightarrow> string" where
  "write_text domain nonce file_text = ''execute_governed_write '' @ domain @ '' '' @ nonce @ nl @ py_strip file_text"

definition write_message :: "string \<Rightarrow> string \<Rightarrow> string \<Rightarrow> channel_message" where
  "write_message domain nonce file_text =
     \<lparr>cm_text = write_text domain nonce file_text, cm_sender_id = ''cli-user'', cm_sender_name = ''CLI'',
      cm_channel = ''cli'', cm_message_id = [], cm_metadata = []\<rparr>"

text \<open>The kernel of the process; the policy starts its session when it is loaded.\<close>

definition write_kernel :: "(string \<Rightarrow> bool) \<Rightarrow> app_config \<Rightarrow> policy_config \<Rightarrow> tracer \<Rightarrow> pyfloat \<Rightarrow> 'db \<Rightarrow> 'db kernel" where
  "write_kernel exists cfg pc tracer start db =
     new_Kernel (kn_version (ac_kernel cfg)) (oc_domains (ac_ontology cfg))
       (Some \<lparr>gw_gate = config_gate exists cfg True, gw_policy = None, gw_db = db, gw_spans = []\<rparr>)
       (Some (new_AutonomyPolicy pc start)) None None None tracer"

definition report_write :: "channel_response \<Rightarrow> cli_result" where
  "report_write response =
     (if py_get (cr_metadata response) ''status'' PNone = PStr ''error'' \<or> (cr_error response \<noteq> None \<and> cr_error response \<noteq> Some [])
      then Exit 1 [(u8 [0xE2, 0x9D, 0x8C] @ '' Write failed: '') @ cr_text response]
      else Exit 0 [(u8 [0xE2, 0x9C, 0x85] @ '' '') @ cr_text response])"

text \<open>The policy is what \<open>load_policy\<close> gives: its exception is not caught.\<close>

definition cli_write ::
  "('db, 'tx, 'r) kernel_env \<Rightarrow> (string \<Rightarrow> bool) \<Rightarrow> app_config \<Rightarrow> exn + policy_config \<Rightarrow> tracer \<Rightarrow> string \<Rightarrow> string \<Rightarrow> string \<Rightarrow>
     pyfloat \<Rightarrow> kernel_clock \<Rightarrow> 'db \<Rightarrow> cli_result \<times> 'db" where
  "cli_write env exists cfg policy tracer domain nonce file_text start clk db =
     (case policy of
        Inl e \<Rightarrow> (Crash e, db)
      | Inr pc \<Rightarrow>
          (case wake_up env (write_kernel exists cfg pc tracer start db) (write_message domain nonce file_text) clk of
             (response, k) \<Rightarrow> (report_write response, case k_gate k of Some gw \<Rightarrow> gw_db gw | None \<Rightarrow> db)))"

subsection \<open>loop run\<close>

text \<open>\<open>str(Path(directory) / name)\<close>: empty components and single dots are dropped.\<close>

definition path_child :: "string \<Rightarrow> string \<Rightarrow> string" where
  "path_child directory name =
     (if prefix ''//'' directory \<and> \<not> prefix ''///'' directory then ''//'' else if prefix ''/'' directory then ''/'' else []) @
     py_join ''/'' (filter (\<lambda>p. p \<noteq> [] \<and> p \<noteq> ''.'') (py_split (CHR ''/'') directory) @ [name])"

definition find_loop_engine :: "(string \<Rightarrow> bool) \<Rightarrow> string \<Rightarrow> string option" where
  "find_loop_engine executable path =
     find executable (map (\<lambda>directory. path_child directory ''loop-engine'') (py_split (CHR '':'') path))"

datatype process_result = Completed int string string | Not_Found | Timed_Out

definition cli_loop_run :: "(string \<Rightarrow> bool) \<Rightarrow> string \<Rightarrow> (string list \<Rightarrow> process_result) \<Rightarrow> string \<Rightarrow> string \<Rightarrow> cli_result" where
  "cli_loop_run executable path spawn task mode =
     (case find_loop_engine executable path of
        None \<Rightarrow> Exit 1 [(u8 [0xE2, 0x9D, 0x8C] @ '' loop-engine not found in PATH.'') @ nl @ ''   Please run: pip install agent-os-cli[loop] to enable this feature.'']
      | Some loop_engine \<Rightarrow>
          (let first = (u8 [0xF0, 0x9F, 0x94, 0x84] @ '' Forwarding task to loop-engine (mode='') @ mode @ '')...''
           in case spawn [loop_engine, ''--task'', task, ''--mode'', mode] of
                Not_Found \<Rightarrow> Exit 1 [first, (u8 [0xE2, 0x9D, 0x8C] @ '' loop-engine executable not found.'') @ nl @
                  ''   Please run: pip install agent-os-cli[loop] to enable this feature.'']
              | Timed_Out \<Rightarrow> Exit 1 [first, (u8 [0xE2, 0x9D, 0x8C] @ '' loop-engine timed out after 300 seconds.'')]
              | Completed code stdout stderr \<Rightarrow> Exit code
                  ([first] @ (if stdout \<noteq> [] then [stdout] else []) @ (if stderr \<noteq> [] then [stderr] else []) @
                   [if code = 0 then (u8 [0xE2, 0x9C, 0x85] @ '' loop-engine completed (exit code 0)'')
                    else (u8 [0xE2, 0x9D, 0x8C] @ '' loop-engine failed with exit code '') @ py_str_int code])))"

subsection \<open>A write in a new process\<close>

lemma split_when_at: "list_all (\<lambda>c. \<not> P c) a \<Longrightarrow> P c \<Longrightarrow> split_when P (a @ c # s) = a # split_when P s"
  by (induction a) auto

lemma routed_not_command:
  assumes "write_routed raw cmd"
  shows "\<not> looks_like_command (py_strip raw)"
proof -
  obtain r where r: "py_strip raw = ''execute_governed_write'' @ CHR '' '' # r" using assms by (auto simp: write_routed_def prefix_def)
  have "py_words (py_strip raw) = ''execute_governed_write'' # py_words r"
    unfolding r py_words_def by (subst split_when_at) (simp_all add: is_space_def)
  then show ?thesis by (simp add: looks_like_command_def)
qed

text \<open>The data of a domain conform, as a gate that has cached nothing decides it.\<close>

definition conforms :: "('db, 'tx) gate_env \<Rightarrow> schema_provider \<Rightarrow> string \<Rightarrow> string \<Rightarrow> bool" where
  "conforms env sp domain data \<longleftrightarrow>
     (\<exists>d shapes dg results. get_domain sp domain = Some d \<and> ge_parse_file env (ds_shacl_path d) = (shapes, None) \<and>
        ge_parse_rdf env data ''turtle'' = Inr dg \<and> ge_engine env dg shapes = Inr (True, results))"

lemma conforms_intro:
  assumes "verify_shacl_compliance env gate domain data ''turtle'' now = (Inr (report, n), g, spans)" and "is_valid report"
    and "wg_validators gate = []"
  shows "conforms env (wg_schema_provider gate) domain data"
  using assms
  by (auto simp: verify_shacl_compliance_def get_validator_def validator_from_file_def validate_def is_valid_def conforms_def Let_def
      split: option.splits sum.splits prod.splits)

lemma conforms_parts:
  assumes "conforms env (wg_schema_provider gate) domain data" and "wg_validators gate = []"
  obtains v g dg report spans where "get_validator env gate domain = (Inr v, g)" "ge_parse_rdf env data ''turtle'' = Inr dg"
    "validate (ge_engine env) v dg = (Inr report, spans)" "is_valid report" "wg_has_neo4j g = wg_has_neo4j gate"
proof -
  obtain d shapes dg results where c: "get_domain (wg_schema_provider gate) domain = Some d"
    "ge_parse_file env (ds_shacl_path d) = (shapes, None)" "ge_parse_rdf env data ''turtle'' = Inr dg"
    "ge_engine env dg shapes = Inr (True, results)" using assms(1) by (auto simp: conforms_def)
  let ?v = "\<lparr>sv_shacl_graph = shapes, sv_tracer = wg_tracer gate, sv_domain_name = Some domain\<rparr>"
  let ?g = "gate\<lparr>wg_validators := AList.update domain ?v (wg_validators gate)\<rparr>"
  have "get_validator env gate domain = (Inr ?v, ?g)"
    using c assms(2) by (simp add: get_validator_def validator_from_file_def)
  moreover have "\<exists>spans. validate (ge_engine env) ?v dg = (Inr \<lparr>rep_conforms = True, rep_results = parse_results results\<rparr>, spans)"
    using c(4) by (simp add: validate_def)
  ultimately show ?thesis using that [of ?v ?g dg] c(3) by (auto simp: is_valid_def)
qed

text \<open>A gate at the start of its process: nothing spent, nothing cached.\<close>

definition fresh_gate :: "write_gate \<Rightarrow> bool" where
  "fresh_gate gate \<longleftrightarrow> wg_validators gate = [] \<and> wg_consumed_nonces gate = []"

lemma fresh_gate_writes:
  assumes "fresh_gate (gw_gate w)" and "wg_has_neo4j (gw_gate w)" and "fst (check_quota w dm (gc_quota clk)) = Inr ()"
    and "nonce_valid env (gw_gate w) dm data nonce signature (gc_ttl clk)"
    and "conforms env (wg_schema_provider (gw_gate w)) dm data"
    and "ge_parse_rdf env data ''turtle'' = Inr dg"
    and "execute_write_batch (ge_driver env) (gw_db w) (rdf_to_cypher_statements dg) = (Inr n, db)"
  shows "\<exists>r w'. execute_governed_write env w dm data nonce ''turtle'' clk = (Inr r, w') \<and> gw_db w' = db"
proof -
  let ?c = "consume_nonce (cleanup_expired_nonces (gw_gate w) (gc_cleanup clk)) nonce (gc_consume clk)"
  have c: "wg_validators ?c = []" "wg_schema_provider ?c = wg_schema_provider (gw_gate w)" "wg_has_neo4j ?c"
    using assms(1,2) by (auto simp: fresh_gate_def consume_nonce_def cleanup_expired_nonces_def split: list.split)
  obtain v g dg' report spans where p: "get_validator env ?c dm = (Inr v, g)" "ge_parse_rdf env data ''turtle'' = Inr dg'"
    "validate (ge_engine env) v dg' = (Inr report, spans)" "is_valid report" "wg_has_neo4j g = wg_has_neo4j ?c"
    using conforms_parts [of env ?c dm data] c assms(5) by metis
  have "dg' = dg" using p(2) assms(6) by simp
  moreover have "burned (cleanup_expired_nonces (gw_gate w) (gc_cleanup clk)) signature = None"
    using assms(1) by (simp add: fresh_gate_def burned_def cleanup_expired_nonces_def)
  ultimately show ?thesis
    using governed_write_complete [OF assms(3,4) _ p(1,2,3,4), of n db] p(5) c(3) assms(7) by auto
qed

text \<open>The kernel of a write command.\<close>

definition write_world :: "(string \<Rightarrow> bool) \<Rightarrow> app_config \<Rightarrow> policy_config \<Rightarrow> tracer \<Rightarrow> pyfloat \<Rightarrow> 'db \<Rightarrow> 'db gate_world" where
  "write_world exists cfg pc tracer start db =
     \<lparr>gw_gate = (config_gate exists cfg True)\<lparr>wg_tracer := Some tracer\<rparr>, gw_policy = Some (new_AutonomyPolicy pc start),
      gw_db = db, gw_spans = []\<rparr>"

lemma write_kernel_sel [simp]:
  "k_gate (write_kernel exists cfg pc tracer start db) = Some (write_world exists cfg pc tracer start db)"
  "k_policy (write_kernel exists cfg pc tracer start db) = Some (new_AutonomyPolicy pc start)"
  "k_firewall (write_kernel exists cfg pc tracer start db) = new_SemanticFirewall [] None (Some tracer)"
  "k_breaker (write_kernel exists cfg pc tracer start db) = new_CircuitBreaker default_circuit_breaker_config"
  "k_fuse (write_kernel exists cfg pc tracer start db) = new_BillingFuse default_billing_fuse_config False"
  by (simp_all add: write_kernel_def new_Kernel_def write_world_def config_gate_def new_WriteGate_def Let_def)

lemma write_world_sel [simp]:
  "gw_db (write_world exists cfg pc tracer start db) = db" "fresh_gate (gw_gate (write_world exists cfg pc tracer start db))"
  "wg_has_neo4j (gw_gate (write_world exists cfg pc tracer start db))"
  "wg_schema_provider (gw_gate (write_world exists cfg pc tracer start db)) = config_provider exists cfg"
  by (simp_all add: write_world_def config_gate_def new_WriteGate_def fresh_gate_def)

lemma write_world_nonce:
  "nonce_valid env (gw_gate (write_world exists cfg pc tracer start db)) = nonce_valid env (config_gate exists cfg b)"
  by (intro ext) (simp add: nonce_valid_def write_world_def config_gate_def new_WriteGate_def)

lemma fresh_quota:
  "fst (check_quota (write_world exists cfg pc tracer start db) dm t) = Inr () \<longleftrightarrow>
   0 < max_operations_per_session (pc_write_quotas pc) \<and> 0 < max_operations_per_minute (pc_write_quotas pc)"
  by (auto simp: check_quota_def write_world_def check_write_quota_def new_AutonomyPolicy_def Let_def split: prod.split)

lemma fresh_charge: "is_ok (fst (record_usage (new_BillingFuse default_billing_fuse_config False) (message_usage t)))"
proof -
  have "fl (1 / 2) = 1 / 2" by code_simp
  then have "fadd 0 message_cost \<le> 1 / 2"
    using fl_mono [of message_cost "1 / 2"] by (simp add: fadd_def message_cost_value)
  moreover have "budget_cap_usd default_billing_fuse_config = 1 / 2" by (simp add: default_billing_fuse_config_def)
  ultimately show ?thesis by (simp add: record_usage_def new_BillingFuse_def message_cost Let_def)
qed

text \<open>What the command prints for a message that passes the guards and is answered \<open>ok\<close>.\<close>

lemma report_ok: "has_status resp ''ok'' \<Longrightarrow> cr_error resp = None \<Longrightarrow> \<exists>out. report_write resp = Exit 0 [out]"
  by (simp add: report_write_def has_status_def py_get_def)

lemma write_guards:
  "passes_guards (write_kernel exists cfg pc tracer start db) (write_message domain nonce file_text) clk \<longleftrightarrow>
   is_ok (fst (scan (new_SemanticFirewall [] None (Some tracer)) (py_strip (write_text domain nonce file_text)) ''user_prompt'')) \<and>
   enforce_policy (new_AutonomyPolicy pc start) (write_text domain nonce file_text) (kc_session clk) = Inr ()"
  by (simp add: passes_guards_def policy_verdict_def is_open_def new_CircuitBreaker_def write_message_def)

lemma routed_policy:
  "write_routed raw cmd \<Longrightarrow> enforce_policy ap raw now = Inr () \<longleftrightarrow> check_session_alive ap now = Inr ()"
  using routed_not_command [of raw cmd] by (auto simp: enforce_policy_def Let_def bindE_def split: sum.split)

lemma cli_write_succeeds:
  assumes "write_routed (write_text domain nonce file_text) (dm, n, data)"
    and "is_ok (fst (scan (new_SemanticFirewall [] None (Some tracer)) (py_strip (write_text domain nonce file_text)) ''user_prompt''))"
    and "check_session_alive (new_AutonomyPolicy pc start) (kc_session clk) = Inr ()"
    and "0 < max_operations_per_session (pc_write_quotas pc)" and "0 < max_operations_per_minute (pc_write_quotas pc)"
    and "nonce_valid (ke_gate_env env) (config_gate exists cfg b) dm data n signature (gc_ttl (kc_gate clk))"
    and "conforms (ke_gate_env env) (config_provider exists cfg) dm data"
    and "ge_parse_rdf (ke_gate_env env) data ''turtle'' = Inr dg"
    and "execute_write_batch (ge_driver (ke_gate_env env)) db (rdf_to_cypher_statements dg) = (Inr cnt, db')"
  shows "\<exists>out. cli_write env exists cfg (Inr pc) tracer domain nonce file_text start clk db = (Exit 0 [out], db')"
proof -
  let ?k = "write_kernel exists cfg pc tracer start db" and ?m = "write_message domain nonce file_text"
  let ?w = "write_world exists cfg pc tracer start db"
  have m: "cm_text ?m = write_text domain nonce file_text" by (simp add: write_message_def)
  have guards: "passes_guards ?k ?m clk" using assms(2,3) routed_policy [OF assms(1)] by (simp add: write_guards)
  obtain r w' where x: "execute_governed_write (ke_gate_env env) ?w dm data n ''turtle'' (kc_gate clk) = (Inr r, w')" "gw_db w' = db'"
    using fresh_gate_writes [of ?w dm "kc_gate clk" "ke_gate_env env" data n signature dg cnt db'] assms(4-9)
    by (auto simp: fresh_quota write_world_nonce [of _ exists cfg pc tracer start db b])
  obtain resp k' where wake: "wake_up env ?k ?m clk = (resp, k')" "k_gate k' = Some w'" "has_status resp ''ok''"
    using wake_up_write [of ?m dm n data ?k ?w clk env] assms(1) guards x(1) fresh_charge by (auto simp: m)
  then obtain out where "report_write resp = Exit 0 [out]" using kernel_answers [OF wake(1)] report_ok by metis
  then show ?thesis using wake x(2) by (simp add: cli_write_def)
qed

lemma fresh_gate_offline:
  assumes "fresh_gate (gw_gate w)" and "\<not> wg_has_neo4j (gw_gate w)" and "fst (check_quota w dm (gc_quota clk)) = Inr ()"
    and "nonce_valid env (gw_gate w) dm data nonce signature (gc_ttl clk)"
    and "conforms env (wg_schema_provider (gw_gate w)) dm data"
  shows "\<exists>r w'. execute_governed_write env w dm data nonce ''turtle'' clk = (Inr r, w')"
proof -
  let ?c = "consume_nonce (cleanup_expired_nonces (gw_gate w) (gc_cleanup clk)) nonce (gc_consume clk)"
  have c: "wg_validators ?c = []" "wg_schema_provider ?c = wg_schema_provider (gw_gate w)" "\<not> wg_has_neo4j ?c"
    using assms(1,2) by (auto simp: fresh_gate_def consume_nonce_def cleanup_expired_nonces_def split: list.split)
  obtain v g dg report spans where p: "get_validator env ?c dm = (Inr v, g)" "ge_parse_rdf env data ''turtle'' = Inr dg"
    "validate (ge_engine env) v dg = (Inr report, spans)" "is_valid report" "wg_has_neo4j g = wg_has_neo4j ?c"
    using conforms_parts [of env ?c dm data] c assms(5) by metis
  have f: "burned (cleanup_expired_nonces (gw_gate w) (gc_cleanup clk)) signature = None"
    using assms(1) by (simp add: fresh_gate_def burned_def cleanup_expired_nonces_def)
  show ?thesis using governed_write_offline [OF assms(3,4) f p(1-4)] p(5) c(3) by blast
qed

text \<open>
  C26. The gateway that the command \<open>start-mcp\<close> starts reports writes it does not make: it is built
  without a database client, and whatever tools are called, the database stays as it is; still a
  call of the write tool that the gate accepts is answered with a result whose status is \<open>success\<close>
  and which carries a transaction id; and the first call with a nonce the gate signed for data that
  conforms to its domain is accepted, so that such answers are given.
\<close>

theorem success_without_write:
  assumes "run_calls env wt (oc_domains (ac_ontology cfg)) calls (start_mcp_world exists cfg db) = (answers, gw1)"
  shows "gw_db gw1 = db \<and>
    (\<forall>dm args clk r gw2.
       execute_governed_write env gw1 dm (ta_data_rdf args) (ta_validation_nonce args) (ta_rdf_format args) clk = (Inr r, gw2) \<longrightarrow>
       gw_db gw2 = db \<and>
       call_tool env wt (oc_domains (ac_ontology cfg)) (Write_Tool dm) args clk gw1 = (pretty (rpc_result (PDict
         [(''status'', PStr ''success''), (''domain'', PStr dm), (''transaction_id'', PStr (transaction_id env dm (gc_done clk)))])), gw2)) \<and>
    (\<forall>dm args clk signature.
       nonce_valid env (config_gate exists cfg False) dm (ta_data_rdf args) (ta_validation_nonce args) signature (gc_ttl clk) \<longrightarrow>
       conforms env (config_provider exists cfg) dm (ta_data_rdf args) \<longrightarrow> ta_rdf_format args = ''turtle'' \<longrightarrow>
       (\<exists>gw2. gw_db gw2 = db \<and>
         call_tool env wt (oc_domains (ac_ontology cfg)) (Write_Tool dm) args clk (start_mcp_world exists cfg db) = (pretty (rpc_result (PDict
           [(''status'', PStr ''success''), (''domain'', PStr dm), (''transaction_id'', PStr (transaction_id env dm (gc_done clk)))])), gw2)))"
proof -
  let ?w = "start_mcp_world exists cfg db" and ?doms = "oc_domains (ac_ontology cfg)"
  have w: "\<not> wg_has_neo4j (gw_gate ?w)" "fresh_gate (gw_gate ?w)" "gw_db ?w = db" "gw_gate ?w = config_gate exists cfg False"
    "wg_schema_provider (gw_gate ?w) = config_provider exists cfg"
    by (simp_all add: start_mcp_world_def config_gate_def new_WriteGate_def fresh_gate_def)
  have q: "fst (check_quota ?w dm t) = Inr ()" for dm t by (simp add: check_quota_def start_mcp_world_def)
  note later = offline_success [OF w(1) assms, unfolded w(3)]
  note first = offline_success [OF w(1), where calls = "[]" and answers = "[]" and wt = wt and domains = ?doms, unfolded w(3)]
  have go: "\<exists>gw2. gw_db gw2 = db \<and> call_tool env wt ?doms (Write_Tool dm) args clk ?w = (pretty (rpc_result (PDict
      [(''status'', PStr ''success''), (''domain'', PStr dm), (''transaction_id'', PStr (transaction_id env dm (gc_done clk)))])), gw2)"
    if given: "nonce_valid env (config_gate exists cfg False) dm (ta_data_rdf args) (ta_validation_nonce args) signature (gc_ttl clk)"
      "conforms env (config_provider exists cfg) dm (ta_data_rdf args)" "ta_rdf_format args = ''turtle''" for dm args clk signature
  proof -
    note accepted = fresh_gate_offline [OF w(2,1) q [of dm "gc_quota clk"], unfolded w(4) w(5) [unfolded w(4)], OF given(1,2)]
    obtain r gw2 where x: "execute_governed_write env ?w dm (ta_data_rdf args) (ta_validation_nonce args) (ta_rdf_format args) clk = (Inr r, gw2)"
      using accepted unfolding given(3) by (elim exE)
    show ?thesis by (rule exI, rule conjunct2 [OF first [OF run_calls.simps(1)], rule_format, OF x])
  qed
  show ?thesis
    by (rule conjI [OF conjunct1 [OF later] conjI [OF conjunct2 [OF later]]], intro allI impI, rule go)
qed

text \<open>
  C24. A file that validates and is taken for a write is written: with the nonce the command
  \<open>validate\<close> printed for a file, the command \<open>write\<close>, in another process within the TTL, exits with 0
  and leaves in the database the batch of exactly the file's triples, provided the kernel routes
  the text as a write command (no word of it sends it elsewhere), it passes the firewall, the
  session is alive, the quotas leave room for a write, and the database accepts the batch.
\<close>

theorem validated_file_is_written:
  assumes "hex_digests (ke_gate_env env)" and "clock_range now"
    and "cli_validate (ke_gate_env env) exists cfg domain file_text now = Exit 0 [(u8 [0xE2, 0x9C, 0x85] @ '' Validation passed. Nonce: '') @ nonce]"
    and "write_routed (write_text domain nonce file_text) (domain, nonce, py_strip file_text)"
    and "is_ok (fst (scan (new_SemanticFirewall [] None (Some tracer)) (py_strip (write_text domain nonce file_text)) ''user_prompt''))"
    and "check_session_alive (new_AutonomyPolicy pc start) (kc_session clk) = Inr ()"
    and "0 < max_operations_per_session (pc_write_quotas pc)" and "0 < max_operations_per_minute (pc_write_quotas pc)"
    and "fsub (gc_ttl (kc_gate clk)) (of_int (trunc now)) \<le> of_int (mc_nonce_ttl_seconds (ac_mcp cfg))"
    and "ge_parse_rdf (ke_gate_env env) (py_strip file_text) ''turtle'' = Inr dg"
    and "execute_write_batch (ge_driver (ke_gate_env env)) db (rdf_to_cypher_statements dg) = (Inr cnt, db')"
  shows "\<exists>out. cli_write env exists cfg (Inr pc) tracer domain nonce file_text start clk db = (Exit 0 [out], db')"
proof -
  let ?g = "config_gate exists cfg False" and ?env = "ke_gate_env env"
  obtain r g spans where v: "verify_shacl_compliance ?env ?g domain (py_strip file_text) ''turtle'' now = (r, g, spans)"
    by (metis prod.exhaust)
  then obtain report n where r: "r = Inr (report, n)" "is_valid report" "py_str (py_opt_str n) = nonce"
    using assms(3) by (auto simp: cli_validate_def split: sum.splits if_splits)
  have "n \<noteq> None" using v r by (auto simp: verify_shacl_compliance_def split: prod.splits sum.splits)
  then have n: "n = Some nonce" using r(3) by (auto simp: py_opt_str_def)
  have ttl: "wg_nonce_ttl ?g = mc_nonce_ttl_seconds (ac_mcp cfg)" "wg_validators ?g = []"
    "wg_schema_provider ?g = config_provider exists cfg"
    by (simp_all add: config_gate_def new_WriteGate_def)
  have "nonce_valid ?env ?g domain (py_strip file_text) nonce (last (py_split (CHR '':'') nonce)) (gc_ttl (kc_gate clk))"
    using validated_nonce(2) [OF assms(1,2) _ v [unfolded r(1) n], of "gc_ttl (kc_gate clk)" ?g] assms(9) ttl by simp
  moreover have "conforms ?env (config_provider exists cfg) domain (py_strip file_text)"
    using conforms_intro [OF v [unfolded r(1)] r(2) ttl(2)] ttl(3) by simp
  ultimately show ?thesis using cli_write_succeeds [OF assms(4-8) _ _ assms(10,11)] by blast
qed

text \<open>
  C27. The ledger of spent nonces ends with the process: a \<open>write\<close> command that changed the
  database can be run again with the same nonce, as long as the nonce has not expired and the
  database accepts the batch, and it writes a second time.
\<close>

theorem cli_replay:
  assumes "cli_write env exists cfg (Inr pc) tracer domain nonce file_text t1 clk1 db = (res1, db1)" and "db1 \<noteq> db"
    and "write_command (write_text domain nonce file_text) = Some (domain, nonce, data)"
    and "check_session_alive (new_AutonomyPolicy pc t2) (kc_session clk2) = Inr ()"
    and "nonce_valid (ke_gate_env env) (config_gate exists cfg True) domain data nonce signature (gc_ttl (kc_gate clk2))"
    and "ge_parse_rdf (ke_gate_env env) data ''turtle'' = Inr dg"
    and "execute_write_batch (ge_driver (ke_gate_env env)) db1 (rdf_to_cypher_statements dg) = (Inr cnt, db2)"
  shows "\<exists>out. cli_write env exists cfg (Inr pc) tracer domain nonce file_text t2 clk2 db1 = (Exit 0 [out], db2)"
proof -
  let ?k = "write_kernel exists cfg pc tracer t1 db" and ?m = "write_message domain nonce file_text"
  let ?w = "write_world exists cfg pc tracer t1 db" and ?env = "ke_gate_env env"
  have m: "cm_text ?m = write_text domain nonce file_text" by (simp add: write_message_def)
  obtain resp k' where wake: "wake_up env ?k ?m clk1 = (resp, k')" by force
  obtain gw where gw: "k_gate k' = Some gw" "gw_db gw \<noteq> gw_db ?w \<longrightarrow>
      is_ok (fst (scan (k_firewall ?k) (py_strip (cm_text ?m)) ''user_prompt'')) \<and>
      (\<exists>dm n d. write_routed (cm_text ?m) (dm, n, d) \<and> write_authorised ?env ?w (dm, d, n, ''turtle'', kc_gate clk1)) \<and>
      passes_guards ?k ?m clk1"
    using wake_up_writes [OF wake write_kernel_sel(1)] unfolding message_writes_def passes_guards_def by blast
  have "gw_db gw = db1" using assms(1) wake gw(1) by (simp add: cli_write_def)
  then obtain routed: "write_routed (write_text domain nonce file_text) (domain, nonce, data)"
    and auth: "write_authorised ?env ?w (domain, data, nonce, ''turtle'', kc_gate clk1)"
    and guards: "passes_guards ?k ?m clk1"
    using gw(2) assms(2,3) by (auto simp: m write_routed_def)
  obtain r gw1 where x: "execute_governed_write ?env ?w domain data nonce ''turtle'' (kc_gate clk1) = (r, gw1)" by force
  then have "gw1 = gw" using wake_up_write [of ?m domain nonce data ?k ?w clk1 env] routed guards wake gw(1) by (auto simp: m)
  then have changed: "gw_db gw1 \<noteq> gw_db ?w" using \<open>gw_db gw = db1\<close> assms(2) by simp
  have conf: "conforms ?env (config_provider exists cfg) domain data"
  proof (cases rule: governed_write_cases [of ?w domain "kc_gate clk1" ?env data nonce "''turtle''"])
    case (written s g report n spans)
    have f: "wg_validators (consume_nonce (cleanup_expired_nonces gate a) nonce b) = wg_validators gate"
      "wg_schema_provider (consume_nonce (cleanup_expired_nonces gate a) nonce b) = wg_schema_provider gate" for gate a b
      by (auto simp: consume_nonce_def cleanup_expired_nonces_def split: list.split)
    have "wg_validators (gw_gate ?w) = []" using write_world_sel(2) [of exists cfg pc tracer t1 db] by (simp only: fresh_gate_def)
    then show ?thesis using conforms_intro [OF written(4,5)] f by simp
  qed (use x changed in \<open>auto simp: check_quota_frame\<close>)
  have "fst (check_quota ?w domain (gc_quota (kc_gate clk1))) = Inr ()" using auth by (simp add: write_authorised_def)
  then have q: "0 < max_operations_per_session (pc_write_quotas pc)" "0 < max_operations_per_minute (pc_write_quotas pc)"
    by (simp_all add: fresh_quota)
  have s: "is_ok (fst (scan (new_SemanticFirewall [] None (Some tracer)) (py_strip (write_text domain nonce file_text)) ''user_prompt''))"
    using guards by (simp add: write_guards)
  show ?thesis by (rule cli_write_succeeds [OF routed s assms(4) q assms(5) conf assms(6,7)])
qed

text \<open>
  A write that was never tried is reported as done: when the file mentions \<open>validate\<close> or
  \<open>verify\<close> anywhere, the kernel answers the command with a hint to the validation tool; the
  command prints the hint behind a check mark and exits with 0, and the database is as it was.
\<close>

theorem cli_reports_unwritten:
  assumes "word \<in> {''validate'', ''verify''}" and "py_in word (py_lower file_text)"
    and "\<not> (py_in ''schema'' (py_lower (py_strip (write_text domain nonce file_text))) \<and>
            py_in ''it-asset'' (py_lower (py_strip (write_text domain nonce file_text))))"
    and "passes_guards (write_kernel exists cfg pc tracer start db) (write_message domain nonce file_text) clk"
  shows "cli_write env exists cfg (Inr pc) tracer domain nonce file_text start clk db =
    (Exit 0 [(u8 [0xE2, 0x9C, 0x85] @ '' '') @ ''To validate data, use the MCP tool '' @ ''`'' @ ''verify_shacl_compliance'' @ ''`'' @ '' with your RDF data in Turtle format.''], db)"
proof -
  let ?k = "write_kernel exists cfg pc tracer start db" and ?m = "write_message domain nonce file_text"
  let ?k0 = "?k\<lparr>k_session_count := k_session_count ?k + 1\<rparr>"
  let ?t = "py_strip (write_text domain nonce file_text)"
  have m: "cm_text ?m = write_text domain nonce file_text" by (simp add: write_message_def)
  have w: "word \<noteq> []" "\<not> is_space (hd word)" "\<not> is_space (last word)" using assms(1) by (auto simp: is_space_def)
  have "py_in word (py_lower (py_strip file_text))" using lower_strip_keeps [OF assms(2) w] .
  then obtain a b where ab: "py_lower (py_strip file_text) = a @ word @ b" by (auto simp: py_in_iff_sublist sublist_def)
  have "py_lower (write_text domain nonce file_text) =
      (py_lower ''execute_governed_write '' @ py_lower domain @ py_lower '' '' @ py_lower nonce @ py_lower nl @ a) @ word @ b"
    unfolding write_text_def py_lower_append ab by (simp only: append_assoc)
  then have "py_in word (py_lower (write_text domain nonce file_text))" using py_in_append by metis
  then have word: "py_in word (py_lower ?t)" using lower_strip_keeps [OF _ w] by blast
  define hint where
    "hint = ''To validate data, use the MCP tool '' @ ''`'' @ ''verify_shacl_compliance'' @ ''`'' @ '' with your RDF data in Turtle format.''"
  have p: "process_message env k ?m clk' = (Inr hint, k)" for k :: "'a kernel" and clk'
    using word assms(1,3) by (auto simp: process_message_def m Let_def hint_def)
  have "passes_guards ?k0 ?m clk" using assms(4) by (simp add: passes_guards_def)
  from dispatch_passed [OF this, of env] obtain cb where d: "dispatch env ?k0 ?m clk =
      (case charge (?k0\<lparr>k_breaker := cb\<rparr>) ?t (kc_usage clk) of
         (Inl e, k4) \<Rightarrow> (Inl e, k4)
       | (Inr _, k4) \<Rightarrow> (Inr hint, k4))"
    unfolding p m prod.case sum.case by blast
  obtain r fuse b where u: "record_usage (new_BillingFuse default_billing_fuse_config False) (message_usage (kc_usage clk)) = (r, fuse, b)"
    by (metis prod.exhaust)
  then obtain s where "r = Inr s" using fresh_charge [of "kc_usage clk"] by (auto simp: is_ok_iff)
  then have "\<exists>k4. charge (?k0\<lparr>k_breaker := cb\<rparr>) ?t (kc_usage clk) = (Inr (), k4) \<and> k_gate k4 = k_gate ?k"
    using u by (cases "is_charged ?t") (simp_all add: charge_def)
  then obtain k4 where "charge (?k0\<lparr>k_breaker := cb\<rparr>) ?t (kc_usage clk) = (Inr (), k4)" "k_gate k4 = k_gate ?k" by blast
  then show ?thesis using d
    by (simp add: cli_write_def wake_up_def Let_def m report_write_def respond_def py_get_def hint_def)
qed

end
