(* ===== verification/Cli_Examples.thy ===== *)
theory Cli_Examples
  imports Cli Kernel_Examples
begin

text \<open>Concrete commands, for the properties of the command line.\<close>

definition demo_config :: app_config where
  "demo_config = default_app_config\<lparr>ac_ontology :=
     \<lparr>oc_owl_dir = ''o'', oc_shacl_dir = ''s'', oc_domains = [\<lparr>dc_name = ''hr'', dc_owl_file = ''hr.ttl'', dc_shacl_file = ''hr.ttl''\<rparr>]\<rparr>\<rparr>"

abbreviation every_file :: "string \<Rightarrow> bool" where "every_file \<equiv> \<lambda>_. True"

lemma demo_config_sel [simp]:
  "mc_nonce_ttl_seconds (ac_mcp demo_config) = 300" "mc_nonce_secret (ac_mcp demo_config) = ''dev-nonce-secret-change-in-prod''"
  by (simp_all add: demo_config_def default_app_config_def)

lemma demo_provider: "config_provider every_file demo_config = [(''hr'', new_DomainSchema ''hr'' ''o/hr.ttl'' ''s/hr.ttl'')]"
  by (simp add: config_provider_def demo_config_def new_SchemaProvider_def path_join_def)

lemma demo_conforms: "conforms demo_env (config_provider every_file demo_config) ''hr'' data"
  by (simp add: conforms_def demo_provider get_domain_def demo_env_def)

lemma demo_config_nonce:
  assumes "fl (t - 100) \<le> 300"
  shows "nonce_valid demo_env (config_gate every_file demo_config b) dm data ''100:aa:bb'' ''bb'' t"
proof -
  have "py_int ''100'' = Some 100" using py_int_small [of 100] by (simp add: demo_100)
  moreover have "int_to_float 100 = Inr 100" using int_to_float_small [of 100] by simp
  ultimately show ?thesis
    using assms by (simp add: nonce_valid_def demo_split fsub_def is_ascii_def config_gate_def new_WriteGate_def)
qed

lemma demo_strip_data: "py_strip ''data'' = ''data''" by code_simp

lemma demo_text: "write_text ''hr'' ''100:aa:bb'' ''data'' = demo_write_text"
  by (simp add: write_text_def demo_write_text_def demo_strip_data)

lemma demo_scan: "is_ok (fst (scan (new_SemanticFirewall [] None (Some tracer)) (py_strip demo_write_text) ''user_prompt''))"
  using scan_benign [OF demo_write_benign, of "Some tracer" "''user_prompt''"] by (simp add: is_ok_def)

lemma demo_session: "t \<le> 3000 \<Longrightarrow> 0 \<le> t \<Longrightarrow> check_session_alive (new_AutonomyPolicy shipped_policy_config 0) t = Inr ()"
  using fl_mono [of t 3000] fl_numeral [of "num.Bit0 num.One"] fl_of_int [of 3000]
  by (simp add: check_session_alive_def new_AutonomyPolicy_def shipped_policy_config_def fsub_def Let_def)

lemma demo_quotas:
  "0 < max_operations_per_session (pc_write_quotas shipped_policy_config)"
  "0 < max_operations_per_minute (pc_write_quotas shipped_policy_config)"
  by (simp_all add: shipped_policy_config_def)

lemma demo_batch_on:
  "execute_write_batch (ge_driver demo_env) db (rdf_to_cypher_statements demo_graph) = (Inr 1, db @ rdf_to_cypher_statements demo_graph)"
proof -
  obtain c where c: "rdf_to_cypher_statements demo_graph = [CHR ''M'' # c]"
    by (simp add: demo_graph_def rdf_to_cypher_statements_def merge_statement_def)
  have "py_strip (CHR ''M'' # c) \<noteq> []"
    by (simp add: py_strip_def rstrip_when_def is_space_def dropWhile_eq_Nil_conv)
  then show ?thesis by (simp add: c execute_write_batch_def demo_env_def)
qed

definition demo_call :: tool_args where
  "demo_call = default_tool_args\<lparr>ta_data_rdf := ''data'', ta_validation_nonce := ''100:aa:bb''\<rparr>"

theorem success_without_write_witness:
  "\<exists>gw2. call_tool demo_env demo_wasmtime (oc_domains (ac_ontology demo_config)) (Write_Tool ''hr'') demo_call (clk_all 200)
      (start_mcp_world every_file demo_config []) = (pretty (rpc_result (PDict
         [(''status'', PStr ''success''), (''domain'', PStr ''hr''), (''transaction_id'', PStr ''aa'')])), gw2) \<and> gw_db gw2 = []"
proof -
  let ?w = "start_mcp_world every_file demo_config ([] :: string list)"
  have "run_calls demo_env demo_wasmtime (oc_domains (ac_ontology demo_config)) [] ?w = ([], ?w)" by simp
  from success_without_write [OF this]
  have "\<forall>dm args clk signature. nonce_valid demo_env (config_gate every_file demo_config False) dm (ta_data_rdf args)
        (ta_validation_nonce args) signature (gc_ttl clk) \<longrightarrow>
      conforms demo_env (config_provider every_file demo_config) dm (ta_data_rdf args) \<longrightarrow> ta_rdf_format args = ''turtle'' \<longrightarrow>
      (\<exists>gw2. gw_db gw2 = [] \<and> call_tool demo_env demo_wasmtime (oc_domains (ac_ontology demo_config)) (Write_Tool dm) args clk ?w =
        (pretty (rpc_result (PDict [(''status'', PStr ''success''), (''domain'', PStr dm),
          (''transaction_id'', PStr (transaction_id demo_env dm (gc_done clk)))])), gw2))" by blast
  moreover have "ta_data_rdf demo_call = ''data''" "ta_validation_nonce demo_call = ''100:aa:bb''" "ta_rdf_format demo_call = ''turtle''"
    by (simp_all add: demo_call_def default_tool_args_def)
  moreover have "nonce_valid demo_env (config_gate every_file demo_config False) ''hr'' ''data'' ''100:aa:bb'' ''bb'' (gc_ttl (clk_all 200))"
    by (rule demo_config_nonce) (simp add: fl_numeral)
  ultimately have "\<exists>gw2. gw_db gw2 = [] \<and> call_tool demo_env demo_wasmtime (oc_domains (ac_ontology demo_config)) (Write_Tool ''hr'')
      demo_call (clk_all 200) ?w = (pretty (rpc_result (PDict [(''status'', PStr ''success''), (''domain'', PStr ''hr''),
          (''transaction_id'', PStr (transaction_id demo_env ''hr'' (gc_done (clk_all 200))))])), gw2)"
    using demo_conforms [of "''data''"] by (metis (no_types))
  then show ?thesis by (auto simp: transaction_id_def)
qed

theorem validated_file_is_written_witness:
  "\<exists>out. cli_write demo_kernel_env every_file demo_config (Inr shipped_policy_config) demo_tracer ''hr'' ''100:aa:bb'' ''data''
      0 (demo_kernel_clock 200) [] = (Exit 0 [out], rdf_to_cypher_statements demo_graph)"
proof -
  let ?g = "config_gate every_file demo_config False"
  have "get_validator demo_env ?g ''hr'' = (Inr demo_validator, ?g\<lparr>wg_validators := AList.update ''hr'' demo_validator []\<rparr>)"
    using demo_provider
    by (simp add: get_validator_def config_gate_def new_WriteGate_def get_domain_def new_DomainSchema_def validator_from_file_def
        demo_env_def demo_validator_def)
  moreover have "generate_nonce demo_env gate ''hr'' ''data'' 100 = ''100:aa:bb''" for gate
    by (simp add: generate_nonce_def demo_100 trunc_def)
  ultimately have v: "cli_validate (ke_gate_env demo_kernel_env) every_file demo_config ''hr'' ''data'' 100 =
      Exit 0 [(u8 [0xE2, 0x9C, 0x85] @ '' Validation passed. Nonce: '') @ ''100:aa:bb'']"
    by (simp add: cli_validate_def verify_shacl_compliance_def demo_strip_data demo_parts is_valid_def py_opt_str_def)
  have r: "write_routed (write_text ''hr'' ''100:aa:bb'' ''data'') (''hr'', ''100:aa:bb'', py_strip ''data'')"
    using demo_routed by (simp only: demo_text demo_strip_data)
  have s: "is_ok (fst (scan (new_SemanticFirewall [] None (Some demo_tracer)) (py_strip (write_text ''hr'' ''100:aa:bb'' ''data'')) ''user_prompt''))"
    using demo_scan by (simp only: demo_text)
  show ?thesis
    by (rule validated_file_is_written [OF _ _ v r s _ demo_quotas, where dg = demo_graph and cnt = 1])
       (simp_all add: demo_hex clock_range_def demo_parts demo_batch_on fsub_def fl_numeral trunc_def,
        simp add: demo_session demo_kernel_clock_def)
qed

lemma demo_cli_write:
  "\<exists>out. cli_write demo_kernel_env every_file demo_config (Inr shipped_policy_config) demo_tracer ''hr'' ''100:aa:bb'' ''data''
      0 (demo_kernel_clock 200) [] = (Exit 0 [out], rdf_to_cypher_statements demo_graph)"
  by (rule cli_write_succeeds [where b = True and dm = "''hr''" and n = "''100:aa:bb''" and data = "''data''" and signature = "''bb''" and dg = demo_graph and cnt = 1])
     (use demo_routed demo_scan demo_config_nonce [of 200] demo_quotas
      in \<open>simp_all add: demo_text demo_conforms demo_parts demo_batch_on fl_numeral demo_session demo_kernel_clock_def\<close>)

theorem cli_replay_witness:
  "\<exists>out1 out2 db1 db2.
     cli_write demo_kernel_env every_file demo_config (Inr shipped_policy_config) demo_tracer ''hr'' ''100:aa:bb'' ''data''
       0 (demo_kernel_clock 200) [] = (out1, db1) \<and>
     cli_write demo_kernel_env every_file demo_config (Inr shipped_policy_config) demo_tracer ''hr'' ''100:aa:bb'' ''data''
       0 (demo_kernel_clock 300) db1 = (Exit 0 [out2], db2) \<and> db2 = db1 @ db1 \<and> db1 \<noteq> []"
proof -
  let ?s = "rdf_to_cypher_statements demo_graph"
  obtain out1 where one: "cli_write demo_kernel_env every_file demo_config (Inr shipped_policy_config) demo_tracer ''hr'' ''100:aa:bb'' ''data''
       0 (demo_kernel_clock 200) [] = (Exit 0 [out1], ?s)" using demo_cli_write by blast
  have "write_command demo_write_text = Some (''hr'', ''100:aa:bb'', ''data'')" using demo_routed by (simp add: write_routed_def)
  then have "\<exists>out. cli_write demo_kernel_env every_file demo_config (Inr shipped_policy_config) demo_tracer ''hr'' ''100:aa:bb'' ''data''
       0 (demo_kernel_clock 300) ?s = (Exit 0 [out], ?s @ ?s)"
    by (intro cli_replay [OF one demo_statements, where data = "''data''" and signature = "''bb''" and dg = demo_graph and cnt = 1])
       (use demo_config_nonce [of 300]
        in \<open>simp_all add: demo_text demo_parts demo_batch_on fl_numeral demo_session demo_kernel_clock_def\<close>)
  then show ?thesis using one demo_statements by blast
qed

theorem cli_reports_unwritten_witness:
  "\<exists>out. cli_write demo_kernel_env every_file demo_config (Inr shipped_policy_config) demo_tracer ''hr'' ''100:aa:bb'' ''verify it''
      0 (demo_kernel_clock 200) [] = (Exit 0 [out], [])"
proof -
  let ?t = "write_text ''hr'' ''100:aa:bb'' ''verify it''"
  have "list_all (\<lambda>ks. \<not> has_key ks (py_strip ?t)) trigger_keys" by code_simp
  then have "\<forall>ks\<in>set trigger_keys. \<not> has_key ks (py_strip ?t)" by (simp only: list_all_iff)
  then have scan: "is_ok (fst (scan (new_SemanticFirewall [] None (Some demo_tracer)) (py_strip ?t) ''user_prompt''))"
    using scan_benign [of "py_strip ?t" "Some demo_tracer" "''user_prompt''"] by (simp add: is_ok_def)
  have "\<not> looks_like_command (py_strip ?t)" by code_simp
  then have policy: "enforce_policy (new_AutonomyPolicy shipped_policy_config 0) ?t (kc_session (demo_kernel_clock 200)) = Inr ()"
    by (simp add: enforce_policy_def demo_session demo_kernel_clock_def Let_def)
  have word: "py_in ''verify'' (py_lower ''verify it'')" and other: "\<not> py_in ''schema'' (py_lower (py_strip ?t))" by code_simp+
  show ?thesis
    by (rule exI, rule cli_reports_unwritten [where word = "''verify''"])
       (use scan policy other word in \<open>simp_all add: write_guards\<close>)
qed

end
