(* ===== verification/Py_Json_Loads.thy ===== *)
theory Py_Json_Loads
  imports Py_Json
begin

text \<open>
  \<open>json.loads\<close>, as far as the program uses it: the value of a text, or a \<open>JSONDecodeError\<close> whose
  message nobody reads. A number too long for \<open>int\<close> is a \<open>ValueError\<close>. A surrogate without its
  partner is written with three bytes like any other code unit. \<open>NaN\<close> and the infinities are no
  values of the model: they are read as a stand-in, since of such a value the program only
  asks the type and the truth. The depth at which the interpreter gives up is not modelled.
\<close>

definition json_error :: exn where
  "json_error = OtherException ''JSONDecodeError'' []"

definition nonfinite :: pyval where
  "nonfinite = PFloat (2 ^ 1024)"

definition is_json_space :: "char \<Rightarrow> bool" where
  "is_json_space c \<longleftrightarrow> c = CHR '' '' \<or> c = CHR 0x09 \<or> c = CHR 0x0A \<or> c = CHR 0x0D"

definition skip_space :: "string \<Rightarrow> string" where
  "skip_space s = dropWhile is_json_space s"

subsection \<open>Strings\<close>

text \<open>The bytes of a code point.\<close>

definition utf8_encode :: "nat \<Rightarrow> string" where
  "utf8_encode n =
     (if n < 0x80 then u8 [n]
      else if n < 0x800 then u8 [0xC0 + n div 64, 0x80 + n mod 64]
      else if n < 0x10000 then u8 [0xE0 + n div 4096, 0x80 + n div 64 mod 64, 0x80 + n mod 64]
      else u8 [0xF0 + n div 262144, 0x80 + n div 4096 mod 64, 0x80 + n div 64 mod 64, 0x80 + n mod 64])"

definition hex_value :: "char \<Rightarrow> nat option" where
  "hex_value c =
     (let n = of_char c :: nat in
      if 48 \<le> n \<and> n \<le> 57 then Some (n - 48)
      else if 97 \<le> n \<and> n \<le> 102 then Some (n - 87)
      else if 65 \<le> n \<and> n \<le> 70 then Some (n - 55) else None)"

definition hex4_value :: "string \<Rightarrow> nat option" where
  "hex4_value s =
     (case s of
        a # b # c # d # _ \<Rightarrow>
          (case (hex_value a, hex_value b, hex_value c, hex_value d) of
             (Some a, Some b, Some c, Some d) \<Rightarrow> Some (((a * 16 + b) * 16 + c) * 16 + d)
           | _ \<Rightarrow> None)
      | _ \<Rightarrow> None)"

definition json_unescape :: "char \<Rightarrow> char option" where
  "json_unescape c =
     map_of [(CHR 0x22, CHR 0x22), (CHR 0x5C, CHR 0x5C), (CHR ''/'', CHR ''/''), (CHR ''b'', CHR 0x08), (CHR ''f'', CHR 0x0C),
             (CHR ''n'', CHR 0x0A), (CHR ''r'', CHR 0x0D), (CHR ''t'', CHR 0x09)] c"

text \<open>After \<open>\u\<close>: the code point, and what is left; a pair of surrogates is one code point.\<close>

definition json_code_point :: "string \<Rightarrow> (nat \<times> string) option" where
  "json_code_point s =
     (case hex4_value s of
        None \<Rightarrow> None
      | Some hi \<Rightarrow>
          (let r = drop 4 s in
           if 0xD800 \<le> hi \<and> hi < 0xDC00 \<and> prefix (CHR 0x5C # ''u'') r then
             (case hex4_value (drop 2 r) of
                Some lo \<Rightarrow> if 0xDC00 \<le> lo \<and> lo < 0xE000
                  then Some (0x10000 + (hi - 0xD800) * 0x400 + (lo - 0xDC00), drop 6 r) else Some (hi, r)
              | None \<Rightarrow> Some (hi, r))
           else Some (hi, r)))"

lemma json_code_point_shorter: "json_code_point s = Some (n, r) \<Longrightarrow> length r \<le> length s"
  by (auto simp: json_code_point_def Let_def split: option.splits if_splits)

text \<open>The text of a string after its opening quote, and what follows the closing one.\<close>

function scan_string :: "string \<Rightarrow> exn + (string \<times> string)" where
  "scan_string s =
     (case s of
        [] \<Rightarrow> Inl json_error
      | c # cs \<Rightarrow>
          if c = CHR 0x22 then Inr ([], cs)
          else if c = CHR 0x5C then
            (case cs of
               [] \<Rightarrow> Inl json_error
             | e # r \<Rightarrow>
                 (case json_unescape e of
                    Some x \<Rightarrow> bindE (scan_string r) (\<lambda>(t, rest). Inr (x # t, rest))
                  | None \<Rightarrow>
                      if e = CHR ''u'' then
                        (case json_code_point r of
                           None \<Rightarrow> Inl json_error
                         | Some (n, r1) \<Rightarrow> bindE (scan_string r1) (\<lambda>(t, rest). Inr (utf8_encode n @ t, rest)))
                      else Inl json_error))
          else if of_char c < (0x20 :: nat) then Inl json_error
          else bindE (scan_string cs) (\<lambda>(t, rest). Inr (c # t, rest)))"
  by pat_completeness auto

termination
  by (relation "measure length") (auto dest: json_code_point_shorter)

declare scan_string.simps [simp del]

subsection \<open>Numbers\<close>

text \<open>\<open>-?(0|[1-9][0-9]*)(\.[0-9]+)?([eE][-+]?[0-9]+)?\<close> at the front of the text.\<close>

definition scan_digits :: "string \<Rightarrow> string \<times> string" where
  "scan_digits s = (takeWhile is_digit s, dropWhile is_digit s)"

definition scan_fraction :: "string \<Rightarrow> string \<times> string" where
  "scan_fraction s =
     (case s of
        c # cs \<Rightarrow> if c = CHR ''.'' \<and> fst (scan_digits cs) \<noteq> [] then scan_digits cs else ([], s)
      | [] \<Rightarrow> ([], s))"

definition scan_exponent :: "string \<Rightarrow> int option \<times> string" where
  "scan_exponent s =
     (case s of
        c # cs \<Rightarrow>
          (let neg = (cs \<noteq> [] \<and> hd cs = CHR ''-'');
               ds = (if cs \<noteq> [] \<and> (hd cs = CHR ''-'' \<or> hd cs = CHR ''+'') then tl cs else cs)
           in if (c = CHR ''e'' \<or> c = CHR ''E'') \<and> fst (scan_digits ds) \<noteq> []
              then (let n = int (digits_val (fst (scan_digits ds)) 0) in (Some (if neg then - n else n), snd (scan_digits ds)))
              else (None, s))
      | [] \<Rightarrow> (None, s))"

definition scan_number :: "string \<Rightarrow> exn + (pyval \<times> string)" where
  "scan_number s =
     (let neg = (s \<noteq> [] \<and> hd s = CHR ''-'');
          body = (if neg then tl s else s);
          whole = (if body \<noteq> [] \<and> hd body = CHR ''0'' then (''0'', tl body) else scan_digits body);
          frac = scan_fraction (snd whole);
          ex = scan_exponent (snd frac);
          n = int (digits_val (fst whole) 0)
      in if fst whole = [] then Inl json_error
         else if fst frac = [] \<and> fst ex = None then
           (if length (fst whole) > 4300 then Inl (OtherException ''ValueError'' []) else Inr (PInt (if neg then - n else n), snd ex))
         else
           (let q = of_int (int (digits_val (fst frac) (digits_val (fst whole) 0))) * 10 powi
                      ((case fst ex of Some e \<Rightarrow> e | None \<Rightarrow> 0) - int (length (fst frac))) :: rat
            in Inr (PFloat (fl (if neg then - q else q)), snd ex)))"

subsection \<open>Values\<close>

text \<open>The first argument is fuel: every value takes at least one character.\<close>

fun scan_value :: "nat \<Rightarrow> string \<Rightarrow> exn + (pyval \<times> string)"
  and scan_items :: "nat \<Rightarrow> pyval list \<Rightarrow> string \<Rightarrow> exn + (pyval \<times> string)"
  and scan_members :: "nat \<Rightarrow> (string \<times> pyval) list \<Rightarrow> string \<Rightarrow> exn + (pyval \<times> string)" where
  "scan_value 0 s = Inl json_error"
| "scan_value (Suc n) s =
     (case s of
        [] \<Rightarrow> Inl json_error
      | c # cs \<Rightarrow>
          if c = CHR 0x22 then bindE (scan_string cs) (\<lambda>(t, r). Inr (PStr t, r))
          else if c = CHR ''{'' then
            (if prefix ''}'' (skip_space cs) then Inr (PDict [], tl (skip_space cs)) else scan_members n [] (skip_space cs))
          else if c = CHR ''['' then
            (if prefix '']'' (skip_space cs) then Inr (PList [], tl (skip_space cs)) else scan_items n [] (skip_space cs))
          else if prefix ''null'' s then Inr (PNone, drop 4 s)
          else if prefix ''true'' s then Inr (PBool True, drop 4 s)
          else if prefix ''false'' s then Inr (PBool False, drop 5 s)
          else if prefix ''NaN'' s then Inr (nonfinite, drop 3 s)
          else if prefix ''Infinity'' s then Inr (nonfinite, drop 8 s)
          else if prefix ''-Infinity'' s then Inr (nonfinite, drop 9 s)
          else scan_number s)"
| "scan_items 0 acc s = Inl json_error"
| "scan_items (Suc n) acc s =
     bindE (scan_value n s) (\<lambda>(v, r).
       let r1 = skip_space r in
       if prefix '']'' r1 then Inr (PList (acc @ [v]), tl r1)
       else if prefix '','' r1 then scan_items n (acc @ [v]) (skip_space (tl r1))
       else Inl json_error)"
| "scan_members 0 acc s = Inl json_error"
| "scan_members (Suc n) acc s =
     (if \<not> prefix [CHR 0x22] s then Inl json_error
      else bindE (scan_string (tl s)) (\<lambda>(k, r).
        let r1 = skip_space r in
        if \<not> prefix '':'' r1 then Inl json_error
        else bindE (scan_value n (skip_space (tl r1))) (\<lambda>(v, r2).
          let r3 = skip_space r2 in
          if prefix ''}'' r3 then Inr (PDict (AList.update k v acc), tl r3)
          else if prefix '','' r3 then scan_members n (AList.update k v acc) (skip_space (tl r3))
          else Inl json_error)))"

definition json_loads :: "string \<Rightarrow> exn + pyval" where
  "json_loads s =
     bindE (scan_value (2 * length s + 2) (skip_space s)) (\<lambda>(v, r). if skip_space r = [] then Inr v else Inl json_error)"

subsection \<open>What json.dumps writes reads back\<close>

definition code_point :: "nat \<Rightarrow> bool" where
  "code_point n \<longleftrightarrow> n < 0x110000 \<and> \<not> (0xD800 \<le> n \<and> n < 0xE000)"

text \<open>Well-formed UTF-8.\<close>

definition utf8_text :: "string \<Rightarrow> bool" where
  "utf8_text s \<longleftrightarrow> (\<exists>ns. list_all code_point ns \<and> s = concat (map utf8_encode ns))"

definition utf8_bytes :: "nat \<Rightarrow> nat list" where
  "utf8_bytes n =
     (if n < 0x80 then [n]
      else if n < 0x800 then [0xC0 + n div 64, 0x80 + n mod 64]
      else if n < 0x10000 then [0xE0 + n div 4096, 0x80 + n div 64 mod 64, 0x80 + n mod 64]
      else [0xF0 + n div 262144, 0x80 + n div 4096 mod 64, 0x80 + n div 64 mod 64, 0x80 + n mod 64])"

lemma of_char_bytes: "list_all (\<lambda>n. n < 256) ns \<Longrightarrow> map of_char (u8 ns) = (ns :: nat list)"
  by (induction ns) (simp_all add: u8_def)

lemma bytes_small: "n < 0x110000 \<Longrightarrow> list_all (\<lambda>b. b < 256) (utf8_bytes n)"
proof -
  assume n: "n < 0x110000"
  have "n div 262144 \<le> 4" using n by simp
  moreover have "n < 0x800 \<Longrightarrow> n div 64 < 32" "n < 0x10000 \<Longrightarrow> n div 4096 < 16" by (simp_all add: less_mult_imp_div_less)
  moreover have "m mod 64 \<le> 63" for m :: nat by simp
  ultimately show ?thesis by (auto simp: utf8_bytes_def intro: le_less_trans)
qed

lemma utf8_encode_bytes: "n < 0x110000 \<Longrightarrow> map of_char (utf8_encode n) = utf8_bytes n"
  using bytes_small [of n] of_char_bytes [of "utf8_bytes n"] by (auto simp: utf8_encode_def utf8_bytes_def split: if_splits)

lemma utf8_decode_ascii: "a < 0x80 \<Longrightarrow> utf8_decode (a # r) = a # utf8_decode r"
  by (cases r rule: utf8_decode.cases) simp_all

lemma utf8_decode_two: "0xC0 \<le> a \<Longrightarrow> a < 0xE0 \<Longrightarrow> utf8_decode (a # b # r) = ((a - 0xC0) * 64 + (b - 0x80)) # utf8_decode r"
  by (cases r; cases "tl r") simp_all

lemma utf8_decode_three:
  "0xE0 \<le> a \<Longrightarrow> a < 0xF0 \<Longrightarrow>
   utf8_decode (a # b # c # r) = ((a - 0xE0) * 4096 + (b - 0x80) * 64 + (c - 0x80)) # utf8_decode r"
  by (cases r) simp_all

lemma sextets:
  "n div 4096 * 4096 + n div 64 mod 64 * 64 + n mod 64 = (n :: nat)"
  "n div 262144 * 262144 + n div 4096 mod 64 * 4096 + n div 64 mod 64 * 64 + n mod 64 = n"
proof -
  have d: "n div 4096 = n div 64 div 64" "n div 262144 = n div 64 div 64 div 64"
    by (simp_all add: div_mult2_eq [symmetric])
  show "n div 4096 * 4096 + n div 64 mod 64 * 64 + n mod 64 = n"
    "n div 262144 * 262144 + n div 4096 mod 64 * 4096 + n div 64 mod 64 * 64 + n mod 64 = n"
    unfolding d using div_mult_mod_eq [of n 64] div_mult_mod_eq [of "n div 64" 64] div_mult_mod_eq [of "n div 64 div 64" 64]
    by linarith+
qed

lemma nibbles: "((n div 4096 * 16 + n div 256 mod 16) * 16 + n div 16 mod 16) * 16 + n mod 16 = (n :: nat)"
proof -
  have d: "n div 256 = n div 16 div 16" "n div 4096 = n div 16 div 16 div 16" by (simp_all add: div_mult2_eq [symmetric])
  show ?thesis
    unfolding d div_mult_mod_eq ..
qed

lemma utf8_decode_bytes:
  assumes "n < 0x110000"
  shows "utf8_decode (utf8_bytes n @ r) = n # utf8_decode r"
proof -
  consider "n < 0x80" | "0x80 \<le> n" "n < 0x800" | "0x800 \<le> n" "n < 0x10000" | "0x10000 \<le> n" by linarith
  then show ?thesis
  proof cases
    case 1
    then show ?thesis by (simp add: utf8_bytes_def utf8_decode_ascii)
  next
    case 2
    then have "n div 64 < 32" by (simp add: less_mult_imp_div_less)
    then show ?thesis using 2 by (simp add: utf8_bytes_def utf8_decode_two)
  next
    case 3
    then have "n div 4096 < 16" by (simp add: less_mult_imp_div_less)
    moreover have "n div 4096 * 4096 + n div 64 mod 64 * 64 + n mod 64 = n" by (rule sextets)
    ultimately show ?thesis using 3 by (simp add: utf8_bytes_def utf8_decode_three)
  next
    case 4
    have "n div 262144 * 262144 + n div 4096 mod 64 * 4096 + n div 64 mod 64 * 64 + n mod 64 = n" by (rule sextets)
    then show ?thesis using 4 by (simp add: utf8_bytes_def)
  qed
qed

lemma utf8_decode_encode:
  "list_all code_point ns \<Longrightarrow> utf8_decode (map of_char (concat (map utf8_encode ns))) = ns"
  by (induction ns) (simp_all add: code_point_def utf8_encode_bytes utf8_decode_bytes)

subsubsection \<open>Strings\<close>

lemma hex_value_char: "d < 16 \<Longrightarrow> hex_value (hex_char d) = Some d"
  by (auto simp: hex_value_def hex_char_def Let_def)

lemma hex4_round_trip: "n < 0x10000 \<Longrightarrow> hex4_value (hex4 n @ r) = Some n"
proof -
  assume n: "n < 0x10000"
  have d: "n div 4096 mod 16 = n div 4096" using n by (simp add: less_mult_imp_div_less)
  have "hex_value (hex_char (m mod 16)) = Some (m mod 16)" for m by (rule hex_value_char) simp
  then have "hex4_value (hex4 n @ r) = Some (((n div 4096 mod 16 * 16 + n div 256 mod 16) * 16 + n div 16 mod 16) * 16 + n mod 16)"
    unfolding hex4_value_def hex4_def by (simp del: mod_less)
  then show ?thesis unfolding d nibbles .
qed

lemma hex4_length [simp]: "length (hex4 n) = 4"
  by (simp add: hex4_def)

lemma scan_unicode:
  assumes "json_code_point r = Some (n, r1)"
  shows "scan_string (CHR 0x5C # CHR ''u'' # r) = bindE (scan_string r1) (\<lambda>(t, rest). Inr (utf8_encode n @ t, rest))"
  using assms by (subst scan_string.simps) (simp add: json_unescape_def)

lemma json_escapes:
  "json_unescape (CHR 0x22) = Some (CHR 0x22)" "json_unescape (CHR 0x5C) = Some (CHR 0x5C)"
  "json_unescape (CHR ''n'') = Some (CHR 0x0A)" "json_unescape (CHR ''r'') = Some (CHR 0x0D)"
  "json_unescape (CHR ''t'') = Some (CHR 0x09)" "json_unescape (CHR ''f'') = Some (CHR 0x0C)"
  "json_unescape (CHR ''b'') = Some (CHR 0x08)"
  by (simp_all add: json_unescape_def)

lemma utf8_encode_controls:
  "utf8_encode 0x22 = [CHR 0x22]" "utf8_encode 0x5C = [CHR 0x5C]" "utf8_encode 0x0A = [CHR 0x0A]" "utf8_encode 0x0D = [CHR 0x0D]"
  "utf8_encode 0x09 = [CHR 0x09]" "utf8_encode 0x0C = [CHR 0x0C]" "utf8_encode 0x08 = [CHR 0x08]"
  by code_simp+

lemma scan_escape:
  assumes "json_unescape c = Some x"
  shows "scan_string (CHR 0x5C # c # r) = bindE (scan_string r) (\<lambda>(t, rest). Inr (x # t, rest))"
  using assms by (subst scan_string.simps) simp

lemma scan_short:
  assumes "json_short_escape n = Some s"
  shows "scan_string (s @ r) = bindE (scan_string r) (\<lambda>(t, rest). Inr (utf8_encode n @ t, rest))"
  using assms
  by (auto simp: json_short_escape_def scan_escape json_escapes utf8_encode_controls split: if_splits)

lemma scan_char:
  assumes "code_point n"
  shows "scan_string (json_ascii_char n @ r) = bindE (scan_string r) (\<lambda>(t, rest). Inr (utf8_encode n @ t, rest))"
proof (cases "json_short_escape n")
  case (Some s)
  then show ?thesis using scan_short by (simp add: json_ascii_char_def)
next
  case None
  consider "0x20 \<le> n" "n \<le> 0x7E" | "\<not> (0x20 \<le> n \<and> n \<le> 0x7E)" "n < 0x10000" | "0x10000 \<le> n" by linarith
  then show ?thesis
  proof cases
    case 1
    then have "char_of n \<noteq> CHR 0x22" "char_of n \<noteq> CHR 0x5C" "of_char (char_of n) = n"
      using None by (auto simp: json_short_escape_def split: if_splits dest!: arg_cong [of "char_of n" _ "of_char :: char \<Rightarrow> nat"])
    then show ?thesis using 1 None
      by (subst scan_string.simps) (simp add: json_ascii_char_def utf8_encode_def u8_def)
  next
    case 2
    then have "json_code_point (hex4 n @ r) = Some (n, r)"
      using assms by (auto simp: json_code_point_def hex4_round_trip code_point_def Let_def)
    from scan_unicode [OF this] have "scan_string (CHR 0x5C # ''u'' @ hex4 n @ r) =
        bindE (scan_string r) (\<lambda>(t, rest). Inr (utf8_encode n @ t, rest))" by simp
    moreover have "json_ascii_char n = CHR 0x5C # ''u'' @ hex4 n"
      using 2 None by (auto simp: json_ascii_char_def)
    ultimately show ?thesis by simp
  next
    case 3
    define m where "m = n - 0x10000"
    have m: "n = 0x10000 + m" "m < 0x100000" using 3 assms by (auto simp: m_def code_point_def)
    have hi: "m div 0x400 < 0x400" using m(2) by (simp add: less_mult_imp_div_less)
    have lo: "m mod 0x400 \<le> 0x3FF" by simp
    have "json_code_point (hex4 (0xD800 + m div 0x400) @ CHR 0x5C # CHR ''u'' # hex4 (0xDC00 + m mod 0x400) @ r) = Some (n, r)"
      using hi lo hex4_round_trip [of "0xD800 + m div 0x400"] hex4_round_trip [of "0xDC00 + m mod 0x400"]
      by (simp add: json_code_point_def Let_def m(1))
    from scan_unicode [OF this] show ?thesis using 3 None by (simp add: json_ascii_char_def Let_def m_def)
  qed
qed

lemma scan_json_string:
  assumes "utf8_text s"
  shows "\<exists>t. json_string True s = CHR 0x22 # t \<and> (\<forall>r. scan_string (t @ r) = Inr (s, r))"
proof -
  obtain ns where ns: "list_all code_point ns" "s = concat (map utf8_encode ns)" using assms by (auto simp: utf8_text_def)
  have "scan_string (concat (map json_ascii_char ns) @ CHR 0x22 # r) = Inr (s, r)" for r
    using ns
  proof (induction ns arbitrary: s)
    case Nil
    then show ?case by (subst scan_string.simps) simp
  next
    case (Cons n ns)
    then show ?case by (simp add: scan_char)
  qed
  then show ?thesis using utf8_decode_encode [OF ns(1)] by (simp add: json_string_def ns(2))
qed

subsubsection \<open>Numbers\<close>

lemma hd_nat_digits: "0 < n \<Longrightarrow> hd (nat_digits n) \<noteq> CHR ''0''"
proof (induction n rule: nat_digits.induct)
  case (1 n)
  have digit: "0 < d \<Longrightarrow> d < 10 \<Longrightarrow> digit_char d \<noteq> CHR ''0''" for d
    using digit_val_char [of d] by (auto simp: digit_val_def)
  show ?case using 1 digit by (subst nat_digits.simps) (auto simp: hd_append)
qed

text \<open>What may follow a value.\<close>

definition json_stop :: "string \<Rightarrow> bool" where
  "json_stop r \<longleftrightarrow> r = [] \<or> hd r \<in> {CHR '','', CHR '']'', CHR ''}''}"

lemma stop_digits: "\<forall>c\<in>set ds. is_digit c \<Longrightarrow> json_stop r \<Longrightarrow> scan_digits (ds @ r) = (ds, r)"
proof -
  assume ds: "\<forall>c\<in>set ds. is_digit c" and r: "json_stop r"
  have "takeWhile is_digit r = []" "dropWhile is_digit r = r" using r by (cases r; auto simp: json_stop_def is_digit_def)+
  then show ?thesis using ds by (simp add: scan_digits_def takeWhile_append2 dropWhile_append2)
qed

lemma stop_number: "json_stop r \<Longrightarrow> scan_fraction r = ([], r)" "json_stop r \<Longrightarrow> scan_exponent r = (None, r)"
  by (auto simp: json_stop_def scan_fraction_def scan_exponent_def split: list.split)

lemma scan_nat:
  assumes "json_stop r" and "length (nat_digits n) \<le> 4300"
  shows "scan_number (nat_digits n @ r) = Inr (PInt (int n), r)"
    "0 < n \<Longrightarrow> scan_number (CHR ''-'' # nat_digits n @ r) = Inr (PInt (- int n), r)"
proof -
  have digits: "\<forall>c\<in>set (nat_digits n). is_digit c" using nat_digits_digits by blast
  have "\<not> is_digit (CHR ''-'')" by code_simp
  then have minus: "hd (nat_digits n) \<noteq> CHR ''-''" using digits hd_in_set [of "nat_digits n"] nat_digits_nonempty [of n] by metis
  have val: "digits_val (nat_digits n) 0 = n" by (rule digits_val_nat_digits)
  have zero: "hd (nat_digits n) \<noteq> CHR ''0''" if "0 < n" using that by (rule hd_nat_digits)
  have "nat_digits 0 = ''0''" by code_simp
  then show "scan_number (nat_digits n @ r) = Inr (PInt (int n), r)"
    using digits minus val zero assms
    by (cases "n = 0") (simp_all add: scan_number_def Let_def stop_digits stop_number hd_append)
  assume "0 < n"
  then show "scan_number (CHR ''-'' # nat_digits n @ r) = Inr (PInt (- int n), r)"
    using digits minus val zero assms by (simp add: scan_number_def Let_def stop_digits stop_number hd_append)
qed

subsubsection \<open>Values\<close>

text \<open>The values whose text determines them: floats are left out, since their text is rounded.\<close>

fun json_able :: "pyval \<Rightarrow> bool" where
  "json_able PNone = True"
| "json_able (PBool b) = True"
| "json_able (PInt n) = (length (nat_digits (nat \<bar>n\<bar>)) \<le> 4300)"
| "json_able (PFloat x) = False"
| "json_able (PStr s) = utf8_text s"
| "json_able (PList xs) = list_all json_able xs"
| "json_able (PDict d) = (distinct (map fst d) \<and> list_all (\<lambda>(k, v). utf8_text k \<and> json_able v) d)"

abbreviation dumps :: "pyval \<Rightarrow> string" where
  "dumps v \<equiv> json_dumps True '', '' '': '' v"

definition reads_back :: "pyval \<Rightarrow> bool" where
  "reads_back v \<longleftrightarrow> (\<forall>n r. length (dumps v) \<le> n \<longrightarrow> json_stop r \<longrightarrow> scan_value n (dumps v @ r) = Inr (v, r))"

lemma digit_text:
  assumes "is_digit c"
  shows "\<not> is_json_space c" "c \<noteq> CHR 0x22" "c \<noteq> CHR ''{''" "c \<noteq> CHR ''[''" "c \<noteq> CHR '']''" "c \<noteq> CHR ''n''" "c \<noteq> CHR ''t''"
    "c \<noteq> CHR ''f''" "c \<noteq> CHR ''N''" "c \<noteq> CHR ''I''" "c \<noteq> CHR ''-''"
  using assms by (auto simp: is_digit_def is_json_space_def)

lemma int_text:
  obtains c t where "py_str_int n = c # t" "is_digit c \<or> c = CHR ''-'' \<and> (\<exists>d u. t = d # u \<and> is_digit d)"
proof (cases "py_str_int n")
  case (Cons c t)
  have "is_digit (hd (nat_digits m))" for m using nat_digits_digits hd_in_set nat_digits_nonempty by blast
  then have "is_digit c \<or> c = CHR ''-'' \<and> (\<exists>d u. t = d # u \<and> is_digit d)"
    using Cons by (cases "nat_digits (nat (- n))") (auto simp: py_str_int_def split: if_splits, (metis list.sel(1))+)
  then show ?thesis using Cons that by blast
qed (auto simp: py_str_int_def split: if_splits)

lemma dumps_start: "json_able v \<Longrightarrow> \<exists>c t. dumps v = c # t \<and> \<not> is_json_space c \<and> c \<noteq> CHR '']''"
proof (cases v)
  case (PInt n)
  obtain c t where "py_str_int n = c # t" "is_digit c \<or> c = CHR ''-'' \<and> (\<exists>d u. t = d # u \<and> is_digit d)" by (rule int_text)
  moreover from this(2) have "\<not> is_json_space c" "c \<noteq> CHR '']''" using digit_text(1,5) [of c] by (auto simp: is_json_space_def)
  ultimately show ?thesis by (simp add: PInt)
qed (auto simp: is_json_space_def json_string_def)

lemma scan_value_int:
  assumes "length (nat_digits (nat \<bar>n\<bar>)) \<le> 4300" and "json_stop r"
  shows "scan_value (Suc m) (py_str_int n @ r) = Inr (PInt n, r)"
proof -
  have number: "scan_number (py_str_int n @ r) = Inr (PInt n, r)"
    using scan_nat [of r "nat \<bar>n\<bar>"] assms by (auto simp: py_str_int_def)
  obtain c t where c: "py_str_int n = c # t" "is_digit c \<or> c = CHR ''-'' \<and> (\<exists>d u. t = d # u \<and> is_digit d)" by (rule int_text)
  from c(2) have "scan_value (Suc m) (c # t @ r) = scan_number (c # t @ r)"
  proof
    assume d: "is_digit c"
    show ?thesis by (simp add: digit_text [OF d] digit_text(2-11) [OF d, symmetric])
  next
    assume "c = CHR ''-'' \<and> (\<exists>d u. t = d # u \<and> is_digit d)"
    then obtain d u where d: "c = CHR ''-''" "t = d # u" "is_digit d" by blast
    show ?thesis by (simp add: d(1,2) digit_text [OF d(3)] digit_text(2-11) [OF d(3), symmetric])
  qed
  then show ?thesis using number c(1) by simp
qed

lemma scan_items_join:
  assumes "list_all reads_back xs" and "list_all json_able xs" and "xs \<noteq> []" and "length (py_join '', '' (map dumps xs)) + 1 \<le> n"
  shows "scan_items n acc (py_join '', '' (map dumps xs) @ CHR '']'' # r) = Inr (PList (acc @ xs), r)"
  using assms
proof (induction xs arbitrary: acc n)
  case (Cons x xs)
  obtain m where n: "n = Suc m" using Cons.prems(4) by (cases n) auto
  show ?case
  proof (cases "xs = []")
    case True
    then have "scan_value m (dumps x @ CHR '']'' # r) = Inr (x, CHR '']'' # r)"
      using Cons.prems n by (simp add: reads_back_def json_stop_def)
    then show ?thesis using True n by (simp add: skip_space_def is_json_space_def)
  next
    case False
    let ?rest = "py_join '', '' (map dumps xs) @ CHR '']'' # r"
    have joined: "py_join '', '' (map dumps (x # xs)) = dumps x @ '', '' @ py_join '', '' (map dumps xs)"
      using False by (simp add: py_join_Cons)
    then have "scan_value m (dumps x @ '', '' @ ?rest) = Inr (x, '', '' @ ?rest)"
      using Cons.prems n by (simp add: reads_back_def json_stop_def)
    moreover have "skip_space (CHR '' '' # ?rest) = ?rest"
    proof -
      obtain y ys where "xs = y # ys" using False by (cases xs) auto
      moreover from this obtain c t where "dumps y = c # t" "\<not> is_json_space c" using dumps_start [of y] Cons.prems(2) by auto
      ultimately show ?thesis by (cases ys) (auto simp: skip_space_def is_json_space_def)
    qed
    moreover have "scan_items m (acc @ [x]) ?rest = Inr (PList ((acc @ [x]) @ xs), r)"
      using Cons.prems n False joined by (intro Cons.IH) auto
    ultimately show ?thesis using n unfolding joined by (simp add: skip_space_def is_json_space_def)
  qed
qed simp

lemma scan_dumped_string: "utf8_text s \<Longrightarrow> scan_string (tl (json_string True s) @ r) = Inr (s, r)"
  using scan_json_string [of s] by auto

lemma update_fresh: "k \<notin> fst ` set d \<Longrightarrow> AList.update k v d = d @ [(k, v)]"
  by (induction d) auto

abbreviation dumps_member :: "string \<times> pyval \<Rightarrow> string" where
  "dumps_member \<equiv> \<lambda>(k, v). json_string True k @ '': '' @ dumps v"

lemma scan_members_join:
  assumes "list_all (\<lambda>(k, v). reads_back v \<and> json_able v \<and> utf8_text k) d" and "distinct (map fst (acc @ d))" and "d \<noteq> []"
    and "length (py_join '', '' (map dumps_member d)) + 1 \<le> n"
  shows "scan_members n acc (py_join '', '' (map dumps_member d) @ CHR ''}'' # r) = Inr (PDict (acc @ d), r)"
  using assms
proof (induction d arbitrary: acc n)
  case (Cons kv d)
  obtain k v where kv: "kv = (k, v)" by force
  obtain m where n: "n = Suc m" using Cons.prems(4) by (cases n) auto
  obtain t where t: "json_string True k = CHR 0x22 # t" "\<And>r. scan_string (t @ r) = Inr (k, r)"
    using scan_json_string [of k] Cons.prems(1) kv by auto
  have upd: "AList.update k v acc = acc @ [(k, v)]" using Cons.prems(2) kv by (intro update_fresh) auto
  have space: "skip_space (CHR '' '' # dumps v @ u) = dumps v @ u" for u
    using dumps_start [of v] Cons.prems(1) kv by (auto simp: skip_space_def is_json_space_def)
  show ?case
  proof (cases "d = []")
    case True
    then have "scan_value m (dumps v @ CHR ''}'' # r) = Inr (v, CHR ''}'' # r)"
      using Cons.prems n kv by (simp add: reads_back_def json_stop_def)
    then show ?thesis using True n kv t upd space by (simp add: skip_space_def is_json_space_def)
  next
    case False
    let ?rest = "py_join '', '' (map dumps_member d) @ CHR ''}'' # r"
    have joined: "py_join '', '' (map dumps_member (kv # d)) = CHR 0x22 # t @ '': '' @ dumps v @ '', '' @ py_join '', '' (map dumps_member d)"
      using False kv t(1) by (simp add: py_join_Cons)
    then have "scan_value m (dumps v @ '', '' @ ?rest) = Inr (v, '', '' @ ?rest)"
      using Cons.prems n kv by (simp add: reads_back_def json_stop_def)
    moreover have "skip_space (CHR '' '' # ?rest) = ?rest"
    proof -
      obtain y ys where "d = y # ys" using False by (cases d) auto
      then show ?thesis by (cases ys; cases y) (auto simp: skip_space_def is_json_space_def json_string_def)
    qed
    moreover have "scan_members m (acc @ [(k, v)]) ?rest = Inr (PDict ((acc @ [(k, v)]) @ d), r)"
      using Cons.prems n False joined kv by (intro Cons.IH) auto
    ultimately show ?thesis using n t upd space kv unfolding joined by (simp add: skip_space_def is_json_space_def)
  qed
qed simp

lemma dumps_reads_back: "json_able v \<Longrightarrow> reads_back v"
proof (induction v rule: json_able.induct)
  case (3 n)
  show ?case unfolding reads_back_def
  proof (intro allI impI)
    fix k r assume "length (dumps (PInt n)) \<le> k" "json_stop r"
    moreover obtain c t where "py_str_int n = c # t" using int_text by blast
    ultimately obtain m where "k = Suc m" by (cases k) auto
    then show "scan_value k (dumps (PInt n) @ r) = Inr (PInt n, r)" using scan_value_int [of n r m] 3 \<open>json_stop r\<close> by simp
  qed
next
  case (5 s)
  obtain t where t: "json_string True s = CHR 0x22 # t" "\<And>r. scan_string (t @ r) = Inr (s, r)"
    using scan_json_string [of s] 5 by auto
  show ?case unfolding reads_back_def
  proof (intro allI impI)
    fix n r assume "length (dumps (PStr s)) \<le> n"
    then obtain m where "n = Suc m" using t(1) by (cases n) auto
    then show "scan_value n (dumps (PStr s) @ r) = Inr (PStr s, r)" using t by simp
  qed
next
  case (6 xs)
  show ?case unfolding reads_back_def
  proof (intro allI impI)
    fix n r assume n: "length (dumps (PList xs)) \<le> n"
    then obtain m where m: "n = Suc m" by (cases n) auto
    show "scan_value n (dumps (PList xs) @ r) = Inr (PList xs, r)"
    proof (cases "xs = []")
      case False
      then obtain y ys where xs: "xs = y # ys" by (cases xs) auto
      obtain c t where c: "dumps y = c # t" "\<not> is_json_space c" "c \<noteq> CHR '']''" using dumps_start [of y] 6 xs by auto
      let ?text = "py_join '', '' (map dumps xs) @ CHR '']'' # r"
      have front: "skip_space ?text = ?text" "\<not> prefix '']'' ?text"
        using c xs by (cases ys; simp add: skip_space_def)+
      have "list_all reads_back xs" using 6 by (auto simp: list_all_iff)
      then have "scan_items m [] ?text = Inr (PList xs, r)"
        using scan_items_join [of xs m "[]"] 6 False n m by simp
      then show ?thesis using m front by simp
    qed (use m in \<open>simp add: skip_space_def is_json_space_def\<close>)
  qed
next
  case (7 d)
  show ?case unfolding reads_back_def
  proof (intro allI impI)
    fix n r assume n: "length (dumps (PDict d)) \<le> n"
    then obtain m where m: "n = Suc m" by (cases n) auto
    show "scan_value n (dumps (PDict d) @ r) = Inr (PDict d, r)"
    proof (cases "d = []")
      case False
      then obtain y ys where xs: "d = y # ys" by (cases d) auto
      let ?text = "py_join '', '' (map dumps_member d) @ CHR ''}'' # r"
      have front: "skip_space ?text = ?text" "\<not> prefix ''}'' ?text"
        using xs by (cases ys; cases y; simp add: skip_space_def is_json_space_def json_string_def)+
      have "list_all (\<lambda>(k, v). reads_back v \<and> json_able v \<and> utf8_text k) d" using 7 by (auto simp: list_all_iff)
      then have "scan_members m [] ?text = Inr (PDict d, r)"
        using scan_members_join [of d "[]" m] 7 False n m by simp
      then show ?thesis using m front by simp
    qed (use m in \<open>simp add: skip_space_def is_json_space_def\<close>)
  qed
next
  case 1
  show ?case unfolding reads_back_def by (auto simp: Suc_le_eq dest!: gr0_implies_Suc elim!: less_natE)
next
  case (2 b)
  show ?case unfolding reads_back_def by (cases b) (auto simp: Suc_le_eq dest!: gr0_implies_Suc elim!: less_natE)
qed simp

text \<open>What \<open>json.dumps\<close> writes with its defaults, \<open>json.loads\<close> reads back.\<close>

lemma json_round_trip:
  assumes "json_able v"
  shows "json_loads (dumps v) = Inr v"
proof -
  have "skip_space (dumps v) = dumps v" using dumps_start [OF assms] by (auto simp: skip_space_def)
  moreover have "scan_value (2 * length (dumps v) + 2) (dumps v @ []) = Inr (v, [])"
    using dumps_reads_back [OF assms] unfolding reads_back_def json_stop_def by (metis le_add1 mult_2 add.assoc)
  ultimately show ?thesis by (simp add: json_loads_def skip_space_def)
qed

end
