(* ===== verification/Feishu.thy ===== *)
theory Feishu
  imports Config Kernel Sop_Engine Py_Json_Loads
begin

text \<open>
  The Feishu adapter, \<^verbatim>\<open>src/agentos/adapters/feishu_adapter.py\<close>: what it makes of the body of a
  webhook request (a challenge, a message, the click on a button of an approval card), the
  check of a signature, and what it sends. Feishu's side of the HTTP client is a parameter:
  what a request is answered with. The adapter's object is a record; beside its fields the
  requests it sent are kept. Logging is left out, except where it raises.
\<close>

record http_request =
  hr_url :: string
  hr_headers :: "(string \<times> string) list"
  hr_params :: "(string \<times> string) list"
  hr_json :: pyval

text \<open>
  An answer: the failure of \<open>post\<close> or \<open>raise_for_status\<close>, or else what \<open>json()\<close> gives.
\<close>

type_synonym http_answer = "exn + (exn + pyval)"

record feishu_adapter =
  fa_config :: feishu_adapter_config
  fa_token :: pyval
  fa_expires_at :: pyfloat
  fa_sent :: "http_request list"

definition new_FeishuAdapter :: "feishu_adapter_config \<Rightarrow> feishu_adapter" where
  "new_FeishuAdapter config = \<lparr>fa_config = config, fa_token = PNone, fa_expires_at = 0, fa_sent = []\<rparr>"

text \<open>\<open>v.get(k, default)\<close> on a value that need not be a dictionary.\<close>

definition method_get :: "pyval \<Rightarrow> string \<Rightarrow> pyval \<Rightarrow> exn + pyval" where
  "method_get v k dflt = (case v of PDict d \<Rightarrow> Inr (py_get d k dflt) | _ \<Rightarrow> Inl (no_attribute v ''get''))"

subsection \<open>The body of a request\<close>

text \<open>
  The log line takes the first eight characters of the token, which raises where the token
  is neither text nor a list (for a dictionary with another exception since Python 3.12).
\<close>

definition token_log :: "pyval \<Rightarrow> exn + unit" where
  "token_log token =
     (case token of
        PStr _ \<Rightarrow> Inr ()
      | PList _ \<Rightarrow> Inr ()
      | PDict _ \<Rightarrow> Inl (OtherException ''TypeError'' (''unhashable type: '' @ [CHR 0x27] @ ''slice'' @ [CHR 0x27]))
      | _ \<Rightarrow> Inl (OtherException ''TypeError'' ([CHR 0x27] @ py_type_name token @ [CHR 0x27] @ '' object is not subscriptable'')))"

definition verify_challenge :: "pyval \<Rightarrow> exn + pyval option" where
  "verify_challenge body =
     bindE (method_get body ''challenge'' PNone) (\<lambda>challenge.
       if py_truth challenge
       then bindE (method_get body ''token'' (PStr [])) (\<lambda>token.
            bindE (token_log token) (\<lambda>_. Inr (Some (PDict [(''challenge'', challenge)]))))
       else Inr None)"

text \<open>
  The digest is a parameter. \<open>hmac.compare_digest\<close> refuses texts that are not ASCII.
\<close>

definition verify_signature ::
  "(string \<Rightarrow> string) \<Rightarrow> feishu_adapter_config \<Rightarrow> string \<Rightarrow> string \<Rightarrow> string \<Rightarrow> string \<Rightarrow> exn + bool" where
  "verify_signature sha256 config timestamp nonce body expected_signature =
     (if fc_verification_token config = [] then Inr False
      else if expected_signature = [] then Inr False
      else if timestamp = [] \<or> nonce = [] then Inr False
      else let computed = sha256 (timestamp @ nonce @ fc_verification_token config @ body)
           in if list_ex (\<lambda>c. 128 \<le> (of_char c :: nat)) (computed @ expected_signature)
              then Inl (OtherException ''TypeError'' ''comparing strings with non-ASCII characters is not supported'')
              else Inr (computed = expected_signature))"

text \<open>The message before its fields are known to be text.\<close>

record im_message =
  im_text :: pyval
  im_sender_id :: pyval
  im_sender_name :: pyval
  im_channel :: string
  im_message_id :: pyval
  im_metadata :: "(string \<times> pyval) list"

text \<open>\<open>json.loads\<close> of the content; only a \<open>JSONDecodeError\<close> is caught.\<close>

definition im_content :: "pyval \<Rightarrow> exn + pyval" where
  "im_content content_str =
     (case content_str of
        PStr s \<Rightarrow>
          (case json_loads s of
             Inl e \<Rightarrow> if class_name e = ''JSONDecodeError'' then Inr (PDict []) else Inl e
           | Inr v \<Rightarrow> Inr v)
      | v \<Rightarrow> Inl (OtherException ''TypeError'' (''the JSON object must be str, bytes or bytearray, not '' @ py_type_name v)))"

definition parse_im_message :: "pyval \<Rightarrow> exn + im_message option" where
  "parse_im_message event =
     bindE (method_get event ''message'' (PDict [])) (\<lambda>message.
     bindE (method_get event ''sender'' (PDict [])) (\<lambda>sender.
     bindE (method_get message ''content'' (PStr ''{}'')) (\<lambda>content_str.
     bindE (im_content content_str) (\<lambda>content.
     bindE (method_get content ''text'' (PStr [])) (\<lambda>txt.
       if \<not> py_truth txt then Inr None
       else
         bindE (method_get sender ''sender_id'' (PDict [])) (\<lambda>sender_id.
         bindE (method_get sender_id ''user_id'' (PStr ''unknown'')) (\<lambda>user_id.
         bindE (method_get sender_id ''open_id'' (PStr ''unknown'')) (\<lambda>open_id.
         bindE (method_get message ''message_id'' (PStr [])) (\<lambda>message_id.
         bindE (method_get message ''chat_id'' (PStr [])) (\<lambda>chat_id.
         bindE (method_get message ''message_type'' (PStr ''text'')) (\<lambda>message_type.
           Inr (Some \<lparr>im_text = txt, im_sender_id = user_id, im_sender_name = open_id, im_channel = ''feishu'',
                      im_message_id = message_id,
                      im_metadata = [(''feishu_message_id'', message_id), (''feishu_chat_id'', chat_id),
                                     (''feishu_message_type'', message_type)]\<rparr>))))))))))))"

definition parse_event :: "pyval \<Rightarrow> exn + im_message option" where
  "parse_event event_body =
     bindE (method_get event_body ''header'' (PDict [])) (\<lambda>event_header.
     bindE (method_get event_header ''event_type'' (PStr [])) (\<lambda>event_type.
     bindE (method_get event_body ''event'' (PDict [])) (\<lambda>event.
       if event_type = PStr ''im.message.receive_v1'' then parse_im_message event else Inr None)))"

record card_callback =
  cc_run_id :: pyval
  cc_step_id :: pyval
  cc_decision :: pyval
  cc_reviewer :: pyval
  cc_reason :: pyval

definition parse_card_callback :: "pyval \<Rightarrow> exn + card_callback option" where
  "parse_card_callback body =
     bindE (method_get body ''action'' (PDict [])) (\<lambda>action_block.
     bindE (method_get action_block ''value'' (PDict [])) (\<lambda>value.
     bindE (method_get value ''run_id'' (PStr [])) (\<lambda>run_id.
     bindE (method_get value ''action'' (PStr [])) (\<lambda>decision.
     bindE (method_get value ''step_id'' (PStr [])) (\<lambda>step_id.
     bindE (method_get action_block ''input'' (PStr [])) (\<lambda>input.
     bindE (if py_truth input then Inr input else method_get action_block ''option'' (PStr [])) (\<lambda>reason.
     bindE (method_get body ''open_id'' (PStr ''unknown'')) (\<lambda>reviewer.
       if \<not> py_truth run_id \<or> decision \<notin> {PStr ''APPROVED'', PStr ''REJECTED''} then Inr None
       else Inr (Some \<lparr>cc_run_id = run_id, cc_step_id = step_id, cc_decision = decision,
                       cc_reviewer = reviewer, cc_reason = reason\<rparr>)))))))))"

subsection \<open>What the adapter sends\<close>

definition LARK_API_BASE :: string where
  "LARK_API_BASE = ''https://open.feishu.cn/open-apis''"

definition post :: "(http_request \<Rightarrow> http_answer) \<Rightarrow> http_request \<Rightarrow> feishu_adapter \<Rightarrow> http_answer \<times> feishu_adapter" where
  "post http r fa = (http r, fa\<lparr>fa_sent := fa_sent fa @ [r]\<rparr>)"

text \<open>\<open>time.time() + expire\<close>, which raises for a value that is no number.\<close>

definition expiry_of :: "pyfloat \<Rightarrow> pyval \<Rightarrow> pyfloat option" where
  "expiry_of now expire =
     (case expire of
        PInt n \<Rightarrow> Some (fadd now (fl (of_int n)))
      | PFloat x \<Rightarrow> Some (fadd now x)
      | PBool b \<Rightarrow> Some (fadd now (if b then 1 else 0))
      | _ \<Rightarrow> None)"

definition token_request :: "feishu_adapter_config \<Rightarrow> http_request" where
  "token_request config =
     \<lparr>hr_url = LARK_API_BASE @ ''/auth/v3/tenant_access_token/internal'', hr_headers = [], hr_params = [],
      hr_json = PDict [(''app_id'', PStr (fc_app_id config)), (''app_secret'', PStr (fc_app_secret config))]\<rparr>"

text \<open>
  The token is assigned before the expiry is computed, so that it stays when that raises. The
  clock is read before the request and after it.
\<close>

definition get_tenant_access_token ::
  "(http_request \<Rightarrow> http_answer) \<Rightarrow> feishu_adapter \<Rightarrow> pyfloat \<Rightarrow> pyfloat \<Rightarrow> pyval \<times> feishu_adapter" where
  "get_tenant_access_token http fa now later =
     (if py_truth (fa_token fa) \<and> now < fsub (fa_expires_at fa) 60 then (fa_token fa, fa)
      else if fc_app_id (fa_config fa) = [] \<or> fc_app_secret (fa_config fa) = [] then (PNone, fa)
      else case post http (token_request (fa_config fa)) fa of
             (Inr (Inr (PDict data)), fa1) \<Rightarrow>
               (let token = py_get data ''tenant_access_token'' PNone; fa2 = fa1\<lparr>fa_token := token\<rparr>
                in case expiry_of later (py_get data ''expire'' (PInt 7200)) of
                     Some t \<Rightarrow> (token, fa2\<lparr>fa_expires_at := t\<rparr>)
                   | None \<Rightarrow> (PNone, fa2))
           | (_, fa1) \<Rightarrow> (PNone, fa1))"

definition api_headers :: "pyval \<Rightarrow> (string \<times> string) list" where
  "api_headers token = [(''Authorization'', ''Bearer '' @ py_str token), (''Content-Type'', ''application/json'')]"

definition delivered :: "http_answer \<times> feishu_adapter \<Rightarrow> bool \<times> feishu_adapter" where
  "delivered = (\<lambda>(answer, fa). (case answer of Inl _ \<Rightarrow> False | Inr _ \<Rightarrow> True, fa))"

definition send_text_message ::
  "(http_request \<Rightarrow> http_answer) \<Rightarrow> feishu_adapter \<Rightarrow> pyval \<Rightarrow> string \<Rightarrow> pyfloat \<Rightarrow> pyfloat \<Rightarrow> bool \<times> feishu_adapter" where
  "send_text_message http fa message_id txt now later =
     (case get_tenant_access_token http fa now later of
        (token, fa1) \<Rightarrow>
          if \<not> py_truth token then (False, fa1)
          else delivered (post http
            \<lparr>hr_url = LARK_API_BASE @ ''/im/v1/messages/'' @ py_str message_id @ ''/reply'', hr_headers = api_headers token,
             hr_params = [],
             hr_json = PDict [(''content'', PStr (dumps (PDict [(''text'', PStr txt)]))), (''msg_type'', PStr ''text'')]\<rparr> fa1))"

definition send_response ::
  "(http_request \<Rightarrow> http_answer) \<Rightarrow> feishu_adapter \<Rightarrow> channel_response \<Rightarrow> pyfloat \<Rightarrow> pyfloat \<Rightarrow> feishu_adapter" where
  "send_response http fa response now later =
     (let msg_id = py_get (cr_metadata response) ''feishu_message_id'' PNone
      in if \<not> py_truth msg_id then fa else snd (send_text_message http fa msg_id (cr_text response) now later))"

definition default_card :: "string \<Rightarrow> string \<Rightarrow> pyval" where
  "default_card title message = PDict
     [(''config'', PDict [(''wide_screen_mode'', PBool True)]),
      (''header'', PDict [(''title'', text_block ''plain_text'' title)]),
      (''elements'', PList [PDict [(''tag'', PStr ''div''), (''text'', text_block ''plain_text'' message)]])]"

definition card_request :: "pyval \<Rightarrow> string \<Rightarrow> pyval \<Rightarrow> http_request" where
  "card_request token chat_id payload =
     \<lparr>hr_url = LARK_API_BASE @ ''/im/v1/messages'', hr_headers = api_headers token,
      hr_params = [(''receive_id_type'', ''chat_id'')],
      hr_json = PDict [(''receive_id'', PStr chat_id), (''content'', PStr (dumps payload)), (''msg_type'', PStr ''interactive'')]\<rparr>"

definition send_approval_card ::
  "(http_request \<Rightarrow> http_answer) \<Rightarrow> feishu_adapter \<Rightarrow> string \<Rightarrow> string \<Rightarrow> string \<Rightarrow> pyval \<Rightarrow> pyfloat \<Rightarrow> pyfloat \<Rightarrow>
     bool \<times> feishu_adapter" where
  "send_approval_card http fa chat_id title message payload now later =
     (case get_tenant_access_token http fa now later of
        (token, fa1) \<Rightarrow>
          if \<not> py_truth token then (False, fa1)
          else if chat_id = [] then (False, fa1)
          else delivered (post http
                 (card_request token chat_id (if py_truth payload then payload else default_card title message)) fa1))"

subsection \<open>What is sent reads back\<close>

lemma utf8_text_append: "utf8_text s \<Longrightarrow> utf8_text t \<Longrightarrow> utf8_text (s @ t)"
  by (metis utf8_text_def concat_append list_all_append map_append)

lemma utf8_text_Nil [simp]: "utf8_text []"
  unfolding utf8_text_def by (rule exI [of _ "[]"]) simp

lemma utf8_text_ascii [simp]: "of_char c < (0x80 :: nat) \<Longrightarrow> utf8_text t \<Longrightarrow> utf8_text (c # t)"
proof -
  assume c: "of_char c < (0x80 :: nat)" and "utf8_text t"
  then obtain ns where "list_all code_point ns" "t = concat (map utf8_encode ns)" by (auto simp: utf8_text_def)
  moreover have "utf8_encode (of_char c) = [c]" using c by (simp add: utf8_encode_def u8_def)
  ultimately show ?thesis using c unfolding utf8_text_def
    by (intro exI [of _ "of_char c # ns"]) (simp add: code_point_def)
qed

lemma utf8_text_u8: "list_all code_point ns \<Longrightarrow> utf8_text (u8 (concat (map utf8_bytes ns)))"
proof -
  have encode: "utf8_encode n = u8 (utf8_bytes n)" for n by (simp add: utf8_encode_def utf8_bytes_def)
  have "concat (map utf8_encode ns) = u8 (concat (map utf8_bytes ns))"
    by (induction ns) (simp_all add: encode u8_def)
  then show "list_all code_point ns \<Longrightarrow> utf8_text (u8 (concat (map utf8_bytes ns)))" unfolding utf8_text_def by metis
qed

lemma literal_texts [simp]:
  "utf8_text (u8 [0xC3, 0xA9])"
  "utf8_text (u8 [0xE2, 0x9C, 0x85])"
  "utf8_text (u8 [0xE6, 0x89, 0xB9, 0xE5, 0x87, 0x86])"
  "utf8_text (u8 [0xE2, 0x9D, 0x8C])"
  "utf8_text (u8 [0xE9, 0xA9, 0xB3, 0xE5, 0x9B, 0x9E])"
  "utf8_text (u8 [0xE2, 0x9A, 0xA0, 0xEF, 0xB8, 0x8F])"
  "utf8_text (u8 [0xE6, 0xAD, 0xA4, 0xE5, 0x8D, 0xA1, 0xE7, 0x89, 0x87, 0xE7, 0x94, 0xB1])"
  "utf8_text (u8 [0xE8, 0x87, 0xAA, 0xE5, 0x8A, 0xA8, 0xE7, 0x94, 0x9F, 0xE6, 0x88, 0x90, 0xEF, 0xBC, 0x8C, 0xE8, 0xAF, 0xB7, 0xE4, 0xBB, 0x94, 0xE7, 0xBB, 0x86, 0xE6, 0xA0, 0xB8, 0xE5, 0xAF, 0xB9, 0xE5, 0x90, 0x8E, 0xE5, 0x86, 0x8D, 0xE5, 0x81, 0x9A, 0xE5, 0x86, 0xB3, 0xE5, 0xAE, 0x9A, 0xE3, 0x80, 0x82])"
  subgoal using utf8_text_u8 [of "[0xE9]"] by (simp add: utf8_bytes_def code_point_def)
  subgoal using utf8_text_u8 [of "[0x2705]"] by (simp add: utf8_bytes_def code_point_def)
  subgoal using utf8_text_u8 [of "[0x6279, 0x51C6]"] by (simp add: utf8_bytes_def code_point_def)
  subgoal using utf8_text_u8 [of "[0x274C]"] by (simp add: utf8_bytes_def code_point_def)
  subgoal using utf8_text_u8 [of "[0x9A73, 0x56DE]"] by (simp add: utf8_bytes_def code_point_def)
  subgoal using utf8_text_u8 [of "[0x26A0, 0xFE0F]"] by (simp add: utf8_bytes_def code_point_def)
  subgoal using utf8_text_u8 [of "[0x6B64, 0x5361, 0x7247, 0x7531]"] by (simp add: utf8_bytes_def code_point_def)
  subgoal using utf8_text_u8 [of "[0x81EA, 0x52A8, 0x751F, 0x6210, 0xFF0C, 0x8BF7, 0x4ED4, 0x7EC6, 0x6838, 0x5BF9, 0x540E, 0x518D, 0x505A, 0x51B3, 0x5B9A, 0x3002]"] by (simp add: utf8_bytes_def code_point_def)
  done

text \<open>
  C35. What the adapter writes as a message it also reads: an event whose content is the JSON the
  adapter itself makes of a text is parsed to a message with exactly that text, whatever
  characters it has.
\<close>

theorem message_round_trip:
  assumes "utf8_text t" and "t \<noteq> []"
    and "method_get message ''content'' (PStr ''{}'') = Inr (PStr (dumps (PDict [(''text'', PStr t)])))"
    and "method_get sender ''sender_id'' (PDict []) = Inr (PDict ids)"
  shows "\<exists>m. parse_event (PDict [(''header'', PDict [(''event_type'', PStr ''im.message.receive_v1'')]),
                              (''event'', PDict [(''message'', message), (''sender'', sender)])]) = Inr (Some m) \<and>
    im_text m = PStr t \<and> im_sender_name m = py_get ids ''open_id'' (PStr ''unknown'') \<and> im_channel m = ''feishu''"
proof -
  obtain ms where "message = PDict ms" using assms(3) by (cases message) (simp_all add: method_get_def)
  moreover have "json_loads (dumps (PDict [(''text'', PStr t)])) = Inr (PDict [(''text'', PStr t)])"
    using assms(1) by (intro json_round_trip) simp
  ultimately show ?thesis using assms
    by (simp add: parse_event_def parse_im_message_def im_content_def method_get_def py_get_def del: json_dumps.simps)
qed

theorem message_round_trip_witness:
  "\<exists>m. parse_event (PDict [(''header'', PDict [(''event_type'', PStr ''im.message.receive_v1'')]),
      (''event'', PDict [(''message'', PDict [(''content'', PStr (dumps (PDict [(''text'', PStr ((u8 [0xC3, 0xA9] @ '' '' @ [CHR 0x22] @ ''ok'' @ [CHR 0x22])))])))]),
                        (''sender'', PDict [(''sender_id'', PDict [(''open_id'', PStr ''ou_1'')])])])]) = Inr (Some m) \<and>
    im_text m = PStr ((u8 [0xC3, 0xA9] @ '' '' @ [CHR 0x22] @ ''ok'' @ [CHR 0x22])) \<and> im_sender_name m = PStr ''ou_1''"
proof -
  have "utf8_text ((u8 [0xC3, 0xA9] @ '' '' @ [CHR 0x22] @ ''ok'' @ [CHR 0x22]))" by (simp add: utf8_text_append)
  then show ?thesis
    using message_round_trip [of "(u8 [0xC3, 0xA9] @ '' '' @ [CHR 0x22] @ ''ok'' @ [CHR 0x22])" "PDict [(''content'', PStr (dumps (PDict [(''text'', PStr ((u8 [0xC3, 0xA9] @ '' '' @ [CHR 0x22] @ ''ok'' @ [CHR 0x22])))])))]"
        "PDict [(''sender_id'', PDict [(''open_id'', PStr ''ou_1'')])]" "[(''open_id'', PStr ''ou_1'')]"]
    by (auto simp: method_get_def py_get_def simp del: json_dumps.simps)
qed

text \<open>The values of the buttons of a card, and the body of a click on one.\<close>

definition field :: "string \<Rightarrow> pyval \<Rightarrow> pyval" where
  "field k v = (case v of PDict d \<Rightarrow> py_get d k PNone | _ \<Rightarrow> PNone)"

definition items :: "pyval \<Rightarrow> pyval list" where
  "items v = (case v of PList xs \<Rightarrow> xs | _ \<Rightarrow> [])"

definition button_values :: "pyval \<Rightarrow> pyval list" where
  "button_values payload =
     map (field ''value'') (concat (map (\<lambda>e. items (field ''actions'' e)) (items (field ''elements'' payload))))"

definition click :: "string \<Rightarrow> pyval \<Rightarrow> pyval" where
  "click reviewer value = PDict [(''open_id'', PStr reviewer), (''action'', PDict [(''value'', value)])]"

lemma approval_card_able:
  "utf8_text title \<Longrightarrow> utf8_text message \<Longrightarrow> utf8_text run_id \<Longrightarrow> utf8_text step_id \<Longrightarrow>
   json_able (build_approval_card title message run_id step_id)"
  unfolding build_approval_card_def card_button_def text_block_def
  by (simp add: utf8_text_append)

lemma approval_card_buttons:
  "button_values (build_approval_card title message run_id step_id) =
     map (\<lambda>d. PDict [(''action'', PStr d), (''run_id'', PStr run_id), (''step_id'', PStr step_id)]) [''APPROVED'', ''REJECTED'']"
  by (simp add: button_values_def build_approval_card_def card_button_def text_block_def field_def items_def py_get_def)

text \<open>
  C34. An approval comes back as it was sent out: the card the engine builds for a run, as the
  adapter sends it, read as JSON again, has two buttons, and a click on them is parsed to an
  approval and a rejection of that run and step by the person who clicked.
\<close>

theorem card_round_trip:
  assumes "utf8_text title" and "utf8_text message" and "utf8_text run_id" and "utf8_text step_id" and "run_id \<noteq> []"
    and "send_approval_card http fa chat_id t m (build_approval_card title message run_id step_id) now later = (True, fa1)"
  shows "\<exists>content payload. hr_json (last (fa_sent fa1)) = PDict [(''receive_id'', PStr chat_id), (''content'', PStr content), (''msg_type'', PStr ''interactive'')] \<and>
    json_loads content = Inr payload \<and>
    map (\<lambda>v. parse_card_callback (click reviewer v)) (button_values payload) =
      map (\<lambda>d. Inr (Some \<lparr>cc_run_id = PStr run_id, cc_step_id = PStr step_id, cc_decision = PStr d,
                         cc_reviewer = PStr reviewer, cc_reason = PStr []\<rparr>)) [''APPROVED'', ''REJECTED'']"
proof -
  let ?card = "build_approval_card title message run_id step_id"
  have "py_truth ?card" by (simp add: build_approval_card_def)
  then have "\<exists>token fa0. fa1 = fa0\<lparr>fa_sent := fa_sent fa0 @ [card_request token chat_id ?card]\<rparr>"
    using assms(6) by (auto simp: send_approval_card_def delivered_def post_def split: prod.splits if_splits sum.splits)
  then have "hr_json (last (fa_sent fa1)) =
      PDict [(''receive_id'', PStr chat_id), (''content'', PStr (dumps ?card)), (''msg_type'', PStr ''interactive'')]"
    by (auto simp: card_request_def)
  moreover have "json_loads (dumps ?card) = Inr ?card"
    using assms(1-4) by (intro json_round_trip approval_card_able)
  moreover have "map (\<lambda>v. parse_card_callback (click reviewer v)) (button_values ?card) =
      map (\<lambda>d. Inr (Some \<lparr>cc_run_id = PStr run_id, cc_step_id = PStr step_id, cc_decision = PStr d,
                         cc_reviewer = PStr reviewer, cc_reason = PStr []\<rparr>)) [''APPROVED'', ''REJECTED'']"
    using assms(5) by (simp add: approval_card_buttons parse_card_callback_def click_def method_get_def py_get_def)
  ultimately show ?thesis by blast
qed

text \<open>A Feishu that grants a token and takes every card.\<close>

definition demo_http :: "http_request \<Rightarrow> http_answer" where
  "demo_http r = Inr (Inr (PDict [(''tenant_access_token'', PStr ''t'')]))"

definition demo_feishu :: feishu_adapter where
  "demo_feishu = new_FeishuAdapter ((ac_feishu default_app_config)\<lparr>fc_app_id := ''a'', fc_app_secret := ''s''\<rparr>)"

theorem card_round_trip_witness:
  "\<exists>fa1 content payload. send_approval_card demo_http demo_feishu ''oc_1'' ''t'' ''m'' (build_approval_card ''t'' ''m'' ''r1'' ''ask'') 0 0 = (True, fa1) \<and>
    hr_json (last (fa_sent fa1)) = PDict [(''receive_id'', PStr ''oc_1''), (''content'', PStr content), (''msg_type'', PStr ''interactive'')] \<and>
    json_loads content = Inr payload \<and> length (button_values payload) = 2"
proof -
  have "fst (send_approval_card demo_http demo_feishu ''oc_1'' ''t'' ''m'' (build_approval_card ''t'' ''m'' ''r1'' ''ask'') 0 0)"
    by (simp add: send_approval_card_def get_tenant_access_token_def demo_feishu_def new_FeishuAdapter_def post_def demo_http_def
        delivered_def py_get_def expiry_of_def Let_def)
  then obtain fa1 where s: "send_approval_card demo_http demo_feishu ''oc_1'' ''t'' ''m'' (build_approval_card ''t'' ''m'' ''r1'' ''ask'') 0 0 = (True, fa1)"
    by (metis prod.collapse)
  have t: "utf8_text ''t''" "utf8_text ''m''" "utf8_text ''r1''" "utf8_text ''ask''" "''r1'' \<noteq> []" by simp_all
  obtain content payload where c: "hr_json (last (fa_sent fa1)) = PDict [(''receive_id'', PStr ''oc_1''), (''content'', PStr content), (''msg_type'', PStr ''interactive'')]"
    "json_loads content = Inr payload"
    "map (\<lambda>v. parse_card_callback (click ''ou_1'' v)) (button_values payload) =
      map (\<lambda>d. Inr (Some \<lparr>cc_run_id = PStr ''r1'', cc_step_id = PStr ''ask'', cc_decision = PStr d,
                         cc_reviewer = PStr ''ou_1'', cc_reason = PStr []\<rparr>)) [''APPROVED'', ''REJECTED'']"
    using card_round_trip [OF t s, of "''ou_1''"] by blast
  have "length (button_values payload) = 2" using arg_cong [OF c(3), of length] by simp
  then show ?thesis using s c(1,2) by blast
qed

end
