(* ===== verification/Service.thy ===== *)
theory Service
  imports Feishu Api Cli Sop_Gate
begin

text \<open>
  The service, \<^verbatim>\<open>src/agentos/main/main.py\<close>: what \<open>ServiceBootstrap.init\<close> puts together, and
  every endpoint of the application as a function of the service's objects. The components are
  absent before \<open>init\<close>. The write gate is one object, shared by the kernel and the workflow
  engine: it is kept once, and handed to the kernel and to the engine when they work.

  FastAPI's routing is not modelled. A body arrives as its text; an exception that no handler
  catches is the server's answer 500. Static files are a test whether a path names a file.
\<close>

record sop_entry =
  en_sop_id :: string
  en_name :: string
  en_description :: string
  en_version :: string
  en_steps :: nat
  en_file :: string

record 'db service =
  sv_domains :: "string list option"
  sv_neo4j :: bool
  sv_gate :: "'db gate_world option"
  sv_kernel :: "'db kernel option"
  sv_engine :: bool
  sv_feedback :: "feedback_db option"
  sv_store :: "state_store option"
  sv_feishu :: "feishu_adapter option"
  sv_sops :: "sop_entry list"
  sv_cards :: "sop_card list"
  sv_notices :: "string list"

text \<open>
  Parameters: those of the kernel and of the engine, the files with workflows, Feishu's
  answers, and the text SQLite compares a bound value with that is no text.
\<close>

record ('db, 'tx, 'r) service_env =
  ve_kernel :: "('db, 'tx, 'r) kernel_env"
  ve_sop :: "('db, 'tx) sop_env"
  ve_load_sop :: "string \<Rightarrow> exn + sop_definition"
  ve_http :: "http_request \<Rightarrow> http_answer"
  ve_bind :: "pyval \<Rightarrow> exn + string"

text \<open>The readings of the clock during one request.\<close>

record request_clock =
  rq_kernel :: kernel_clock
  rq_steps :: "nat \<Rightarrow> gate_clock"
  rq_stamps :: "nat \<Rightarrow> string"
  rq_now :: string
  rq_send :: "pyfloat \<times> pyfloat"

text \<open>
  An answer. A callback whose reviewer or reason is no text, which the engine would store as it
  is, is \<open>Outside\<close> of the model, and nothing is said of what it does.
\<close>

datatype http_response = Json pyval | Http_Error int string | Server_Error exn | Served string | Outside

subsection \<open>Start-up\<close>

definition service_init_state :: "'db service" where
  "service_init_state =
     \<lparr>sv_domains = None, sv_neo4j = False, sv_gate = None, sv_kernel = None, sv_engine = False, sv_feedback = None,
      sv_store = None, sv_feishu = None, sv_sops = [], sv_cards = [], sv_notices = []\<rparr>"

text \<open>
  \<open>_discover_sops\<close>: the first argument gives the files \<open>*.sop.yaml\<close> of a directory, if there is
  one. A file that fails to load is skipped, and so is an identifier seen before.
\<close>

definition sop_entry_of :: "string \<Rightarrow> sop_definition \<Rightarrow> sop_entry" where
  "sop_entry_of f sop = \<lparr>en_sop_id = sd_sop_id sop, en_name = sd_name sop, en_description = sd_description sop,
     en_version = sd_version sop, en_steps = length (sd_steps sop), en_file = f\<rparr>"

definition discover_file :: "(string \<Rightarrow> exn + sop_definition) \<Rightarrow> string \<Rightarrow> sop_entry list \<Rightarrow> sop_entry list" where
  "discover_file load f sops =
     (case load f of
        Inl _ \<Rightarrow> sops
      | Inr sop \<Rightarrow> if sd_sop_id sop \<in> set (map en_sop_id sops) then sops else sops @ [sop_entry_of f sop])"

definition discover_sops :: "(string \<Rightarrow> string list option) \<Rightarrow> (string \<Rightarrow> exn + sop_definition) \<Rightarrow> string \<Rightarrow> sop_entry list" where
  "discover_sops glob load sop_dir =
     fold (discover_file load)
       (concat (map (\<lambda>d. case glob d of None \<Rightarrow> [] | Some fs \<Rightarrow> map (path_child d) (sort fs)) [''src/workflow/sop_examples'', sop_dir])) []"

text \<open>
  \<open>init\<close>, from the configuration on: \<open>neo4j\<close> is what becomes of the client and its health check,
  \<open>policy\<close> what \<open>load_policy\<close> gives, at the time \<open>start\<close>, and \<open>feishu\<close> whether the adapter could
  be made. A health check that answers no leaves the client in place.
\<close>

definition bootstrap_init ::
  "(string \<Rightarrow> bool) \<Rightarrow> app_config \<Rightarrow> exn + bool \<Rightarrow> exn + policy_config \<Rightarrow> pyfloat \<Rightarrow> tracer \<Rightarrow> bool \<Rightarrow> sop_entry list \<Rightarrow>
     feedback_db \<Rightarrow> state_store \<Rightarrow> 'db \<Rightarrow> 'db service" where
  "bootstrap_init exists cfg neo4j policy start tracer feishu sops feedback store db =
     (let has_neo4j = is_ok neo4j;
          pol = (case policy of Inl _ \<Rightarrow> None | Inr pc \<Rightarrow> Some (new_AutonomyPolicy pc start));
          kernel = new_Kernel (kn_version (ac_kernel cfg)) (oc_domains (ac_ontology cfg))
            (Some \<lparr>gw_gate = config_gate exists cfg has_neo4j, gw_policy = None, gw_db = db, gw_spans = []\<rparr>)
            pol None None None tracer
      in \<lparr>sv_domains = Some (list_domains (config_provider exists cfg)), sv_neo4j = has_neo4j, sv_gate = k_gate kernel,
          sv_kernel = Some kernel, sv_engine = True, sv_feedback = Some feedback, sv_store = Some store,
          sv_feishu = (if feishu then Some (new_FeishuAdapter (ac_feishu cfg)) else None), sv_sops = sops,
          sv_cards = [], sv_notices = []\<rparr>)"

subsection \<open>The kernel and the engine on the shared gate\<close>

definition channel_message_of :: "im_message \<Rightarrow> string \<Rightarrow> channel_message" where
  "channel_message_of m t =
     \<lparr>cm_text = t, cm_sender_id = py_str (im_sender_id m), cm_sender_name = py_str (im_sender_name m),
      cm_channel = im_channel m, cm_message_id = py_str (im_message_id m), cm_metadata = im_metadata m\<rparr>"

text \<open>A text that is none fails at \<open>strip\<close>, before the guards.\<close>

definition kernel_wake_up ::
  "('db, 'tx, 'r) service_env \<Rightarrow> 'db service \<Rightarrow> im_message \<Rightarrow> kernel_clock \<Rightarrow> (exn + channel_response) \<times> 'db service" where
  "kernel_wake_up env sv m clk =
     (case sv_kernel sv of
        None \<Rightarrow> (Inl (no_attribute PNone ''wake_up''), sv)
      | Some k \<Rightarrow>
          (case im_text m of
             PStr t \<Rightarrow>
               (case wake_up (ve_kernel env) (k\<lparr>k_gate := sv_gate sv\<rparr>) (channel_message_of m t) clk of
                  (response, k1) \<Rightarrow> (Inr response, sv\<lparr>sv_kernel := Some k1, sv_gate := k_gate k1\<rparr>))
           | v \<Rightarrow> (Inl (no_attribute v ''strip''),
                   sv\<lparr>sv_kernel := Some (k\<lparr>k_session_count := k_session_count k + 1\<rparr>)\<rparr>)))"

definition feishu_message_handler ::
  "('db, 'tx, 'r) service_env \<Rightarrow> 'db service \<Rightarrow> im_message \<Rightarrow> kernel_clock \<Rightarrow> (exn + channel_response) \<times> 'db service" where
  "feishu_message_handler env sv m clk =
     (if sv_kernel sv = None
      then (Inr \<lparr>cr_text = ''Service not fully initialised yet.'', cr_channel = im_channel m,
                 cr_metadata = [(''status'', PStr ''error'')], cr_error = Some ''kernel not ready''\<rparr>, sv)
      else kernel_wake_up env sv m clk)"

text \<open>The engine of the service shares the gate, and is built without a sender of cards.\<close>

definition engine_env :: "('db, 'tx, 'r) service_env \<Rightarrow> request_clock \<Rightarrow> ('db, 'tx) sop_env" where
  "engine_env env clk = (ve_sop env)\<lparr>se_gate_env := ke_gate_env (ve_kernel env), se_sender := None,
     se_clock := rq_steps clk, se_stamp := rq_stamps clk\<rparr>"

definition engine_world :: "'db service \<Rightarrow> 'db sop_world" where
  "engine_world sv = \<lparr>sw_gate = sv_gate sv, sw_feedback = sv_feedback sv, sw_store = sv_store sv,
     sw_cards = sv_cards sv, sw_notices = sv_notices sv\<rparr>"

definition with_world :: "'db service \<Rightarrow> 'db sop_world \<Rightarrow> 'db service" where
  "with_world sv w = sv\<lparr>sv_gate := sw_gate w, sv_feedback := sw_feedback w, sv_store := sw_store w,
     sv_cards := sw_cards w, sv_notices := sw_notices w\<rparr>"

definition load_sop_definition :: "('db, 'tx, 'r) service_env \<Rightarrow> 'db service \<Rightarrow> string \<Rightarrow> exn + sop_definition option" where
  "load_sop_definition env sv sop_id =
     (case find (\<lambda>s. en_sop_id s = sop_id) (sv_sops sv) of
        None \<Rightarrow> Inr None
      | Some s \<Rightarrow> bindE (ve_load_sop env (en_file s)) (\<lambda>sop. Inr (Some sop)))"

text \<open>What both ways to a verdict share: the engine resumes the stored context.\<close>

definition resume_run ::
  "('db, 'tx, 'r) service_env \<Rightarrow> 'db service \<Rightarrow> request_clock \<Rightarrow> sop_definition \<Rightarrow> sop_run_context \<Rightarrow> string \<Rightarrow> string option \<Rightarrow>
     string \<Rightarrow> (exn + sop_run_context) \<times> 'db service" where
  "resume_run env sv clk sop ctx decision reason approver_id =
     (case sop_resume (engine_env env clk) sop ctx (engine_world sv) decision reason approver_id (rq_now clk) of
        (r, ctx1, w) \<Rightarrow> (bindE r (\<lambda>_. Inr ctx1), with_world sv w))"

subsection \<open>The webhook\<close>

definition card_error :: "string \<Rightarrow> pyval" where
  "card_error reason = PDict [(''status'', PStr ''error''), (''reason'', PStr reason)]"

definition card_ignored :: "string \<Rightarrow> pyval" where
  "card_ignored reason = PDict [(''status'', PStr ''ignored''), (''reason'', PStr reason)]"

definition resume_callback ::
  "('db, 'tx, 'r) service_env \<Rightarrow> 'db service \<Rightarrow> request_clock \<Rightarrow> card_callback \<Rightarrow> sop_definition \<Rightarrow> sop_run_context \<Rightarrow>
     http_response \<times> 'db service" where
  "resume_callback env sv clk cb sop ctx =
     (case (cc_decision cb, cc_reason cb, cc_reviewer cb) of
        (PStr decision, PStr reason, PStr reviewer) \<Rightarrow>
          (case resume_run env sv clk sop ctx decision (Some reason) reviewer of
             (Inl e, sv1) \<Rightarrow> (Server_Error e, sv1)
           | (Inr _, sv1) \<Rightarrow>
               (Json (PDict [(''status'', PStr ''ok''), (''run_id'', cc_run_id cb), (''decision'', cc_decision cb)]), sv1))
      | _ \<Rightarrow> (Outside, sv))"

definition handle_card_callback ::
  "('db, 'tx, 'r) service_env \<Rightarrow> 'db service \<Rightarrow> request_clock \<Rightarrow> pyval \<Rightarrow> http_response \<times> 'db service" where
  "handle_card_callback env sv clk body =
     (case parse_card_callback body of
        Inl e \<Rightarrow> (Server_Error e, sv)
      | Inr None \<Rightarrow> (Json (card_ignored ''not an approval callback''), sv)
      | Inr (Some cb) \<Rightarrow>
          (case (sv_engine sv, sv_store sv) of
             (True, Some st) \<Rightarrow>
               (case (case cc_run_id cb of PStr s \<Rightarrow> Inr s | v \<Rightarrow> ve_bind env v) of
                  Inl e \<Rightarrow> (Server_Error e, sv)
                | Inr run_id \<Rightarrow>
                    (case load_state (engine_env env clk) st run_id of
                       None \<Rightarrow> (Json (card_error (''SOP run '' @ py_str (cc_run_id cb) @ '' not found (may have expired)'')), sv)
                     | Some ctx \<Rightarrow>
                         (case load_sop_definition env sv (rc_sop_id ctx) of
                            Inl e \<Rightarrow> (Server_Error e, sv)
                          | Inr None \<Rightarrow> (Json (card_error (''SOP definition '' @ rc_sop_id ctx @ '' not found'')), sv)
                          | Inr (Some sop) \<Rightarrow> resume_callback env sv clk cb sop ctx)))
           | _ \<Rightarrow> (Json (card_error ''SOP engine not available''), sv)))"

definition message_webhook ::
  "('db, 'tx, 'r) service_env \<Rightarrow> 'db service \<Rightarrow> request_clock \<Rightarrow> feishu_adapter \<Rightarrow> pyval \<Rightarrow> http_response \<times> 'db service" where
  "message_webhook env sv clk fa body =
     (case parse_event body of
        Inl e \<Rightarrow> (Server_Error e, sv)
      | Inr None \<Rightarrow> (Json (card_ignored ''unsupported event type''), sv)
      | Inr (Some m) \<Rightarrow>
          (case kernel_wake_up env sv m (rq_kernel clk) of
             (Inl e, sv1) \<Rightarrow> (Server_Error e, sv1)
           | (Inr response, sv1) \<Rightarrow>
               (Json (PDict [(''status'', PStr ''ok''), (''session'', py_get (cr_metadata response) ''session_id'' PNone)]),
                sv1\<lparr>sv_feishu := Some (send_response (ve_http env) fa response (fst (rq_send clk)) (snd (rq_send clk)))\<rparr>)))"

definition feishu_webhook ::
  "('db, 'tx, 'r) service_env \<Rightarrow> 'db service \<Rightarrow> request_clock \<Rightarrow> string \<Rightarrow> http_response \<times> 'db service" where
  "feishu_webhook env sv clk body_text =
     (case sv_feishu sv of
        None \<Rightarrow> (Http_Error 503 ''Feishu adapter not configured'', sv)
      | Some fa \<Rightarrow>
          (case json_loads body_text of
             Inl e \<Rightarrow> (Server_Error e, sv)
           | Inr body \<Rightarrow>
               (case verify_challenge body of
                  Inl e \<Rightarrow> (Server_Error e, sv)
                | Inr (Some challenge) \<Rightarrow> (Json challenge, sv)
                | Inr None \<Rightarrow>
                    if (case body of PDict d \<Rightarrow> ''action'' \<in> fst ` set d | _ \<Rightarrow> False) then handle_card_callback env sv clk body
                    else message_webhook env sv clk fa body)))"

subsection \<open>The other endpoints\<close>

text \<open>The end of \<open>resume_sop\<close>: the fields of the body that are left.\<close>

definition resume_request ::
  "('db, 'tx, 'r) service_env \<Rightarrow> 'db service \<Rightarrow> request_clock \<Rightarrow> string \<Rightarrow> pyval \<Rightarrow> pyval \<Rightarrow> sop_definition \<Rightarrow>
     sop_run_context \<Rightarrow> http_response \<times> 'db service" where
  "resume_request env sv clk run_id body decision sop ctx =
     (case (decision, method_get body ''reason'' PNone, method_get body ''approver_id'' (PStr ''api-user'')) of
        (PStr d, Inr reason, Inr (PStr approver)) \<Rightarrow>
          (case (case reason of PNone \<Rightarrow> Some None | PStr r \<Rightarrow> Some (Some r) | _ \<Rightarrow> None) of
             None \<Rightarrow> (Outside, sv)
           | Some reason_text \<Rightarrow>
               (case resume_run env sv clk sop ctx d reason_text approver of
                  (Inl e, sv1) \<Rightarrow> (Server_Error e, sv1)
                | (Inr ctx1, sv1) \<Rightarrow>
                    (Json (PDict [(''status'', PStr ''ok''), (''run_id'', PStr run_id),
                                  (''sop_state'', PStr (state_value (rc_state ctx1))), (''decision'', decision)]), sv1)))
      | _ \<Rightarrow> (Outside, sv))"

definition resume_sop ::
  "('db, 'tx, 'r) service_env \<Rightarrow> 'db service \<Rightarrow> request_clock \<Rightarrow> string \<Rightarrow> string \<Rightarrow> http_response \<times> 'db service" where
  "resume_sop env sv clk run_id body_text =
     (case (sv_engine sv, sv_store sv) of
        (True, Some st) \<Rightarrow>
          (case bindE (json_loads body_text) (\<lambda>body. bindE (method_get body ''decision'' (PStr [])) (\<lambda>decision. Inr (body, decision))) of
             Inl e \<Rightarrow> (Server_Error e, sv)
           | Inr (body, decision) \<Rightarrow>
               (if decision \<notin> {PStr ''APPROVED'', PStr ''REJECTED''}
                then (Http_Error 400 ''decision must be APPROVED or REJECTED'', sv)
                else case load_state (engine_env env clk) st run_id of
                       None \<Rightarrow> (Http_Error 404 (''SOP run '' @ run_id @ '' not found''), sv)
                     | Some ctx \<Rightarrow>
                         (case load_sop_definition env sv (rc_sop_id ctx) of
                            Inl e \<Rightarrow> (Server_Error e, sv)
                          | Inr None \<Rightarrow> (Http_Error 404 (''SOP definition '' @ rc_sop_id ctx @ '' not found''), sv)
                          | Inr (Some sop) \<Rightarrow> resume_request env sv clk run_id body decision sop ctx)))
      | _ \<Rightarrow> (Http_Error 503 ''SOP engine not available'', sv))"

definition api_bootstrap :: "'db service \<Rightarrow> bootstrap" where
  "api_bootstrap sv = \<lparr>bs_fuse = map_option k_fuse (sv_kernel sv), bs_feedback_db = sv_feedback sv, bs_state_store = sv_store sv\<rparr>"

definition health :: "'db service \<Rightarrow> pyval" where
  "health sv = PDict
     [(''status'', PStr (if sv_kernel sv = None then ''degraded'' else ''ok'')), (''service'', PStr ''agent-os''),
      (''version'', PStr ''0.1.2''), (''kernel'', PBool (sv_kernel sv \<noteq> None)), (''sop_engine'', PBool (sv_engine sv)),
      (''write_gate'', PBool (sv_gate sv \<noteq> None)), (''neo4j'', PBool (sv_neo4j sv)), (''feishu'', PBool (sv_feishu sv \<noteq> None)),
      (''domains'', PList (map PStr (case sv_domains sv of None \<Rightarrow> [] | Some ds \<Rightarrow> ds))),
      (''sops'', PInt (int (length (sv_sops sv))))]"

definition domains_answer :: "'db service \<Rightarrow> pyval" where
  "domains_answer sv = PDict [(''domains'', PList (map PStr (case sv_domains sv of None \<Rightarrow> [] | Some ds \<Rightarrow> ds)))]"

definition sop_dict :: "sop_entry \<Rightarrow> pyval" where
  "sop_dict s = PDict
     [(''sop_id'', PStr (en_sop_id s)), (''name'', PStr (en_name s)), (''description'', PStr (en_description s)),
      (''version'', PStr (en_version s)), (''steps'', PInt (int (en_steps s))), (''file'', PStr (en_file s))]"

definition list_sops :: "'db service \<Rightarrow> pyval" where
  "list_sops sv = PDict [(''sops'', PList (map sop_dict (sv_sops sv)))]"

definition get_sop :: "'db service \<Rightarrow> string \<Rightarrow> http_response" where
  "get_sop sv sop_id =
     (case find (\<lambda>s. en_sop_id s = sop_id) (sv_sops sv) of
        Some s \<Rightarrow> Json (sop_dict s)
      | None \<Rightarrow> Http_Error 404 (''SOP '' @ [CHR 0x27] @ sop_id @ [CHR 0x27] @ '' not found''))"

text \<open>\<open>dashboard_dir / full_path\<close>: an absolute path replaces the directory.\<close>

definition dashboard_dir :: string where
  "dashboard_dir = ''src/agentos/static/dashboard''"

definition serve_dashboard :: "(string \<Rightarrow> bool) \<Rightarrow> string \<Rightarrow> http_response" where
  "serve_dashboard is_file full_path =
     (if full_path \<noteq> [] \<and> is_file (path_join dashboard_dir full_path) then Served (path_join dashboard_dir full_path)
      else if is_file (path_join dashboard_dir ''index.html'') then Served (path_join dashboard_dir ''index.html'')
      else Http_Error 404 ''Dashboard not found'')"

subsection \<open>A request\<close>

datatype request =
    Health_Request
  | Webhook string
  | Domains_Request
  | Sops_Request
  | Sop_Request string
  | Resume_Request string string
  | Dashboard_Request string
  | Overview_Request
  | Audits_Request
  | Runs_Request int int

definition serve ::
  "('db, 'tx, 'r) service_env \<Rightarrow> (string \<Rightarrow> bool) \<Rightarrow> request \<Rightarrow> request_clock \<Rightarrow> 'db service \<Rightarrow> http_response \<times> 'db service" where
  "serve env is_file request clk sv =
     (case request of
        Health_Request \<Rightarrow> (Json (health sv), sv)
      | Webhook body \<Rightarrow> feishu_webhook env sv clk body
      | Domains_Request \<Rightarrow> (Json (domains_answer sv), sv)
      | Sops_Request \<Rightarrow> (Json (list_sops sv), sv)
      | Sop_Request sop_id \<Rightarrow> (get_sop sv sop_id, sv)
      | Resume_Request run_id body \<Rightarrow> resume_sop env sv clk run_id body
      | Dashboard_Request path \<Rightarrow> (serve_dashboard is_file path, sv)
      | Overview_Request \<Rightarrow> (Json (get_overview (api_bootstrap sv)), sv)
      | Audits_Request \<Rightarrow> (Json (list_audits (api_bootstrap sv)), sv)
      | Runs_Request limit offset \<Rightarrow>
          ((case api_list_runs (api_bootstrap sv) limit offset of
              Inl e \<Rightarrow> Http_Error 422 (class_name e)
            | Inr v \<Rightarrow> Json v), sv))"

end
