(* ===== verification/Service_Correct.thy ===== *)
theory Service_Correct
  imports Service Kernel_Correct
begin

text \<open>
  What the service does over any sequence of requests: an abstract account of its steps, which
  the endpoints refine, and what follows for the gate, the verdicts and what is sent out.
\<close>

subsection \<open>The steps of the service\<close>

text \<open>
  A request leaves the service as it is, has the kernel take a message, counts a session for a
  message without a text, or has the engine resume a stored run of a known workflow.
\<close>

inductive service_step :: "('db, 'tx, 'r) service_env \<Rightarrow> request_clock \<Rightarrow> 'db service \<Rightarrow> 'db service \<Rightarrow> bool" for env clk where
  idle: "service_step env clk sv sv"
| spoken: "sv_kernel sv = Some k \<Longrightarrow>
    wake_up (ve_kernel env) (k\<lparr>k_gate := sv_gate sv\<rparr>) m (rq_kernel clk) = (resp, k1) \<Longrightarrow>
    service_step env clk sv (sv\<lparr>sv_kernel := Some k1, sv_gate := k_gate k1\<rparr>)"
| unspoken: "sv_kernel sv = Some k \<Longrightarrow>
    service_step env clk sv (sv\<lparr>sv_kernel := Some (k\<lparr>k_session_count := k_session_count k + 1\<rparr>)\<rparr>)"
| judged: "sv_store sv = Some st \<Longrightarrow> load_state (engine_env env clk) st run_id = Some ctx \<Longrightarrow>
    load_sop_definition env sv (rc_sop_id ctx) = Inr (Some sop) \<Longrightarrow> decision \<in> {''APPROVED'', ''REJECTED''} \<Longrightarrow>
    sop_resume (engine_env env clk) sop ctx (engine_world sv) decision reason who (rq_now clk) = (r, ctx1, w) \<Longrightarrow>
    service_step env clk sv (with_world sv w)"

text \<open>
  The same steps, with the request that makes them: a message comes as an event of a webhook, and a
  verdict as a click on a card or as the body of a resume request, which name the run and the
  decision.
\<close>

definition message_request :: "request \<Rightarrow> im_message \<Rightarrow> bool" where
  "message_request request m \<longleftrightarrow>
     (\<exists>text body. request = Webhook text \<and> json_loads text = Inr body \<and> parse_event body = Inr (Some m))"

definition verdict_request :: "('db, 'tx, 'r) service_env \<Rightarrow> request \<Rightarrow> string \<Rightarrow> string \<Rightarrow> bool" where
  "verdict_request env request run_id decision \<longleftrightarrow>
     (\<exists>text body cb. request = Webhook text \<and> json_loads text = Inr body \<and> parse_card_callback body = Inr (Some cb) \<and>
        cc_decision cb = PStr decision \<and> (cc_run_id cb = PStr run_id \<or> ve_bind env (cc_run_id cb) = Inr run_id)) \<or>
     (\<exists>text body. request = Resume_Request run_id text \<and> json_loads text = Inr body \<and>
        method_get body ''decision'' (PStr []) = Inr (PStr decision))"

inductive request_step :: "('db, 'tx, 'r) service_env \<Rightarrow> request_clock \<Rightarrow> request \<Rightarrow> 'db service \<Rightarrow> 'db service \<Rightarrow> bool"
  for env clk request where
  idle: "request_step env clk request sv sv"
| spoken: "message_request request m \<Longrightarrow> im_text m = PStr t \<Longrightarrow> sv_kernel sv = Some k \<Longrightarrow>
    wake_up (ve_kernel env) (k\<lparr>k_gate := sv_gate sv\<rparr>) (channel_message_of m t) (rq_kernel clk) = (resp, k1) \<Longrightarrow>
    request_step env clk request sv (sv\<lparr>sv_kernel := Some k1, sv_gate := k_gate k1\<rparr>)"
| unspoken: "message_request request m \<Longrightarrow> sv_kernel sv = Some k \<Longrightarrow>
    request_step env clk request sv (sv\<lparr>sv_kernel := Some (k\<lparr>k_session_count := k_session_count k + 1\<rparr>)\<rparr>)"
| judged: "verdict_request env request run_id decision \<Longrightarrow> decision \<in> {''APPROVED'', ''REJECTED''} \<Longrightarrow>
    sv_store sv = Some st \<Longrightarrow> load_state (engine_env env clk) st run_id = Some ctx \<Longrightarrow>
    load_sop_definition env sv (rc_sop_id ctx) = Inr (Some sop) \<Longrightarrow>
    sop_resume (engine_env env clk) sop ctx (engine_world sv) decision reason who (rq_now clk) = (r, ctx1, w) \<Longrightarrow>
    request_step env clk request sv (with_world sv w)"

lemma request_step_service: "request_step env clk request sv sv' \<Longrightarrow> service_step env clk sv sv'"
  by (induction rule: request_step.induct) (auto intro: service_step.intros)

text \<open>The answer of the kernel names no message, so that nothing is sent.\<close>

lemma wake_up_metadata:
  assumes "wake_up env k m clk = (resp, k')"
  shows "py_get (cr_metadata resp) ''feishu_message_id'' PNone = PNone"
  using assms by (auto simp: wake_up_def Let_def respond_def py_get_def split: prod.splits sum.splits)

lemma kernel_wake_up_step:
  assumes "kernel_wake_up env sv m (rq_kernel clk) = (r, sv')" and "message_request request m"
  shows "request_step env clk request sv sv' \<and> sv_feishu sv' = sv_feishu sv \<and>
    (\<forall>resp. r = Inr resp \<longrightarrow> py_get (cr_metadata resp) ''feishu_message_id'' PNone = PNone)"
proof (cases "sv_kernel sv")
  case None
  then show ?thesis using assms(1) by (auto simp: kernel_wake_up_def intro: request_step.idle)
next
  case (Some k)
  show ?thesis
  proof (cases "\<exists>t. im_text m = PStr t")
    case True
    then obtain t where t: "im_text m = PStr t" by blast
    obtain resp k1 where w: "wake_up (ve_kernel env) (k\<lparr>k_gate := sv_gate sv\<rparr>) (channel_message_of m t) (rq_kernel clk) = (resp, k1)"
      by force
    then show ?thesis
      using assms(1) Some t request_step.spoken [where clk = clk, OF assms(2) t Some w] wake_up_metadata [OF w]
      by (auto simp: kernel_wake_up_def)
  next
    case False
    then have "\<exists>e. (r, sv') = (Inl e, sv\<lparr>sv_kernel := Some (k\<lparr>k_session_count := k_session_count k + 1\<rparr>)\<rparr>)"
      using assms(1) Some by (cases "im_text m") (auto simp: kernel_wake_up_def)
    then show ?thesis using request_step.unspoken [where clk = clk, OF assms(2) Some] by auto
  qed
qed

lemma message_webhook_step:
  assumes "message_webhook env sv clk fa body = (r, sv')" and "sv_feishu sv = Some fa" and "json_loads body_text = Inr body"
  shows "request_step env clk (Webhook body_text) sv sv'"
proof (cases "\<exists>m. parse_event body = Inr (Some m)")
  case True
  then obtain m where m: "parse_event body = Inr (Some m)" by blast
  have req: "message_request (Webhook body_text) m" using m assms(3) by (simp add: message_request_def)
  obtain x sv1 where k: "kernel_wake_up env sv m (rq_kernel clk) = (x, sv1)" by force
  have s: "request_step env clk (Webhook body_text) sv sv1" "sv_feishu sv1 = Some fa"
    "\<And>resp. x = Inr resp \<Longrightarrow> py_get (cr_metadata resp) ''feishu_message_id'' PNone = PNone"
    using kernel_wake_up_step [OF k req] assms(2) by auto
  have "sv' = sv1"
    using assms(1) m k s(2,3) by (auto simp: message_webhook_def send_response_def Let_def split: sum.splits)
  then show ?thesis using s(1) by simp
next
  case False
  then show ?thesis using assms(1) by (auto simp: message_webhook_def request_step.idle split: sum.splits option.splits)
qed

lemma resume_run_step:
  assumes "resume_run env sv clk sop ctx decision reason who = (r, sv')" and "verdict_request env request run_id decision"
    and "decision \<in> {''APPROVED'', ''REJECTED''}" and "sv_store sv = Some st"
    and "load_state (engine_env env clk) st run_id = Some ctx" and "load_sop_definition env sv (rc_sop_id ctx) = Inr (Some sop)"
  shows "request_step env clk request sv sv'"
  using assms(1) request_step.judged [OF assms(2-6)] by (auto simp: resume_run_def split: prod.splits)

lemma card_callback_decision:
  "parse_card_callback body = Inr (Some cb) \<Longrightarrow> cc_decision cb \<in> {PStr ''APPROVED'', PStr ''REJECTED''}"
  by (auto simp: parse_card_callback_def bindE_Inr_iff split: if_splits)

lemma handle_card_callback_step:
  assumes "handle_card_callback env sv clk body = (r, sv')" and "json_loads body_text = Inr body"
  shows "request_step env clk (Webhook body_text) sv sv'"
proof (cases "sv' = sv")
  case False
  obtain cb st run_id ctx sop where p: "parse_card_callback body = Inr (Some cb)" "sv_store sv = Some st"
    "load_state (engine_env env clk) st run_id = Some ctx" "load_sop_definition env sv (rc_sop_id ctx) = Inr (Some sop)"
    "resume_callback env sv clk cb sop ctx = (r, sv')" "cc_run_id cb = PStr run_id \<or> ve_bind env (cc_run_id cb) = Inr run_id"
    using assms(1) False by (auto simp: handle_card_callback_def split: sum.splits option.splits bool.splits pyval.splits)
  obtain d reason who x where q: "cc_decision cb = PStr d" "resume_run env sv clk sop ctx d (Some reason) who = (x, sv')"
    using p(5) False by (auto simp: resume_callback_def split: pyval.splits prod.splits sum.splits)
  have "verdict_request env (Webhook body_text) run_id d" using p(1,6) q(1) assms(2) by (auto simp: verdict_request_def)
  moreover have "d \<in> {''APPROVED'', ''REJECTED''}" using card_callback_decision [OF p(1)] q(1) by auto
  ultimately show ?thesis using resume_run_step [OF q(2) _ _ p(2-4)] by blast
qed (simp add: request_step.idle)

lemma resume_sop_step:
  assumes "resume_sop env sv clk run_id body_text = (r, sv')"
  shows "request_step env clk (Resume_Request run_id body_text) sv sv'"
proof (cases "sv' = sv")
  case False
  obtain st body decision ctx sop where p: "sv_store sv = Some st" "decision \<in> {PStr ''APPROVED'', PStr ''REJECTED''}"
    "load_state (engine_env env clk) st run_id = Some ctx" "load_sop_definition env sv (rc_sop_id ctx) = Inr (Some sop)"
    "resume_request env sv clk run_id body decision sop ctx = (r, sv')"
    "json_loads body_text = Inr body" "method_get body ''decision'' (PStr []) = Inr decision"
    using assms False
    by (auto simp: resume_sop_def bindE_Inr_iff split: sum.splits option.splits bool.splits prod.splits if_splits)
  obtain d reason who x where q: "decision = PStr d" "resume_run env sv clk sop ctx d reason who = (x, sv')"
    using p(5) False by (auto simp: resume_request_def split: pyval.splits prod.splits sum.splits option.splits)
  have "verdict_request env (Resume_Request run_id body_text) run_id d" using p(6,7) q(1) by (simp add: verdict_request_def)
  moreover have "d \<in> {''APPROVED'', ''REJECTED''}" using p(2) q(1) by auto
  ultimately show ?thesis using resume_run_step [OF q(2) _ _ p(1,3,4)] by blast
qed (simp add: request_step.idle)

lemma webhook_step:
  assumes "feishu_webhook env sv clk body_text = (r, sv')"
  shows "request_step env clk (Webhook body_text) sv sv'"
  using assms message_webhook_step handle_card_callback_step request_step.idle
  by (auto simp: feishu_webhook_def split: option.splits sum.splits if_splits)

lemma serve_request_step:
  assumes "serve env is_file request clk sv = (r, sv')"
  shows "request_step env clk request sv sv'"
  using assms webhook_step resume_sop_step request_step.idle by (cases request) (auto simp: serve_def)

lemma serve_step:
  assumes "serve env is_file request clk sv = (r, sv')"
  shows "service_step env clk sv sv'"
  using request_step_service [OF serve_request_step [OF assms]] .

subsection \<open>Sequences of requests\<close>

fun serve_all ::
  "('db, 'tx, 'r) service_env \<Rightarrow> (string \<Rightarrow> bool) \<Rightarrow> (request \<times> request_clock) list \<Rightarrow> 'db service \<Rightarrow> http_response list \<times> 'db service" where
  "serve_all env is_file [] sv = ([], sv)"
| "serve_all env is_file ((request, clk) # requests) sv =
     (let (answer, sv1) = serve env is_file request clk sv;
          (answers, sv2) = serve_all env is_file requests sv1
      in (answer # answers, sv2))"

text \<open>What every step keeps, every sequence of requests keeps.\<close>

lemma serve_all_invariant:
  "serve_all env is_file requests sv = (answers, sv') \<Longrightarrow>
   \<forall>clk\<in>snd ` set requests. \<forall>a b. service_step env clk a b \<longrightarrow> P a \<longrightarrow> P b \<Longrightarrow> P sv \<Longrightarrow> P sv'"
proof (induction requests arbitrary: sv answers)
  case (Cons rc requests)
  obtain request clk where rc: "rc = (request, clk)" by force
  obtain a sv1 where one: "serve env is_file request clk sv = (a, sv1)" by force
  obtain as sv2 where rest: "serve_all env is_file requests sv1 = (as, sv2)" by force
  have step: "\<And>a b. service_step env clk a b \<Longrightarrow> P a \<Longrightarrow> P b" using Cons.prems(2) rc by auto
  have rest': "serve_all env is_file requests sv1 = (as, sv')" using Cons.prems(1) rc one rest by simp
  show ?case
  proof (rule Cons.IH [OF rest'])
    show "P sv1" by (rule step [OF serve_step [OF one] Cons.prems(3)])
  qed (use Cons.prems(2) in simp)
qed simp

subsection \<open>Nothing is sent\<close>

lemma engine_env_sel [simp]:
  "se_gate_env (engine_env env clk) = ke_gate_env (ve_kernel env)" "se_sender (engine_env env clk) = None"
  "se_clock (engine_env env clk) = rq_steps clk" "se_stamp (engine_env env clk) = rq_stamps clk"
  "se_load (engine_env env clk) = se_load (ve_sop env)"
  by (simp_all add: engine_env_def)

lemma engine_world_sel [simp]:
  "sw_gate (engine_world sv) = sv_gate sv" "sw_feedback (engine_world sv) = sv_feedback sv" "sw_store (engine_world sv) = sv_store sv"
  "sw_cards (engine_world sv) = sv_cards sv" "sw_notices (engine_world sv) = sv_notices sv"
  by (simp_all add: engine_world_def)

lemma with_world_sel [simp]:
  "sv_gate (with_world sv w) = sw_gate w" "sv_feedback (with_world sv w) = sw_feedback w" "sv_store (with_world sv w) = sw_store w"
  "sv_cards (with_world sv w) = sw_cards w" "sv_notices (with_world sv w) = sw_notices w"
  "sv_kernel (with_world sv w) = sv_kernel sv" "sv_feishu (with_world sv w) = sv_feishu sv" "sv_sops (with_world sv w) = sv_sops sv"
  by (simp_all add: with_world_def)

lemma execute_step_cards:
  assumes "se_sender env = None" and "execute_step env idx step ctx w = (r, ctx', w')"
  shows "sw_cards w' = sw_cards w"
  using assms
  by (auto simp: execute_step_def step_validate_def step_human_approval_def step_action_def action_governed_write_def step_notify_def Let_def
      split: step_type.splits option.splits if_splits prod.splits sum.splits)

lemma run_steps_cards:
  assumes "se_sender env = None"
  shows "run_steps env idx steps ctx w = (r, ctx', w') \<Longrightarrow> rc_state ctx = RUNNING \<Longrightarrow> sw_cards w' = sw_cards w"
proof (induction steps arbitrary: idx ctx w)
  case Nil
  then show ?case by (auto simp: Let_def)
next
  case (Cons step steps)
  from Cons.prems show ?case
  proof (cases rule: run_steps_cases)
    case (continued result ctx1 w1 ctx2)
    then show ?thesis using Cons.IH [OF continued(5,3)] execute_step_cards [OF assms continued(1)] by simp
  qed (auto dest: execute_step_cards [OF assms])
qed

text \<open>How the engine takes a verdict: what it leaves, and the world in which it goes on, if it does.\<close>

lemma sop_resume_parts:
  assumes "sop_resume env sop ctx w decision reason who now = (r, ctx', w')"
  obtains (raised) e where "r = Inl e" "w' = w"
      "rc_state ctx \<noteq> SUSPENDED \<or> (\<exists>db out. sw_feedback w = Some db \<and> insert_feedback db (rc_run_id ctx) who decision reason out None now = (Inl e, db))"
  | (rejected) w1 where "rc_state ctx = SUSPENDED" "sw_gate w1 = sw_gate w" "decision = ''REJECTED''" "sw_gate w' = sw_gate w" "sw_cards w' = sw_cards w"
      "sw_feedback w' = sw_feedback w1"
      "verdict_recorded w1 (rc_run_id ctx) decision reason who" "(sw_feedback w1 = None) = (sw_feedback w = None)"
  | (approved) w1 ctx1 where "rc_state ctx = SUSPENDED" "decision \<noteq> ''REJECTED''" "sw_gate w1 = sw_gate w" "sw_cards w1 = sw_cards w"
      "verdict_recorded w1 (rc_run_id ctx) decision reason who" "(sw_feedback w1 = None) = (sw_feedback w = None)"
      "sop_run env sop ctx1 w1 = (r, ctx', w')" "rc_current_step_index ctx1 = rc_current_step_index ctx + 1"
proof (cases "rc_state ctx = SUSPENDED")
  case False
  then show ?thesis using assms raised by (auto simp: sop_resume_def)
next
  case susp: True
  let ?c1 = "ctx\<lparr>rc_approval_result := Some decision, rc_approval_reason := reason, rc_approver_id := Some who\<rparr>"
  let ?c2 = "?c1\<lparr>rc_state := APPROVED, rc_current_step_index := rc_current_step_index ctx + 1\<rparr>"
  have go: ?thesis if w1: "verdict_recorded w1 (rc_run_id ctx) decision reason who" "(sw_feedback w1 = None) = (sw_feedback w = None)"
      "sw_gate w1 = sw_gate w" "sw_cards w1 = sw_cards w"
      and q: "(r, ctx', w') = (if decision = ''REJECTED''
         then (Inr (), ?c1\<lparr>rc_state := REJECTED\<rparr>, save_state env (se_stamp env (rc_current_step_index ctx)) (?c1\<lparr>rc_state := REJECTED\<rparr>) w1)
         else sop_run env sop ?c2 w1)" for w1
  proof (cases "decision = ''REJECTED''")
    case True
    then show ?thesis using q w1 susp by (intro rejected [of w1]) auto
  next
    case False
    then show ?thesis using q w1 susp by (intro approved [of w1 ?c2]) auto
  qed
  show ?thesis
  proof (cases "sw_feedback w")
    case None
    show ?thesis
    proof (rule go [of w])
      show "(r, ctx', w') = (if decision = ''REJECTED''
         then (Inr (), ?c1\<lparr>rc_state := REJECTED\<rparr>, save_state env (se_stamp env (rc_current_step_index ctx)) (?c1\<lparr>rc_state := REJECTED\<rparr>) w)
         else sop_run env sop ?c2 w)"
        using assms susp None by (cases "decision = ''REJECTED''") (auto simp: sop_resume_def Let_def)
    qed (simp_all add: None verdict_recorded_def)
  next
    case (Some db)
    obtain x db1 where i: "insert_feedback db (rc_run_id ctx) who decision reason (Some (original_output ?c1)) None now = (x, db1)" by force
    show ?thesis
    proof (cases x)
      case (Inl e)
      have "db1 = db" using i Inl by (cases rule: insert_feedback_cases [of decision db "rc_run_id ctx" who reason "Some (original_output ?c1)" None now]) auto
      then have "w\<lparr>sw_feedback := Some db1\<rparr> = w" using Some by simp
      then have "r = Inl e" "w' = w" using assms susp Some i Inl by (auto simp: sop_resume_def Let_def)
      moreover have "insert_feedback db (rc_run_id ctx) who decision reason (Some (original_output ?c1)) None now = (Inl e, db)"
        using i Inl \<open>db1 = db\<close> by simp
      ultimately show ?thesis using Some by (intro raised) blast+
    next
      case (Inr n)
      show ?thesis
      proof (rule go [of "w\<lparr>sw_feedback := Some db1\<rparr>"])
        show "(r, ctx', w') = (if decision = ''REJECTED''
           then (Inr (), ?c1\<lparr>rc_state := REJECTED\<rparr>, save_state env (se_stamp env (rc_current_step_index ctx)) (?c1\<lparr>rc_state := REJECTED\<rparr>) (w\<lparr>sw_feedback := Some db1\<rparr>))
           else sop_run env sop ?c2 (w\<lparr>sw_feedback := Some db1\<rparr>))"
          using assms susp Some i Inr by (cases "decision = ''REJECTED''") (auto simp: sop_resume_def Let_def)
        show "verdict_recorded (w\<lparr>sw_feedback := Some db1\<rparr>) (rc_run_id ctx) decision reason who"
          using insert_feedback_get [OF i [unfolded Inr]] by (auto simp: verdict_recorded_def)
      qed (simp_all add: Some)
    qed
  qed
qed

lemma sop_run_cards: "se_sender env = None \<Longrightarrow> sop_run env sop ctx w = (r, ctx', w') \<Longrightarrow> sw_cards w' = sw_cards w"
  using run_steps_cards [of env "rc_current_step_index ctx" _ "ctx\<lparr>rc_state := RUNNING\<rparr>" w r ctx' w'] by (simp add: sop_run_def)

lemma service_step_sends: "service_step env clk sv sv' \<Longrightarrow> sv_feishu sv' = sv_feishu sv \<and> sv_cards sv' = sv_cards sv"
proof (induction rule: service_step.induct)
  case (judged sv st run_id ctx sop decision reason who r ctx1 w)
  have "sw_cards w = sv_cards sv"
    using judged(5) by (cases rule: sop_resume_parts) (auto dest: sop_run_cards [rotated])
  then show ?case by simp
qed simp_all

text \<open>
  C33. The service only listens: whatever requests arrive, it never answers a message in the chat
  (the answer of the kernel does not name the message it answers), never asks for an access
  token, and never sends an approval card, although its workflows wait for the verdicts those
  cards would bring.
\<close>

theorem nothing_is_sent:
  assumes "serve_all env is_file requests sv = (answers, sv')" and "Outside \<notin> set answers"
  shows "sv_feishu sv' = sv_feishu sv \<and> sv_cards sv' = sv_cards sv"
  by (rule serve_all_invariant [OF assms(1), where P = "\<lambda>s. sv_feishu s = sv_feishu sv \<and> sv_cards s = sv_cards sv"])
     (auto dest: service_step_sends)

subsection \<open>Verdicts\<close>

text \<open>What the feedback table says of a run.\<close>

definition verdict_of :: "'db service \<Rightarrow> string \<Rightarrow> feedback_record option" where
  "verdict_of sv run_id = (case sv_feedback sv of None \<Rightarrow> None | Some db \<Rightarrow> get_by_trace_id db run_id)"

lemma sop_resume_feedback:
  assumes "sop_resume env sop ctx w decision reason who now = (r, ctx', w')" and "sw_feedback w = Some db"
  shows "\<exists>db'. sw_feedback w' = Some db' \<and> (\<forall>k row. get_by_trace_id db k = Some row \<longrightarrow> get_by_trace_id db' k = Some row)"
proof (cases "rc_state ctx = SUSPENDED")
  case False
  then show ?thesis using assms by (simp add: sop_resume_def)
next
  case True
  let ?c1 = "ctx\<lparr>rc_approval_result := Some decision, rc_approval_reason := reason, rc_approver_id := Some who\<rparr>"
  obtain x db1 where i: "insert_feedback db (rc_run_id ctx) who decision reason (Some (original_output ?c1)) None now = (x, db1)" by force
  have "insert_row db (rc_run_id ctx) (who, decision, reason, Some (original_output ?c1), None, now) = (x, db1)"
    using i by (simp add: insert_row_def)
  then have kept: "\<forall>k row. get_by_trace_id db k = Some row \<longrightarrow> get_by_trace_id db1 k = Some row"
    using feedback.ins_keeps by (metis snd_conv)
  have "sw_feedback w' = Some db1"
    using assms True i by (auto simp: sop_resume_def Let_def split: sum.splits if_splits dest: sop_run_feedback)
  then show ?thesis using kept by blast
qed

lemma service_step_verdict:
  "service_step env clk sv sv' \<Longrightarrow> verdict_of sv run_id = Some row \<Longrightarrow> verdict_of sv' run_id = Some row"
proof (induction rule: service_step.induct)
  case (judged sv st key ctx sop decision reason who r ctx1 w)
  then obtain db where db: "sv_feedback sv = Some db" "get_by_trace_id db run_id = Some row"
    by (auto simp: verdict_of_def split: option.splits)
  obtain db' where "sw_feedback w = Some db'" "get_by_trace_id db' run_id = Some row"
    using sop_resume_feedback [OF judged(5), of db] db by auto
  then show ?case by (simp add: verdict_of_def)
qed (simp_all add: verdict_of_def)

text \<open>
  C32. A verdict is final: whatever requests follow, the record of a run that has been judged, with
  its decision, reason and reviewer, is not changed, and every further verdict on that run,
  through the webhook or the API, is refused by the engine.
\<close>

theorem verdicts_are_final:
  assumes "serve_all env is_file requests sv = (answers, sv')" and "Outside \<notin> set answers"
    and "verdict_of sv run_id = Some row" and "rc_run_id ctx = run_id"
  shows "verdict_of sv' run_id = Some row \<and> (\<exists>e. fst (resume_run env sv' clk sop ctx decision reason who) = Inl e)"
proof -
  have v: "verdict_of sv' run_id = Some row"
    using serve_all_invariant [OF assms(1), where P = "\<lambda>s. verdict_of s run_id = Some row"] service_step_verdict assms(3) by metis
  then obtain db where db: "sv_feedback sv' = Some db" "get_by_trace_id db run_id = Some row"
    by (auto simp: verdict_of_def split: option.splits)
  obtain r ctx1 w where q: "sop_resume (engine_env env clk) sop ctx (engine_world sv') decision reason who (rq_now clk) = (r, ctx1, w)"
    by (metis prod.exhaust)
  have "\<exists>e. r = Inl e"
  proof (cases "rc_state ctx = SUSPENDED")
    case False
    then show ?thesis using q by (auto simp: sop_resume_def)
  next
    case True
    have "\<exists>e. insert_feedback db run_id who decision reason out None now = (Inl e, db)" for out now
      by (cases rule: insert_feedback_cases [of decision db run_id who reason out None now]) (use db(2) in auto)
    then obtain e where "insert_feedback db run_id who decision reason (Some (original_output
        (ctx\<lparr>rc_approval_result := Some decision, rc_approval_reason := reason, rc_approver_id := Some who\<rparr>))) None (rq_now clk) = (Inl e, db)"
      by blast
    then show ?thesis using q True db(1) assms(4) by (auto simp: sop_resume_def Let_def)
  qed
  then show ?thesis using v q by (auto simp: resume_run_def)
qed

lemma webhook_verdict:
  assumes "sv_feishu sv = Some fa" and "sv_engine sv" and "sv_store sv = Some st"
    and "load_state (engine_env env clk) st run_id = Some ctx" and "load_sop_definition env sv (rc_sop_id ctx) = Inr (Some sop)"
    and "decision \<in> {''APPROVED'', ''REJECTED''}" and "utf8_text run_id" and "utf8_text who" and "run_id \<noteq> []"
    and "body = click who (PDict [(''action'', PStr decision), (''run_id'', PStr run_id)])"
    and "sop_resume (engine_env env clk) sop ctx (engine_world sv) decision (Some []) who (rq_now clk) = (r, ctx1, w)"
  shows "serve env is_file (Webhook (dumps body)) clk sv =
    ((case r of
        Inl e \<Rightarrow> Server_Error e
      | Inr _ \<Rightarrow> Json (PDict [(''status'', PStr ''ok''), (''run_id'', PStr run_id), (''decision'', PStr decision)])), with_world sv w)"
proof -
  let ?cb = "\<lparr>cc_run_id = PStr run_id, cc_step_id = PStr [], cc_decision = PStr decision, cc_reviewer = PStr who, cc_reason = PStr []\<rparr>"
  have able: "json_able body" using assms(6-8) by (auto simp: assms(10) click_def)
  have cb: "parse_card_callback body = Inr (Some ?cb)"
    using assms(6,9) by (auto simp: assms(10) click_def parse_card_callback_def method_get_def py_get_def)
  have "handle_card_callback env sv clk body =
    ((case r of
        Inl e \<Rightarrow> Server_Error e
      | Inr _ \<Rightarrow> Json (PDict [(''status'', PStr ''ok''), (''run_id'', PStr run_id), (''decision'', PStr decision)])), with_world sv w)"
    using assms(2-5,11) by (auto simp: handle_card_callback_def cb resume_callback_def resume_run_def split: sum.split)
  moreover have "verify_challenge body = Inr None" "(case body of PDict d \<Rightarrow> ''action'' \<in> fst ` set d | _ \<Rightarrow> False) = True"
    by (simp_all add: assms(10) click_def verify_challenge_def method_get_def py_get_def)
  ultimately show ?thesis
    using assms(1) json_round_trip [OF able] by (simp add: serve_def feishu_webhook_def del: json_dumps.simps)
qed

text \<open>
  C31. Nobody checks who gives a verdict: whatever token is configured, and even where the adapter
  is disabled, a request without any signature, made of the id of a suspended run, a decision
  and a name, is taken as the verdict of that person, and the feedback table records it.
\<close>

theorem forged_approval:
  assumes "sv_feishu sv = Some (new_FeishuAdapter config)" and "sv_engine sv" and "sv_store sv = Some st" and "sv_feedback sv = Some db"
    and "load_state (engine_env env clk) st run_id = Some ctx" and "rc_state ctx = SUSPENDED" and "rc_run_id ctx = run_id"
    and "load_sop_definition env sv (rc_sop_id ctx) = Inr (Some sop)" and "get_by_trace_id db run_id = None"
    and "decision \<in> {''APPROVED'', ''REJECTED''}" and "utf8_text run_id" and "utf8_text who" and "run_id \<noteq> []"
    and "body = click who (PDict [(''action'', PStr decision), (''run_id'', PStr run_id)])"
  shows "\<exists>row. verdict_of (snd (serve env is_file (Webhook (dumps body)) clk sv)) run_id = Some row \<and>
    fb_decision row = decision \<and> fb_reviewer row = who"
proof -
  obtain r ctx1 w where q: "sop_resume (engine_env env clk) sop ctx (engine_world sv) decision (Some []) who (rq_now clk) = (r, ctx1, w)"
    by (metis prod.exhaust)
  have sv': "snd (serve env is_file (Webhook (dumps body)) clk sv) = with_world sv w"
    using webhook_verdict [OF assms(1-3,5,8,10-14) q] by simp
  obtain n where n: "fst (insert_feedback db run_id who decision (Some []) out None now) = Inr n" for out now
    using assms(9,10) by (cases rule: insert_feedback_cases [of decision db run_id who "Some []" out None now]) (auto simp: insert_feedback_def Let_def)
  from q have "verdict_recorded w run_id decision (Some []) who"
  proof (cases rule: sop_resume_parts)
    case (raised e)
    then show ?thesis using assms(4,6,7) n by (metis engine_world_sel(2) fst_conv Inl_Inr_False option.inject)
  next
    case (rejected w1)
    then show ?thesis using assms(7) by (simp add: verdict_recorded_def)
  next
    case (approved w1 c1)
    then show ?thesis using assms(7) sop_run_feedback [OF approved(7)] by (simp add: verdict_recorded_def)
  qed
  moreover have "\<exists>db'. sw_feedback w = Some db'" using sop_resume_feedback [OF q] assms(4) by auto
  ultimately show ?thesis unfolding sv' by (auto simp: verdict_recorded_def verdict_of_def split: option.splits)
qed

subsection \<open>The gate under the service\<close>

text \<open>Every reading of the clock for a clean-up of the ledger during a request is at most \<open>t\<close>.\<close>

definition clock_upto :: "request_clock \<Rightarrow> pyfloat \<Rightarrow> bool" where
  "clock_upto clk t \<longleftrightarrow> gc_cleanup (kc_gate (rq_kernel clk)) \<le> t \<and> (\<forall>i. gc_cleanup (rq_steps clk i) \<le> t)"

text \<open>
  What changes the database in one request. Either its message wrote, by the kernel of the
  service; or it is an approval of the run it names, stored as suspended, and the database changed as
  the abstract workflow does along the steps this verdict executes, all behind the approval.
\<close>

definition message_changes ::
  "('db, 'tx, 'r) service_env \<Rightarrow> request_clock \<Rightarrow> request \<Rightarrow> 'db service \<Rightarrow> 'db gate_world \<Rightarrow> 'db gate_world \<Rightarrow> bool" where
  "message_changes env clk request sv gw gw' \<longleftrightarrow>
     (\<exists>m t k. message_request request m \<and> im_text m = PStr t \<and> sv_kernel sv = Some k \<and>
        message_writes (ve_kernel env) k (channel_message_of m t) (rq_kernel clk) gw gw')"

definition verdict_changes ::
  "('db, 'tx, 'r) service_env \<Rightarrow> request_clock \<Rightarrow> request \<Rightarrow> 'db service \<Rightarrow> 'db gate_world \<Rightarrow> 'db gate_world \<Rightarrow> bool" where
  "verdict_changes env clk request sv gw gw' \<longleftrightarrow>
     (\<exists>st run_id ctx sop reason who es. verdict_request env request run_id ''APPROVED'' \<and>
        sv_store sv = Some st \<and> load_state (engine_env env clk) st run_id = Some ctx \<and> rc_state ctx = SUSPENDED \<and>
        load_sop_definition env sv (rc_sop_id ctx) = Inr (Some sop) \<and>
        es = resume_trace (engine_env env clk) sop ctx (engine_world sv) ''APPROVED'' reason who (rq_now clk) \<and>
        workflow_gate (engine_env env clk) es gw gw' \<and>
        (\<forall>(i, step, c)\<in>set es. rc_current_step_index ctx < i \<and> i < length (sd_steps sop) \<and> step = sd_steps sop ! i) \<and>
        (\<exists>(i, step, c)\<in>set es. \<exists>gw1 gw2. step_writes (engine_env env clk) i step c gw1 gw2))"

lemma resumed_changes:
  assumes "verdict_request env request run_id decision" and "decision \<in> {''APPROVED'', ''REJECTED''}"
    and "sv_store sv = Some st" and "load_state (engine_env env clk) st run_id = Some ctx"
    and "load_sop_definition env sv (rc_sop_id ctx) = Inr (Some sop)"
    and "workflow_gate (engine_env env clk)
      (resume_trace (engine_env env clk) sop ctx (engine_world sv) decision reason who (rq_now clk)) gw gw'"
    and "gw_db gw' \<noteq> gw_db gw"
  shows "verdict_changes env clk request sv gw gw'"
proof -
  let ?es = "resume_trace (engine_env env clk) sop ctx (engine_world sv) decision reason who (rq_now clk)"
  have wrote: "\<exists>(i, step, c)\<in>set ?es. \<exists>gw1 gw2. step_writes (engine_env env clk) i step c gw1 gw2"
    using workflow_gate_changed [OF assms(6,7)] .
  then obtain i step c where "(i, step, c) \<in> set ?es" by blast
  from resume_trace_steps [OF this] have d: "rc_state ctx = SUSPENDED" "decision = ''APPROVED''" using assms(2) by auto
  have steps: "\<forall>(i, step, c)\<in>set ?es. rc_current_step_index ctx < i \<and> i < length (sd_steps sop) \<and> step = sd_steps sop ! i"
    by (auto dest: resume_trace_steps)
  show ?thesis
    unfolding verdict_changes_def
    by (rule exI [of _ st], rule exI [of _ run_id], rule exI [of _ ctx], rule exI [of _ sop], rule exI [of _ reason],
        rule exI [of _ who], rule exI [of _ ?es])
       (use assms(1,3-6) d steps wrote in simp)
qed

lemma request_step_gate:
  assumes "request_step env clk request sv sv'" and "sv_gate sv = Some gw" and "clock_upto clk t" and "t < T"
  shows "\<exists>gw'. sv_gate sv' = Some gw' \<and> runs_before (gate_step (ke_gate_env (ve_kernel env))) T gw gw' \<and>
    (gw_db gw' \<noteq> gw_db gw \<longrightarrow> message_changes env clk request sv gw gw' \<or> verdict_changes env clk request sv gw gw')"
  using assms
proof (induction rule: request_step.induct)
  case (spoken m t' sv k resp k1)
  have "k_gate (k\<lparr>k_gate := sv_gate sv\<rparr>) = Some gw" using spoken(5) by simp
  from wake_up_writes [OF spoken(4) this] obtain gw' where g: "k_gate k1 = Some gw'"
    "gw' = gw \<or> gate_step (ke_gate_env (ve_kernel env)) (gc_cleanup (kc_gate (rq_kernel clk))) gw gw'"
    "gw_db gw' \<noteq> gw_db gw \<longrightarrow>
       message_writes (ve_kernel env) (k\<lparr>k_gate := sv_gate sv\<rparr>) (channel_message_of m t') (rq_kernel clk) gw gw'" by blast
  have "message_writes (ve_kernel env) (k\<lparr>k_gate := x\<rparr>) msg ck gw gw' = message_writes (ve_kernel env) k msg ck gw gw'" for x msg ck
    by (simp add: message_writes_def policy_verdict_def)
  then have "gw_db gw' \<noteq> gw_db gw \<longrightarrow> message_changes env clk request sv gw gw'"
    using g(3) spoken(1-3) by (auto simp: message_changes_def)
  moreover have "gc_cleanup (kc_gate (rq_kernel clk)) < T" using spoken(6,7) by (auto simp: clock_upto_def)
  then have "runs_before (gate_step (ke_gate_env (ve_kernel env))) T gw gw'" using g(2) by (auto intro: runs_before.intros)
  ultimately show ?case using g(1) by simp
next
  case (judged run_id decision sv st ctx sop reason who r ctx1 w)
  have before: "\<forall>i. gc_cleanup (se_clock (engine_env env clk) i) < T"
    using judged(8,9) by (auto simp: clock_upto_def intro: le_less_trans)
  have "sw_gate (engine_world sv) = Some gw" using judged(7) by simp
  then obtain gw' where g: "sw_gate w = Some gw'" "workflow_gate (engine_env env clk)
      (resume_trace (engine_env env clk) sop ctx (engine_world sv) decision reason who (rq_now clk)) gw gw'"
    by (rule sop_resume_gate [OF judged(6)])
  have "gw_db gw' \<noteq> gw_db gw \<longrightarrow> verdict_changes env clk request sv gw gw'"
    using resumed_changes [OF judged(1-5) g(2)] by blast
  moreover have "runs_before (gate_step (ke_gate_env (ve_kernel env))) T gw gw'"
    using workflow_gate_runs [OF g(2) before] by simp
  ultimately show ?case using g(1) by auto
qed (auto intro: runs_before.refl)

lemma service_step_gate:
  assumes "service_step env clk sv sv'" and "sv_gate sv = Some gw" and "clock_upto clk t" and "t < T"
  shows "\<exists>gw'. sv_gate sv' = Some gw' \<and> runs_before (gate_step (ke_gate_env (ve_kernel env))) T gw gw'"
  using assms
proof (induction rule: service_step.induct)
  case (spoken sv k m resp k1)
  have "k_gate (k\<lparr>k_gate := sv_gate sv\<rparr>) = Some gw" using spoken(3) by simp
  from wake_up_writes [OF spoken(2) this] obtain gw' where g: "k_gate k1 = Some gw'"
    "gw' = gw \<or> gate_step (ke_gate_env (ve_kernel env)) (gc_cleanup (kc_gate (rq_kernel clk))) gw gw'" by blast
  have "gc_cleanup (kc_gate (rq_kernel clk)) < T" using spoken(4,5) by (auto simp: clock_upto_def)
  then show ?case using g by (auto intro: runs_before.intros)
next
  case (judged sv st run_id ctx sop decision reason who r ctx1 w)
  have before: "\<forall>i. gc_cleanup (se_clock (engine_env env clk) i) < T"
    using judged(7,8) by (auto simp: clock_upto_def intro: le_less_trans)
  have "sw_gate (engine_world sv) = Some gw" using judged(6) by simp
  then obtain gw' where "sw_gate w = Some gw'" "workflow_gate (engine_env env clk)
      (resume_trace (engine_env env clk) sop ctx (engine_world sv) decision reason who (rq_now clk)) gw gw'"
    by (rule sop_resume_gate [OF judged(5)])
  then show ?case using workflow_gate_runs [OF _ before] by auto
qed (auto intro: runs_before.refl)

text \<open>
  C29. The whole service is a client of one gate: whatever request arrives, the gate that the kernel
  and the workflows share moves by its own steps only; and the database changes only by what the
  request says. Either it is a webhook with an event, whose message passed the firewall, the
  breaker and the policy, is routed as a write command, and whose domain, data and nonce the gate
  authorised; or it is a click or a resume request that approves a run it names, stored as
  suspended, and every change is made by a write step of that run's workflow behind the pending
  approval, of the data and the nonce in the context of the step, authorised by the gate as it
  then was. What is written is exactly that data.
\<close>

theorem service_refines_gate:
  assumes "serve env is_file request clk sv = (answer, sv')" and "answer \<noteq> Outside"
    and "sv_gate sv = Some gw" and "clock_upto clk t" and "t < T"
  shows "\<exists>gw'. sv_gate sv' = Some gw' \<and> runs_before (gate_step (ke_gate_env (ve_kernel env))) T gw gw' \<and>
    (gw_db gw' \<noteq> gw_db gw \<longrightarrow> message_changes env clk request sv gw gw' \<or> verdict_changes env clk request sv gw gw')"
  using request_step_gate [OF serve_request_step [OF assms(1)] assms(3-5)] .

text \<open>
  The service keeps the ledger of its gate: the interface of the gate at the level of the
  service, whose steps are timed by the latest reading of the clock.
\<close>

definition timed_step :: "('db, 'tx, 'r) service_env \<Rightarrow> pyfloat \<Rightarrow> 'db service \<Rightarrow> 'db service \<Rightarrow> bool" where
  "timed_step env t sv sv' \<longleftrightarrow> (\<exists>clk. clock_upto clk t \<and> service_step env clk sv sv')"

definition service_expiry :: "'db service \<Rightarrow> string \<Rightarrow> pyfloat option" where
  "service_expiry sv k = (case sv_gate sv of None \<Rightarrow> None | Some gw \<Rightarrow> world_expiry gw k)"

interpretation service_ledger: token_ledger "timed_step env" service_expiry for env :: "('db, 'tx, 'r) service_env"
proof
  fix t s s' k e
  assume step: "timed_step env t s s'" and e: "service_expiry s k = Some e" and t: "t < e"
  obtain gw where gw: "sv_gate s = Some gw" "world_expiry gw k = Some e"
    using e by (auto simp: service_expiry_def split: option.splits)
  obtain clk where "clock_upto clk t" "service_step env clk s s'" using step by (auto simp: timed_step_def)
  from service_step_gate [OF this(2) gw(1) this(1) t] obtain gw' where "sv_gate s' = Some gw'"
    "runs_before (gate_step (ke_gate_env (ve_kernel env))) e gw gw'" by blast
  then show "service_expiry s' k = Some e" using ledger.run_keeps gw(2) by (fastforce simp: service_expiry_def)
qed

lemma serve_all_runs:
  "serve_all env is_file requests sv = (answers, sv') \<Longrightarrow> \<forall>(request, clk)\<in>set requests. clock_upto clk t \<Longrightarrow> t < T \<Longrightarrow>
   runs_before (timed_step env) T sv sv'"
proof (induction requests arbitrary: sv answers)
  case (Cons rc requests)
  obtain request clk where rc: "rc = (request, clk)" by force
  obtain a sv1 where one: "serve env is_file request clk sv = (a, sv1)" by force
  obtain as sv2 where "serve_all env is_file requests sv1 = (as, sv2)" by force
  then have rest: "serve_all env is_file requests sv1 = (as, sv')" using Cons.prems(1) rc one by simp
  have "timed_step env t sv sv1" using serve_step [OF one] Cons.prems(2) rc by (auto simp: timed_step_def)
  then show ?case using Cons.IH [OF rest] Cons.prems(2,3) by (auto intro: runs_before.step)
qed (simp add: runs_before.refl)

text \<open>
  C30. A nonce writes once in the life of the service: after a write was made with it, by a message
  or by a workflow, and whatever requests follow, no write with a nonce of the same signature is
  made before the spent one has expired, neither by the kernel nor by the engine.
\<close>

theorem service_spends_once:
  assumes "execute_governed_write (ke_gate_env (ve_kernel env)) gw dm data nonce fmt clk = (Inr r, gw1)" and "gate_wf (gw_gate gw)"
    and "py_split (CHR '':'') nonce = [a, b, signature]" and "sv_gate sv = Some gw1"
    and "serve_all env is_file requests sv = (answers, sv')" and "Outside \<notin> set answers"
    and "\<forall>(request, ck)\<in>set requests. clock_upto ck t" and "t < fadd (gc_consume clk) (fl (of_int (wg_nonce_ttl (gw_gate gw))))"
    and "py_split (CHR '':'') nonce2 = [a2, b2, signature]" and "gc_cleanup clk2 \<le> t"
  shows "\<exists>gw2 e. sv_gate sv' = Some gw2 \<and>
    fst (execute_governed_write (ke_gate_env (ve_kernel env)) gw2 dm2 data2 nonce2 fmt2 clk2) = Inl e \<and>
    gw_db (snd (execute_governed_write (ke_gate_env (ve_kernel env)) gw2 dm2 data2 nonce2 fmt2 clk2)) = gw_db gw2"
proof -
  let ?G = "ke_gate_env (ve_kernel env)" and ?e = "fadd (gc_consume clk) (fl (of_int (wg_nonce_ttl (gw_gate gw))))"
  have "service_expiry sv signature = Some ?e"
    using success_burns [OF assms(1-3)] assms(4) by (simp add: service_expiry_def)
  then have "service_expiry sv' signature = Some ?e"
    using service_ledger.run_keeps [OF serve_all_runs [OF assms(5,7,8)]] by blast
  then obtain gw2 where gw2: "sv_gate sv' = Some gw2" "gate_wf (gw_gate gw2)" "burned (gw_gate gw2) signature = Some ?e"
    by (auto simp: service_expiry_def world_expiry_def split: option.splits if_splits)
  have "gc_cleanup clk2 < ?e" using assms(8,10) by simp
  then have "burned (cleanup_expired_nonces (gw_gate gw2) (gc_cleanup clk2)) signature = Some ?e"
    using gw2(2,3) by (simp add: burned_cleanup)
  then have no: "\<not> write_authorised ?G gw2 (dm2, data2, nonce2, fmt2, clk2)"
    using assms(9) by (auto simp: write_authorised_def nonce_valid_def)
  obtain x gw3 where x: "execute_governed_write ?G gw2 dm2 data2 nonce2 fmt2 clk2 = (x, gw3)" by force
  then obtain e where "x = Inl e"
    using no gate.success_authorised [of ?G gw2 "(dm2, data2, nonce2, fmt2, clk2)"] by (cases x) (auto simp: governed_write_def)
  then show ?thesis
    using x gw2(1) gate.unauthorised_keeps [OF no] by (auto simp: governed_write_def)
qed

subsection \<open>The session of the policy\<close>

lemma wake_up_policy: "wake_up env k m clk = (resp, k') \<Longrightarrow> k_policy k' = k_policy k"
proof -
  assume w: "wake_up env k m clk = (resp, k')"
  obtain r k2 where d: "dispatch env (k\<lparr>k_session_count := k_session_count k + 1\<rparr>) m clk = (r, k2)" by force
  show ?thesis using w dispatch_frame [OF d] d by (auto simp: wake_up_def Let_def split: sum.splits)
qed

lemma service_step_policy:
  "service_step env clk sv sv' \<Longrightarrow> map_option k_policy (sv_kernel sv) = Some p \<Longrightarrow> map_option k_policy (sv_kernel sv') = Some p"
proof (induction rule: service_step.induct)
  case (spoken sv k m resp k1)
  then show ?case using wake_up_policy [OF spoken(2)] by simp
qed simp_all

lemma wake_up_expired:
  assumes "k_policy k = Some ap" and "of_int (max_duration_seconds (pc_session (ap_config ap))) < fsub (kc_session clk) (ap_session_start ap)"
    and "wake_up env k m clk = (resp, k')"
  shows "\<not> has_status resp ''ok'' \<and> k_gate k' = k_gate k"
proof -
  let ?k = "k\<lparr>k_session_count := k_session_count k + 1\<rparr>"
  have "\<exists>e. policy_verdict ?k m clk = Inl e"
    using assms(1,2) by (simp add: policy_verdict_def enforce_policy_def check_session_alive_def Let_def)
  then have "\<exists>e k2. dispatch env ?k m clk = (Inl e, k2) \<and> k_gate k2 = k_gate k"
    by (cases rule: dispatch_cases [of ?k m env clk]) auto
  then obtain e k2 where d: "dispatch env ?k m clk = (Inl e, k2)" "k_gate k2 = k_gate k" by blast
  have "snd (error_answer e) \<noteq> ''ok''" using error_answer_status [of e] by auto
  then show ?thesis using assms(3) d by (auto simp: wake_up_def Let_def)
qed

text \<open>
  C36. The session of the policy is the life of the process: once \<open>max_duration_seconds\<close> have passed
  since the service was started with a policy, no message from anyone is answered \<open>ok\<close> and none
  reaches the gate any more, whatever requests came before, until the service is started again.
\<close>

theorem service_expires:
  assumes "sv = bootstrap_init exists cfg neo4j (Inr pc) start tracer feishu sops feedback store db"
    and "serve_all env is_file requests sv = (answers, sv1)" and "Outside \<notin> set answers"
    and "kernel_wake_up env sv1 m clk = (Inr response, sv2)"
    and "of_int (max_duration_seconds (pc_session pc)) < fsub (kc_session clk) start"
  shows "\<not> has_status response ''ok'' \<and> sv_gate sv2 = sv_gate sv1"
proof -
  let ?ap = "new_AutonomyPolicy pc start"
  have "map_option k_policy (sv_kernel sv) = Some (Some ?ap)"
    by (simp add: assms(1) bootstrap_init_def new_Kernel_def Let_def)
  then have "map_option k_policy (sv_kernel sv1) = Some (Some ?ap)"
    using serve_all_invariant [OF assms(2), where P = "\<lambda>s. map_option k_policy (sv_kernel s) = Some (Some ?ap)"] service_step_policy
    by blast
  then obtain k where k: "sv_kernel sv1 = Some k" "k_policy k = Some ?ap" by auto
  obtain t k1 where w: "wake_up (ve_kernel env) (k\<lparr>k_gate := sv_gate sv1\<rparr>) (channel_message_of m t) clk = (response, k1)"
    "sv2 = sv1\<lparr>sv_kernel := Some k1, sv_gate := k_gate k1\<rparr>"
    using assms(4) k(1) by (auto simp: kernel_wake_up_def split: pyval.splits prod.splits)
  have "ap_config ?ap = pc" "ap_session_start ?ap = start" by (simp_all add: new_AutonomyPolicy_def)
  then show ?thesis using wake_up_expired [OF _ _ w(1), of ?ap] k(2) assms(5) w(2) by simp
qed

subsection \<open>Static files\<close>

text \<open>
  C37. The dashboard's route serves the whole file system: a request for an absolute path, which is
  what stands behind a double slash, is answered with that file, and one that goes up from the
  directory of the dashboard with the file it leads to, wherever that is.
\<close>

theorem dashboard_serves_any_file:
  assumes "is_file f" and "prefix ''/'' f \<or> (\<exists>up. f = dashboard_dir @ ''/../'' @ up)"
  shows "\<exists>path. serve env is_file (Dashboard_Request path) clk sv = (Served f, sv)"
  using assms(2)
proof
  assume "prefix ''/'' f"
  then have "path_join dashboard_dir f = f" "f \<noteq> []" by (auto simp: path_join_def)
  then have "serve env is_file (Dashboard_Request f) clk sv = (Served f, sv)"
    using assms(1) by (simp add: serve_def serve_dashboard_def)
  then show ?thesis by blast
next
  assume "\<exists>up. f = dashboard_dir @ ''/../'' @ up"
  then obtain up where "f = dashboard_dir @ ''/../'' @ up" by blast
  then have "path_join dashboard_dir (''../'' @ up) = f" by (simp add: path_join_def)
  then have "serve env is_file (Dashboard_Request (''../'' @ up)) clk sv = (Served f, sv)"
    using assms(1) by (simp add: serve_def serve_dashboard_def)
  then show ?thesis by blast
qed

end
