(* ===== verification/Service_Examples.thy ===== *)
theory Service_Examples
  imports Service_Correct Cli_Examples Sop_Examples
begin

text \<open>A concrete service and concrete requests, for the properties of the service.\<close>

definition demo_entry :: sop_entry where
  "demo_entry = sop_entry_of ''s1.sop.yaml'' (demo_sop [demo_approval, demo_notice])"

definition demo_service :: "feedback_db \<Rightarrow> string list gate_world \<Rightarrow> string list service" where
  "demo_service db gw =
     \<lparr>sv_domains = Some [''hr''], sv_neo4j = True, sv_gate = Some gw, sv_kernel = Some demo_kernel, sv_engine = True,
      sv_feedback = Some db, sv_store = Some (upsert_row [] ''r1'' ''s1'' ''SUSPENDED'' [] ''2026-01-01''),
      sv_feishu = Some (new_FeishuAdapter (ac_feishu default_app_config)), sv_sops = [demo_entry], sv_cards = [], sv_notices = []\<rparr>"

definition demo_service_env :: "(string list, string list, unit) service_env" where
  "demo_service_env =
     \<lparr>ve_kernel = demo_kernel_env, ve_sop = demo_sop_env\<lparr>se_load := (\<lambda>_. Some (demo_ctx SUSPENDED 0))\<rparr>,
      ve_load_sop = (\<lambda>_. Inr (demo_sop [demo_approval, demo_notice])), ve_http = (\<lambda>_. Inl (AdapterError [])),
      ve_bind = (\<lambda>_. Inr [])\<rparr>"

definition demo_request_clock :: "pyfloat \<Rightarrow> request_clock" where
  "demo_request_clock t = \<lparr>rq_kernel = demo_kernel_clock t, rq_steps = (\<lambda>_. clk_all t), rq_stamps = (\<lambda>_. ''2026-01-01''),
     rq_now = ''2026-01-01'', rq_send = (t, t)\<rparr>"

text \<open>A click nobody signed.\<close>

definition demo_click :: "string \<Rightarrow> pyval" where
  "demo_click decision = click ''anyone'' (PDict [(''action'', PStr decision), (''run_id'', PStr ''r1'')])"

lemma demo_service_sel [simp]:
  "sv_feishu (demo_service db gw) = Some (new_FeishuAdapter (ac_feishu default_app_config))" "sv_engine (demo_service db gw)"
  "sv_store (demo_service db gw) = Some (upsert_row [] ''r1'' ''s1'' ''SUSPENDED'' [] ''2026-01-01'')"
  "sv_feedback (demo_service db gw) = Some db" "sv_gate (demo_service db gw) = Some gw" "sv_cards (demo_service db gw) = []"
  by (simp_all add: demo_service_def)

lemma demo_service_env_sel [simp]: "ke_gate_env (ve_kernel demo_service_env) = demo_env"
  by (simp add: demo_service_env_def demo_kernel_env_def)

lemma demo_request_clock_upto: "t \<le> t' \<Longrightarrow> clock_upto (demo_request_clock t) t'"
  by (simp add: clock_upto_def demo_request_clock_def demo_kernel_clock_def)

lemma demo_stored: "load_state (engine_env demo_service_env clk) (upsert_row [] ''r1'' ''s1'' ''SUSPENDED'' [] ''2026-01-01'') ''r1'' =
    Some (demo_ctx SUSPENDED 0)"
  by (simp add: load_state_def upsert_row_def find_row_def demo_service_env_def)

lemma demo_loaded: "load_sop_definition demo_service_env (demo_service db gw) (rc_sop_id (demo_ctx SUSPENDED 0)) =
    Inr (Some (demo_sop [demo_approval, demo_notice]))"
  by (simp add: load_sop_definition_def demo_service_def demo_entry_def sop_entry_of_def demo_sop_def demo_ctx_def demo_service_env_def)

lemma demo_texts: "utf8_text ''r1''" "utf8_text ''anyone''" "''r1'' \<noteq> []"
  by simp_all

text \<open>The click is inside the model: it is answered by a result or by an error.\<close>

lemma demo_click_served:
  assumes "decision \<in> {''APPROVED'', ''REJECTED''}"
  obtains answer sv' where "serve demo_service_env every_file (Webhook (dumps (demo_click decision))) clk (demo_service db gw) = (answer, sv')"
    "answer \<noteq> Outside"
proof -
  obtain r ctx1 w where q: "sop_resume (engine_env demo_service_env clk) (demo_sop [demo_approval, demo_notice]) (demo_ctx SUSPENDED 0)
      (engine_world (demo_service db gw)) decision (Some []) ''anyone'' (rq_now clk) = (r, ctx1, w)" by (metis prod.exhaust)
  show ?thesis
    using webhook_verdict [OF demo_service_sel(1,2,3) demo_stored demo_loaded assms demo_texts demo_click_def q] that by (cases r) auto
qed

lemma demo_clicks_served:
  assumes "decision \<in> {''APPROVED'', ''REJECTED''}"
  obtains answers sv' where "serve_all demo_service_env every_file [(Webhook (dumps (demo_click decision)), clk), (Health_Request, clk)]
      (demo_service db gw) = (answers, sv')" "Outside \<notin> set answers"
proof -
  obtain answer sv' where one: "serve demo_service_env every_file (Webhook (dumps (demo_click decision))) clk (demo_service db gw) = (answer, sv')"
    "answer \<noteq> Outside" by (rule demo_click_served [OF assms])
  have "serve demo_service_env every_file Health_Request clk sv' = (Json (health sv'), sv')" by (simp add: serve_def)
  then show ?thesis using that [of "[answer, Json (health sv')]" sv'] one by simp
qed

lemma demo_decision: "''APPROVED'' \<in> {''APPROVED'', ''REJECTED''}" by simp

theorem nothing_is_sent_witness:
  "\<exists>answers sv'. serve_all demo_service_env every_file
      [(Webhook (dumps (demo_click ''APPROVED'')), demo_request_clock 100), (Health_Request, demo_request_clock 100)]
      (demo_service new_FeedbackDB demo_world) = (answers, sv') \<and> sv_cards sv' = []"
proof -
  obtain answers sv' where s: "serve_all demo_service_env every_file
      [(Webhook (dumps (demo_click ''APPROVED'')), demo_request_clock 100), (Health_Request, demo_request_clock 100)]
      (demo_service new_FeedbackDB demo_world) = (answers, sv')" "Outside \<notin> set answers"
    by (rule demo_clicks_served [OF demo_decision])
  from nothing_is_sent [OF s] s(1) show ?thesis by auto
qed

theorem forged_approval_witness:
  "\<exists>row. verdict_of (snd (serve demo_service_env every_file (Webhook (dumps (demo_click ''APPROVED''))) (demo_request_clock 100)
      (demo_service new_FeedbackDB demo_world))) ''r1'' = Some row \<and> fb_decision row = ''APPROVED'' \<and> fb_reviewer row = ''anyone''"
  by (rule forged_approval [OF demo_service_sel(1,2,3,4) demo_stored _ _ demo_loaded _ _ demo_texts demo_click_def])
     (simp_all add: new_FeedbackDB_def get_by_trace_id_def)

lemma demo_verdict: "\<exists>row db. get_by_trace_id db ''r1'' = Some row"
  by (rule exI, rule exI [of _ "snd (insert_feedback new_FeedbackDB ''r1'' ''ou_1'' ''REJECTED'' None (Some []) None ''now'')"])
     (simp add: demo_insert get_by_trace_id_def)

theorem verdicts_are_final_witness:
  "\<exists>db row answers sv'. get_by_trace_id db ''r1'' = Some row \<and>
    serve_all demo_service_env every_file
      [(Webhook (dumps (demo_click ''APPROVED'')), demo_request_clock 100), (Health_Request, demo_request_clock 100)]
      (demo_service db demo_world) = (answers, sv') \<and> verdict_of sv' ''r1'' = Some row"
proof -
  obtain row db where v: "get_by_trace_id db ''r1'' = Some row" using demo_verdict by blast
  obtain answers sv' where s: "serve_all demo_service_env every_file
      [(Webhook (dumps (demo_click ''APPROVED'')), demo_request_clock 100), (Health_Request, demo_request_clock 100)]
      (demo_service db demo_world) = (answers, sv')" "Outside \<notin> set answers"
    by (rule demo_clicks_served [OF demo_decision])
  have "verdict_of (demo_service db demo_world) ''r1'' = Some row" using v by (simp add: verdict_of_def)
  then have "verdict_of sv' ''r1'' = Some row" using verdicts_are_final [OF s, of "''r1''" row "demo_ctx SUSPENDED 0"] by simp
  then show ?thesis using v s(1) by blast
qed

text \<open>A write command as it reaches the webhook, in an event of Feishu's.\<close>

definition demo_content :: string where
  "demo_content = dumps (PDict [(''text'', PStr demo_write_text)])"

definition demo_event :: pyval where
  "demo_event = PDict [(''header'', PDict [(''event_type'', PStr ''im.message.receive_v1'')]),
     (''event'', PDict [(''message'', PDict [(''content'', PStr demo_content)]),
                        (''sender'', PDict [(''sender_id'', PDict [(''open_id'', PStr ''ou_1'')])])])]"

lemma demo_event_text: "utf8_text demo_write_text" "utf8_text demo_content" "demo_write_text \<noteq> []"
proof -
  have "demo_content = ''{'' @ [CHR 0x22] @ ''text'' @ [CHR 0x22] @ '': '' @ [CHR 0x22] @ ''execute_governed_write hr 100:aa:bb'' @
      [CHR 0x5C] @ ''ndata'' @ [CHR 0x22] @ ''}''" by code_simp
  then show "utf8_text demo_content" by (elim ssubst) (intro utf8_text_append utf8_text_ascii utf8_text_Nil; simp)
  show "utf8_text demo_write_text" unfolding demo_write_text_def nl_def
    by (intro utf8_text_append utf8_text_ascii utf8_text_Nil; simp)
qed (simp add: demo_write_text_def)

lemma demo_event_read:
  obtains m where "json_loads (dumps demo_event) = Inr demo_event" "parse_event demo_event = Inr (Some m)"
    "im_text m = PStr demo_write_text" "verify_challenge demo_event = Inr None" "parse_card_callback demo_event = Inr None"
proof -
  have able: "json_able demo_event" using demo_event_text(2) by (simp add: demo_event_def)
  have inner: "json_loads demo_content = Inr (PDict [(''text'', PStr demo_write_text)])"
    unfolding demo_content_def using demo_event_text(1) by (intro json_round_trip) simp
  have "\<exists>m. parse_event demo_event = Inr (Some m) \<and> im_text m = PStr demo_write_text"
    using inner demo_event_text(3)
    by (simp add: demo_event_def parse_event_def parse_im_message_def im_content_def method_get_def py_get_def)
  moreover have "verify_challenge demo_event = Inr None" "parse_card_callback demo_event = Inr None"
    by (simp_all add: demo_event_def verify_challenge_def parse_card_callback_def method_get_def py_get_def)
  ultimately show ?thesis using that json_round_trip [OF able] by blast
qed

lemma demo_event_served:
  obtains answer sv' gw' where "serve demo_service_env every_file (Webhook (dumps demo_event)) (demo_request_clock 100)
      (demo_service new_FeedbackDB demo_world) = (answer, sv')" "answer \<noteq> Outside" "sv_gate sv' = Some gw'"
    "gw_db gw' = rdf_to_cypher_statements demo_graph"
proof -
  let ?sv = "demo_service new_FeedbackDB demo_world" and ?clk = "demo_request_clock 100"
  obtain m where m: "json_loads (dumps demo_event) = Inr demo_event" "parse_event demo_event = Inr (Some m)"
    "im_text m = PStr demo_write_text" "verify_challenge demo_event = Inr None" by (rule demo_event_read)
  have k: "sv_kernel ?sv = Some demo_kernel" by (simp add: demo_service_def)
  obtain resp k' gw' where w: "wake_up demo_kernel_env (demo_kernel\<lparr>k_gate := Some demo_world\<rparr>) (channel_message_of m demo_write_text)
      (demo_kernel_clock 100) = (resp, k')" "k_gate k' = Some gw'" "gw_db gw' = rdf_to_cypher_statements demo_graph"
    by (rule demo_text_writes [of "channel_message_of m demo_write_text" "demo_kernel\<lparr>k_gate := Some demo_world\<rparr>"])
       (simp_all add: channel_message_of_def)
  have wake: "kernel_wake_up demo_service_env ?sv m (rq_kernel ?clk) = (Inr resp, ?sv\<lparr>sv_kernel := Some k', sv_gate := k_gate k'\<rparr>)"
    using w(1) k m(3) by (simp add: kernel_wake_up_def demo_service_env_def demo_request_clock_def)
  have plain: "\<not> (case demo_event of PDict d \<Rightarrow> ''action'' \<in> fst ` set d | _ \<Rightarrow> False)" by (simp add: demo_event_def)
  obtain answer sv' where s: "serve demo_service_env every_file (Webhook (dumps demo_event)) ?clk ?sv = (answer, sv')" by force
  then have "answer \<noteq> Outside" "sv_gate sv' = k_gate k'"
    using plain by (auto simp: serve_def feishu_webhook_def m(1,2,4) message_webhook_def wake simp del: json_dumps.simps)
  then show ?thesis using that [OF s] w(2,3) by simp
qed

theorem service_refines_gate_witness:
  "\<exists>answer sv' gw'. serve demo_service_env every_file (Webhook (dumps demo_event)) (demo_request_clock 100)
      (demo_service new_FeedbackDB demo_world) = (answer, sv') \<and>
    sv_gate sv' = Some gw' \<and> gw_db gw' \<noteq> gw_db demo_world \<and> runs_before (gate_step demo_env) 101 demo_world gw' \<and>
    message_changes demo_service_env (demo_request_clock 100) (Webhook (dumps demo_event))
      (demo_service new_FeedbackDB demo_world) demo_world gw'"
proof -
  obtain answer sv' gw' where s: "serve demo_service_env every_file (Webhook (dumps demo_event)) (demo_request_clock 100)
      (demo_service new_FeedbackDB demo_world) = (answer, sv')" "answer \<noteq> Outside" "sv_gate sv' = Some gw'"
    "gw_db gw' = rdf_to_cypher_statements demo_graph" by (rule demo_event_served)
  have changed: "gw_db gw' \<noteq> gw_db demo_world" using s(4) demo_statements by simp
  obtain m where "json_loads (dumps demo_event) = Inr demo_event" "parse_card_callback demo_event = Inr None" by (rule demo_event_read)
  then have "\<not> verdict_request demo_service_env (Webhook (dumps demo_event)) run_id decision" for run_id decision
    by (simp add: verdict_request_def)
  then have "\<not> verdict_changes demo_service_env (demo_request_clock 100) (Webhook (dumps demo_event)) sv demo_world gw'" for sv
    by (simp add: verdict_changes_def)
  then show ?thesis
    using service_refines_gate [OF s(1,2), of demo_world 100 101] s(1,3) changed by (auto simp: demo_request_clock_upto)
qed

theorem service_spends_once_witness:
  "\<exists>r gw1 answers sv' gw2 e.
     execute_governed_write demo_env demo_world ''hr'' ''data'' ''100:aa:bb'' ''turtle'' (clk_all 100) = (Inr r, gw1) \<and>
     serve_all demo_service_env every_file
       [(Webhook (dumps (demo_click ''APPROVED'')), demo_request_clock 200), (Health_Request, demo_request_clock 200)]
       (demo_service new_FeedbackDB gw1) = (answers, sv') \<and>
     sv_gate sv' = Some gw2 \<and> fst (execute_governed_write demo_env gw2 ''hr'' ''data'' ''100:aa:bb'' ''turtle'' (clk_all 300)) = Inl e"
proof -
  obtain r gw1 where w: "execute_governed_write demo_env demo_world ''hr'' ''data'' ''100:aa:bb'' ''turtle'' (clk_all 100) = (Inr r, gw1)"
    using demo_write by blast
  obtain answers sv' where s: "serve_all demo_service_env every_file
      [(Webhook (dumps (demo_click ''APPROVED'')), demo_request_clock 200), (Health_Request, demo_request_clock 200)]
      (demo_service new_FeedbackDB gw1) = (answers, sv')" "Outside \<notin> set answers"
    by (rule demo_clicks_served [OF demo_decision])
  have "\<exists>gw2 e. sv_gate sv' = Some gw2 \<and>
      fst (execute_governed_write (ke_gate_env (ve_kernel demo_service_env)) gw2 ''hr'' ''data'' ''100:aa:bb'' ''turtle'' (clk_all 300)) = Inl e \<and>
      gw_db (snd (execute_governed_write (ke_gate_env (ve_kernel demo_service_env)) gw2 ''hr'' ''data'' ''100:aa:bb'' ''turtle'' (clk_all 300))) = gw_db gw2"
    by (rule service_spends_once [OF _ _ demo_split _ s _ _ demo_split, of demo_world "''hr''" "''data''" "''turtle''" "clk_all 100" r gw1 300])
       (use w in \<open>simp_all add: demo_wf demo_expiry demo_request_clock_upto\<close>)
  then show ?thesis using w s(1) by auto
qed

theorem service_expires_witness:
  "\<exists>response sv2.
     kernel_wake_up demo_service_env (bootstrap_init every_file demo_config (Inr True) (Inr shipped_policy_config) 0 demo_tracer True [] new_FeedbackDB [] [])
       \<lparr>im_text = PStr ''hello'', im_sender_id = PNone, im_sender_name = PStr ''Ada'', im_channel = ''feishu'', im_message_id = PNone, im_metadata = []\<rparr>
       (demo_kernel_clock 3601) = (Inr response, sv2) \<and> \<not> has_status response ''ok''"
proof -
  let ?sv = "bootstrap_init every_file demo_config (Inr True) (Inr shipped_policy_config) 0 demo_tracer True [] new_FeedbackDB [] [] :: string list service"
  let ?m = "\<lparr>im_text = PStr ''hello'', im_sender_id = PNone, im_sender_name = PStr ''Ada'', im_channel = ''feishu'', im_message_id = PNone, im_metadata = []\<rparr>"
  have "sv_kernel ?sv \<noteq> None" by (simp add: bootstrap_init_def Let_def)
  then have "\<exists>response sv2. kernel_wake_up demo_service_env ?sv ?m (demo_kernel_clock 3601) = (Inr response, sv2)"
    by (auto simp: kernel_wake_up_def split: prod.split)
  then obtain response sv2 where k: "kernel_wake_up demo_service_env ?sv ?m (demo_kernel_clock 3601) = (Inr response, sv2)" by blast
  have one: "serve_all demo_service_env every_file [(Health_Request, demo_request_clock 100)] ?sv = ([Json (health ?sv)], ?sv)"
    by (simp add: serve_def)
  have "of_int (max_duration_seconds (pc_session shipped_policy_config)) < fsub (kc_session (demo_kernel_clock 3601)) 0"
    by (simp add: shipped_policy_config_def demo_kernel_clock_def fsub_def fl_numeral)
  from service_expires [OF HOL.refl one _ k this] k show ?thesis by auto
qed

theorem dashboard_serves_any_file_witness:
  "\<exists>path. serve demo_service_env (\<lambda>f. f = ''/etc/passwd'') (Dashboard_Request path) (demo_request_clock 100) (demo_service new_FeedbackDB demo_world) =
    (Served ''/etc/passwd'', demo_service new_FeedbackDB demo_world)"
  by (rule dashboard_serves_any_file) simp_all

end
