(* ===== verification/Neo4j_Session.thy ===== *)
theory Neo4j_Session
  imports Neo4j_Client
begin

text \<open>
  The whole of \<^verbatim>\<open>src/agentos/governance/neo4j_client.py\<close>, call by call. The driver is a
  parameter: every call of it may raise, and a transaction that raised is still the same
  transaction, which may or may not say that it is closed. The world of the client is the
  database and the log of the calls it made, in their order. \<open>Neo4j_Client\<close> is the
  abstraction the write gate uses; the batch of this theory refines it.
\<close>

subsection \<open>The driver and the calls\<close>

type_synonym row = "(string \<times> pyval) list"

record ('db, 'tx, 'q) bolt =
  bo_begin :: "'db \<Rightarrow> exn + 'tx"
  bo_run :: "'tx \<Rightarrow> string \<Rightarrow> row \<Rightarrow> (exn + 'q) \<times> 'tx"
  bo_consume :: "'q \<Rightarrow> 'tx \<Rightarrow> (exn + int \<times> int) \<times> 'tx"
  bo_data :: "'q \<Rightarrow> 'tx \<Rightarrow> (exn + row list) \<times> 'tx"
  bo_commit :: "'tx \<Rightarrow> 'db \<Rightarrow> (exn + unit) \<times> 'tx \<times> 'db"
  bo_closed :: "'tx \<Rightarrow> bool"
  bo_rollback :: "'tx \<Rightarrow> exn + unit"
  bo_query :: "'db \<Rightarrow> string \<Rightarrow> row \<Rightarrow> (exn + 'q) \<times> 'db"
  bo_fetch :: "'q \<Rightarrow> exn + row list"
  bo_single :: "'q \<Rightarrow> exn + row option"

datatype bolt_call =
    Session_Open | Begin_Transaction | Tx_Run string | Tx_Commit | Tx_Closed bool | Tx_Rollback
  | Session_Run string | Session_Close

record 'db bolt_world =
  bw_db :: 'db
  bw_log :: "bolt_call list"

definition call :: "bolt_call \<Rightarrow> 'db bolt_world \<Rightarrow> 'db bolt_world" where
  "call c w = w\<lparr>bw_log := bw_log w @ [c]\<rparr>"

subsection \<open>The two contexts\<close>

text \<open>A session is closed whatever happens in its block.\<close>

definition in_session ::
  "('db bolt_world \<Rightarrow> (exn + 'a) \<times> 'db bolt_world) \<Rightarrow> 'db bolt_world \<Rightarrow> (exn + 'a) \<times> 'db bolt_world" where
  "in_session body w = (case body (call Session_Open w) of (r, w1) \<Rightarrow> (r, call Session_Close w1))"

text \<open>
  A transaction is rolled back in the \<open>finally\<close> when it does not say that it is closed. A
  rollback that raises replaces the outcome of the block.
\<close>

definition in_transaction ::
  "('db, 'tx, 'q) bolt \<Rightarrow> ('tx \<Rightarrow> 'db bolt_world \<Rightarrow> (exn + 'a) \<times> 'tx \<times> 'db bolt_world) \<Rightarrow> 'db bolt_world \<Rightarrow>
     (exn + 'a) \<times> 'db bolt_world" where
  "in_transaction b body = in_session (\<lambda>w.
     (case bo_begin b (bw_db w) of
        Inl e \<Rightarrow> (Inl e, w)
      | Inr tx \<Rightarrow>
          (case body tx (call Begin_Transaction w) of
             (r, tx1, w1) \<Rightarrow>
               if bo_closed b tx1 then (r, call (Tx_Closed True) w1)
               else (bindE (bo_rollback b tx1) (\<lambda>_. r), call Tx_Rollback (call (Tx_Closed False) w1)))))"

subsection \<open>Writes\<close>

definition tx_run ::
  "('db, 'tx, 'q) bolt \<Rightarrow> 'tx \<Rightarrow> string \<Rightarrow> row \<Rightarrow> 'db bolt_world \<Rightarrow> (exn + 'q) \<times> 'tx \<times> 'db bolt_world" where
  "tx_run b tx cypher params w = (case bo_run b tx cypher params of (r, tx1) \<Rightarrow> (r, tx1, call (Tx_Run cypher) w))"

definition tx_commit ::
  "('db, 'tx, 'q) bolt \<Rightarrow> 'tx \<Rightarrow> 'db bolt_world \<Rightarrow> (exn + unit) \<times> 'tx \<times> 'db bolt_world" where
  "tx_commit b tx w = (case bo_commit b tx (bw_db w) of (r, tx1, db1) \<Rightarrow> (r, tx1, call Tx_Commit (w\<lparr>bw_db := db1\<rparr>)))"

definition execute_write ::
  "('db, 'tx, 'q) bolt \<Rightarrow> string \<Rightarrow> row option \<Rightarrow> 'db bolt_world \<Rightarrow> (exn + row list) \<times> 'db bolt_world" where
  "execute_write b cypher params = in_transaction b (\<lambda>tx w.
     (case tx_run b tx cypher (case params of None \<Rightarrow> [] | Some ps \<Rightarrow> ps) w of
        (Inl e, tx1, w1) \<Rightarrow> (Inl e, tx1, w1)
      | (Inr q, tx1, w1) \<Rightarrow>
          (case bo_data b q tx1 of
             (Inl e, tx2) \<Rightarrow> (Inl e, tx2, w1)
           | (Inr records, tx2) \<Rightarrow>
               (case tx_commit b tx2 w1 of (r, tx3, w2) \<Rightarrow> (bindE r (\<lambda>_. Inr records), tx3, w2)))))"

fun batch_statements ::
  "('db, 'tx, 'q) bolt \<Rightarrow> string list \<Rightarrow> int \<Rightarrow> 'tx \<Rightarrow> 'db bolt_world \<Rightarrow> (exn + int) \<times> 'tx \<times> 'db bolt_world" where
  "batch_statements b [] total_written tx w = (Inr total_written, tx, w)"
| "batch_statements b (cypher # cs) total_written tx w =
     (if py_strip cypher \<noteq> []
      then (case tx_run b tx cypher [] w of
              (Inl e, tx1, w1) \<Rightarrow> (Inl e, tx1, w1)
            | (Inr q, tx1, w1) \<Rightarrow>
                (case bo_consume b q tx1 of
                   (Inl e, tx2) \<Rightarrow> (Inl e, tx2, w1)
                 | (Inr (nodes, relationships), tx2) \<Rightarrow>
                     batch_statements b cs (total_written + nodes + relationships) tx2 w1))
      else batch_statements b cs total_written tx w)"

definition write_batch ::
  "('db, 'tx, 'q) bolt \<Rightarrow> string list \<Rightarrow> 'db bolt_world \<Rightarrow> (exn + int) \<times> 'db bolt_world" where
  "write_batch b statements = in_transaction b (\<lambda>tx w.
     (case batch_statements b statements 0 tx w of
        (Inl e, tx1, w1) \<Rightarrow> (Inl e, tx1, w1)
      | (Inr total_written, tx1, w1) \<Rightarrow>
          (case tx_commit b tx1 w1 of (r, tx2, w2) \<Rightarrow> (bindE r (\<lambda>_. Inr total_written), tx2, w2))))"

subsection \<open>Reads\<close>

text \<open>The session runs the query by itself, in a transaction of its own that is always committed.\<close>

definition session_run ::
  "('db, 'tx, 'q) bolt \<Rightarrow> string \<Rightarrow> row \<Rightarrow> 'db bolt_world \<Rightarrow> (exn + 'q) \<times> 'db bolt_world" where
  "session_run b cypher params w =
     (case bo_query b (bw_db w) cypher params of (r, db1) \<Rightarrow> (r, call (Session_Run cypher) (w\<lparr>bw_db := db1\<rparr>)))"

definition execute_read ::
  "('db, 'tx, 'q) bolt \<Rightarrow> string \<Rightarrow> row option \<Rightarrow> 'db bolt_world \<Rightarrow> (exn + row list) \<times> 'db bolt_world" where
  "execute_read b cypher params = in_session (\<lambda>w.
     (case session_run b cypher (case params of None \<Rightarrow> [] | Some ps \<Rightarrow> ps) w of
        (r, w1) \<Rightarrow> (bindE r (bo_fetch b), w1)))"

definition health_check :: "('db, 'tx, 'q) bolt \<Rightarrow> 'db bolt_world \<Rightarrow> bool \<times> 'db bolt_world" where
  "health_check b w =
     (case in_session (\<lambda>w. (case session_run b ''RETURN 1 AS ok'' [] w of (r, w1) \<Rightarrow>
          (bindE r (\<lambda>q. bindE (bo_single b q) (\<lambda>record.
             (case record of
                None \<Rightarrow> Inr False
              | Some rec \<Rightarrow>
                  (case map_of rec ''ok'' of
                     None \<Rightarrow> Inl (OtherException ''KeyError'' ''ok'')
                   | Some v \<Rightarrow> Inr (v = PInt 1 \<or> v = PFloat 1 \<or> v = PBool True))))), w1))) w of
        (Inl _, w1) \<Rightarrow> (False, w1)
      | (Inr ok, w1) \<Rightarrow> (ok, w1))"

text \<open>
  A node is returned as the dictionary of its properties. What is no mapping has no \<open>dict\<close>, unless
  it is empty; a list whose elements are pairs themselves, which Python would make a dictionary of
  and which the query for a node does not return, is treated like a list of numbers.
\<close>

fun dict_of :: "pyval \<Rightarrow> exn + row" where
  "dict_of (PDict d) = Inr d"
| "dict_of (PList []) = Inr []"
| "dict_of (PStr []) = Inr []"
| "dict_of (PStr (c # cs)) =
     Inl (OtherException ''ValueError'' ''dictionary update sequence element #0 has length 1; 2 is required'')"
| "dict_of (PList (v # vs)) =
     Inl (OtherException ''TypeError'' ''cannot convert dictionary update sequence element #0 to a sequence'')"
| "dict_of v = Inl (OtherException ''TypeError'' ([CHR 0x27] @ py_type_name v @ [CHR 0x27] @ '' object is not iterable''))"

definition node_query :: string where
  "node_query = ''MATCH (n) WHERE elementId(n) = $node_id RETURN n, labels(n) AS labels''"

definition get_node_by_id ::
  "('db, 'tx, 'q) bolt \<Rightarrow> string \<Rightarrow> 'db bolt_world \<Rightarrow> (exn + row option) \<times> 'db bolt_world" where
  "get_node_by_id b node_id w =
     (case execute_read b node_query (Some [(''node_id'', PStr node_id)]) w of
        (r, w1) \<Rightarrow> (bindE r (\<lambda>records.
          (case records of
             [] \<Rightarrow> Inr None
           | record # _ \<Rightarrow>
               bindE (dict_of (py_get record ''n'' (PDict []))) (\<lambda>properties.
                 Inr (Some [(''id'', PStr node_id), (''labels'', py_get record ''labels'' (PList [])),
                            (''properties'', PDict properties)])))), w1))"

subsection \<open>Neosemantics\<close>

definition n10s_constraint :: string where
  "n10s_constraint = ([CHR 0x0A] @ ''                CREATE CONSTRAINT n10s_unique_uri IF NOT EXISTS'' @ [CHR 0x0A] @ ''                FOR (r:Resource) REQUIRE r.uri IS UNIQUE'' @ [CHR 0x0A] @ ''                '')"

definition n10s_graphconfig :: string where
  "n10s_graphconfig = ([CHR 0x0A] @ ''                CALL n10s.graphconfig.init({'' @ [CHR 0x0A] @ ''                    handleMultival: '' @ [CHR 0x27] @ ''ARRAY'' @ [CHR 0x27] @ '','' @ [CHR 0x0A] @ ''                    multivalPropList: ['' @ [CHR 0x0A] @ ''                        '' @ [CHR 0x27] @ ''http://www.w3.org/2000/01/rdf-schema#label'' @ [CHR 0x27] @ '','' @ [CHR 0x0A] @ ''                        '' @ [CHR 0x27] @ ''http://www.w3.org/2000/01/rdf-schema#comment'' @ [CHR 0x27] @ [CHR 0x0A] @ ''                    ]'' @ [CHR 0x0A] @ ''                })'' @ [CHR 0x0A] @ ''                '')"

definition init_n10s :: "('db, 'tx, 'q) bolt \<Rightarrow> 'db bolt_world \<Rightarrow> bool \<times> 'db bolt_world" where
  "init_n10s b w =
     (case execute_write b n10s_constraint None w of
        (Inl _, w1) \<Rightarrow> (False, w1)
      | (Inr _, w1) \<Rightarrow>
          (case execute_write b n10s_graphconfig None w1 of
             (Inl _, w2) \<Rightarrow> (False, w2)
           | (Inr _, w2) \<Rightarrow> (True, w2)))"

subsection \<open>Any sequence of calls of the client\<close>

datatype client_call =
    Write string "row option" | Write_Batch "string list" | Read string "row option" | Get_Node string
  | Init_N10s | Health_Check

fun client_op :: "('db, 'tx, 'q) bolt \<Rightarrow> client_call \<Rightarrow> 'db bolt_world \<Rightarrow> 'db bolt_world" where
  "client_op b (Write cypher params) w = snd (execute_write b cypher params w)"
| "client_op b (Write_Batch statements) w = snd (write_batch b statements w)"
| "client_op b (Read cypher params) w = snd (execute_read b cypher params w)"
| "client_op b (Get_Node node_id) w = snd (get_node_by_id b node_id w)"
| "client_op b Init_N10s w = snd (init_n10s b w)"
| "client_op b Health_Check w = snd (health_check b w)"

definition client_run :: "('db, 'tx, 'q) bolt \<Rightarrow> client_call list \<Rightarrow> 'db bolt_world \<Rightarrow> 'db bolt_world" where
  "client_run b ops w = fold (client_op b) ops w"

subsection \<open>The protocol of the calls\<close>

text \<open>
  What a well-behaved client does: in a session either queries or one transaction; in a
  transaction statements, then at most one commit and nothing after it; at its end the
  question whether it is closed, and a rollback exactly when it is not; then the session is
  closed.
\<close>

datatype phase = Idle | In_Session | In_Tx | After_Commit | Still_Open | Tx_Ended | Broken

fun next_phase :: "phase \<Rightarrow> bolt_call \<Rightarrow> phase" where
  "next_phase Idle Session_Open = In_Session"
| "next_phase In_Session (Session_Run _) = In_Session"
| "next_phase In_Session Begin_Transaction = In_Tx"
| "next_phase In_Session Session_Close = Idle"
| "next_phase In_Tx (Tx_Run _) = In_Tx"
| "next_phase In_Tx Tx_Commit = After_Commit"
| "next_phase In_Tx (Tx_Closed c) = (if c then Tx_Ended else Still_Open)"
| "next_phase After_Commit (Tx_Closed c) = (if c then Tx_Ended else Still_Open)"
| "next_phase Still_Open Tx_Rollback = Tx_Ended"
| "next_phase Tx_Ended Session_Close = Idle"
| "next_phase _ _ = Broken"

definition phase_of :: "bolt_call list \<Rightarrow> phase" where
  "phase_of calls = fold (\<lambda>c p. next_phase p c) calls Idle"

lemma phase_of_Nil [simp]: "phase_of [] = Idle"
  by (simp add: phase_of_def)

lemma phase_call [simp]: "phase_of (bw_log (call c w)) = next_phase (phase_of (bw_log w)) c"
  by (simp add: call_def phase_of_def)

lemma db_call [simp]: "bw_db (call c w) = bw_db w"
  by (simp add: call_def)

lemma phase_db [simp]: "phase_of (bw_log (w\<lparr>bw_db := d\<rparr>)) = phase_of (bw_log w)"
  by simp

lemma in_session_phase:
  assumes "phase_of (bw_log w) = Idle"
    and "\<And>w'. phase_of (bw_log w') = In_Session \<Longrightarrow> phase_of (bw_log (snd (body w'))) \<in> {In_Session, Tx_Ended}"
  shows "phase_of (bw_log (snd (in_session body w))) = Idle"
proof -
  have "phase_of (bw_log (snd (body (call Session_Open w)))) \<in> {In_Session, Tx_Ended}"
    using assms by simp
  then show ?thesis by (auto simp: in_session_def split: prod.splits)
qed

lemma in_transaction_phase:
  assumes "phase_of (bw_log w) = Idle"
    and "\<And>tx w'. phase_of (bw_log w') = In_Tx \<Longrightarrow> phase_of (bw_log (snd (snd (body tx w')))) \<in> {In_Tx, After_Commit}"
  shows "phase_of (bw_log (snd (in_transaction b body w))) = Idle"
  unfolding in_transaction_def
proof (rule in_session_phase [OF assms(1)])
  fix w' :: "'a bolt_world"
  assume p: "phase_of (bw_log w') = In_Session"
  have "phase_of (bw_log (snd (snd (body tx (call Begin_Transaction w'))))) \<in> {In_Tx, After_Commit}" for tx
    using assms(2) p by simp
  then show "phase_of (bw_log (snd (case bo_begin b (bw_db w') of Inl e \<Rightarrow> (Inl e, w')
      | Inr tx \<Rightarrow> (case body tx (call Begin_Transaction w') of (r, tx1, w1) \<Rightarrow>
          if bo_closed b tx1 then (r, call (Tx_Closed True) w1)
          else (bindE (bo_rollback b tx1) (\<lambda>_. r), call Tx_Rollback (call (Tx_Closed False) w1)))))) \<in> {In_Session, Tx_Ended}"
    using p by (auto split: sum.split prod.split; metis insert_iff next_phase.simps snd_conv)
qed


lemma tx_run_phase:
  "tx_run b tx cypher params w = (r, tx1, w1) \<Longrightarrow>
     phase_of (bw_log w1) = next_phase (phase_of (bw_log w)) (Tx_Run cypher) \<and> bw_db w1 = bw_db w"
  by (auto simp: tx_run_def split: prod.splits)

lemma tx_commit_phase:
  "tx_commit b tx w = (r, tx1, w1) \<Longrightarrow> phase_of (bw_log w1) = next_phase (phase_of (bw_log w)) Tx_Commit"
  by (auto simp: tx_commit_def split: prod.splits)

lemma batch_statements_phase:
  "batch_statements b cs n tx w = (r, tx1, w1) \<Longrightarrow> phase_of (bw_log w) = In_Tx \<Longrightarrow>
     phase_of (bw_log w1) = In_Tx"
proof (induction b cs n tx w rule: batch_statements.induct)
  case (2 b cypher cs n tx w)
  then show ?case by (fastforce split: prod.splits sum.splits if_splits dest: tx_run_phase)
qed simp

lemma batch_statements_db: "batch_statements b cs n tx w = (r, tx1, w1) \<Longrightarrow> bw_db w1 = bw_db w"
proof (induction b cs n tx w rule: batch_statements.induct)
  case (2 b cypher cs n tx w)
  then show ?case by (fastforce split: prod.splits sum.splits if_splits dest: tx_run_phase)
qed simp

lemma execute_write_phase:
  assumes "phase_of (bw_log w) = Idle"
  shows "phase_of (bw_log (snd (execute_write b cypher params w))) = Idle"
  unfolding execute_write_def
  by (rule in_transaction_phase [OF assms])
    (auto split: sum.split prod.split dest!: tx_run_phase tx_commit_phase)

lemma write_batch_phase:
  assumes "phase_of (bw_log w) = Idle"
  shows "phase_of (bw_log (snd (write_batch b statements w))) = Idle"
  unfolding write_batch_def
  by (rule in_transaction_phase [OF assms])
    (auto split: sum.split prod.split dest!: batch_statements_phase tx_commit_phase)

lemma execute_read_phase:
  assumes "phase_of (bw_log w) = Idle"
  shows "phase_of (bw_log (snd (execute_read b cypher params w))) = Idle"
  unfolding execute_read_def
  by (rule in_session_phase [OF assms]) (auto simp: session_run_def split: prod.split)

lemma health_check_phase:
  assumes "phase_of (bw_log w) = Idle"
  shows "phase_of (bw_log (snd (health_check b w))) = Idle"
proof -
  define body where "body = (\<lambda>w. (case session_run b ''RETURN 1 AS ok'' [] w of (r, w1) \<Rightarrow>
          (bindE r (\<lambda>q. bindE (bo_single b q) (\<lambda>record.
             (case record of
                None \<Rightarrow> Inr False
              | Some rec \<Rightarrow>
                  (case map_of rec ''ok'' of
                     None \<Rightarrow> Inl (OtherException ''KeyError'' ''ok'')
                   | Some v \<Rightarrow> Inr (v = PInt 1 \<or> v = PFloat 1 \<or> v = PBool True))))), w1)))"
  have "phase_of (bw_log (snd (in_session body w))) = Idle"
    by (rule in_session_phase [OF assms]) (auto simp: body_def session_run_def split: prod.split)
  moreover have "snd (health_check b w) = snd (in_session body w)"
    by (simp add: health_check_def body_def split: prod.split sum.split)
  ultimately show ?thesis by simp
qed

lemma client_op_phase:
  assumes "phase_of (bw_log w) = Idle"
  shows "phase_of (bw_log (client_op b c w)) = Idle"
proof (cases c)
  case Init_N10s
  have "phase_of (bw_log (snd (execute_write b n10s_graphconfig None (snd (execute_write b n10s_constraint None w))))) = Idle"
    "phase_of (bw_log (snd (execute_write b n10s_constraint None w))) = Idle"
    by (simp_all add: execute_write_phase assms)
  then show ?thesis using Init_N10s by (auto simp: init_n10s_def split: prod.split sum.split)
next
  case (Get_Node node_id)
  then show ?thesis using execute_read_phase [OF assms, of b node_query "Some [(''node_id'', PStr node_id)]"]
    by (simp add: get_node_by_id_def case_prod_beta)
qed (simp_all add: execute_write_phase write_batch_phase execute_read_phase health_check_phase assms)

text \<open>
  C39. Whatever is asked of the client and wherever the driver raises, the client keeps the
  protocol: every session is closed, every transaction is committed at most once, with nothing
  after the commit, and one the driver still has open at its end is rolled back before its
  session is closed.
\<close>

theorem client_keeps_protocol:
  "phase_of (bw_log (client_run b ops \<lparr>bw_db = db, bw_log = []\<rparr>)) = Idle"
proof -
  have "phase_of (bw_log w) = Idle \<Longrightarrow> phase_of (bw_log (fold (client_op b) ops w)) = Idle" for w :: "'a bolt_world"
    by (induction ops arbitrary: w) (simp_all add: client_op_phase)
  then show ?thesis by (simp add: client_run_def)
qed

subsection \<open>Refinement of the batch\<close>

text \<open>
  The driver of \<open>Neo4j_Client\<close>: the same transactions, its run a statement with the counters of
  its summary, its commit that of the driver, whatever it does to the database where it raises.
\<close>

definition batch_driver :: "('db, 'tx, 'q) bolt \<Rightarrow> ('db, 'tx) neo4j_driver" where
  "batch_driver b =
     \<lparr>nd_begin = bo_begin b,
      nd_run = \<lambda>tx cypher.
        (case bo_run b tx cypher [] of
           (Inl e, _) \<Rightarrow> Inl e
         | (Inr q, tx1) \<Rightarrow>
             (case bo_consume b q tx1 of
                (Inl e, _) \<Rightarrow> Inl e
              | (Inr (nodes, relationships), tx2) \<Rightarrow> Inr (tx2, nodes + relationships))),
      nd_commit = \<lambda>tx db. (case bo_commit b tx db of (r, _, db1) \<Rightarrow> (r, db1))\<rparr>"

text \<open>
  What the documentation of the driver says of a commit: one that returns closes the transaction.
  Of one that raises nothing is assumed, as its outcome is undefined.
\<close>

definition commit_closes :: "('db, 'tx, 'q) bolt \<Rightarrow> bool" where
  "commit_closes b \<longleftrightarrow> (\<forall>tx db tx1 db1. bo_commit b tx db = (Inr (), tx1, db1) \<longrightarrow> bo_closed b tx1)"

lemma commit_closesD: "commit_closes b \<Longrightarrow> bo_commit b tx db = (Inr u, tx1, db1) \<Longrightarrow> bo_closed b tx1"
  unfolding commit_closes_def by (cases u) blast

lemma batch_statements_refine:
  "case run_statements (batch_driver b) cs tx n of
     Inl e \<Rightarrow> fst (batch_statements b cs n tx w) = Inl e
   | Inr (tx', m) \<Rightarrow> \<exists>w'. batch_statements b cs n tx w = (Inr m, tx', w')"
proof (induction cs arbitrary: n tx w)
  case (Cons cypher cs)
  show ?case
  proof (cases "py_strip cypher \<noteq> []")
    case blank: True
    obtain r tx1 where r: "bo_run b tx cypher [] = (r, tx1)" by (cases "bo_run b tx cypher []") auto
    show ?thesis
    proof (cases r)
      case (Inl e)
      then show ?thesis using r blank by (simp add: tx_run_def batch_driver_def)
    next
      case q: (Inr q)
      obtain s tx2 where s: "bo_consume b q tx1 = (s, tx2)" by (cases "bo_consume b q tx1") auto
      show ?thesis
      proof (cases s)
        case (Inl e)
        then show ?thesis using r s q blank by (simp add: tx_run_def batch_driver_def)
      next
        case (Inr c)
        obtain nodes rels where c: "c = (nodes, rels)" by (cases c) auto
        have u: "tx_run b tx cypher [] w = (Inr q, tx1, call (Tx_Run cypher) w)" using r q by (simp add: tx_run_def)
        have v: "nd_run (batch_driver b) tx cypher = Inr (tx2, nodes + rels)"
          using r s q Inr c by (simp add: batch_driver_def)
        have e: "batch_statements b (cypher # cs) n tx w =
            batch_statements b cs (n + nodes + rels) tx2 (call (Tx_Run cypher) w)"
          using s c Inr blank u by simp
        have f: "run_statements (batch_driver b) (cypher # cs) tx n =
            run_statements (batch_driver b) cs tx2 (n + nodes + rels)"
          using blank v by (simp add: add.assoc)
        show ?thesis unfolding e f by (rule Cons.IH)
      qed
    qed
  next
    case False
    then have e: "batch_statements b (cypher # cs) n tx w = batch_statements b cs n tx w"
      and f: "run_statements (batch_driver b) (cypher # cs) tx n = run_statements (batch_driver b) cs tx n"
      by simp_all
    show ?thesis unfolding e f by (rule Cons.IH)
  qed
qed simp

text \<open>
  C38. The batch of the client implements the batch the write gate relies on: the same number and the
  same database where that returns; where it raises, the client raises and leaves the same database,
  with the same exception unless the rollback raises as well. And up to its commit a batch is
  all or nothing: if the database is changed at all, then the transaction ran every statement without
  an error and its commit was called, and the database is what that one commit made of it, whether it
  returned or left its outcome open.
\<close>

theorem write_batch_refines:
  assumes b: "commit_closes b"
  shows "(case execute_write_batch (batch_driver b) (bw_db w) stmts of
      (Inr n, db') \<Rightarrow> fst (write_batch b stmts w) = Inr n \<and> bw_db (snd (write_batch b stmts w)) = db'
    | (Inl e, db') \<Rightarrow> \<exists>e'. fst (write_batch b stmts w) = Inl e' \<and> bw_db (snd (write_batch b stmts w)) = db' \<and>
        (e' = e \<or> (\<exists>tx. bo_rollback b tx = Inl e'))) \<and>
    (bw_db (snd (write_batch b stmts w)) \<noteq> bw_db w \<longrightarrow>
       (\<exists>tx tx1 n r tx2. bo_begin b (bw_db w) = Inr tx \<and> run_statements (batch_driver b) stmts tx 0 = Inr (tx1, n) \<and>
          bo_commit b tx1 (bw_db w) = (r, tx2, bw_db (snd (write_batch b stmts w)))))"
proof (cases "bo_begin b (bw_db w)")
  case (Inl e)
  then show ?thesis
    by (simp add: execute_write_batch_def write_batch_def in_transaction_def in_session_def batch_driver_def)
next
  case (Inr tx)
  define w0 where "w0 = call Begin_Transaction (call Session_Open w)"
  have db: "bw_db w0 = bw_db w" by (simp add: w0_def)
  obtain r tx1 w1 where u: "batch_statements b stmts 0 tx w0 = (r, tx1, w1)"
    by (cases "batch_statements b stmts 0 tx w0") auto
  have d1: "bw_db w1 = bw_db w" using batch_statements_db [OF u] db by simp
  note ref = batch_statements_refine [where b = b and cs = stmts and tx = tx and n = 0 and w = w0]
  have start: "nd_begin (batch_driver b) (bw_db w) = Inr tx" using Inr by (simp add: batch_driver_def)
  show ?thesis
  proof (cases r)
    case e: (Inl e)
    then have "run_statements (batch_driver b) stmts tx 0 = Inl e"
      using ref u by (auto split: sum.splits prod.splits)
    then show ?thesis using Inr u e d1 start
      by (auto simp: execute_write_batch_def write_batch_def in_transaction_def in_session_def w0_def bindE_def
          split: sum.splits)
  next
    case n: (Inr n)
    then have v: "run_statements (batch_driver b) stmts tx 0 = Inr (tx1, n)"
      using ref u by (auto split: sum.splits prod.splits)
    obtain s tx2 db2 where c: "bo_commit b tx1 (bw_db w) = (s, tx2, db2)" by (cases "bo_commit b tx1 (bw_db w)") auto
    have commit: "nd_commit (batch_driver b) tx1 (bw_db w) = (s, db2)" using c by (simp add: batch_driver_def)
    have t: "tx_commit b tx1 w1 = (s, tx2, call Tx_Commit (w1\<lparr>bw_db := db2\<rparr>))" using c d1 by (simp add: tx_commit_def)
    have after: "bw_db (snd (write_batch b stmts w)) = db2" using Inr u n t
      by (simp add: write_batch_def in_transaction_def in_session_def w0_def)
    have batch: "execute_write_batch (batch_driver b) (bw_db w) stmts = (bindE s (\<lambda>_. Inr n), db2)"
      using start v commit by (simp add: execute_write_batch_def)
    have out: "fst (write_batch b stmts w) = (if bo_closed b tx2 then bindE s (\<lambda>_. Inr n)
        else bindE (bo_rollback b tx2) (\<lambda>_. bindE s (\<lambda>_. Inr n)))"
      using Inr u n t by (simp add: write_batch_def in_transaction_def in_session_def w0_def)
    have "case (bindE s (\<lambda>_. Inr n), db2) of
        (Inr n, db') \<Rightarrow> fst (write_batch b stmts w) = Inr n \<and> db2 = db'
      | (Inl e, db') \<Rightarrow> \<exists>e'. fst (write_batch b stmts w) = Inl e' \<and> db2 = db' \<and> (e' = e \<or> (\<exists>tx. bo_rollback b tx = Inl e'))"
    proof (cases s)
      case (Inl e)
      then show ?thesis unfolding out by (cases "bo_rollback b tx2") auto
    next
      case (Inr x)
      then show ?thesis using commit_closesD [OF b] c unfolding out by simp
    qed
    then show ?thesis unfolding after batch using Inr v c by blast
  qed
qed

text \<open>A single write is as atomic as a batch: where it raises, nothing changed but by a commit that raised.\<close>

lemma execute_write_atomic:
  assumes b: "commit_closes b" and w: "execute_write b cypher params w = (Inl e, w')"
  shows "bw_db w' = bw_db w \<or> (\<exists>tx tx1 exc. bo_commit b tx (bw_db w) = (Inl exc, tx1, bw_db w'))"
  using w unfolding execute_write_def in_transaction_def in_session_def
  by (auto simp: tx_run_def tx_commit_def bindE_def split: sum.splits prod.splits if_splits option.splits
      dest: commit_closesD [OF b])

text \<open>A driver whose database is the list of the statements committed, for the example.\<close>

definition sample_bolt :: "(string list, string list \<times> bool, unit) bolt" where
  "sample_bolt =
     \<lparr>bo_begin = \<lambda>db. Inr ([], False),
      bo_run = \<lambda>(ran, c) cypher params.
        if cypher = ''BAD'' then (Inl (OtherException ''CypherSyntaxError'' cypher), (ran, c)) else (Inr (), (ran @ [cypher], c)),
      bo_consume = \<lambda>q tx. (Inr (1, 0), tx),
      bo_data = \<lambda>q tx. (Inr [], tx),
      bo_commit = \<lambda>(ran, c) db. (Inr (), (ran, True), db @ ran),
      bo_closed = snd,
      bo_rollback = \<lambda>tx. Inr (),
      bo_query = \<lambda>db cypher params. (Inr (), db),
      bo_fetch = \<lambda>q. Inr [],
      bo_single = \<lambda>q. Inr (Some [(''ok'', PInt 1)])\<rparr>"

lemma sample_bolt_commit: "commit_closes sample_bolt"
  by (auto simp: commit_closes_def sample_bolt_def)

theorem write_batch_refines_witness:
  "commit_closes sample_bolt \<and>
   fst (write_batch sample_bolt [''A'', '' '', ''B''] \<lparr>bw_db = [''X''], bw_log = []\<rparr>) = Inr 2 \<and>
   bw_db (snd (write_batch sample_bolt [''A'', '' '', ''B''] \<lparr>bw_db = [''X''], bw_log = []\<rparr>)) = [''X'', ''A'', ''B''] \<and>
   bw_db (snd (write_batch sample_bolt [''A'', ''BAD''] \<lparr>bw_db = [''X''], bw_log = []\<rparr>)) = [''X'']"
proof -
  have a: "execute_write_batch (batch_driver sample_bolt) [''X''] [''A'', '' '', ''B''] = (Inr 2, [''X'', ''A'', ''B''])"
    by code_simp
  have b: "execute_write_batch (batch_driver sample_bolt) [''X''] [''A'', ''BAD''] =
      (Inl (OtherException ''CypherSyntaxError'' ''BAD''), [''X''])"
    by code_simp
  show ?thesis
    using write_batch_refines [OF sample_bolt_commit, where w = "\<lparr>bw_db = [''X''], bw_log = []\<rparr>" and stmts = "[''A'', '' '', ''B'']"]
      write_batch_refines [OF sample_bolt_commit, where w = "\<lparr>bw_db = [''X''], bw_log = []\<rparr>" and stmts = "[''A'', ''BAD'']"]
      sample_bolt_commit
    by (auto simp: a b)
qed

end
