(* ===== verification/Telemetry.thy ===== *)
theory Telemetry
  imports Exceptions
begin

text \<open>
  \<^verbatim>\<open>src/agentos/observability/telemetry.py\<close> and \<^verbatim>\<open>langfuse_integration.py\<close>: the module state
  of the two and what starts, reads and ends it. The SDKs are parameters: whether they can be
  imported, and what building a provider or a client gives. OpenTelemetry keeps a global
  provider of its own, which, as its documentation says, is set once and not replaced.
\<close>

subsection \<open>OpenTelemetry\<close>

record telemetry_config =
  tc_service_name :: string
  tc_service_version :: string
  tc_otlp_endpoint :: string
  tc_enabled :: bool
  tc_sample_rate :: pyfloat

definition default_telemetry_config :: telemetry_config where
  "default_telemetry_config =
     \<lparr>tc_service_name = ''agent-os-poc'', tc_service_version = ''0.1.2'', tc_otlp_endpoint = ''http://localhost:4317'',
      tc_enabled = True, tc_sample_rate = 1\<rparr>"

record ('p, 't) otel_sdk =
  os_importable :: bool
  os_provider :: "telemetry_config \<Rightarrow> exn + 'p"
  os_get_tracer :: "'p option \<Rightarrow> string \<Rightarrow> exn + 't"
  os_shutdown :: "'p \<Rightarrow> exn + unit"

record 'p telemetry =
  tl_imported :: bool
  tl_provider :: "'p option"
  tl_global :: "'p option"
  tl_shut_down :: "'p list"

definition telemetry_start :: "'p telemetry" where
  "telemetry_start = \<lparr>tl_imported = False, tl_provider = None, tl_global = None, tl_shut_down = []\<rparr>"

definition ensure_otel_imported :: "('p, 't) otel_sdk \<Rightarrow> 'p telemetry \<Rightarrow> bool \<times> 'p telemetry" where
  "ensure_otel_imported sdk st =
     (if tl_imported st then (True, st)
      else if os_importable sdk then (True, st\<lparr>tl_imported := True\<rparr>)
      else (False, st))"

definition set_tracer_provider :: "'p \<Rightarrow> 'p telemetry \<Rightarrow> 'p telemetry" where
  "set_tracer_provider p st = (case tl_global st of None \<Rightarrow> st\<lparr>tl_global := Some p\<rparr> | Some _ \<Rightarrow> st)"

definition init_telemetry ::
  "('p, 't) otel_sdk \<Rightarrow> telemetry_config option \<Rightarrow> 'p telemetry \<Rightarrow> bool \<times> 'p telemetry" where
  "init_telemetry sdk config st =
     (let config = (case config of None \<Rightarrow> default_telemetry_config | Some c \<Rightarrow> c)
      in if \<not> tc_enabled config then (False, st)
         else
           (case ensure_otel_imported sdk st of
              (False, st1) \<Rightarrow> (False, st1)
            | (True, st1) \<Rightarrow>
                (case os_provider sdk config of
                   Inl _ \<Rightarrow> (False, st1)
                 | Inr provider \<Rightarrow> (True, (set_tracer_provider provider st1)\<lparr>tl_provider := Some provider\<rparr>))))"

datatype 't some_tracer = Noop_Tracer | Otel_Tracer 't

definition get_tracer :: "('p, 't) otel_sdk \<Rightarrow> string \<Rightarrow> 'p telemetry \<Rightarrow> 't some_tracer \<times> 'p telemetry" where
  "get_tracer sdk name st =
     (case ensure_otel_imported sdk st of
        (False, st1) \<Rightarrow> (Noop_Tracer, st1)
      | (True, st1) \<Rightarrow>
          ((case os_get_tracer sdk (tl_global st1) name of Inl _ \<Rightarrow> Noop_Tracer | Inr t \<Rightarrow> Otel_Tracer t), st1))"

definition shutdown_telemetry :: "('p, 't) otel_sdk \<Rightarrow> 'p telemetry \<Rightarrow> 'p telemetry" where
  "shutdown_telemetry sdk st =
     (case tl_provider st of
        None \<Rightarrow> st
      | Some provider \<Rightarrow>
          (case os_shutdown sdk provider of
             Inl _ \<Rightarrow> st
           | Inr _ \<Rightarrow> st\<lparr>tl_shut_down := tl_shut_down st @ [provider]\<rparr>)\<lparr>tl_provider := None\<rparr>)"

subsection \<open>Langfuse\<close>

record langfuse_config =
  lc_public_key :: string
  lc_secret_key :: string
  lc_host :: string
  lc_enabled :: bool
  lc_release :: string
  lc_environment :: string
  lc_flush_at :: int
  lc_flush_interval_seconds :: pyfloat
  lc_max_retries :: int
  lc_request_timeout_seconds :: pyfloat

definition default_langfuse_config :: langfuse_config where
  "default_langfuse_config =
     \<lparr>lc_public_key = [], lc_secret_key = [], lc_host = ''http://localhost:3000'', lc_enabled = True, lc_release = ''dev'',
      lc_environment = ''development'', lc_flush_at = 15, lc_flush_interval_seconds = 5, lc_max_retries = 3,
      lc_request_timeout_seconds = 10\<rparr>"

text \<open>
  The arguments \<open>Langfuse\<close> is called with: the retries of the configuration are not among them.
\<close>

record langfuse_arguments =
  la_public_key :: string
  la_secret_key :: string
  la_host :: string
  la_release :: string
  la_environment :: string
  la_flush_at :: int
  la_flush_interval :: pyfloat
  la_timeout :: int

definition langfuse_arguments_of :: "langfuse_config \<Rightarrow> langfuse_arguments" where
  "langfuse_arguments_of config =
     \<lparr>la_public_key = lc_public_key config, la_secret_key = lc_secret_key config, la_host = lc_host config,
      la_release = lc_release config, la_environment = lc_environment config, la_flush_at = lc_flush_at config,
      la_flush_interval = lc_flush_interval_seconds config,
      la_timeout = (if 0 \<le> lc_request_timeout_seconds config then \<lfloor>lc_request_timeout_seconds config\<rfloor>
                    else \<lceil>lc_request_timeout_seconds config\<rceil>)\<rparr>"

record 'c langfuse_sdk =
  ls_importable :: bool
  ls_client :: "langfuse_arguments \<Rightarrow> exn + 'c"

record 'c langfuse =
  lf_client :: "'c option"
  lf_enabled :: bool

definition langfuse_start :: "'c langfuse" where
  "langfuse_start = \<lparr>lf_client = None, lf_enabled = False\<rparr>"

definition init_langfuse ::
  "'c langfuse_sdk \<Rightarrow> langfuse_config option \<Rightarrow> 'c langfuse \<Rightarrow> bool \<times> 'c langfuse" where
  "init_langfuse sdk config st =
     (let config = (case config of None \<Rightarrow> default_langfuse_config | Some c \<Rightarrow> c)
      in if \<not> lc_enabled config then (False, st\<lparr>lf_enabled := False\<rparr>)
         else if lc_public_key config = [] \<or> lc_secret_key config = [] then (False, st\<lparr>lf_enabled := False\<rparr>)
         else if \<not> ls_importable sdk then (False, st)
         else
           (case ls_client sdk (langfuse_arguments_of config) of
              Inl _ \<Rightarrow> (False, st)
            | Inr client \<Rightarrow> (True, st\<lparr>lf_client := Some client, lf_enabled := True\<rparr>)))"

definition get_langfuse :: "'c langfuse \<Rightarrow> 'c option" where
  "get_langfuse st = (if \<not> lf_enabled st \<or> lf_client st = None then None else lf_client st)"

text \<open>The client that is flushed: the flag is not asked.\<close>

definition flush_langfuse :: "'c langfuse \<Rightarrow> 'c option" where
  "flush_langfuse st = lf_client st"

subsection \<open>The provider that is shut down\<close>

text \<open>What a process does with its telemetry.\<close>

inductive telemetry_run :: "('p, 't) otel_sdk \<Rightarrow> 'p telemetry \<Rightarrow> bool" for sdk where
  start: "telemetry_run sdk telemetry_start"
| init: "telemetry_run sdk st \<Longrightarrow> telemetry_run sdk (snd (init_telemetry sdk config st))"
| tracer: "telemetry_run sdk st \<Longrightarrow> telemetry_run sdk (snd (get_tracer sdk name st))"
| shutdown: "telemetry_run sdk st \<Longrightarrow> telemetry_run sdk (shutdown_telemetry sdk st)"

lemma ensure_otel_imported_state:
  "ensure_otel_imported sdk st = (r, st') \<Longrightarrow>
     tl_provider st' = tl_provider st \<and> tl_global st' = tl_global st \<and> tl_shut_down st' = tl_shut_down st"
  by (auto simp: ensure_otel_imported_def split: if_splits)

lemma init_telemetry_state:
  "init_telemetry sdk config st = (r, st') \<Longrightarrow>
     (if r then \<exists>p. os_provider sdk (case config of None \<Rightarrow> default_telemetry_config | Some c \<Rightarrow> c) = Inr p \<and>
          tl_provider st' = Some p \<and> tl_global st' = (case tl_global st of None \<Rightarrow> Some p | Some g \<Rightarrow> Some g)
      else tl_provider st' = tl_provider st \<and> tl_global st' = tl_global st) \<and>
     tl_shut_down st' = tl_shut_down st"
  unfolding init_telemetry_def Let_def
  by (auto simp: set_tracer_provider_def split: if_splits prod.splits sum.splits bool.splits option.splits
      dest!: ensure_otel_imported_state)

text \<open>The tracer always comes from the global provider; once there is one, it stays.\<close>

lemma telemetry_global:
  assumes "telemetry_run sdk st" and "tl_global st = None"
  shows "tl_provider st = None \<and> tl_shut_down st = []"
  using assms
proof (induction rule: telemetry_run.induct)
  case start
  then show ?case by (simp add: telemetry_start_def)
next
  case (init st config)
  obtain r st' where i: "init_telemetry sdk config st = (r, st')" by (cases "init_telemetry sdk config st")
  then show ?case using init_telemetry_state [OF i] init by (auto split: if_splits option.splits)
next
  case (tracer st name)
  then show ?case
    by (auto simp: get_tracer_def split: prod.splits bool.splits dest!: ensure_otel_imported_state)
next
  case (shutdown st)
  then show ?case by (auto simp: shutdown_telemetry_def split: option.splits sum.splits)
qed

text \<open>
  Telemetry that is started once is shut down with the provider its spans went to. Started a
  second time, it makes a second provider while the spans still go to the first; the shutdown
  ends the second, and the first, with the spans it has not sent, is never shut down.
\<close>

theorem second_init_loses_first:
  assumes first: "init_telemetry sdk config1 telemetry_start = (True, st1)"
    and second: "init_telemetry sdk config2 st1 = (True, st2)"
    and shutdown: "\<And>p. isl (os_shutdown sdk p) = False"
  shows "\<exists>p1 p2. os_provider sdk (case config1 of None \<Rightarrow> default_telemetry_config | Some c \<Rightarrow> c) = Inr p1 \<and>
      os_provider sdk (case config2 of None \<Rightarrow> default_telemetry_config | Some c \<Rightarrow> c) = Inr p2 \<and>
      tl_shut_down (shutdown_telemetry sdk st1) = [p1] \<and>
      tl_global st2 = Some p1 \<and> tl_shut_down (shutdown_telemetry sdk st2) = [p2]"
proof -
  obtain p1 where p1: "os_provider sdk (case config1 of None \<Rightarrow> default_telemetry_config | Some c \<Rightarrow> c) = Inr p1"
      "tl_provider st1 = Some p1" "tl_global st1 = Some p1" "tl_shut_down st1 = []"
    using init_telemetry_state [OF first] by (auto simp: telemetry_start_def)
  obtain p2 where p2: "os_provider sdk (case config2 of None \<Rightarrow> default_telemetry_config | Some c \<Rightarrow> c) = Inr p2"
      "tl_provider st2 = Some p2" "tl_global st2 = Some p1" "tl_shut_down st2 = []"
    using init_telemetry_state [OF second] p1 by auto
  have "tl_shut_down (shutdown_telemetry sdk st1) = [p1]" "tl_shut_down (shutdown_telemetry sdk st2) = [p2]"
    using p1 p2 shutdown [of p1] shutdown [of p2] by (auto simp: shutdown_telemetry_def split: sum.splits)
  then show ?thesis using p1 p2 by blast
qed

subsection \<open>The client that is handed out\<close>

inductive langfuse_run :: "'c langfuse_sdk \<Rightarrow> 'c langfuse \<Rightarrow> bool" for sdk where
  start: "langfuse_run sdk langfuse_start"
| init: "langfuse_run sdk st \<Longrightarrow> langfuse_run sdk (snd (init_langfuse sdk config st))"

lemma langfuse_enabled_client: "langfuse_run sdk st \<Longrightarrow> lf_enabled st \<Longrightarrow> \<exists>args c. lf_client st = Some c \<and> ls_client sdk args = Inr c"
  by (induction rule: langfuse_run.induct)
    (auto simp: langfuse_start_def init_langfuse_def Let_def split: if_splits sum.splits option.splits)

text \<open>
  A client is handed out exactly while Langfuse is enabled, and it is one the SDK made. An
  initialisation that raises answers no and leaves an earlier client in use.
\<close>

theorem get_langfuse_enabled:
  assumes "langfuse_run sdk st"
  shows "get_langfuse st \<noteq> None \<longleftrightarrow> lf_enabled st"
    and "get_langfuse st = Some c \<Longrightarrow> \<exists>args. ls_client sdk args = Inr c"
    and "lc_enabled cfg \<Longrightarrow> lc_public_key cfg \<noteq> [] \<Longrightarrow> lc_secret_key cfg \<noteq> [] \<Longrightarrow>
      ls_client sdk (langfuse_arguments_of cfg) = Inl e \<Longrightarrow> init_langfuse sdk (Some cfg) st = (False, st)"
  using langfuse_enabled_client [OF assms]
  by (auto simp: get_langfuse_def init_langfuse_def split: if_splits)

end
