(* ===== verification/Ontology_Import.thy ===== *)
theory Ontology_Import
  imports Neo4j_Session Config Kernel
begin

text \<open>
  Two clients of the interfaces the other theories model: the import of the ontologies
  (\<^verbatim>\<open>scripts/import_ontology.py\<close>), which uses the database client from its health check to its
  close, and the console adapter (\<^verbatim>\<open>adapters/cli_adapter.py\<close>). Log lines are left out.
\<close>

subsection \<open>The import of the ontologies\<close>

datatype import_outcome = File_Missing | Imported | Import_Failed exn

definition import_statement :: string where
  "import_statement = ([CHR 0x0A] @ ''                CALL n10s.rdf.import.fetch($path, $format)'' @ [CHR 0x0A] @ ''                '')"

definition import_path :: "domain_config \<Rightarrow> string" where
  "import_path domain = ''file:///var/lib/neo4j/import/ontology/'' @ dc_owl_file domain"

definition import_domain ::
  "('db, 'tx, 'q) bolt \<Rightarrow> (string \<Rightarrow> bool) \<Rightarrow> string \<Rightarrow> domain_config \<Rightarrow> 'db bolt_world \<Rightarrow> import_outcome \<times> 'db bolt_world" where
  "import_domain b exists ontology_root domain w =
     (if \<not> exists (path_join ontology_root (dc_owl_file domain)) then (File_Missing, w)
      else
        (case execute_write b import_statement
                (Some [(''path'', PStr (import_path domain)), (''format'', PStr ''Turtle'')]) w of
           (Inl exc, w1) \<Rightarrow> (Import_Failed exc, w1)
         | (Inr _, w1) \<Rightarrow> (Imported, w1)))"

fun import_domains ::
  "('db, 'tx, 'q) bolt \<Rightarrow> (string \<Rightarrow> bool) \<Rightarrow> string \<Rightarrow> domain_config list \<Rightarrow> 'db bolt_world \<Rightarrow>
     import_outcome list \<times> 'db bolt_world" where
  "import_domains b exists base [] w = ([], w)"
| "import_domains b exists base (domain # ds) w =
     (case import_domain b exists base domain w of
        (out, w1) \<Rightarrow> (case import_domains b exists base ds w1 of (outs, w2) \<Rightarrow> (out # outs, w2)))"

text \<open>The resources counted and the classes listed at the end, unless the client raises.\<close>

definition list_imported :: "('db, 'tx, 'q) bolt \<Rightarrow> 'db bolt_world \<Rightarrow> (exn + pyval \<times> row list) \<times> 'db bolt_world" where
  "list_imported b w =
     (case execute_read b ''MATCH (r:Resource) RETURN count(r) AS cnt'' None w of
        (Inl exc, w1) \<Rightarrow> (Inl exc, w1)
      | (Inr count_result, w1) \<Rightarrow>
          (case (case count_result of
                   [] \<Rightarrow> Inr (PInt 0)
                 | first # _ \<Rightarrow>
                     (case map_of first ''cnt'' of None \<Rightarrow> Inl (OtherException ''KeyError'' ''cnt'') | Some v \<Rightarrow> Inr v)) of
             Inl exc \<Rightarrow> (Inl exc, w1)
           | Inr cnt \<Rightarrow>
               (case execute_read b ''MATCH (c:Class) RETURN c.label AS label, c.uri AS uri LIMIT 20'' None w1 of
                  (r, w2) \<Rightarrow> (bindE r (\<lambda>classes. Inr (cnt, classes)), w2))))"

record import_report =
  ir_outcomes :: "import_outcome list"
  ir_listed :: "exn + pyval \<times> row list"

text \<open>
  The result is the report and whether the client was closed; a database that does not answer
  ends the import without either.
\<close>

definition import_ontology ::
  "('db, 'tx, 'q) bolt \<Rightarrow> (string \<Rightarrow> bool) \<Rightarrow> app_config \<Rightarrow> 'db bolt_world \<Rightarrow> import_report option \<times> bool \<times> 'db bolt_world" where
  "import_ontology b exists cfg w =
     (case health_check b w of
        (False, w1) \<Rightarrow> (None, False, w1)
      | (True, w1) \<Rightarrow>
          (case init_n10s b w1 of
             (_, w2) \<Rightarrow>
               (case import_domains b exists (oc_owl_dir (ac_ontology cfg)) (oc_domains (ac_ontology cfg)) w2 of
                  (outcomes, w3) \<Rightarrow>
                    (case list_imported b w3 of
                       (listed, w4) \<Rightarrow> (Some \<lparr>ir_outcomes = outcomes, ir_listed = listed\<rparr>, True, w4)))))"

text \<open>
  Each domain has its own outcome and transaction, in the order of the configuration, and one
  that fails leaves the database to the next as it found it, unless it was its commit that raised.
\<close>

lemma import_domains_length: "length (fst (import_domains b exists base ds w)) = length ds"
  by (induction ds arbitrary: w) (simp_all add: case_prod_beta)

lemma import_domains_nth:
  "i < length ds \<Longrightarrow>
     fst (import_domains b exists base ds w) ! i =
       fst (import_domain b exists base (ds ! i) (snd (import_domains b exists base (take i ds) w)))"
proof (induction ds arbitrary: i w)
  case (Cons d ds)
  show ?case
  proof (cases i)
    case 0
    then show ?thesis by (simp add: case_prod_beta)
  next
    case (Suc j)
    then show ?thesis using Cons by (simp add: case_prod_beta)
  qed
qed simp

theorem failed_import_leaves_db:
  assumes b: "commit_closes b" and r: "import_domain b exists base d w = (out, w')" and f: "out \<noteq> Imported"
  shows "bw_db w' = bw_db w \<or> (\<exists>tx tx1 exc. bo_commit b tx (bw_db w) = (Inl exc, tx1, bw_db w'))"
proof (cases "exists (path_join base (dc_owl_file d))")
  case True
  obtain e where "execute_write b import_statement
      (Some [(''path'', PStr (import_path d)), (''format'', PStr ''Turtle'')]) w = (Inl e, w')"
    using r f True by (auto simp: import_domain_def split: prod.splits sum.splits)
  then show ?thesis by (rule execute_write_atomic [OF b])
qed (use r in \<open>simp add: import_domain_def\<close>)

text \<open>The import keeps the protocol of the client, also where it stops early.\<close>

lemma import_domains_phase:
  "phase_of (bw_log w) = Idle \<Longrightarrow> phase_of (bw_log (snd (import_domains b exists base ds w))) = Idle"
proof (induction ds arbitrary: w)
  case (Cons d ds)
  have "phase_of (bw_log (snd (import_domain b exists base d w))) = Idle"
    using execute_write_phase [OF Cons.prems, where cypher = import_statement and b = b
        and params = "Some [(''path'', PStr (import_path d)), (''format'', PStr ''Turtle'')]"] Cons.prems
    by (auto simp: import_domain_def split: prod.split sum.split)
  then show ?case using Cons.IH by (simp add: case_prod_beta)
qed simp

text \<open>
  The report has an outcome for every domain of the configuration; there is none, and the
  client is left open, exactly when the database does not answer.
\<close>

theorem import_ontology_report:
  "case import_ontology b exists cfg w of
     (Some report, ended, w') \<Rightarrow> ended \<and> length (ir_outcomes report) = length (oc_domains (ac_ontology cfg)) \<and>
        fst (health_check b w)
   | (None, ended, w') \<Rightarrow> \<not> ended \<and> \<not> fst (health_check b w) \<and> w' = snd (health_check b w)"
  by (auto simp: import_ontology_def split: prod.splits bool.splits)
    (metis fst_conv import_domains_length)

subsection \<open>The console\<close>

definition console_mark :: "string option \<Rightarrow> string" where
  "console_mark err = (case err of None \<Rightarrow> (u8 [0xE2, 0x9C, 0x85]) | Some e \<Rightarrow> if e \<noteq> [] then (u8 [0xE2, 0x9D, 0x8C]) else (u8 [0xE2, 0x9C, 0x85]))"

definition console_output :: "channel_response \<Rightarrow> string" where
  "console_output response =
     [CHR 0x0A] @ console_mark (cr_error response) @ '' ['' @ cr_channel response @ ''] '' @ cr_text response @ [CHR 0x0A] @
     (if cr_metadata response \<noteq> [] then (''   '' @ u8 [0xF0, 0x9F, 0x93, 0x8E] @ '' metadata: '') @ py_str (PDict (cr_metadata response)) @ [CHR 0x0A] else [])"

end
