(* ===== verification/Ui_Config.thy ===== *)
theory Ui_Config
  imports Js_Value
begin

text \<open>
  The options the dashboard is built with: \<^verbatim>\<open>agentos-ui/next.config.ts\<close>,
  \<^verbatim>\<open>postcss.config.mjs\<close>, \<^verbatim>\<open>eslint.config.mjs\<close> and the \<open>metadata\<close> of \<^verbatim>\<open>app/layout.tsx\<close>, as the
  JavaScript values the files export. What \<open>eslint\<close> and the presets of Next.js give is a
  parameter.
\<close>

definition nextConfig :: jsval where
  "nextConfig = JObj [(''output'', JStr ''export'')]"

definition postcss_config :: jsval where
  "postcss_config = JObj [(''plugins'', JObj [(''@tailwindcss/postcss'', JObj [])])]"

record eslint_lib =
  el_defineConfig :: "jsval list \<Rightarrow> jsval"
  el_globalIgnores :: "string list \<Rightarrow> jsval"
  el_nextVitals :: "jsval list"
  el_nextTs :: "jsval list"

definition eslintConfig :: "eslint_lib \<Rightarrow> jsval" where
  "eslintConfig L = el_defineConfig L
     (el_nextVitals L @ el_nextTs L @ [el_globalIgnores L [''.next/**'', ''out/**'', ''build/**'', ''next-env.d.ts'']])"

definition page_metadata :: jsval where
  "page_metadata = JObj [(''title'', JStr ''Agent OS Dashboard''), (''description'', JStr ''Governance and Monitoring Console'')]"

end
