(* ===== verification/Spec2Isabelle.thy ===== *)
theory Spec2Isabelle
  imports Ui_Components Ui_Pages Ui_Correct
    Exceptions Security_Dimensions Firewall Circuit_Breaker Billing_Fuse Autonomy_Policy
    Schema_Provider Shacl_Validator Neo4j_Client Write_Gate Database
    Api Py_Format Sop_Schema Sop_Engine Sop_Correct Sop_Verdict Sop_Gate Sop_Limits Sop_Examples
    Kernel Kernel_Correct Kernel_Limits Kernel_Examples Config
    Wasm_Sandbox Gateway Cli Cli_Examples
    Py_Json_Loads Feishu Service Service_Correct Service_Examples
    Neo4j_Session Telemetry Ontology_Import Ui_Config
begin

text \<open>
  Agent OS: a governance runtime for an autonomous agent, and the web dashboard that shows it.

  The program. Chat messages reach the kernel, which screens each one (semantic firewall,
  circuit breaker, command policy) and charges it to a budget (billing fuse). What the agent
  wants to write to the knowledge graph goes through the write gate: data in Turtle is
  validated against the SHACL shapes of its domain, a nonce bound to domain and data is
  issued, and the write is executed once for that nonce, under a quota, as one transaction of
  the graph database. Verdicts of human reviewers and the runs of the workflows are kept in two
  SQLite tables. A REST API reads those tables and the fuse, and the dashboard, a React
  application, shows them.

  The theories, in the order of their imports.

  \<^item> \<open>Prelude\<close>: named collections, \<open>bindE\<close> and \<open>mapE\<close> for code that may raise, object spread,
    decimal digits, facts on lists and association lists, and two interfaces shared by
    components: \<open>token_ledger\<close> (a token is spent at most once until it expires) and
    \<open>governed_writer\<close> (an unauthorised write is refused and leaves the store alone).
  \<^item> \<open>Js_Value\<close>: the JavaScript values and operators of the dashboard (\<open>?.\<close>, \<open>||\<close>, \<open>map\<close>,
    \<open>toFixed\<close>) with their \<open>TypeError\<close>s. \<open>Py_String\<close>, \<open>Py_Float\<close>, \<open>Py_Json\<close>, \<open>Regex\<close>: the parts
    of Python the services use: string methods, UTF-8 and \<open>int\<close> over all of Unicode, IEEE doubles
    as rationals with rounding to 53 bits, \<open>repr\<close> and \<open>json.dumps\<close>, and backtracking regular expressions.
  \<^item> \<open>Ui_Components\<close> (\<open>agentos-ui/src/components/ui/*.tsx\<close>, \<open>lib/utils.ts\<close>): each component is
    a function from props and children to a tree. \<open>Ui_Pages\<close> (\<open>app/page.tsx\<close>,
    \<open>app/audits/page.tsx\<close>, \<open>app/runs/page.tsx\<close>, \<open>app/layout.tsx\<close>): the state of each page, what
    its effect makes of a response, and its render, which may throw. \<open>Ui_Correct\<close>: what the
    pages show, and exactly when they throw.
  \<^item> \<open>Exceptions\<close> (\<open>kernel/exceptions.py\<close>) and \<open>Security_Dimensions\<close>
    (\<open>observability/security_dimensions.py\<close>): the exception hierarchy as one datatype with its
    subclass tests, and the spans sent to the tracer.
  \<^item> \<open>Firewall\<close>, \<open>Circuit_Breaker\<close>, \<open>Billing_Fuse\<close> (\<open>security/\<close>) and \<open>Autonomy_Policy\<close>
    (\<open>policies/autonomy_policy.py\<close>): the guards, each a record with its methods as functions
    to the result and the new record.
  \<^item> \<open>Schema_Provider\<close>, \<open>Shacl_Validator\<close>, \<open>Neo4j_Client\<close>, \<open>Write_Gate\<close> (\<open>governance/\<close>): the
    governed write path.
  \<^item> \<open>Database\<close> (\<open>database/feedback_db.py\<close>, \<open>database/state_store.py\<close>): the two tables with
    the constraints of their schemas.
  \<^item> \<open>Api\<close> (\<open>api/*.py\<close>): the three endpoints of the dashboard over the objects of the service
    (\<open>ServiceBootstrap\<close>), the JSON they send, and end to end what the dashboard shows of the
    tables and the fuse.
  \<^item> \<open>Py_Format\<close>: templates with named fields (\<open>str.format_map\<close>). \<open>Sop_Schema\<close>
    (\<open>workflow/sop_schema.py\<close>, \<open>workflow/sop_examples/it-onboarding.sop.yaml\<close>): steps, runs and
    the shipped workflow. \<open>Sop_Engine\<close> (\<open>workflow/sop_engine.py\<close>): the state machine of a run
    over a world of gate, tables and messages. \<open>Sop_Correct\<close>: order of execution, end states,
    the barrier of a pending approval, persistence. \<open>Sop_Verdict\<close>: what a verdict does.
    \<open>Sop_Gate\<close>: the steps a run executes (\<open>sop_trace\<close>, \<open>resume_trace\<close>), and that the engine refines
    an abstract workflow over them, whose only changes of the database are authorised writes. \<open>Sop_Limits\<close>: where the
    engine and the shipped workflow fall short. \<open>Sop_Examples\<close>: concrete runs.
  \<^item> \<open>Kernel\<close> (\<open>kernel/kernel.py\<close>): from a message of a channel to its response, through the
    firewall, the circuit breaker, the policy, the interpretation of the text and the fuse.
    \<open>Kernel_Correct\<close>: the database changes only by authorised commands, a refused message has
    no effect, a repeated failure trips. \<open>Kernel_Limits\<close>: the order of write and charge, the
    reach of the default budget, a write taken for a question. \<open>Kernel_Examples\<close>: concrete
    messages.
  \<^item> \<open>Config\<close> (\<open>kernel/config.py\<close>, \<open>config.yaml\<close>): the substitution of environment variables,
    against a reference that expands a text part by part, and the shipped file.
  \<^item> \<open>Wasm_Sandbox\<close> (\<open>sandbox/wasm_executor.py\<close>): what the sandbox refuses and what it limits, over
    a runtime that is a parameter, and base64.
  \<^item> \<open>Gateway\<close> (\<open>governance/mcp_server.py\<close>): the tools of the MCP server as clients of the gate
    and of the sandbox. \<open>Cli\<close> (\<open>cli/cli.py\<close>): the commands, each a process of its own: what
    \<open>validate\<close> accepts \<open>write\<close> writes, also a second time, and what \<open>start-mcp\<close> does not write. \<open>Cli_Examples\<close>: concrete commands.
  \<^item> \<open>Py_Json_Loads\<close>: \<open>json.loads\<close>, and that it reads back what \<open>json.dumps\<close> writes. \<open>Feishu\<close>
    (\<open>adapters/feishu_adapter.py\<close>): what the adapter makes of a request and what it sends;
    messages and approval cards come back as they were written.
  \<^item> \<open>Service\<close> (\<open>main/main.py\<close>): the objects \<open>init\<close> puts together around one gate, and every
    endpoint as a function of them (\<open>serve\<close>). \<open>Service_Correct\<close>: the endpoints refine an abstract
    step of the service (\<open>request_step\<close> with the request that makes it, \<open>service_step\<close>), and what follows for every sequence of requests: the
    ledger of the gate (the interface \<open>token_ledger\<close> once more), the finality of verdicts, who can
    give them, what is sent. \<open>Service_Examples\<close>: a concrete service.
  \<^item> \<open>Neo4j_Session\<close> (\<open>governance/neo4j_client.py\<close>): the client call by call over a driver that may
    raise anywhere. It keeps the protocol of sessions and transactions, and its batch refines that
    of \<open>Neo4j_Client\<close>, all or nothing up to its commit. \<open>Ontology_Import\<close> (\<open>scripts/import_ontology.py\<close>,
    \<open>adapters/cli_adapter.py\<close>): a client of that client, and the console output.
  \<^item> \<open>Telemetry\<close> (\<open>observability/telemetry.py\<close>, \<open>langfuse_integration.py\<close>): the module state, what is
    handed out and what is shut down. \<open>Ui_Config\<close>: the options of the dashboard's build.

  Conventions. A method that may raise returns \<open>exn + 'a\<close>, and a method of an object returns
  the pair of that result and the new object, since an exception does not undo what was
  assigned before it. Every read of the clock is an argument of its own, in the order of the
  code, so that no two reads are assumed equal. Strings are lists of UTF-8 bytes. Floats are
  rationals; every operation rounds to the nearest double (\<open>Py_Float.fl\<close>), overflow and NaN
  do not occur in the ranges used. A commit of the graph database that raises may have changed it or
  not: the driver leaves that open, and so do \<open>nd_commit\<close> and \<open>bo_commit\<close>.

  What is not under \<open>src/\<close> is a parameter: \<open>ui_lib\<close> (clsx, tailwind-merge, cva, the headless
  primitives), \<open>cb_lib\<close> (SHA-256 and numpy), \<open>gate_env\<close> (HMAC, SHA-256, the RDF parser, pyshacl
  and the database driver), \<open>resolve\<close> (\<open>Path.resolve\<close>), the tracer, \<open>bolt\<close> (the
  Neo4j driver), \<open>otel_sdk\<close> and \<open>langfuse_sdk\<close>, \<open>eslint_lib\<close>.

  The lemmas. For each guard: an invariant of every reachable state by rule induction, the
  exact outcome of each operation, and the bound it enforces. For the gate: the round trip of
  a nonce, its single use over every run (through \<open>token_ledger\<close>), that only an authorised
  write changes the database (through \<open>governed_writer\<close>) and what it writes are the statements of
  its data, and that no value leaves its literal in the generated Cypher. For the dashboard: what each page shows for a well-formed response,
  and which states make it throw. For the tables: finality of a verdict (through the
  interface \<open>audit_log\<close>).

  Bounds. Every recursion is structural or has a measure, with two exceptions.
  \<open>Py_Json.shortest\<close> tries at most the 17 digits that identify a double, from a decimal exponent
  found within the range of doubles. \<open>Py_Json_Loads.json_loads\<close>
  starts with more than twice the length of its text: every value and every separator consumes a
  character, and \<open>json_round_trip\<close> shows that it suffices for whatever \<open>json.dumps\<close> writes.
  \<open>verdicts\<close> is a relation, no fuel: that runs end is \<open>verdicts_terminate\<close>.

  Not modelled: the routing of FastAPI and Starlette, uvicorn and the shutdown of the service and
  the connections of the SQLite tables (pure I/O); what the OpenTelemetry and Langfuse SDKs do
  (parameters); the demonstration script; the files
  under \<open>src/agentos/static\<close>, which the build generates from the dashboard's sources. A request
  whose reviewer or reason is not a text is answered by \<open>Outside\<close>, the model's mark for what it
  does not describe.
\<close>

end
